(* ===== verification/Prelude.thy ===== *)
theory Prelude
  imports Complex_Main "HOL-Library.Char_ord" "HOL-Library.List_Lexorder"
    "HOL-Library.Product_Lexorder" "HOL-Library.Sublist"
begin

text \<open>
  Shared vocabulary of the development: the error values and the
  state-and-exception monad in which effectful methods are written, the part
  of the JavaScript string library the sources call, number printing, table
  operations (a database table is the list of its rows in physical order), and
  the generic lemmas the component theories rely on.
\<close>

named_theorems js_monad
named_theorems table_simps

section \<open>Errors and effects\<close>

datatype js_error =
    NotFoundError string
  | ConflictError string
  | AuthorizationError string
  | ValidationError string
  | JsError string
  | HttpError nat string string
  | PgError string

fun error_message :: "js_error \<Rightarrow> string" where
  "error_message (NotFoundError m) = m"
| "error_message (ConflictError m) = m"
| "error_message (AuthorizationError m) = m"
| "error_message (ValidationError m) = m"
| "error_message (JsError m) = m"
| "error_message (HttpError _ _ m) = m"
| "error_message (PgError m) = m"

type_synonym ('s, 'a) js = "'s \<Rightarrow> (js_error + 'a) \<times> 's"
type_synonym millis = int
type_synonym uuid = string

definition retJ :: "'a \<Rightarrow> ('s, 'a) js" where
  "retJ x = (\<lambda>s. (Inr x, s))"

definition throwJ :: "js_error \<Rightarrow> ('s, 'a) js" where
  "throwJ e = (\<lambda>s. (Inl e, s))"

definition bindJ :: "('s, 'a) js \<Rightarrow> ('a \<Rightarrow> ('s, 'b) js) \<Rightarrow> ('s, 'b) js" where
  "bindJ m f = (\<lambda>s. case m s of (Inl e, s') \<Rightarrow> (Inl e, s') | (Inr x, s') \<Rightarrow> f x s')"

definition getJ :: "('s \<Rightarrow> 'a) \<Rightarrow> ('s, 'a) js" where
  "getJ f = (\<lambda>s. (Inr (f s), s))"

definition modifyJ :: "('s \<Rightarrow> 's) \<Rightarrow> ('s, unit) js" where
  "modifyJ f = (\<lambda>s. (Inr (), f s))"

text \<open>A \<^term>\<open>throwJ\<close> inside a \<open>try\<close> is handled in the state the body left.\<close>

definition catchJ :: "('s, 'a) js \<Rightarrow> (js_error \<Rightarrow> ('s, 'a) js) \<Rightarrow> ('s, 'a) js" where
  "catchJ m h = (\<lambda>s. case m s of (Inl e, s') \<Rightarrow> h e s' | (Inr x, s') \<Rightarrow> (Inr x, s'))"

text \<open>A database transaction restores the state it started in when its body throws.\<close>

definition transactionJ :: "('s, 'a) js \<Rightarrow> ('s, 'a) js" where
  "transactionJ m = (\<lambda>s. case m s of (Inl e, s') \<Rightarrow> (Inl e, s) | (Inr x, s') \<Rightarrow> (Inr x, s'))"

primrec forJ :: "('a \<Rightarrow> ('s, unit) js) \<Rightarrow> 'a list \<Rightarrow> ('s, unit) js" where
  "forJ f [] = retJ ()"
| "forJ f (x # xs) = bindJ (f x) (\<lambda>_. forJ f xs)"

primrec mapJ :: "('a \<Rightarrow> ('s, 'b) js) \<Rightarrow> 'a list \<Rightarrow> ('s, 'b list) js" where
  "mapJ f [] = retJ []"
| "mapJ f (x # xs) = bindJ (f x) (\<lambda>y. bindJ (mapJ f xs) (\<lambda>ys. retJ (y # ys)))"

lemma retJ_apply [simp, js_monad]: "retJ x s = (Inr x, s)"
  by (simp add: retJ_def)

lemma throwJ_apply [simp, js_monad]: "throwJ e s = (Inl e, s)"
  by (simp add: throwJ_def)

lemma getJ_apply [simp, js_monad]: "getJ f s = (Inr (f s), s)"
  by (simp add: getJ_def)

lemma modifyJ_apply [simp, js_monad]: "modifyJ f s = (Inr (), f s)"
  by (simp add: modifyJ_def)

lemma bindJ_Inr [js_monad]: "m s = (Inr x, s') \<Longrightarrow> bindJ m f s = f x s'"
  by (simp add: bindJ_def)

lemma bindJ_Inl [js_monad]: "m s = (Inl e, s') \<Longrightarrow> bindJ m f s = (Inl e, s')"
  by (simp add: bindJ_def)

lemma bindJ_InrE:
  assumes "bindJ m f s = (Inr y, t)"
  obtains x s' where "m s = (Inr x, s')" "f x s' = (Inr y, t)"
  using assms by (auto simp: bindJ_def split: prod.splits sum.splits)

lemma bindJ_app: "bindJ m f s = (case m s of (Inl e, s') \<Rightarrow> (Inl e, s') | (Inr x, s') \<Rightarrow> f x s')"
  by (simp add: bindJ_def)

lemma bindJ_ret [simp, js_monad]: "bindJ (retJ x) f s = f x s"
  by (simp add: bindJ_def)

lemma bindJ_throw [simp, js_monad]: "bindJ (throwJ e) f s = (Inl e, s)"
  by (simp add: bindJ_def)

lemma bindJ_get [simp, js_monad]: "bindJ (getJ g) f s = f (g s) s"
  by (simp add: bindJ_def)

lemma bindJ_modify [simp, js_monad]: "bindJ (modifyJ h) f s = f () (h s)"
  by (simp add: bindJ_def)

lemma bindJ_assoc: "bindJ (bindJ m f) g = bindJ m (\<lambda>x. bindJ (f x) g)"
  by (rule ext) (auto simp: bindJ_def split: prod.splits sum.splits)

lemma transactionJ_Inl: "transactionJ m s = (Inl e, t) \<Longrightarrow> t = s"
  by (auto simp: transactionJ_def split: prod.splits sum.splits)

lemma transactionJ_Inr [simp]: "transactionJ m s = (Inr x, t) \<longleftrightarrow> m s = (Inr x, t)"
  by (auto simp: transactionJ_def split: prod.splits sum.splits)

text \<open>
  An invariant that every operation of a program keeps, whether it returns or
  throws: the Hoare-style predicate the component theories use.
\<close>

definition keeps :: "('s \<Rightarrow> bool) \<Rightarrow> ('s, 'a) js \<Rightarrow> bool" where
  "keeps I m \<longleftrightarrow> (\<forall>s. I s \<longrightarrow> I (snd (m s)))"

lemma keepsI: "(\<And>s. I s \<Longrightarrow> I (snd (m s))) \<Longrightarrow> keeps I m"
  by (simp add: keeps_def)

lemma keepsD: "keeps I m \<Longrightarrow> I s \<Longrightarrow> I (snd (m s))"
  by (simp add: keeps_def)

lemma keeps_run: "keeps I m \<Longrightarrow> I s \<Longrightarrow> m s = (r, s') \<Longrightarrow> I s'"
  by (auto dest: keepsD)

lemma keeps_ret [intro, simp]: "keeps I (retJ x)"
  by (simp add: keeps_def)

lemma keeps_throw [intro, simp]: "keeps I (throwJ e)"
  by (simp add: keeps_def)

lemma keeps_get [intro, simp]: "keeps I (getJ f)"
  by (simp add: keeps_def)

lemma keeps_bind [intro]:
  assumes "keeps I m" and "\<And>x. keeps I (f x)"
  shows "keeps I (bindJ m f)"
proof (rule keepsI)
  fix s assume s: "I s"
  obtain r s' where m: "m s = (r, s')" by force
  have s': "I s'" using keepsD [OF assms(1) s] m by simp
  show "I (snd (bindJ m f s))"
    using m s' keepsD [OF assms(2) s'] by (cases r) (simp_all add: bindJ_def)
qed

lemma keeps_transaction [intro]: "keeps I m \<Longrightarrow> keeps I (transactionJ m)"
  by (fastforce simp: keeps_def transactionJ_def split: prod.splits sum.splits)

lemma keeps_catch [intro]:
  assumes "keeps I m" and "\<And>e. keeps I (h e)"
  shows "keeps I (catchJ m h)"
proof (rule keepsI)
  fix s assume s: "I s"
  obtain r s' where m: "m s = (r, s')" by force
  have s': "I s'" using keepsD [OF assms(1) s] m by simp
  show "I (snd (catchJ m h s))"
    using m s' keepsD [OF assms(2) s'] by (cases r) (simp_all add: catchJ_def)
qed

lemma keeps_for [intro]: "(\<And>x. x \<in> set xs \<Longrightarrow> keeps I (f x)) \<Longrightarrow> keeps I (forJ f xs)"
  by (induction xs) auto

lemma keeps_map [intro]: "(\<And>x. x \<in> set xs \<Longrightarrow> keeps I (f x)) \<Longrightarrow> keeps I (mapJ f xs)"
  by (induction xs) auto

end
