(* ===== verification/JsLib.thy ===== *)
theory JsLib
  imports Prelude
begin

text \<open>
  The part of the JavaScript standard library the sources use: string methods
  (\<open>trim\<close>, \<open>toLowerCase\<close>, \<open>split\<close>, \<open>join\<close>, \<open>padStart\<close>, \<open>startsWith\<close>, \<open>endsWith\<close>,
  \<open>includes\<close>), number printing in a radix, \<open>Math.round\<close>, \<open>Date.toISOString\<close> and
  \<open>localeCompare\<close>.  Strings are lists of code units below 256; numbers are \<open>int\<close>
  where the sources only use integers and \<open>rat\<close> where they use fractions.
\<close>

section \<open>String methods\<close>

definition js_ws :: "char \<Rightarrow> bool" where
  "js_ws c \<longleftrightarrow> (let n = (of_char c :: nat) in n \<in> {9, 10, 11, 12, 13, 32, 160})"

definition js_trim :: "string \<Rightarrow> string" where
  "js_trim s = rev (dropWhile js_ws (rev (dropWhile js_ws s)))"

definition lower_char :: "char \<Rightarrow> char" where
  "lower_char c = (let n = (of_char c :: nat) in
     if 65 \<le> n \<and> n \<le> 90 then char_of (n + 32) else c)"

definition js_lower :: "string \<Rightarrow> string" where
  "js_lower s = map lower_char s"

primrec split_on :: "char \<Rightarrow> string \<Rightarrow> string list" where
  "split_on c [] = [[]]"
| "split_on c (x # xs) =
     (if x = c then [] # split_on c xs
      else (case split_on c xs of [] \<Rightarrow> [[x]] | y # ys \<Rightarrow> (x # y) # ys))"

fun js_join :: "string \<Rightarrow> string list \<Rightarrow> string" where
  "js_join sep [] = []"
| "js_join sep [x] = x"
| "js_join sep (x # y # ys) = x @ sep @ js_join sep (y # ys)"

definition starts_with :: "string \<Rightarrow> string \<Rightarrow> bool" where
  "starts_with s p \<longleftrightarrow> take (length p) s = p"

definition ends_with :: "string \<Rightarrow> string \<Rightarrow> bool" where
  "ends_with s p \<longleftrightarrow> drop (length s - length p) s = p"

fun str_includes :: "string \<Rightarrow> string \<Rightarrow> bool" where
  "str_includes [] p \<longleftrightarrow> p = []"
| "str_includes (x # xs) p \<longleftrightarrow> starts_with (x # xs) p \<or> str_includes xs p"

definition pad_start :: "nat \<Rightarrow> char \<Rightarrow> string \<Rightarrow> string" where
  "pad_start n c s = replicate (n - length s) c @ s"

text \<open>\<open>xs.slice(-n)\<close>: the last \<open>n\<close> elements; \<open>slice(-0)\<close> is \<open>slice(0)\<close>, the whole array.\<close>

definition slice_last :: "nat \<Rightarrow> 'a list \<Rightarrow> 'a list" where
  "slice_last n xs = (if n = 0 then xs else drop (length xs - n) xs)"

lemma split_on_ne [simp]: "split_on c s \<noteq> []"
  by (induction s) (auto split: list.splits)

lemma join_split: "js_join [c] (split_on c s) = s"
proof (induction s)
  case (Cons x xs)
  obtain y ys where e: "split_on c xs = y # ys" by (cases "split_on c xs") auto
  show ?case using Cons e by (cases ys) auto
qed simp

lemma split_on_no_sep: "c \<notin> set s \<Longrightarrow> split_on c s = [s]"
  by (induction s) auto

lemma split_on_append: "c \<notin> set a \<Longrightarrow> split_on c (a @ c # b) = a # split_on c b"
  by (induction a) auto

lemma split_join:
  "xs \<noteq> [] \<Longrightarrow> (\<And>x. x \<in> set xs \<Longrightarrow> c \<notin> set x) \<Longrightarrow> split_on c (js_join [c] xs) = xs"
  by (induction "[c]" xs rule: js_join.induct) (auto simp: split_on_no_sep split_on_append)

lemma starts_with_iff: "starts_with s p \<longleftrightarrow> (\<exists>t. s = p @ t)"
  unfolding starts_with_def by (metis append_eq_conv_conj append_take_drop_id)

lemma ends_with_append [simp]: "ends_with (s @ p) p"
  by (simp add: ends_with_def)

lemma ends_with_iff: "ends_with s p \<longleftrightarrow> (\<exists>t. s = t @ p)"
proof
  assume "ends_with s p"
  hence "s = take (length s - length p) s @ p"
    unfolding ends_with_def by (metis append_take_drop_id)
  thus "\<exists>t. s = t @ p" by blast
qed auto

section \<open>Printing numbers\<close>

definition digit_char :: "nat \<Rightarrow> char" where
  "digit_char d = (if d < 10 then char_of (48 + d) else char_of (87 + d))"

definition digit_val :: "char \<Rightarrow> nat" where
  "digit_val c = (let n = of_char c in if n < 58 then n - 48 else n - 87)"

fun radix :: "nat \<Rightarrow> nat \<Rightarrow> string" where
  "radix b n = (if n < b \<or> b < 2 then [digit_char n]
                else radix b (n div b) @ [digit_char (n mod b)])"

declare radix.simps [simp del]

definition radix_val :: "nat \<Rightarrow> string \<Rightarrow> nat" where
  "radix_val b s = foldl (\<lambda>a c. a * b + digit_val c) 0 s"

abbreviation dec :: "nat \<Rightarrow> string" where "dec \<equiv> radix 10"

definition int_string :: "int \<Rightarrow> string" where
  "int_string i = (if i < 0 then CHR ''-'' # dec (nat (- i)) else dec (nat i))"

lemma of_digit_char:
  "d < 36 \<Longrightarrow> (of_char (digit_char d) :: nat) = (if d < 10 then 48 + d else 87 + d)"
  by (simp add: digit_char_def of_char_of)

lemma digit_val_char: "d < 36 \<Longrightarrow> digit_val (digit_char d) = d"
  by (simp add: digit_val_def of_digit_char Let_def)

lemma radix_val_radix: "2 \<le> b \<Longrightarrow> b \<le> 36 \<Longrightarrow> radix_val b (radix b n) = n"
proof (induction b n rule: radix.induct)
  case (1 b n)
  show ?case
  proof (cases "n < b")
    case True
    with 1 show ?thesis by (simp add: radix.simps [of b n] radix_val_def digit_val_char)
  next
    case False
    with 1 have "radix_val b (radix b (n div b)) = n div b" by simp
    moreover have "digit_val (digit_char (n mod b)) = n mod b"
      using 1 by (intro digit_val_char) (simp add: less_le_trans [OF mod_less_divisor])
    ultimately show ?thesis using False 1
      by (simp add: radix.simps [of b n] radix_val_def)
  qed
qed

lemma radix_inj: "2 \<le> b \<Longrightarrow> b \<le> 36 \<Longrightarrow> radix b m = radix b n \<longleftrightarrow> m = n"
  by (metis radix_val_radix)

lemma radix_nonempty [simp]: "radix b n \<noteq> []"
  by (subst radix.simps) auto

lemma radix_digits:
  "2 \<le> b \<Longrightarrow> b \<le> 36 \<Longrightarrow> c \<in> set (radix b n) \<Longrightarrow> \<exists>d < b. c = digit_char d"
proof (induction b n rule: radix.induct)
  case (1 b n)
  show ?case
  proof (cases "n < b")
    case False
    have "c = digit_char (n mod b) \<or> c \<in> set (radix b (n div b))"
      using 1(4) False \<open>2 \<le> b\<close> by (subst (asm) radix.simps) auto
    moreover have "\<exists>d < b. digit_char (n mod b) = digit_char d"
      using 1 by (intro exI [of _ "n mod b"]) simp
    ultimately show ?thesis using 1 False by auto
  qed (use 1(4) in \<open>auto simp: radix.simps [of b n]\<close>)
qed

definition is_digit :: "char \<Rightarrow> bool" where
  "is_digit c \<longleftrightarrow> 48 \<le> (of_char c :: nat) \<and> (of_char c :: nat) \<le> 57"

lemma dec_digits: "c \<in> set (dec n) \<Longrightarrow> is_digit c"
  using radix_digits [of 10 c n] by (auto simp: is_digit_def of_digit_char)

lemma dec_inj [simp]: "dec m = dec n \<longleftrightarrow> m = n"
  by (simp add: radix_inj)

lemma dec_not_minus: "CHR ''-'' \<notin> set (dec n)"
  using dec_digits [of "CHR ''-''" n] by (auto simp: is_digit_def)

lemma int_string_inj [simp]: "int_string i = int_string j \<longleftrightarrow> i = j"
proof -
  have ne: "CHR ''-'' # xs \<noteq> dec n" for xs n
    using dec_not_minus [of n] by (metis list.set_intros(1))
  have "nat (- i) = nat (- j) \<longleftrightarrow> i = j" if "i < 0" "j < 0" using that by linarith
  moreover have "nat i = nat j \<longleftrightarrow> i = j" if "\<not> i < 0" "\<not> j < 0" using that by linarith
  ultimately show ?thesis using ne ne [symmetric] by (auto simp: int_string_def)
qed

lemma radix_length:
  "2 \<le> b \<Longrightarrow> 0 < k \<Longrightarrow> n < b ^ k \<Longrightarrow> length (radix b n) \<le> k"
proof (induction k arbitrary: n)
  case (Suc k)
  show ?case
  proof (cases "n < b")
    case False
    hence k: "0 < k" using Suc.prems by (cases k) auto
    have "n div b < b ^ k" using Suc.prems by (simp add: less_mult_imp_div_less mult.commute)
    with Suc k have "length (radix b (n div b)) \<le> k" by simp
    with False Suc.prems show ?thesis by (subst radix.simps) simp
  qed (simp add: radix.simps [of b n])
qed simp

lemma radix_val_pad: "radix_val b (pad_start k (CHR ''0'') s) = radix_val b s"
proof -
  have "foldl (\<lambda>a c. a * b + digit_val c) 0 (replicate m (CHR ''0'')) = 0" for m
    by (induction m) (simp_all add: digit_val_def)
  thus ?thesis by (simp add: radix_val_def pad_start_def)
qed

lemma length_pad: "length s \<le> k \<Longrightarrow> length (pad_start k c s) = k"
  by (simp add: pad_start_def)

text \<open>\<open>Math.round\<close> rounds halves up.\<close>

definition math_round :: "rat \<Rightarrow> int" where
  "math_round x = \<lfloor>x + 1/2\<rfloor>"

section \<open>Dates\<close>

text \<open>
  A \<open>Date\<close> is its number of milliseconds since the epoch.  \<open>toISOString\<close> prints
  the proleptic Gregorian calendar date; years outside 0..9999 have a sign and
  six digits.
\<close>

definition day_from_year :: "int \<Rightarrow> int" where
  "day_from_year y = 365 * (y - 1970) + (y - 1969) div 4 - (y - 1901) div 100 + (y - 1601) div 400"

definition leap_year :: "int \<Rightarrow> bool" where
  "leap_year y \<longleftrightarrow> y mod 4 = 0 \<and> (y mod 100 \<noteq> 0 \<or> y mod 400 = 0)"

definition year_of_day :: "int \<Rightarrow> int" where
  "year_of_day d = (let y = 1970 + (d * 400) div 146097 in
     if day_from_year (y + 1) \<le> d then y + 1 else if d < day_from_year y then y - 1 else y)"

definition month_starts :: "bool \<Rightarrow> int list" where
  "month_starts l = (let k = (if l then 1 else 0) in
     [0, 31, 59 + k, 90 + k, 120 + k, 151 + k, 181 + k, 212 + k, 243 + k, 273 + k, 304 + k, 334 + k])"

text \<open>Year, month (from 1) and day of the month of a day number.\<close>

definition civil :: "int \<Rightarrow> int \<times> nat \<times> int" where
  "civil days = (let y = year_of_day days; n = days - day_from_year y;
     starts = month_starts (leap_year y);
     m = length (filter (\<lambda>s. s \<le> n) starts)
   in (y, m, n - starts ! (m - 1) + 1))"

definition pad_int :: "nat \<Rightarrow> int \<Rightarrow> string" where
  "pad_int k i = pad_start k (CHR ''0'') (dec (nat i))"

definition iso_year :: "int \<Rightarrow> string" where
  "iso_year y = (if y < 0 then CHR ''-'' # pad_int 6 (- y)
                 else if 9999 < y then CHR ''+'' # pad_int 6 y else pad_int 4 y)"

definition to_iso_string :: "millis \<Rightarrow> string" where
  "to_iso_string t = (case civil (t div 86400000) of (y, m, d) \<Rightarrow>
     let r = t mod 86400000 in
     iso_year y @ ''-'' @ pad_int 2 (int m) @ ''-'' @ pad_int 2 d @ ''T'' @
     pad_int 2 (r div 3600000) @ '':'' @ pad_int 2 (r div 60000 mod 60) @ '':'' @
     pad_int 2 (r div 1000 mod 60) @ ''.'' @ pad_int 3 (r mod 1000) @ ''Z'')"

text \<open>The instants with a year that prints in four digits.\<close>

definition iso_range :: "millis \<Rightarrow> bool" where
  "iso_range t \<longleftrightarrow> (case civil (t div 86400000) of (y, m, d) \<Rightarrow> 0 \<le> y \<and> y \<le> 9999)"

lemma pad_int_inj:
  assumes "0 \<le> i" "0 \<le> j" "pad_int k i = pad_int k j" shows "i = j"
proof -
  have "radix_val 10 (pad_int k i) = nat i" for i
    by (simp add: pad_int_def radix_val_pad radix_val_radix)
  hence "nat i = nat j" using assms(3) by metis
  thus ?thesis using assms by simp
qed

lemma length_pad_int: "0 < k \<Longrightarrow> 0 \<le> i \<Longrightarrow> i < 10 ^ k \<Longrightarrow> length (pad_int k i) = k"
proof -
  assume k: "0 < k" and i: "0 \<le> i" "i < 10 ^ k"
  have "nat i < 10 ^ k" using i by (simp add: nat_less_iff)
  hence "length (dec (nat i)) \<le> k" using radix_length [of 10 k "nat i"] k by simp
  thus ?thesis by (simp add: pad_int_def length_pad)
qed

lemma idiv_bounds: "0 < b \<Longrightarrow> b * (a div b) \<le> a \<and> a < b * (a div b) + b" for a b :: int
  by (metis mult_div_mod_eq add_le_cancel_left add_less_cancel_left add.right_neutral
      pos_mod_bound pos_mod_sign)

lemma year_of_day_bounds:
  "day_from_year (year_of_day d) \<le> d \<and> d < day_from_year (year_of_day d + 1)"
proof -
  define y where "y = 1970 + (d * 400) div 146097"
  have lo: "day_from_year (y - 1) \<le> d" and hi: "d < day_from_year (y + 2)"
    using idiv_bounds [of 146097 "d * 400"] idiv_bounds [of 4 "y - 1970"] idiv_bounds [of 4 "y + 33"]
      idiv_bounds [of 100 "y - 1902"] idiv_bounds [of 100 "y - 1899"]
      idiv_bounds [of 400 "y - 1602"] idiv_bounds [of 400 "y - 1599"]
      idiv_bounds [of 4 "y - 1967"]
    unfolding day_from_year_def y_def [symmetric] by (simp_all add: y_def)
  show ?thesis using lo hi by (simp add: year_of_day_def Let_def y_def [symmetric] add.commute)
qed

lemma div_step:
  fixes x k :: int
  assumes "0 < k" shows "x div k = (x - 1) div k + (if x mod k = 0 then 1 else 0)"
proof (cases "x mod k = 0")
  case True
  hence "x = k * (x div k)" using mult_div_mod_eq [of k x] by simp
  hence "x - 1 = k * (x div k - 1) + (k - 1)" by (simp add: algebra_simps)
  hence "(x - 1) div k = x div k - 1"
    using assms int_div_pos_eq [of "x - 1" k "x div k - 1" "k - 1"] by simp
  thus ?thesis using True by simp
next
  case False
  have "x - 1 = k * (x div k) + (x mod k - 1)" by simp
  moreover have "0 \<le> x mod k - 1" using False assms pos_mod_sign [of k x] by linarith
  moreover have "x mod k - 1 < k" using assms pos_mod_bound [of k x] by linarith
  ultimately have "(x - 1) div k = x div k" by (rule int_div_pos_eq)
  thus ?thesis using False by simp
qed

lemma leap_arith:
  fixes a b c a' b' c' y :: int
  assumes "R \<Longrightarrow> Q" "Q \<Longrightarrow> P" "a' = a + (if P then 1 else 0)" "b' = b + (if Q then 1 else 0)"
    "c' = c + (if R then 1 else 0)"
  shows "365 * (y + 1 - 1970) + a' - b' + c' =
    365 * (y - 1970) + a - b + c + (if P \<and> (\<not> Q \<or> R) then 366 else 365)"
  using assms by (cases P; cases Q; cases R) auto

lemma year_length: "day_from_year (y + 1) = day_from_year y + (if leap_year y then 366 else 365)"
proof -
  have m: "(y - 1968) mod 4 = y mod 4" "(y - 1900) mod 100 = y mod 100" "(y - 1600) mod 400 = y mod 400"
    using mod_mult_self1 [of y "- 492" 4] mod_mult_self1 [of y "- 19" 100] mod_mult_self1 [of y "- 4" 400]
    by simp_all
  have e: "y - 1968 - 1 = y - 1969" "y - 1900 - 1 = y - 1901" "y - 1600 - 1 = y - 1601" by simp_all
  have "y mod 400 = 0 \<Longrightarrow> y mod 100 = 0" "y mod 100 = 0 \<Longrightarrow> y mod 4 = 0"
    using dvd_trans [of 100 400 y] dvd_trans [of 4 100 y] by (simp_all add: mod_eq_0_iff_dvd)
  moreover have "(y - 1968) div 4 = (y - 1969) div 4 + (if y mod 4 = 0 then 1 else 0)"
      "(y - 1900) div 100 = (y - 1901) div 100 + (if y mod 100 = 0 then 1 else 0)"
      "(y - 1600) div 400 = (y - 1601) div 400 + (if y mod 400 = 0 then 1 else 0)"
    by (rule div_step [of 4 "y - 1968", unfolded m e, OF zero_less_numeral]
        div_step [of 100 "y - 1900", unfolded m e, OF zero_less_numeral]
        div_step [of 400 "y - 1600", unfolded m e, OF zero_less_numeral])+
  moreover have "y + 1 - 1969 = y - 1968" "y + 1 - 1901 = y - 1900" "y + 1 - 1601 = y - 1600" by simp_all
  ultimately show ?thesis unfolding day_from_year_def leap_year_def
    by (simp only: leap_arith)
qed

lemma month_bounds:
  assumes "0 \<le> n" "n < 365 + (if l then 1 else 0)"
    and m: "m = length (filter (\<lambda>s. s \<le> n) (month_starts l))"
  shows "1 \<le> m \<and> m \<le> 12 \<and> 0 \<le> n - month_starts l ! (m - 1) \<and> n - month_starts l ! (m - 1) < 31"
proof -
  define k :: int where "k = (if l then 1 else 0)"
  have k: "0 \<le> k" "k \<le> 1" by (simp_all add: k_def)
  have st: "month_starts l = [0, 31, 59 + k, 90 + k, 120 + k, 151 + k, 181 + k, 212 + k, 243 + k,
      273 + k, 304 + k, 334 + k]" by (simp add: month_starts_def k_def)
  have n: "0 \<le> n" "n < 365 + k" using assms by (simp_all add: k_def)
  consider "n < 31" | "\<not> n < 31" "n < 59 + k" | "\<not> n < 59 + k" "n < 90 + k"
    | "\<not> n < 90 + k" "n < 120 + k" | "\<not> n < 120 + k" "n < 151 + k" | "\<not> n < 151 + k" "n < 181 + k"
    | "\<not> n < 181 + k" "n < 212 + k" | "\<not> n < 212 + k" "n < 243 + k" | "\<not> n < 243 + k" "n < 273 + k"
    | "\<not> n < 273 + k" "n < 304 + k" | "\<not> n < 304 + k" "n < 334 + k" | "\<not> n < 334 + k"
    by blast
  thus ?thesis by cases (use n k in \<open>simp_all add: m st\<close>)
qed

lemma civil_bounds:
  assumes "civil z = (y, m, d)"
  shows "1 \<le> m \<and> m \<le> 12" "1 \<le> d \<and> d \<le> 31"
    "z = day_from_year y + month_starts (leap_year y) ! (m - 1) + d - 1"
proof -
  define n where "n = z - day_from_year (year_of_day z)"
  have n: "0 \<le> n" "n < (if leap_year (year_of_day z) then 366 else 365)"
    using year_of_day_bounds [of z] by (simp_all add: n_def year_length)
  have y: "y = year_of_day z" and m: "m = length (filter (\<lambda>s. s \<le> n) (month_starts (leap_year y)))"
    and d: "d = n - month_starts (leap_year y) ! (m - 1) + 1"
    using assms by (auto simp: civil_def Let_def n_def)
  have "1 \<le> m \<and> m \<le> 12 \<and> 0 \<le> d - 1 \<and> d - 1 < 31"
    using month_bounds [OF n(1) _ m] n(2) by (simp add: d y split: if_splits)
  thus "1 \<le> m \<and> m \<le> 12" "1 \<le> d \<and> d \<le> 31" by auto
  show "z = day_from_year y + month_starts (leap_year y) ! (m - 1) + d - 1"
    by (simp add: d y n_def)
qed

lemma pad_int_append:
  assumes "0 < k" "0 \<le> i" "i < 10 ^ k" "0 \<le> j" "j < 10 ^ k"
  shows "pad_int k i @ s = pad_int k j @ t \<longleftrightarrow> i = j \<and> s = t"
  using assms length_pad_int [of k i] length_pad_int [of k j] pad_int_inj [of i j k] by auto

lemma iso_fields_inj:
  assumes "0 \<le> y" "y \<le> 9999" "0 \<le> y'" "y' \<le> 9999"
    and "0 \<le> m" "m < 100" "0 \<le> m'" "m' < 100" and "0 \<le> d" "d < 100" "0 \<le> d'" "d' < 100"
    and "0 \<le> h" "h < 100" "0 \<le> h'" "h' < 100" and "0 \<le> i" "i < 100" "0 \<le> i'" "i' < 100"
    and "0 \<le> s" "s < 100" "0 \<le> s'" "s' < 100" and "0 \<le> l" "l < 1000" "0 \<le> l'" "l' < 1000"
    and "iso_year y @ ''-'' @ pad_int 2 m @ ''-'' @ pad_int 2 d @ ''T'' @ pad_int 2 h @ '':'' @
        pad_int 2 i @ '':'' @ pad_int 2 s @ ''.'' @ pad_int 3 l @ ''Z'' =
      iso_year y' @ ''-'' @ pad_int 2 m' @ ''-'' @ pad_int 2 d' @ ''T'' @ pad_int 2 h' @ '':'' @
        pad_int 2 i' @ '':'' @ pad_int 2 s' @ ''.'' @ pad_int 3 l' @ ''Z''"
  shows "y = y' \<and> m = m' \<and> d = d' \<and> h = h' \<and> i = i' \<and> s = s' \<and> l = l'"
proof -
  have "y = y' \<and> m = m' \<and> d = d' \<and> h = h' \<and> i = i' \<and> s = s' \<and> pad_int 3 l = pad_int 3 l'"
    using assms by (simp add: iso_year_def pad_int_append)
  thus ?thesis using pad_int_inj [of l l' 3] assms by blast
qed

lemma iso_time_parts:
  "r = r div 3600000 * 3600000 + r div 60000 mod 60 * 60000 + r div 1000 mod 60 * 1000 + r mod 1000"
  for r :: int
proof -
  have q: "r div 60000 = r div 1000 div 60" "r div 3600000 = r div 1000 div 60 div 60"
    by (simp_all add: zdiv_zmult2_eq [symmetric])
  define a b c x y z where "a = r div 1000" and "b = a div 60" and "c = b div 60"
    and "x = r mod 1000" and "y = a mod 60" and "z = b mod 60"
  have "r = 1000 * a + x" "a = 60 * b + y" "b = 60 * c + z"
    by (simp_all only: a_def b_def c_def x_def y_def z_def mult_div_mod_eq)
  hence "r = c * 3600000 + z * 60000 + y * 1000 + x" by linarith
  thus ?thesis unfolding q a_def b_def c_def x_def y_def z_def .
qed

lemma to_iso_string_inj:
  assumes "iso_range t" "iso_range u" "to_iso_string t = to_iso_string u"
  shows "t = u"
proof -
  obtain y m d where c: "civil (t div 86400000) = (y, m, d)" by (cases "civil (t div 86400000)")
  obtain y' m' d' where c': "civil (u div 86400000) = (y', m', d')" by (cases "civil (u div 86400000)")
  have m: "0 \<le> int m" "int m < 100" "0 \<le> int m'" "int m' < 100"
    and d: "0 \<le> d" "d < 100" "0 \<le> d'" "d' < 100"
    using civil_bounds(1,2) [OF c] civil_bounds(1,2) [OF c'] by auto
  have y: "0 \<le> y" "y \<le> 9999" "0 \<le> y'" "y' \<le> 9999"
    using assms c c' by (simp_all add: iso_range_def)
  define r s where "r = t mod 86400000" and "s = u mod 86400000"
  have rs: "0 \<le> r" "r < 86400000" "0 \<le> s" "s < 86400000" by (simp_all add: r_def s_def)
  define h h' where "h = r div 3600000" and "h' = s div 3600000"
  have h: "0 \<le> h" "h < 100" "0 \<le> h'" "h' < 100"
    using rs idiv_bounds [of 3600000 r] idiv_bounds [of 3600000 s] unfolding h_def h'_def
    by (simp_all add: pos_imp_zdiv_nonneg_iff)
  define i i' where "i = r div 60000 mod 60" and "i' = s div 60000 mod 60"
  have i: "0 \<le> i" "i < 100" "0 \<le> i'" "i' < 100"
    using pos_mod_bound [of 60 "r div 60000"] pos_mod_bound [of 60 "s div 60000"]
    by (simp_all add: i_def i'_def)
  define k k' where "k = r div 1000 mod 60" and "k' = s div 1000 mod 60"
  have k: "0 \<le> k" "k < 100" "0 \<le> k'" "k' < 100"
    using pos_mod_bound [of 60 "r div 1000"] pos_mod_bound [of 60 "s div 1000"]
    by (simp_all add: k_def k'_def)
  define l l' where "l = r mod 1000" and "l' = s mod 1000"
  have l: "0 \<le> l" "l < 1000" "0 \<le> l'" "l' < 1000" by (simp_all add: l_def l'_def)
  have E: "iso_year y @ ''-'' @ pad_int 2 (int m) @ ''-'' @ pad_int 2 d @ ''T'' @ pad_int 2 h @ '':'' @
        pad_int 2 i @ '':'' @ pad_int 2 k @ ''.'' @ pad_int 3 l @ ''Z'' =
      iso_year y' @ ''-'' @ pad_int 2 (int m') @ ''-'' @ pad_int 2 d' @ ''T'' @ pad_int 2 h' @ '':'' @
        pad_int 2 i' @ '':'' @ pad_int 2 k' @ ''.'' @ pad_int 3 l' @ ''Z''"
    using assms(3) unfolding to_iso_string_def c c' Let_def prod.case h_def h'_def i_def i'_def
      k_def k'_def l_def l'_def r_def s_def .
  have "y = y' \<and> int m = int m' \<and> d = d' \<and> h = h' \<and> i = i' \<and> k = k' \<and> l = l'"
    by (rule iso_fields_inj [OF y m d h i k l E])
  moreover have "r = h * 3600000 + i * 60000 + k * 1000 + l" "s = h' * 3600000 + i' * 60000 + k' * 1000 + l'"
    unfolding h_def h'_def i_def i'_def k_def k'_def l_def l'_def by (rule iso_time_parts)+
  moreover have "t div 86400000 = u div 86400000"
    using calculation civil_bounds(3) [OF c] civil_bounds(3) [OF c'] by simp
  ultimately have "t div 86400000 = u div 86400000" "t mod 86400000 = u mod 86400000"
    by (simp_all only: r_def s_def)
  thus ?thesis by (metis mult_div_mod_eq)
qed

end
