(* ===== verification/Json.thy ===== *)
theory Json
  imports JsLib "HOL-Library.Multiset"
begin

text \<open>
  JSON values and the deterministic serializer of
  \<open>src/infrastructure/canonical-json.ts\<close>.  An object is the list of its
  \<open>Object.entries\<close>.  Numbers are integers.  Every hash of the program (audit
  chain, topology, policy version, firewall) is taken over this serialization,
  so its two essential properties are proved here: it does not depend on the
  order of object keys, and different values have different serializations.
\<close>

section \<open>Values\<close>

datatype json =
    JNull
  | JUndefined
  | JBool bool
  | JNum int
  | JStr string
  | JArr "json list"
  | JObj "(string \<times> json) list"

section \<open>String literals of JSON.stringify\<close>

definition esc_char :: "char \<Rightarrow> string" where
  "esc_char c = (let n = (of_char c :: nat) in
     if n = 34 then [CHR 0x5C, CHR 0x22]
     else if n = 92 then [CHR 0x5C, CHR 0x5C]
     else if n = 8 then [CHR 0x5C, CHR ''b'']
     else if n = 12 then [CHR 0x5C, CHR ''f'']
     else if n = 10 then [CHR 0x5C, CHR ''n'']
     else if n = 13 then [CHR 0x5C, CHR ''r'']
     else if n = 9 then [CHR 0x5C, CHR ''t'']
     else if n < 32 then [CHR 0x5C, CHR ''u''] @ pad_start 4 (CHR ''0'') (radix 16 n)
     else [c])"

definition json_string :: "string \<Rightarrow> string" where
  "json_string s = [CHR 0x22] @ concat (map esc_char s) @ [CHR 0x22]"

section \<open>localeCompare\<close>

text \<open>
  The root collation on ASCII: white space, punctuation, symbols, digits and
  letters by primary weight, lower case before upper case as a tie break;
  control characters are ignored.  Comparing \<open>collation_key\<close>s is
  \<open>a.localeCompare(b)\<close>.
\<close>

definition punctuation_order :: "nat list" where
  "punctuation_order = [9, 10, 11, 12, 13, 32, 95, 45, 44, 59, 58, 33, 63, 46, 39, 34, 40, 41, 91,
     93, 123, 125, 64, 42, 47, 92, 38, 35, 37, 96, 94, 43, 60, 61, 62, 124, 126, 36]"

definition primary_weight :: "char \<Rightarrow> nat" where
  "primary_weight c = (let n = (of_char c :: nat) in
     if n \<in> set punctuation_order then 1 + length (takeWhile (\<lambda>m. m \<noteq> n) punctuation_order)
     else if 48 \<le> n \<and> n \<le> 57 then 100 + (n - 48)
     else if 97 \<le> n \<and> n \<le> 122 then 200 + (n - 97)
     else if 65 \<le> n \<and> n \<le> 90 then 200 + (n - 65)
     else if n < 128 then 0
     else 300 + n)"

definition case_weight :: "char \<Rightarrow> nat" where
  "case_weight c = (let n = (of_char c :: nat) in if 65 \<le> n \<and> n \<le> 90 then 1 else 0)"

definition collation_key :: "string \<Rightarrow> nat list \<times> nat list" where
  "collation_key s = (let t = filter (\<lambda>c. primary_weight c \<noteq> 0) s in
     (map primary_weight t, map case_weight t))"

definition locale_compare :: "string \<Rightarrow> string \<Rightarrow> int" where
  "locale_compare a b = (if collation_key a < collation_key b then -1
     else if collation_key a = collation_key b then 0 else 1)"

section \<open>canonicalJson\<close>

lemma json_entry_size: "(k, v) \<in> set kvs \<Longrightarrow> size v < Suc (size_list (size_prod (\<lambda>x. 0) size) kvs)"
  by (induction kvs) auto

function (sequential) canonicalJson :: "json \<Rightarrow> string" where
  "canonicalJson JNull = ''null''"
| "canonicalJson JUndefined = ''undefined''"
| "canonicalJson (JBool b) = (if b then ''true'' else ''false'')"
| "canonicalJson (JNum i) = int_string i"
| "canonicalJson (JStr s) = json_string s"
| "canonicalJson (JArr vs) =
     ''['' @ js_join '','' (map (\<lambda>v. if v = JUndefined then [] else canonicalJson v) vs) @ '']''"
| "canonicalJson (JObj kvs) =
     ''{'' @ js_join '','' (map (\<lambda>kv. json_string (fst kv) @ '':'' @ canonicalJson (snd kv))
        (sort_key (\<lambda>kv. collation_key (fst kv)) kvs)) @ ''}''"
  by pat_completeness auto
termination
proof (relation "measure size", goal_cases)
  case (2 vs v)
  thus ?case by (simp add: less_Suc_eq_le size_list_estimation')
next
  case (3 kvs kv)
  thus ?case using json_entry_size [of "fst kv" "snd kv" kvs] by simp
qed simp

section \<open>Normal form and plain printing\<close>

text \<open>
  \<open>json_norm\<close> sorts the entries of every object; \<open>json_print\<close> prints a value as it
  is.  The serializer is their composition.
\<close>

fun json_norm :: "json \<Rightarrow> json" where
  "json_norm (JArr vs) = JArr (map json_norm vs)"
| "json_norm (JObj kvs) =
     JObj (sort_key (\<lambda>kv. collation_key (fst kv)) (map (\<lambda>(k, v). (k, json_norm v)) kvs))"
| "json_norm v = v"

fun json_print :: "json \<Rightarrow> string" where
  "json_print JNull = ''null''"
| "json_print JUndefined = ''undefined''"
| "json_print (JBool b) = (if b then ''true'' else ''false'')"
| "json_print (JNum i) = int_string i"
| "json_print (JStr s) = json_string s"
| "json_print (JArr vs) =
     ''['' @ js_join '','' (map (\<lambda>v. if v = JUndefined then [] else json_print v) vs) @ '']''"
| "json_print (JObj kvs) =
     ''{'' @ js_join '','' (map (\<lambda>(k, v). json_string k @ '':'' @ json_print v) kvs) @ ''}''"

text \<open>Values in which \<open>undefined\<close> does not occur: what \<open>JSON.parse\<close> and jsonb columns can hold.\<close>

fun json_defined :: "json \<Rightarrow> bool" where
  "json_defined JUndefined \<longleftrightarrow> False"
| "json_defined (JArr vs) \<longleftrightarrow> (\<forall>v \<in> set vs. json_defined v)"
| "json_defined (JObj kvs) \<longleftrightarrow> (\<forall>(k, v) \<in> set kvs. json_defined v)"
| "json_defined v \<longleftrightarrow> True"

lemma sort_key_map: "sort_key f (map g xs) = map g (sort_key (\<lambda>x. f (g x)) xs)"
proof -
  have "insort_key f (g x) (map g ys) = map g (insort_key (\<lambda>x. f (g x)) x ys)" for x ys
    by (induction ys) auto
  thus ?thesis by (induction xs) auto
qed

lemma json_norm_undefined [simp]: "json_norm v = JUndefined \<longleftrightarrow> v = JUndefined"
  by (cases v) auto

lemma canonicalJson_print: "canonicalJson v = json_print (json_norm v)"
proof (induction v rule: canonicalJson.induct)
  case (6 vs)
  have "map (\<lambda>v. if v = JUndefined then [] else canonicalJson v) vs =
      map (\<lambda>v. if v = JUndefined then [] else json_print v) (map json_norm vs)"
    using 6 by auto
  thus ?case by (simp only: canonicalJson.simps json_norm.simps json_print.simps)
next
  case (7 kvs)
  let ?s = "sort_key (\<lambda>kv. collation_key (fst kv)) kvs"
  have "map (\<lambda>kv. json_string (fst kv) @ '':'' @ canonicalJson (snd kv)) ?s =
      map (\<lambda>(k, v). json_string k @ '':'' @ json_print v) (map (\<lambda>(k, v). (k, json_norm v)) ?s)"
    using 7 by (auto simp del: set_sort)
  hence "canonicalJson (JObj kvs) = json_print (JObj (map (\<lambda>(k, v). (k, json_norm v)) ?s))"
    by (simp only: canonicalJson.simps json_print.simps)
  thus ?case by (simp only: json_norm.simps sort_key_map split_def fst_conv)
qed simp_all

section \<open>Unique readability\<close>

text \<open>Decoding one character of a string literal inverts the escaping.\<close>

definition unesc :: "string \<Rightarrow> (char \<times> string) option" where
  "unesc s = (case s of
     [] \<Rightarrow> None
   | c # r \<Rightarrow>
       if c = CHR 0x22 then None
       else if c \<noteq> CHR 0x5C then Some (c, r)
       else (case r of
          [] \<Rightarrow> None
        | d # q \<Rightarrow>
            if d = CHR ''u'' then Some (char_of (radix_val 16 (take 4 q)), drop 4 q)
            else if d = CHR ''b'' then Some (CHR 0x08, q)
            else if d = CHR ''f'' then Some (CHR 0x0C, q)
            else if d = CHR ''n'' then Some (CHR 0x0A, q)
            else if d = CHR ''r'' then Some (CHR 0x0D, q)
            else if d = CHR ''t'' then Some (CHR 0x09, q)
            else Some (d, q)))"

lemma char_eq_code: "c = d \<longleftrightarrow> (of_char c :: nat) = of_char d"
  by simp

lemma unesc_esc: "unesc (esc_char c @ x) = Some (c, x)"
proof -
  define n :: nat where "n = of_char c"
  have c: "c = char_of n" by (simp add: n_def)
  have hex: "radix_val 16 (pad_start 4 (CHR ''0'') (radix 16 n)) = n"
    by (simp add: radix_val_pad radix_val_radix)
  have len: "length (pad_start 4 (CHR ''0'') (radix 16 n)) = 4" if "n < 32"
    using that by (intro length_pad radix_length) auto
  show ?thesis
  proof (cases "n < 32 \<and> n \<notin> {8, 9, 10, 12, 13}")
    case True
    hence "esc_char c = [CHR 0x5C, CHR ''u''] @ pad_start 4 (CHR ''0'') (radix 16 n)"
      by (auto simp: esc_char_def n_def [symmetric] Let_def)
    thus ?thesis using True len hex by (simp add: unesc_def c)
  next
    case False
    then consider "c = CHR 0x08" | "c = CHR 0x09" | "c = CHR 0x0A" | "c = CHR 0x0C" | "c = CHR 0x0D"
      | "c = CHR 0x22" | "c = CHR 0x5C" | "32 \<le> n" "c \<noteq> CHR 0x22" "c \<noteq> CHR 0x5C"
      unfolding n_def char_eq_code by fastforce
    thus ?thesis
    proof cases
      case 8
      hence "n \<noteq> 34" "n \<noteq> 92" by (simp_all add: n_def char_eq_code)
      hence "esc_char c = [c]" using 8(1) by (simp add: esc_char_def n_def [symmetric] Let_def)
      thus ?thesis using 8(2,3) by (simp add: unesc_def)
    qed (simp_all add: esc_char_def unesc_def)
  qed
qed

lemma unesc_quote [simp]: "unesc (CHR 0x22 # x) = None"
  by (simp add: unesc_def)

lemma literal_inj:
  "concat (map esc_char s) @ CHR 0x22 # r = concat (map esc_char t) @ CHR 0x22 # r' \<Longrightarrow> s = t \<and> r = r'"
proof (induction s arbitrary: t)
  case Nil
  show ?case
  proof (cases t)
    case (Cons d ds)
    with Nil show ?thesis
      using unesc_esc [of d "concat (map esc_char ds) @ CHR 0x22 # r'"] unesc_quote [of r] by simp
  qed (use Nil in simp)
next
  case (Cons c cs)
  have u: "unesc (concat (map esc_char t) @ CHR 0x22 # r') =
      Some (c, concat (map esc_char cs) @ CHR 0x22 # r)"
    using Cons.prems unesc_esc [of c "concat (map esc_char cs) @ CHR 0x22 # r"] by simp
  then obtain d ds where t: "t = d # ds" by (cases t) auto
  with u unesc_esc [of d "concat (map esc_char ds) @ CHR 0x22 # r'"] Cons.IH [of ds]
  show ?case by auto
qed

lemma json_string_inj: "json_string s @ r = json_string t @ r' \<Longrightarrow> s = t \<and> r = r'"
  using literal_inj [of s r t r'] by (simp add: json_string_def)

definition delim :: "string \<Rightarrow> bool" where
  "delim r \<longleftrightarrow> (case r of [] \<Rightarrow> True | c # _ \<Rightarrow> c \<in> {CHR '','', CHR '']'', CHR ''}''})"

lemma digits_delim_inj:
  assumes "\<forall>c \<in> set a. is_digit c" "\<forall>c \<in> set b. is_digit c" "delim r" "delim r'" "a @ r = b @ r'"
  shows "a = b \<and> r = r'"
proof -
  have *: "takeWhile is_digit (x @ y) = x" if "\<forall>c \<in> set x. is_digit c" "delim y" for x y
    using that by (cases y) (auto simp: delim_def is_digit_def)
  have "a = b" using * [OF assms(1,3)] * [OF assms(2,4)] assms(5) by metis
  thus ?thesis using assms(5) by simp
qed

lemma int_string_delim_inj:
  assumes "delim r" "delim r'" "int_string i @ r = int_string j @ r'"
  shows "i = j \<and> r = r'"
proof -
  have nm: "CHR ''-'' # x \<noteq> dec n @ y" for x n y
    using dec_not_minus [of n] by (cases "dec n") auto
  have "int_string i = int_string j \<and> r = r'"
  proof (cases "i < 0"; cases "j < 0")
    assume "i < 0" "j < 0"
    thus ?thesis using assms digits_delim_inj [of "dec (nat (- i))" "dec (nat (- j))" r r']
      by (simp add: int_string_def dec_digits)
  next
    assume "\<not> i < 0" "\<not> j < 0"
    thus ?thesis using assms digits_delim_inj [of "dec (nat i)" "dec (nat j)" r r']
      by (simp add: int_string_def dec_digits)
  next
    assume "i < 0" "\<not> j < 0"
    thus ?thesis using assms nm by (simp add: int_string_def)
  next
    assume "\<not> i < 0" "j < 0"
    thus ?thesis using assms(3) nm [of _ "nat i" r, symmetric] by (simp add: int_string_def)
  qed
  thus ?thesis by simp
qed

lemma join_concat: "js_join [c] (x # xs) = x @ concat (map (\<lambda>y. c # y) xs)"
  by (induction xs arbitrary: x) auto

text \<open>
  Items printed by \<open>f\<close>, each unambiguous before a delimiter and never starting
  with the closing bracket, are recovered from their comma-separated list.
\<close>

definition readable :: "('a \<Rightarrow> string) \<Rightarrow> 'a set \<Rightarrow> 'a set \<Rightarrow> bool" where
  "readable f A B \<longleftrightarrow> (\<forall>x \<in> A. \<forall>y \<in> B. \<forall>r r'. delim r \<longrightarrow> delim r' \<longrightarrow>
     f x @ r = f y @ r' \<longrightarrow> x = y \<and> r = r')"

lemma readableD:
  "readable f A B \<Longrightarrow> x \<in> A \<Longrightarrow> y \<in> B \<Longrightarrow> delim r \<Longrightarrow> delim r' \<Longrightarrow> f x @ r = f y @ r' \<Longrightarrow> x = y \<and> r = r'"
  by (auto simp: readable_def)

lemma delim_close [simp]:
  "delim (CHR '','' # r)" "delim (CHR '']'' # r)" "delim (CHR ''}'' # r)"
  by (simp_all add: delim_def)

lemma items_inj:
  assumes "readable f (set xs) (set ys)" and e: "e = CHR '']'' \<or> e = CHR ''}''"
    and "concat (map (\<lambda>y. CHR '','' # f y) xs) @ e # r = concat (map (\<lambda>y. CHR '','' # f y) ys) @ e # r'"
  shows "xs = ys \<and> r = r'"
  using assms(1,3)
proof (induction xs arbitrary: ys)
  case Nil
  thus ?case using e by (cases ys) auto
next
  case (Cons x xs)
  then obtain y ys' where y: "ys = y # ys'" using e by (cases ys) auto
  have d: "delim (concat (map (\<lambda>y. CHR '','' # f y) zs) @ e # q)" for zs q
    using e by (cases zs) auto
  have "x = y \<and> concat (map (\<lambda>y. CHR '','' # f y) xs) @ e # r = concat (map (\<lambda>y. CHR '','' # f y) ys') @ e # r'"
    using Cons.prems(2) y by (intro readableD [OF Cons.prems(1) _ _ d d]) simp_all
  moreover have "readable f (set xs) (set ys')"
    using Cons.prems(1) y by (simp add: readable_def)
  ultimately show ?case using Cons.IH [of ys'] y by simp
qed

lemma join_inj:
  assumes R: "readable f (set xs) (set ys)" and e: "e = CHR '']'' \<or> e = CHR ''}''"
    and hd: "\<And>x q. f x @ q \<noteq> e # r \<and> f x @ q \<noteq> e # r'"
    and eq: "js_join [CHR '',''] (map f xs) @ e # r = js_join [CHR '',''] (map f ys) @ e # r'"
  shows "xs = ys \<and> r = r'"
proof -
  consider "xs = []" "ys = []" | x xs' where "xs = x # xs'" "ys = []" | y ys' where "xs = []" "ys = y # ys'"
    | x xs' y ys' where "xs = x # xs'" "ys = y # ys'" by (cases xs; cases ys) auto
  thus ?thesis
  proof cases
    case 4
    hence "concat (map (\<lambda>y. CHR '','' # f y) xs) @ e # r = concat (map (\<lambda>y. CHR '','' # f y) ys) @ e # r'"
      using eq by (simp add: join_concat comp_def)
    thus ?thesis by (rule items_inj [OF R e])
  qed (use eq hd in \<open>auto simp: join_concat dest: sym\<close>)
qed

lemma int_string_hd: "int_string i = c # q \<Longrightarrow> c = CHR ''-'' \<or> is_digit c"
  using dec_digits [of c "nat i"] by (auto simp: int_string_def split: if_splits)

definition print_class :: "json \<Rightarrow> nat" where
  "print_class v = (case v of JNull \<Rightarrow> 0 | JUndefined \<Rightarrow> 1 | JBool b \<Rightarrow> (if b then 2 else 3) | JNum i \<Rightarrow> 4
     | JStr s \<Rightarrow> 5 | JArr vs \<Rightarrow> 6 | JObj kvs \<Rightarrow> 7)"

definition char_class :: "char \<Rightarrow> nat" where
  "char_class c = (if c = CHR ''n'' then 0 else if c = CHR ''u'' then 1 else if c = CHR ''t'' then 2
     else if c = CHR ''f'' then 3 else if c = CHR ''-'' \<or> is_digit c then 4
     else if c = CHR 0x22 then 5 else if c = CHR ''['' then 6 else if c = CHR ''{'' then 7 else 8)"

lemma json_print_hd: "\<exists>c q. json_print v = c # q \<and> char_class c = print_class v"
proof (cases v)
  case (JNum i)
  obtain c q where c: "int_string i = c # q" by (cases "int_string i") (auto simp: int_string_def split: if_splits)
  hence "c = CHR ''-'' \<or> is_digit c" by (rule int_string_hd)
  hence "char_class c = 4" by (auto simp: char_class_def is_digit_def)
  with c JNum show ?thesis by (simp add: print_class_def)
qed (auto simp: print_class_def char_class_def json_string_def is_digit_def)

lemma print_class_eq: "json_print a @ r = json_print b @ r' \<Longrightarrow> print_class a = print_class b"
  using json_print_hd [of a] json_print_hd [of b] by auto

lemma print_class_lt: "print_class v < 8"
  by (cases v) (auto simp: print_class_def)

lemma json_print_not_close: "json_print v @ q \<noteq> CHR '']'' # r" "json_print v @ q \<noteq> CHR ''}'' # r"
  using json_print_hd [of v] print_class_lt [of v] by (auto simp: char_class_def is_digit_def)

lemma json_print_inj:
  "json_defined a \<Longrightarrow> json_defined b \<Longrightarrow> delim r \<Longrightarrow> delim r' \<Longrightarrow> json_print a @ r = json_print b @ r' \<Longrightarrow>
   a = b \<and> r = r'"
proof (induction a arbitrary: b r r')
  case (JStr s)
  then obtain t where "b = JStr t" using print_class_eq [OF JStr.prems(5)]
    by (cases b) (auto simp: print_class_def split: if_splits)
  thus ?case using JStr.prems json_string_inj [of s r t r'] by simp
next
  case (JNum i)
  then obtain j where "b = JNum j" using print_class_eq [OF JNum.prems(5)]
    by (cases b) (auto simp: print_class_def split: if_splits)
  thus ?case using JNum.prems int_string_delim_inj by simp
next
  case (JArr vs)
  then obtain ws where b: "b = JArr ws" using print_class_eq [OF JArr.prems(5)]
    by (cases b) (auto simp: print_class_def split: if_splits)
  have und: "map (\<lambda>v. if v = JUndefined then [] else json_print v) us = map json_print us"
    if "json_defined (JArr us)" for us using that by auto
  have "readable json_print (set vs) (set ws)"
    unfolding readable_def using JArr.IH JArr.prems(1,2) b by auto
  moreover have "js_join [CHR '',''] (map json_print vs) @ CHR '']'' # r =
      js_join [CHR '',''] (map json_print ws) @ CHR '']'' # r'"
    using JArr.prems b by (simp add: und)
  ultimately have "vs = ws \<and> r = r'"
    using json_print_not_close(1) by (intro join_inj [of json_print vs ws "CHR '']''"]) auto
  thus ?case using b by simp
next
  case (JObj kvs)
  then obtain lws where b: "b = JObj lws" using print_class_eq [OF JObj.prems(5)]
    by (cases b) (auto simp: print_class_def split: if_splits)
  let ?f = "\<lambda>(k, v). json_string k @ '':'' @ json_print v"
  have "readable ?f (set kvs) (set lws)"
  proof (unfold readable_def, intro ballI allI impI)
    fix x y q q' assume x: "x \<in> set kvs" and y: "y \<in> set lws" and d: "delim q" "delim q'"
      and eq: "?f x @ q = ?f y @ q'"
    obtain k v l w where xy: "x = (k, v)" "y = (l, w)" by (cases x; cases y)
    have "k = l \<and> CHR '':'' # json_print v @ q = CHR '':'' # json_print w @ q'"
      using eq xy by (intro json_string_inj) simp
    moreover have "json_defined v" "json_defined w" using JObj.prems(1,2) b x y xy by auto
    ultimately show "x = y \<and> q = q'"
      using JObj.IH [of x v w q q'] x xy d by auto
  qed
  moreover have "js_join [CHR '',''] (map ?f kvs) @ CHR ''}'' # r = js_join [CHR '',''] (map ?f lws) @ CHR ''}'' # r'"
    using JObj.prems b by simp
  ultimately have "kvs = lws \<and> r = r'"
    by (intro join_inj [of ?f kvs lws "CHR ''}''"]) (auto simp: json_string_def)
  thus ?case using b by simp
next
  case JNull
  then have "b = JNull" using print_class_eq [OF JNull.prems(5)]
    by (cases b) (auto simp: print_class_def split: if_splits)
  thus ?case using JNull.prems by simp
next
  case (JBool x)
  then have "b = JBool x" using print_class_eq [OF JBool.prems(5)]
    by (cases b) (auto simp: print_class_def split: if_splits)
  thus ?case using JBool.prems by simp
qed simp

section \<open>Equality of JSON values up to the order of object keys\<close>

function (sequential) json_same :: "json \<Rightarrow> json \<Rightarrow> bool" where
  "json_same (JArr vs) (JArr ws) \<longleftrightarrow> length vs = length ws \<and> (\<forall>p \<in> set (zip vs ws). json_same (fst p) (snd p))"
| "json_same (JObj kvs) (JObj lws) \<longleftrightarrow> length kvs = length lws \<and>
     (\<forall>p \<in> set kvs. \<exists>q \<in> set lws. fst p = fst q \<and> json_same (snd p) (snd q))"
| "json_same v w \<longleftrightarrow> v = w"
  by pat_completeness auto
termination
proof (relation "measure (\<lambda>p. size (fst p))", goal_cases)
  case (2 vs ws p)
  hence "fst p \<in> set vs" by (metis prod.collapse set_zip_leftD)
  thus ?case by (simp add: less_Suc_eq_le size_list_estimation')
next
  case (3 kvs lws p q)
  thus ?case using json_entry_size [of "fst p" "snd p" kvs] by simp
qed simp

definition printable :: "char \<Rightarrow> bool" where
  "printable c \<longleftrightarrow> 32 \<le> (of_char c :: nat) \<and> (of_char c :: nat) \<le> 126"

text \<open>
  A value \<open>JSON.parse\<close> can return, with printable ASCII object keys (the ones on
  which \<open>localeCompare\<close> is a total order).
\<close>

fun json_ok :: "json \<Rightarrow> bool" where
  "json_ok JUndefined \<longleftrightarrow> False"
| "json_ok (JArr vs) \<longleftrightarrow> (\<forall>v \<in> set vs. json_ok v)"
| "json_ok (JObj kvs) \<longleftrightarrow> distinct (map fst kvs) \<and> (\<forall>p \<in> set kvs. (\<forall>c \<in> set (fst p). printable c) \<and> json_ok (snd p))"
| "json_ok v \<longleftrightarrow> True"

lemma json_ok_defined: "json_ok v \<Longrightarrow> json_defined (json_norm v)"
  by (induction v) fastforce+

definition weight_char :: "nat \<Rightarrow> nat \<Rightarrow> nat" where
  "weight_char p k = (if p < 100 then punctuation_order ! (p - 1) else if p < 200 then p - 100 + 48
     else if k = 1 then p - 200 + 65 else p - 200 + 97)"

lemma takeWhile_ne_less: "x \<in> set xs \<Longrightarrow> length (takeWhile (\<lambda>m. m \<noteq> x) xs) < length xs"
  by (induction xs) auto

lemma printable_codes:
  "\<forall>n \<in> set [32..<127]. n \<in> set punctuation_order \<or> (48 \<le> n \<and> n \<le> 57) \<or> (97 \<le> n \<and> n \<le> 122) \<or>
     (65 \<le> n \<and> n \<le> 90)"
  unfolding punctuation_order_def by (simp add: upt_rec)

lemma weight_char_inverse:
  assumes "printable c" shows "weight_char (primary_weight c) (case_weight c) = of_char c"
    and "primary_weight c \<noteq> 0"
proof -
  define n :: nat where "n = of_char c"
  have n: "32 \<le> n" "n \<le> 126" using assms by (simp_all add: printable_def n_def)
  have nth: "punctuation_order ! length (takeWhile (\<lambda>m. m \<noteq> n) punctuation_order) = n"
    "length (takeWhile (\<lambda>m. m \<noteq> n) punctuation_order) < 38" if "n \<in> set punctuation_order"
  proof -
    have "length (takeWhile (\<lambda>m. m \<noteq> n) punctuation_order) < length punctuation_order"
      using that by (rule takeWhile_ne_less)
    thus "length (takeWhile (\<lambda>m. m \<noteq> n) punctuation_order) < 38"
      "punctuation_order ! length (takeWhile (\<lambda>m. m \<noteq> n) punctuation_order) = n"
      using nth_length_takeWhile [of "\<lambda>m. m \<noteq> n" punctuation_order]
      by (simp_all add: punctuation_order_def)
  qed
  have "n \<in> set punctuation_order \<or> (48 \<le> n \<and> n \<le> 57) \<or> (97 \<le> n \<and> n \<le> 122) \<or> (65 \<le> n \<and> n \<le> 90)"
    by (rule bspec [OF printable_codes]) (use n in \<open>simp only: set_upt atLeastLessThan_iff\<close>, simp)
  moreover have "n \<notin> {48..57} \<union> {97..122} \<union> {65..90}" if "n \<in> set punctuation_order"
    using that by (auto simp: punctuation_order_def)
  ultimately show "weight_char (primary_weight c) (case_weight c) = of_char c" "primary_weight c \<noteq> 0"
    using nth by (auto simp: weight_char_def primary_weight_def case_weight_def n_def [symmetric] Let_def)
qed

lemma collation_key_inj:
  assumes "\<forall>c \<in> set s. printable c" "\<forall>c \<in> set t. printable c" "collation_key s = collation_key t"
  shows "s = t"
proof -
  have f: "filter (\<lambda>c. primary_weight c \<noteq> 0) u = u" if "\<forall>c \<in> set u. printable c" for u
    using that weight_char_inverse(2) by (simp add: filter_id_conv)
  have r: "map2 weight_char (map primary_weight u) (map case_weight u) = map of_char u"
    if "\<forall>c \<in> set u. printable c" for u
    using that by (induction u) (auto simp: weight_char_inverse(1))
  have "map primary_weight s = map primary_weight t" "map case_weight s = map case_weight t"
    using assms(3) by (simp_all only: collation_key_def Let_def f [OF assms(1)] f [OF assms(2)] prod.inject)
  hence "map of_char s = (map of_char t :: nat list)" using r [OF assms(1)] r [OF assms(2)] by simp
  thus ?thesis by (simp add: inj_map_eq_map inj_def)
qed

lemma sort_entries_eq:
  assumes "distinct (map fst xs)" "distinct (map fst ys)" "set xs = set ys"
    and "\<forall>p \<in> set xs. \<forall>c \<in> set (fst p). printable c"
  shows "sort_key (\<lambda>kv. collation_key (fst kv)) xs = sort_key (\<lambda>kv. collation_key (fst kv)) ys"
proof -
  let ?f = "\<lambda>kv. collation_key (fst kv)"
  have "mset xs = mset ys" using assms(1-3) by (simp add: distinct_map set_eq_iff_mset_eq_distinct)
  moreover have "inj_on ?f (set xs)"
  proof (rule inj_onI)
    fix p q assume pq: "p \<in> set xs" "q \<in> set xs" "?f p = ?f q"
    hence "fst p = fst q" using assms(4) by (intro collation_key_inj) auto
    thus "p = q" using pq assms(1) by (simp add: distinct_map inj_on_def)
  qed
  ultimately show ?thesis by (intro sort_key_inj_key_eq) simp_all
qed

lemma json_norm_entries: "set (map (\<lambda>(k, v). (k, json_norm v)) kvs) = (\<lambda>(k, v). (k, json_norm v)) ` set kvs"
  by simp

lemma fst_norm_entries [simp]: "map fst (map (\<lambda>(k, v). (k, json_norm v)) kvs) = map fst kvs"
  by (induction kvs) auto

lemma json_same_norm: "json_same v w \<Longrightarrow> json_ok v \<Longrightarrow> json_ok w \<Longrightarrow> json_norm v = json_norm w"
proof (induction v w rule: json_same.induct)
  case (1 vs ws)
  have "json_norm (vs ! i) = json_norm (ws ! i)" if "i < length vs" for i
  proof -
    have z: "(vs ! i, ws ! i) \<in> set (zip vs ws)" using 1(2) that by (auto simp: set_zip)
    show ?thesis using 1(1) [OF z] 1(2-4) z that by simp (metis fst_conv nth_mem snd_conv)
  qed
  thus ?case using 1(2) by (auto intro: nth_equalityI)
next
  case (2 kvs lws)
  let ?g = "\<lambda>(k, v). (k, json_norm v)"
  have "?g p \<in> ?g ` set lws" if p: "p \<in> set kvs" for p
  proof -
    obtain q where q: "q \<in> set lws" "fst p = fst q" "json_same (snd p) (snd q)" using 2(2) p by auto
    hence "json_norm (snd p) = json_norm (snd q)" using 2(1) [OF p q(1)] 2(3,4) p by auto
    thus ?thesis using q by (auto simp: split_def image_iff intro!: bexI [of _ q])
  qed
  hence sub: "?g ` set kvs \<subseteq> ?g ` set lws" by auto
  have d: "distinct (map ?g us)" if "json_ok (JObj us)" for us
    using that distinct_map [of fst "map ?g us"]
    unfolding fst_norm_entries json_ok.simps by blast
  have "card (?g ` set kvs) = card (?g ` set lws)"
    using d [OF 2(3)] d [OF 2(4)] 2(2) distinct_card [of "map ?g kvs"] distinct_card [of "map ?g lws"] by simp
  hence "set (map ?g kvs) = set (map ?g lws)" using card_subset_eq [OF _ sub] by simp
  thus ?case using 2(3,4) by (simp del: set_map map_map add: json_norm_entries)
      (rule sort_entries_eq, auto simp: comp_def split_def)
qed auto

lemma json_norm_same: "json_norm v = json_norm w \<Longrightarrow> json_same v w"
proof (induction v arbitrary: w)
  case (JArr vs)
  then obtain ws where w: "w = JArr ws" by (cases w) auto
  hence e: "map json_norm vs = map json_norm ws" using JArr.prems by simp
  have "json_same a b" if "(a, b) \<in> set (zip vs ws)" for a b
  proof -
    obtain i where "i < length vs" "i < length ws" "a = vs ! i" "b = ws ! i" using \<open>(a, b) \<in> _\<close> by (auto simp: set_zip)
    thus ?thesis using JArr.IH [of a b] e by (metis nth_map nth_mem)
  qed
  thus ?case using e w map_eq_imp_length_eq [OF e] by auto
next
  case (JObj kvs)
  then obtain lws where w: "w = JObj lws" by (cases w) auto
  let ?g = "\<lambda>(k, v). (k, json_norm v)"
  have e: "sort_key (\<lambda>kv. collation_key (fst kv)) (map ?g kvs) = sort_key (\<lambda>kv. collation_key (fst kv)) (map ?g lws)"
    using JObj.prems w by simp
  have len: "length kvs = length lws" using arg_cong [OF e, of length] by simp
  have st: "?g ` set kvs = ?g ` set lws" using arg_cong [OF e, of set] by simp
  have "\<exists>q \<in> set lws. fst p = fst q \<and> json_same (snd p) (snd q)" if p: "p \<in> set kvs" for p
  proof -
    have "?g p \<in> ?g ` set lws" using st p by blast
    then obtain q where q: "q \<in> set lws" "?g p = ?g q" by blast
    hence "fst p = fst q" "json_norm (snd p) = json_norm (snd q)" by (simp_all add: split_def)
    thus ?thesis using q JObj.IH [OF p, of "snd p" "snd q"] by (cases p) auto
  qed
  thus ?case using w len by auto
qed (case_tac [!] w, auto)

lemma canonicalJson_norm:
  assumes "json_ok v" "json_ok w" "canonicalJson v = canonicalJson w"
  shows "json_norm v = json_norm w"
  using json_print_inj [of "json_norm v" "json_norm w" "[]" "[]"] assms
  by (simp add: canonicalJson_print json_ok_defined delim_def)

text \<open>
  C16.  The serialization identifies exactly the values that are equal up to the
  order of object keys at every level: reordering keys (as jsonb storage does)
  never changes it, and two values with the same serialization are the same.
\<close>

theorem canonicalJson_iff:
  assumes "json_ok v" "json_ok w"
  shows "canonicalJson v = canonicalJson w \<longleftrightarrow> json_same v w"
proof
  assume "canonicalJson v = canonicalJson w"
  thus "json_same v w" by (intro json_norm_same canonicalJson_norm assms)
next
  assume "json_same v w"
  thus "canonicalJson v = canonicalJson w"
    using json_same_norm assms by (simp add: canonicalJson_print)
qed

theorem canonicalJson_iff_witness:
  "json_ok (JObj [(''b'', JNum 1), (''A'', JArr [JNull])]) \<and>
   canonicalJson (JObj [(''b'', JNum 1), (''A'', JArr [JNull])]) =
     canonicalJson (JObj [(''A'', JArr [JNull]), (''b'', JNum 1)])"
  using canonicalJson_iff [of "JObj [(''b'', JNum 1), (''A'', JArr [JNull])]"
      "JObj [(''A'', JArr [JNull]), (''b'', JNum 1)]"]
  by (simp add: printable_def)

section \<open>JSON.stringify\<close>

text \<open>The plain serializer: \<open>undefined\<close> entries of objects are left out, in arrays they print as \<open>null\<close>.\<close>

fun json_stringify :: "json \<Rightarrow> string" where
  "json_stringify JNull = ''null''"
| "json_stringify JUndefined = ''undefined''"
| "json_stringify (JBool b) = (if b then ''true'' else ''false'')"
| "json_stringify (JNum i) = int_string i"
| "json_stringify (JStr s) = json_string s"
| "json_stringify (JArr vs) =
     ''['' @ js_join '','' (map (\<lambda>v. if v = JUndefined then ''null'' else json_stringify v) vs) @ '']''"
| "json_stringify (JObj kvs) =
     ''{'' @ js_join '','' (map (\<lambda>kv. json_string (fst kv) @ '':'' @ json_stringify (snd kv))
        (filter (\<lambda>kv. snd kv \<noteq> JUndefined) kvs)) @ ''}''"

end
