(* ===== verification/Domain.thy ===== *)
theory Domain
  imports Json
begin

text \<open>
  The domain types of \<open>src/domain/types.ts\<close> and \<open>src/domain/policy-ir.ts\<close>.
  String unions are datatypes with the source's literals as constructors,
  interfaces are records (a field prefix names the interface), optional fields
  are options, and a \<open>Date\<close> is its time in milliseconds.
\<close>

datatype platform = Linux | Windows | Macos | Ios | Ipados | Container

datatype security_zone = ZONE_PROD_DATA | ZONE_PROD_APP | ZONE_STAGING | ZONE_DEV | ZONE_ADMIN_MGMT
  | ZONE_FORENSIC_ISOLATION

datatype severity = INFO | WARN | CRITICAL | EMERGENCY

datatype node_type = CLIENT | SERVER | RELAY | EGRESS

datatype policy_action = ALLOW | DENY | ISOLATE

datatype protocol = TCP | UDP | ICMP | ANY

record device_posture =
  osCurrent :: bool
  diskEncrypted :: bool
  secureBoot :: bool
  firewallEnabled :: bool
  agentHealthy :: bool
  bannedProcessFound :: bool
  assessedAt :: millis

record device =
  dev_id :: uuid
  dev_hostname :: string
  dev_hardwareId :: string
  dev_platform :: platform
  dev_osVersion :: string
  dev_publicAttestationKey :: "string option"
  dev_compromised :: bool
  dev_revoked :: bool
  dev_posture :: device_posture
  dev_createdAt :: millis
  dev_updatedAt :: millis
  dev_lastPostureAt :: "millis option"
  dev_agentVersion :: "string option"
  dev_quarantineReason :: "string option"

definition UNASSIGNED_REGION :: string where
  "UNASSIGNED_REGION = ''unassigned''"

record mesh_node =
  mn_id :: uuid
  mn_deviceId :: uuid
  mn_wireGuardPublicKey :: string
  mn_internalIpv4 :: string
  mn_internalIpv6 :: string
  mn_listenPort :: nat
  mn_nodeType :: node_type
  mn_zone :: security_zone
  mn_region :: "string option"
  mn_active :: bool
  mn_lastHandshake :: "millis option"

record identity_context =
  ic_userId :: uuid
  ic_roles :: "string list"
  ic_attributes :: "(string \<times> string) list"
  ic_mfa :: bool
  ic_sourceIp :: string

record resource_context =
  rc_resource :: string
  rc_zone :: security_zone
  rc_protocol :: protocol
  rc_port :: "nat option"

record network_policy =
  np_id :: uuid
  np_name :: string
  np_sourceZones :: "security_zone list"
  np_destinationZones :: "security_zone list"
  np_protocols :: "protocol list"
  np_destinationPorts :: "nat list"
  np_action :: policy_action
  np_requiredRoles :: "string list"
  np_requiresJit :: bool
  np_priority :: int
  np_version :: nat
  np_active :: bool

record access_decision =
  ad_allowed :: bool
  ad_action :: policy_action
  ad_reason :: string
  ad_policyId :: "uuid option"
  ad_decisionId :: uuid
  ad_expiresAt :: millis

record jit_grant =
  jg_id :: uuid
  jg_userId :: uuid
  jg_targetResource :: string
  jg_targetZone :: security_zone
  jg_justification :: string
  jg_approvedBy :: "uuid option"
  jg_grantedAt :: millis
  jg_expiresAt :: millis
  jg_terminated :: bool
  jg_terminationReason :: "string option"

record security_event =
  ev_id :: uuid
  ev_nodeId :: "uuid option"
  ev_at :: millis
  ev_severity :: severity
  ev_engine :: string
  ev_type :: string
  ev_sourceIp :: "string option"
  ev_destinationIp :: "string option"
  ev_description :: string
  ev_metadata :: json

record audit_record =
  ar_sequence :: nat
  ar_at :: millis
  ar_actor :: string
  ar_action :: string
  ar_subject :: string
  ar_payload :: json
  ar_previousHash :: string
  ar_hash :: string

section \<open>Policy intermediate representation\<close>

record policy_ir_rule =
  ir_id :: uuid
  ir_source :: "security_zone list"
  ir_destination :: "security_zone list"
  ir_protocols :: "protocol list"
  ir_ports :: "nat list"
  ir_action :: policy_action
  ir_log :: bool
  ir_expiresAt :: "millis option"

record policy_ir_document =
  irdoc_version :: nat
  irdoc_generatedAt :: millis
  irdoc_checksum :: string
  irdoc_rules :: "policy_ir_rule list"

section \<open>The literals of the string unions\<close>

fun platform_string :: "platform \<Rightarrow> string" where
  "platform_string Linux = ''linux''"
| "platform_string Windows = ''windows''"
| "platform_string Macos = ''macos''"
| "platform_string Ios = ''ios''"
| "platform_string Ipados = ''ipados''"
| "platform_string Container = ''container''"

fun zone_string :: "security_zone \<Rightarrow> string" where
  "zone_string ZONE_PROD_DATA = ''ZONE_PROD_DATA''"
| "zone_string ZONE_PROD_APP = ''ZONE_PROD_APP''"
| "zone_string ZONE_STAGING = ''ZONE_STAGING''"
| "zone_string ZONE_DEV = ''ZONE_DEV''"
| "zone_string ZONE_ADMIN_MGMT = ''ZONE_ADMIN_MGMT''"
| "zone_string ZONE_FORENSIC_ISOLATION = ''ZONE_FORENSIC_ISOLATION''"

fun severity_string :: "severity \<Rightarrow> string" where
  "severity_string INFO = ''INFO''"
| "severity_string WARN = ''WARN''"
| "severity_string CRITICAL = ''CRITICAL''"
| "severity_string EMERGENCY = ''EMERGENCY''"

fun action_string :: "policy_action \<Rightarrow> string" where
  "action_string ALLOW = ''ALLOW''"
| "action_string DENY = ''DENY''"
| "action_string ISOLATE = ''ISOLATE''"

fun protocol_string :: "protocol \<Rightarrow> string" where
  "protocol_string TCP = ''TCP''"
| "protocol_string UDP = ''UDP''"
| "protocol_string ICMP = ''ICMP''"
| "protocol_string ANY = ''ANY''"

lemma zone_string_inj: "zone_string a = zone_string b \<longleftrightarrow> a = b"
  by (cases a; cases b) simp_all

section \<open>JSON views of domain values\<close>

text \<open>An optional field of an object literal: left out when absent.\<close>

definition opt_field :: "string \<Rightarrow> ('a \<Rightarrow> json) \<Rightarrow> 'a option \<Rightarrow> (string \<times> json) list" where
  "opt_field k f x = (case x of None \<Rightarrow> [] | Some v \<Rightarrow> [(k, f v)])"

definition date_json :: "millis \<Rightarrow> json" where
  "date_json t = JStr (to_iso_string t)"

definition strs_json :: "string list \<Rightarrow> json" where
  "strs_json xs = JArr (map JStr xs)"

definition grant_json :: "jit_grant \<Rightarrow> json" where
  "grant_json g = JObj ([(''id'', JStr (jg_id g)), (''userId'', JStr (jg_userId g)),
     (''targetResource'', JStr (jg_targetResource g)), (''targetZone'', JStr (zone_string (jg_targetZone g))),
     (''justification'', JStr (jg_justification g))] @ opt_field ''approvedBy'' JStr (jg_approvedBy g) @
     [(''grantedAt'', date_json (jg_grantedAt g)), (''expiresAt'', date_json (jg_expiresAt g)),
      (''terminated'', JBool (jg_terminated g))] @
     opt_field ''terminationReason'' JStr (jg_terminationReason g))"

definition event_json :: "security_event \<Rightarrow> json" where
  "event_json e = JObj ([(''id'', JStr (ev_id e))] @ opt_field ''nodeId'' JStr (ev_nodeId e) @
     [(''at'', date_json (ev_at e)), (''severity'', JStr (severity_string (ev_severity e))),
      (''engine'', JStr (ev_engine e)), (''type'', JStr (ev_type e))] @
     opt_field ''sourceIp'' JStr (ev_sourceIp e) @ opt_field ''destinationIp'' JStr (ev_destinationIp e) @
     [(''description'', JStr (ev_description e)), (''metadata'', ev_metadata e)])"

definition policy_json :: "network_policy \<Rightarrow> json" where
  "policy_json p = JObj [(''id'', JStr (np_id p)), (''name'', JStr (np_name p)),
     (''sourceZones'', strs_json (map zone_string (np_sourceZones p))),
     (''destinationZones'', strs_json (map zone_string (np_destinationZones p))),
     (''protocols'', strs_json (map protocol_string (np_protocols p))),
     (''destinationPorts'', JArr (map (\<lambda>n. JNum (int n)) (np_destinationPorts p))),
     (''action'', JStr (action_string (np_action p))), (''requiredRoles'', strs_json (np_requiredRoles p)),
     (''requiresJit'', JBool (np_requiresJit p)), (''priority'', JNum (np_priority p)),
     (''version'', JNum (int (np_version p))), (''active'', JBool (np_active p))]"

fun node_type_string :: "node_type \<Rightarrow> string" where
  "node_type_string CLIENT = ''CLIENT''"
| "node_type_string SERVER = ''SERVER''"
| "node_type_string RELAY = ''RELAY''"
| "node_type_string EGRESS = ''EGRESS''"

definition posture_json :: "device_posture \<Rightarrow> json" where
  "posture_json p = JObj [(''osCurrent'', JBool (osCurrent p)), (''diskEncrypted'', JBool (diskEncrypted p)),
     (''secureBoot'', JBool (secureBoot p)), (''firewallEnabled'', JBool (firewallEnabled p)),
     (''agentHealthy'', JBool (agentHealthy p)), (''bannedProcessFound'', JBool (bannedProcessFound p)),
     (''assessedAt'', date_json (assessedAt p))]"

definition device_json :: "device \<Rightarrow> json" where
  "device_json d = JObj ([(''id'', JStr (dev_id d)), (''hostname'', JStr (dev_hostname d)),
     (''hardwareId'', JStr (dev_hardwareId d)), (''platform'', JStr (platform_string (dev_platform d))),
     (''osVersion'', JStr (dev_osVersion d)), (''compromised'', JBool (dev_compromised d)),
     (''revoked'', JBool (dev_revoked d)), (''posture'', posture_json (dev_posture d)),
     (''createdAt'', date_json (dev_createdAt d)), (''updatedAt'', date_json (dev_updatedAt d))] @
     opt_field ''publicAttestationKey'' JStr (dev_publicAttestationKey d) @
     opt_field ''lastPostureAt'' date_json (dev_lastPostureAt d) @
     opt_field ''agentVersion'' JStr (dev_agentVersion d) @
     opt_field ''quarantineReason'' JStr (dev_quarantineReason d))"

definition node_json :: "mesh_node \<Rightarrow> json" where
  "node_json n = JObj ([(''id'', JStr (mn_id n)), (''deviceId'', JStr (mn_deviceId n)),
     (''wireGuardPublicKey'', JStr (mn_wireGuardPublicKey n)), (''internalIpv4'', JStr (mn_internalIpv4 n)),
     (''internalIpv6'', JStr (mn_internalIpv6 n)), (''listenPort'', JNum (int (mn_listenPort n))),
     (''nodeType'', JStr (node_type_string (mn_nodeType n))), (''zone'', JStr (zone_string (mn_zone n)))] @
     opt_field ''region'' JStr (mn_region n) @ [(''active'', JBool (mn_active n))] @
     opt_field ''lastHandshake'' date_json (mn_lastHandshake n))"

end
