(* ===== verification/Store.thy ===== *)
theory Store
  imports Domain
begin

text \<open>
  The repositories: \<open>MemoryStore\<close> (\<open>src/infrastructure/memory.ts\<close>), \<open>PgRepositories\<close>
  (\<open>src/infrastructure/postgres/repositories.ts\<close>), the transactional outbox
  (\<open>src/infrastructure/postgres/outbox.ts\<close>) and transactions
  (\<open>src/infrastructure/postgres/client.ts\<close>).  A table is the list of its rows in
  physical order; \<open>ORDER BY\<close> is a stable sort; a violated constraint is a
  \<open>PgError\<close> with its SQLSTATE (23505 unique, 23503 foreign key).  The state also
  holds the identity counter of \<open>audit_chain.sequence\<close> and the supply of random
  UUIDs with the number drawn so far; neither is restored by a rollback.
\<close>

section \<open>State\<close>

record outbox_row =
  ob_id :: uuid
  ob_topic :: string
  ob_key :: string
  ob_payload :: json
  ob_created :: millis
  ob_published :: "millis option"
  ob_attempts :: nat
  ob_error :: "string option"

record repo_db =
  db_devices :: "device list"
  db_nodes :: "mesh_node list"
  db_policies :: "network_policy list"
  db_grants :: "jit_grant list"
  db_events :: "security_event list"
  db_audit :: "audit_record list"
  db_audit_seq :: nat
  db_outbox :: "outbox_row list"
  db_fresh :: "nat \<Rightarrow> uuid"
  db_drawn :: nat

datatype entity = EDevice device | ENode mesh_node | EPolicy network_policy | EGrant jit_grant

section \<open>Tables\<close>

text \<open>\<open>INSERT ... ON CONFLICT(key) DO UPDATE\<close>: update the row with that key, or append.\<close>

definition upsert :: "('a \<Rightarrow> 'k) \<Rightarrow> ('a \<Rightarrow> 'a \<Rightarrow> 'a) \<Rightarrow> 'a \<Rightarrow> 'a list \<Rightarrow> 'a list" where
  "upsert key upd new rows =
     (if \<exists>r \<in> set rows. key r = key new then map (\<lambda>r. if key r = key new then upd new r else r) rows
      else rows @ [new])"

lemma key_in [simp]: "(\<exists>r \<in> set rows. key r = k) \<longleftrightarrow> k \<in> key ` set rows"
  by (auto simp: image_iff)

lemma upsert_keys:
  "(\<And>r. key r = key new \<Longrightarrow> key (upd new r) = key new) \<Longrightarrow>
   map key (upsert key upd new rows) =
     (if key new \<in> key ` set rows then map key rows else map key rows @ [key new])"
  by (simp add: upsert_def)

lemma upsert_distinct:
  "(\<And>r. key r = key new \<Longrightarrow> key (upd new r) = key new) \<Longrightarrow> distinct (map key rows) \<Longrightarrow>
   distinct (map key (upsert key upd new rows))"
  by (simp add: upsert_keys)

lemma upsert_fresh: "key new \<notin> key ` set rows \<Longrightarrow> upsert key upd new rows = rows @ [new]"
  by (simp add: upsert_def)

lemma upsert_length: "length (upsert key upd new rows) \<le> Suc (length rows)"
  by (simp add: upsert_def)

text \<open>A JavaScript \<open>Map.set\<close>: a new key goes last, an existing one keeps its place.\<close>

abbreviation map_set :: "('a \<Rightarrow> 'k) \<Rightarrow> 'a \<Rightarrow> 'a list \<Rightarrow> 'a list" where
  "map_set key \<equiv> upsert key (\<lambda>new _. new)"

definition find_by :: "('a \<Rightarrow> 'k) \<Rightarrow> 'k \<Rightarrow> 'a list \<Rightarrow> 'a option" where
  "find_by key k rows = find (\<lambda>r. key r = k) rows"

lemma find_by_Some: "find_by key k rows = Some r \<Longrightarrow> r \<in> set rows \<and> key r = k"
  by (auto simp: find_by_def find_Some_iff)

lemma find_by_None: "find_by key k rows = None \<longleftrightarrow> k \<notin> key ` set rows"
  by (auto simp: find_by_def find_None_iff)

lemma find_by_append: "find_by key k (xs @ ys) =
    (case find_by key k xs of None \<Rightarrow> find_by key k ys | Some r \<Rightarrow> Some r)"
  by (induction xs) (auto simp: find_by_def)

lemma find_by_map:
  "(\<And>r. key (f r) = key r) \<Longrightarrow> find_by key k (map f rows) = map_option f (find_by key k rows)"
  by (induction rows) (auto simp: find_by_def)

lemma find_by_distinct:
  "distinct (map key rows) \<Longrightarrow> r \<in> set rows \<Longrightarrow> find_by key (key r) rows = Some r"
  by (induction rows) (auto simp: find_by_def)

lemma find_by_map_set: "find_by key k (map_set key new rows) =
    (if k = key new then Some new else find_by key k rows)"
proof (cases "\<exists>r \<in> set rows. key r = key new")
  case True
  have "find_by key k (map (\<lambda>r. if key r = key new then new else r) rows) =
      (if k = key new then (if k \<in> key ` set rows then Some new else None) else find_by key k rows)"
    by (induction rows) (auto simp: find_by_def)
  moreover have "key new \<in> key ` set rows" using True by simp
  ultimately show ?thesis using True by (auto simp: upsert_def)
next
  case False
  hence "find_by key (key new) rows = None" by (auto simp: find_by_None)
  thus ?thesis using False by (auto simp: upsert_def find_by_append split: option.splits)
      (auto simp: find_by_def)
qed

lemma map_of_find_by: "map_of h k = map_option snd (find_by fst k h)"
  by (induction h) (auto simp: find_by_def)

definition other_has :: "('a \<Rightarrow> 'k) \<Rightarrow> ('a \<Rightarrow> 'b) \<Rightarrow> 'a \<Rightarrow> 'a list \<Rightarrow> bool" where
  "other_has key col new rows \<longleftrightarrow> (\<exists>r \<in> set rows. key r \<noteq> key new \<and> col r = col new)"

section \<open>Random identifiers\<close>

definition next_id :: "('z repo_db_scheme, uuid) js" where
  "next_id = (\<lambda>s. (Inr (db_fresh s (db_drawn s)), s\<lparr>db_drawn := Suc (db_drawn s)\<rparr>))"

section \<open>Postgres transactions\<close>

definition pg_transaction :: "('z repo_db_scheme, 'a) js \<Rightarrow> ('z repo_db_scheme, 'a) js" where
  "pg_transaction m = (\<lambda>s. case m s of
      (Inl e, s') \<Rightarrow> (Inl e, s\<lparr>db_audit_seq := db_audit_seq s', db_drawn := db_drawn s'\<rparr>)
    | (Inr x, s') \<Rightarrow> (Inr x, s'))"

section \<open>PgRepositories\<close>

definition truthy :: "string option \<Rightarrow> string option" where
  "truthy x = (if x = Some [] then None else x)"

definition row_device :: "device \<Rightarrow> device" where
  "row_device x = x\<lparr>dev_publicAttestationKey := truthy (dev_publicAttestationKey x),
     dev_agentVersion := truthy (dev_agentVersion x),
     dev_quarantineReason := truthy (dev_quarantineReason x)\<rparr>"

definition pg_findByHardwareId :: "string \<Rightarrow> 'z repo_db_scheme \<Rightarrow> device option" where
  "pg_findByHardwareId h s = map_option row_device (find_by dev_hardwareId h (db_devices s))"

definition pg_findByPublicKey :: "string \<Rightarrow> 'z repo_db_scheme \<Rightarrow> mesh_node option" where
  "pg_findByPublicKey k s = find_by mn_wireGuardPublicKey k (db_nodes s)"

definition pg_get :: "uuid \<Rightarrow> 'z repo_db_scheme \<Rightarrow> entity option" where
  "pg_get i s = (case find_by dev_id i (db_devices s) of Some d \<Rightarrow> Some (EDevice (row_device d))
     | None \<Rightarrow> (case find_by mn_id i (db_nodes s) of Some n \<Rightarrow> Some (ENode n)
     | None \<Rightarrow> (case find_by np_id i (db_policies s) of Some p \<Rightarrow> Some (EPolicy p)
     | None \<Rightarrow> map_option EGrant (find_by jg_id i (db_grants s)))))"

lemma pg_get_cong:
  "db_devices t = db_devices s \<Longrightarrow> db_nodes t = db_nodes s \<Longrightarrow> db_policies t = db_policies s \<Longrightarrow> db_grants t = db_grants s \<Longrightarrow>
   pg_get i t = pg_get i s"
  by (simp add: pg_get_def cong: option.case_cong)

definition pg_list :: "'z repo_db_scheme \<Rightarrow> mesh_node list" where
  "pg_list s = sort_key mn_id (filter mn_active (db_nodes s))"

definition pg_listAll :: "'z repo_db_scheme \<Rightarrow> device list" where
  "pg_listAll s = map row_device (sort_key dev_id (db_devices s))"

definition pg_listActive_grants :: "millis \<Rightarrow> 'z repo_db_scheme \<Rightarrow> jit_grant list" where
  "pg_listActive_grants now s =
     sort_key jg_expiresAt (filter (\<lambda>g. \<not> jg_terminated g \<and> now < jg_expiresAt g) (db_grants s))"

definition pg_listActive_policies :: "'z repo_db_scheme \<Rightarrow> network_policy list" where
  "pg_listActive_policies s =
     sort_key (\<lambda>p. (- np_priority p, np_id p)) (filter np_active (db_policies s))"

definition upd_device :: "millis \<Rightarrow> device \<Rightarrow> device \<Rightarrow> device" where
  "upd_device now new old = old\<lparr>dev_hostname := dev_hostname new, dev_osVersion := dev_osVersion new,
     dev_compromised := dev_compromised new, dev_revoked := dev_revoked new, dev_posture := dev_posture new,
     dev_updatedAt := now, dev_lastPostureAt := dev_lastPostureAt new,
     dev_agentVersion := dev_agentVersion new, dev_quarantineReason := dev_quarantineReason new\<rparr>"

definition saveDevice :: "millis \<Rightarrow> device \<Rightarrow> ('z repo_db_scheme, unit) js" where
  "saveDevice now d = (\<lambda>s.
     if dev_id d \<notin> dev_id ` set (db_devices s) \<and> dev_hardwareId d \<in> dev_hardwareId ` set (db_devices s)
     then (Inl (PgError ''23505''), s)
     else (Inr (), s\<lparr>db_devices := upsert dev_id (upd_device now) d (db_devices s)\<rparr>))"

definition upd_node :: "mesh_node \<Rightarrow> mesh_node \<Rightarrow> mesh_node" where
  "upd_node new old = old\<lparr>mn_wireGuardPublicKey := mn_wireGuardPublicKey new, mn_zone := mn_zone new,
     mn_region := (case mn_region new of None \<Rightarrow> mn_region old | Some r \<Rightarrow> Some r),
     mn_active := mn_active new, mn_lastHandshake := mn_lastHandshake new\<rparr>"

definition new_node_row :: "mesh_node \<Rightarrow> mesh_node" where
  "new_node_row n = n\<lparr>mn_region := (case mn_region n of None \<Rightarrow> Some UNASSIGNED_REGION | Some r \<Rightarrow> Some r)\<rparr>"

definition saveNode :: "mesh_node \<Rightarrow> ('z repo_db_scheme, unit) js" where
  "saveNode n = (\<lambda>s.
     if mn_id n \<in> mn_id ` set (db_nodes s) then
       (if other_has mn_id mn_wireGuardPublicKey n (db_nodes s) then (Inl (PgError ''23505''), s)
        else (Inr (), s\<lparr>db_nodes := map (\<lambda>r. if mn_id r = mn_id n then upd_node n r else r) (db_nodes s)\<rparr>))
     else if other_has mn_id mn_wireGuardPublicKey n (db_nodes s)
          \<or> other_has mn_id mn_internalIpv4 n (db_nodes s) \<or> other_has mn_id mn_internalIpv6 n (db_nodes s)
     then (Inl (PgError ''23505''), s)
     else if mn_deviceId n \<notin> dev_id ` set (db_devices s) then (Inl (PgError ''23503''), s)
     else (Inr (), s\<lparr>db_nodes := db_nodes s @ [new_node_row n]\<rparr>))"

definition savePolicy :: "network_policy \<Rightarrow> ('z repo_db_scheme, unit) js" where
  "savePolicy p = (\<lambda>s.
     if other_has np_id np_name p (db_policies s) then (Inl (PgError ''23505''), s)
     else (Inr (), s\<lparr>db_policies := map_set np_id p (db_policies s)\<rparr>))"

definition upd_grant :: "jit_grant \<Rightarrow> jit_grant \<Rightarrow> jit_grant" where
  "upd_grant new old = old\<lparr>jg_approvedBy := jg_approvedBy new, jg_terminated := jg_terminated new,
     jg_terminationReason := jg_terminationReason new\<rparr>"

definition saveGrant :: "jit_grant \<Rightarrow> ('z repo_db_scheme, unit) js" where
  "saveGrant g = modifyJ (\<lambda>s. s\<lparr>db_grants := upsert jg_id upd_grant g (db_grants s)\<rparr>)"

fun pg_save :: "millis \<Rightarrow> entity \<Rightarrow> ('z repo_db_scheme, unit) js" where
  "pg_save now (EDevice d) = saveDevice now d"
| "pg_save now (ENode n) = saveNode n"
| "pg_save now (EPolicy p) = savePolicy p"
| "pg_save now (EGrant g) = saveGrant g"

text \<open>
  The sequence number of an audit row is drawn from the identity before the
  uniqueness of \<open>event_hash\<close> is checked, so a refused insert uses one up.
\<close>

definition pg_append_audit :: "audit_record \<Rightarrow> ('z repo_db_scheme, unit) js" where
  "pg_append_audit r = (\<lambda>s. let n = Suc (db_audit_seq s); s1 = s\<lparr>db_audit_seq := n\<rparr> in
     if ar_hash r \<in> ar_hash ` set (db_audit s) then (Inl (PgError ''23505''), s1)
     else (Inr (), s1\<lparr>db_audit := db_audit s @ [r\<lparr>ar_sequence := n\<rparr>]\<rparr>))"

definition pg_append_event :: "security_event \<Rightarrow> ('z repo_db_scheme, unit) js" where
  "pg_append_event e = (\<lambda>s.
     if \<exists>r \<in> set (db_events s). ev_id r = ev_id e \<and> ev_at r = ev_at e then (Inl (PgError ''23505''), s)
     else (Inr (), s\<lparr>db_events := db_events s @ [e\<lparr>ev_sourceIp := None, ev_destinationIp := None\<rparr>]\<rparr>))"

definition pg_recent :: "int \<Rightarrow> 'z repo_db_scheme \<Rightarrow> security_event list" where
  "pg_recent limit s = take (nat (max 1 (min limit 500))) (sort_key (\<lambda>e. - ev_at e) (db_events s))"

definition pg_chain :: "'z repo_db_scheme \<Rightarrow> audit_record list" where
  "pg_chain s = sort_key ar_sequence (db_audit s)"

definition pg_last :: "'z repo_db_scheme \<Rightarrow> audit_record option" where
  "pg_last s = (case sort_key (\<lambda>r. - int (ar_sequence r)) (db_audit s) of [] \<Rightarrow> None | r # _ \<Rightarrow> Some r)"

section \<open>TransactionalOutbox and OutboxDispatcher\<close>

definition publish :: "(string \<Rightarrow> string) \<Rightarrow> millis \<Rightarrow> string \<Rightarrow> json \<Rightarrow> ('z repo_db_scheme, unit) js" where
  "publish sha256 now topic event = bindJ next_id (\<lambda>i. modifyJ (\<lambda>s.
     if i \<in> ob_id ` set (db_outbox s) then s
     else s\<lparr>db_outbox := db_outbox s @ [\<lparr>ob_id = i, ob_topic = topic,
        ob_key = sha256 (topic @ json_stringify event), ob_payload = event, ob_created = now,
        ob_published = None, ob_attempts = 0, ob_error = None\<rparr>]\<rparr>))"

text \<open>One dispatch attempt: \<open>send\<close> returns the error message when delivery fails.\<close>

definition dispatch_row :: "(string \<Rightarrow> json \<Rightarrow> string option) \<Rightarrow> millis \<Rightarrow> outbox_row \<Rightarrow> outbox_row" where
  "dispatch_row send now r = (case send (ob_topic r) (ob_payload r) of
     None \<Rightarrow> r\<lparr>ob_published := Some now, ob_attempts := Suc (ob_attempts r), ob_error := None\<rparr>
   | Some msg \<Rightarrow> r\<lparr>ob_attempts := Suc (ob_attempts r), ob_error := Some msg\<rparr>)"

definition outbox_flush ::
    "(string \<Rightarrow> json \<Rightarrow> string option) \<Rightarrow> nat \<Rightarrow> millis \<Rightarrow> ('z repo_db_scheme, nat) js" where
  "outbox_flush send limit now = (\<lambda>s.
     let picked = take limit (sort_key ob_created (filter (\<lambda>r. ob_published r = None) (db_outbox s)));
         ids = map ob_id picked
     in (Inr (length picked), s\<lparr>db_outbox :=
          map (\<lambda>r. if ob_id r \<in> set ids then dispatch_row send now r else r) (db_outbox s)\<rparr>))"

section \<open>MemoryStore\<close>

record memory_store =
  ms_devices :: "device list"
  ms_nodes :: "mesh_node list"
  ms_policies :: "network_policy list"
  ms_grants :: "jit_grant list"
  ms_events :: "security_event list"
  ms_audits :: "audit_record list"

definition ms_get :: "uuid \<Rightarrow> memory_store \<Rightarrow> entity option" where
  "ms_get i s = (case find_by dev_id i (ms_devices s) of Some d \<Rightarrow> Some (EDevice d)
     | None \<Rightarrow> (case find_by mn_id i (ms_nodes s) of Some n \<Rightarrow> Some (ENode n)
     | None \<Rightarrow> (case find_by np_id i (ms_policies s) of Some p \<Rightarrow> Some (EPolicy p)
     | None \<Rightarrow> map_option EGrant (find_by jg_id i (ms_grants s)))))"

definition ms_findByHardwareId :: "string \<Rightarrow> memory_store \<Rightarrow> device option" where
  "ms_findByHardwareId h s = find_by dev_hardwareId h (ms_devices s)"

definition ms_findByPublicKey :: "string \<Rightarrow> memory_store \<Rightarrow> mesh_node option" where
  "ms_findByPublicKey k s = find_by mn_wireGuardPublicKey k (ms_nodes s)"

fun ms_save :: "entity \<Rightarrow> (memory_store, unit) js" where
  "ms_save (EDevice d) = modifyJ (\<lambda>s. s\<lparr>ms_devices := map_set dev_id d (ms_devices s)\<rparr>)"
| "ms_save (ENode n) = modifyJ (\<lambda>s. s\<lparr>ms_nodes := map_set mn_id n (ms_nodes s)\<rparr>)"
| "ms_save (EPolicy p) = modifyJ (\<lambda>s. s\<lparr>ms_policies := map_set np_id p (ms_policies s)\<rparr>)"
| "ms_save (EGrant g) = modifyJ (\<lambda>s. s\<lparr>ms_grants := map_set jg_id g (ms_grants s)\<rparr>)"

definition ms_list :: "memory_store \<Rightarrow> mesh_node list" where
  "ms_list s = ms_nodes s"

definition ms_listAll :: "memory_store \<Rightarrow> device list" where
  "ms_listAll s = ms_devices s"

definition ms_listActive_grants :: "millis \<Rightarrow> memory_store \<Rightarrow> jit_grant list" where
  "ms_listActive_grants now s = filter (\<lambda>g. \<not> jg_terminated g \<and> now < jg_expiresAt g) (ms_grants s)"

definition ms_listActive_policies :: "memory_store \<Rightarrow> network_policy list" where
  "ms_listActive_policies s = filter np_active (ms_policies s)"

definition ms_append_audit :: "audit_record \<Rightarrow> (memory_store, unit) js" where
  "ms_append_audit r = modifyJ (\<lambda>s. s\<lparr>ms_audits := ms_audits s @ [r]\<rparr>)"

definition ms_append_event :: "security_event \<Rightarrow> (memory_store, unit) js" where
  "ms_append_event e = modifyJ (\<lambda>s. s\<lparr>ms_events := ms_events s @ [e]\<rparr>)"

definition ms_recent :: "nat \<Rightarrow> memory_store \<Rightarrow> security_event list" where
  "ms_recent limit s = rev (slice_last limit (ms_events s))"

definition ms_last :: "memory_store \<Rightarrow> audit_record option" where
  "ms_last s = (if ms_audits s = [] then None else Some (last (ms_audits s)))"

definition ms_chain :: "memory_store \<Rightarrow> audit_record list" where
  "ms_chain s = ms_audits s"

end
