(* ===== verification/Policy.thy ===== *)
theory Policy
  imports Store
begin

text \<open>
  Access decisions (\<open>src/application/policy.ts\<close>) and just-in-time grants
  (\<open>src/application/jit.ts\<close>).  The services are defined over the repository
  operations they call; the locale \<open>jit_repository\<close> states what they rely on and
  is interpreted on both repositories.
\<close>

section \<open>PolicyDecisionService\<close>

definition postureOk :: "device \<Rightarrow> bool" where
  "postureOk d \<longleftrightarrow> \<not> dev_revoked d \<and> \<not> dev_compromised d \<and> osCurrent (dev_posture d) \<and>
     diskEncrypted (dev_posture d) \<and> secureBoot (dev_posture d) \<and> firewallEnabled (dev_posture d) \<and>
     agentHealthy (dev_posture d) \<and> \<not> bannedProcessFound (dev_posture d)"

definition policy_matches :: "network_policy \<Rightarrow> mesh_node \<Rightarrow> resource_context \<Rightarrow> string list \<Rightarrow> bool" where
  "policy_matches p n r roles \<longleftrightarrow> mn_zone n \<in> set (np_sourceZones p) \<and> rc_zone r \<in> set (np_destinationZones p) \<and>
     (ANY \<in> set (np_protocols p) \<or> rc_protocol r \<in> set (np_protocols p)) \<and>
     (case rc_port r of None \<Rightarrow> True
      | Some port \<Rightarrow> port = 0 \<or> np_destinationPorts p = [] \<or> port \<in> set (np_destinationPorts p)) \<and>
     (\<forall>x \<in> set (np_requiredRoles p). x \<in> set roles)"

definition hasJit :: "jit_grant list \<Rightarrow> uuid \<Rightarrow> resource_context \<Rightarrow> millis \<Rightarrow> bool" where
  "hasJit active userId r now \<longleftrightarrow> (\<exists>g \<in> set active. jg_userId g = userId \<and> jg_targetZone g = rc_zone r \<and>
     jg_targetResource g = rc_resource r \<and> \<not> jg_terminated g \<and> now < jg_expiresAt g)"

text \<open>The \<open>for\<close> loop over the sorted policies: the first match decides.\<close>

fun decide_loop :: "bool \<Rightarrow> mesh_node \<Rightarrow> resource_context \<Rightarrow> string list \<Rightarrow> network_policy list \<Rightarrow>
    policy_action \<times> string \<times> uuid option" where
  "decide_loop jit node resource roles [] = (DENY, ''default deny'', None)"
| "decide_loop jit node resource roles (p # ps) =
     (if \<not> policy_matches p node resource roles then decide_loop jit node resource roles ps
      else if np_requiresJit p \<and> \<not> jit then (DENY, ''active JIT grant required'', Some (np_id p))
      else (np_action p, ''policy '' @ np_name p, Some (np_id p)))"

definition decide_action :: "network_policy list \<Rightarrow> (millis \<Rightarrow> jit_grant list) \<Rightarrow> millis \<Rightarrow> identity_context \<Rightarrow>
    device \<Rightarrow> mesh_node \<Rightarrow> resource_context \<Rightarrow> policy_action \<times> string \<times> uuid option" where
  "decide_action policies jit now identity device node resource =
     (if \<not> ic_mfa identity then (DENY, ''MFA required'', None)
      else if \<not> postureOk device \<or> \<not> mn_active node then (DENY, ''device is not trusted'', None)
      else decide_loop (hasJit (jit now) (ic_userId identity) resource now) node resource (ic_roles identity)
             (sort_key (\<lambda>p. - np_priority p) policies))"

definition decide :: "('s \<Rightarrow> network_policy list) \<Rightarrow> (millis \<Rightarrow> 's \<Rightarrow> jit_grant list) \<Rightarrow> ('s, uuid) js \<Rightarrow>
    (access_decision \<Rightarrow> string) \<Rightarrow> int \<Rightarrow> millis \<Rightarrow> identity_context \<Rightarrow> device \<Rightarrow> mesh_node \<Rightarrow> resource_context \<Rightarrow>
    ('s, access_decision \<times> string) js" where
  "decide listPolicies listGrants nextId sign refreshMs now identity device node resource =
     bindJ (getJ (\<lambda>s. decide_action (listPolicies s) (\<lambda>t. listGrants t s) now identity device node resource))
       (\<lambda>(action, reason, policyId). bindJ nextId (\<lambda>i.
          let decision = \<lparr>ad_allowed = (action = ALLOW), ad_action = action, ad_reason = reason,
                ad_policyId = truthy policyId, ad_decisionId = i, ad_expiresAt = now + refreshMs\<rparr>
          in retJ (decision, sign decision)))"

definition pg_decide :: "(access_decision \<Rightarrow> string) \<Rightarrow> int \<Rightarrow> millis \<Rightarrow> identity_context \<Rightarrow> device \<Rightarrow> mesh_node \<Rightarrow>
    resource_context \<Rightarrow> ('z repo_db_scheme, access_decision \<times> string) js" where
  "pg_decide = decide pg_listActive_policies pg_listActive_grants next_id"

lemma decide_loop_find:
  "decide_loop jit node resource roles ps =
     (case find (\<lambda>p. policy_matches p node resource roles) ps of
        None \<Rightarrow> (DENY, ''default deny'', None)
      | Some p \<Rightarrow> if np_requiresJit p \<and> \<not> jit then (DENY, ''active JIT grant required'', Some (np_id p))
                  else (np_action p, ''policy '' @ np_name p, Some (np_id p)))"
  by (induction ps) auto

text \<open>In a list sorted by a key that separates its elements, the first match is the least match.\<close>

lemma find_sorted_min:
  assumes "sorted (map f xs)" "inj_on f (set xs)"
  shows "find P xs = Some x \<longleftrightarrow> x \<in> set xs \<and> P x \<and> (\<forall>y \<in> set xs. P y \<longrightarrow> f x \<le> f y)"
  using assms
proof (induction xs)
  case (Cons a xs)
  show ?case
  proof (cases "P a")
    case True
    have "f a \<le> f y" if "y \<in> set xs" for y using Cons.prems(1) that by simp
    moreover have "x = a" if "f x = f a" "x \<in> set (a # xs)"
      using inj_onD [OF Cons.prems(2) that(1)] that(2) by simp
    ultimately show ?thesis using True by (auto intro: antisym)
  next
    case False
    thus ?thesis using Cons by (auto simp: inj_on_def)
  qed
qed simp

lemma sort_key_idem_weaker:
  assumes "sorted (map (\<lambda>x. (f x, g x)) xs)"
  shows "sort_key f xs = xs"
proof (rule sort_key_id_if_sorted)
  show "sorted (map f xs)" using assms
    by (induction xs) (fastforce simp: less_eq_prod_def)+
qed

lemma pg_policies_sorted: "sort_key (\<lambda>p. - np_priority p) (pg_listActive_policies s) = pg_listActive_policies s"
  unfolding pg_listActive_policies_def by (rule sort_key_idem_weaker [where g = np_id]) simp

text \<open>The applicable policies of a request, and the one that decides: highest priority, then smallest id.\<close>

definition governs :: "network_policy list \<Rightarrow> mesh_node \<Rightarrow> resource_context \<Rightarrow> string list \<Rightarrow> network_policy \<Rightarrow> bool" where
  "governs ps node resource roles p \<longleftrightarrow> p \<in> set ps \<and> np_active p \<and> policy_matches p node resource roles \<and>
     (\<forall>q \<in> set ps. np_active q \<and> policy_matches q node resource roles \<longrightarrow>
        np_priority q < np_priority p \<or> (np_priority q = np_priority p \<and> np_id p \<le> np_id q))"

lemma pg_find_governs:
  assumes "distinct (map np_id (db_policies s))"
  shows "find (\<lambda>p. policy_matches p node resource roles) (pg_listActive_policies s) = Some p \<longleftrightarrow>
    governs (db_policies s) node resource roles p"
proof -
  let ?k = "\<lambda>p. (- np_priority p, np_id p)"
  have "inj_on ?k (set (pg_listActive_policies s))"
    using assms by (auto simp: pg_listActive_policies_def distinct_map inj_on_def)
  moreover have "sorted (map ?k (pg_listActive_policies s))" by (simp add: pg_listActive_policies_def)
  ultimately show ?thesis
    by (subst find_sorted_min [where f = ?k])
       (auto simp: pg_listActive_policies_def governs_def less_eq_prod_def)
qed

definition open_grant :: "jit_grant list \<Rightarrow> uuid \<Rightarrow> resource_context \<Rightarrow> millis \<Rightarrow> bool" where
  "open_grant gs u r now \<longleftrightarrow> (\<exists>g \<in> set gs. jg_userId g = u \<and> jg_targetZone g = rc_zone r \<and>
     jg_targetResource g = rc_resource r \<and> \<not> jg_terminated g \<and> now < jg_expiresAt g)"

abbreviation pg_action :: "'z repo_db_scheme \<Rightarrow> millis \<Rightarrow> identity_context \<Rightarrow> device \<Rightarrow> mesh_node \<Rightarrow> resource_context \<Rightarrow>
    policy_action \<times> string \<times> uuid option" where
  "pg_action s \<equiv> decide_action (pg_listActive_policies s) (\<lambda>t. pg_listActive_grants t s)"

lemma pg_hasJit: "hasJit (pg_listActive_grants now s) u r now \<longleftrightarrow> open_grant (db_grants s) u r now"
  by (auto simp: hasJit_def pg_listActive_grants_def open_grant_def)

lemma pg_decide_action_allow:
  assumes "distinct (map np_id (db_policies s))"
  shows "fst (pg_action s now identity device node resource) = ALLOW \<longleftrightarrow>
    ic_mfa identity \<and> postureOk device \<and> mn_active node \<and>
    (\<exists>p. governs (db_policies s) node resource (ic_roles identity) p \<and> np_action p = ALLOW \<and>
       (np_requiresJit p \<longrightarrow> open_grant (db_grants s) (ic_userId identity) resource now))"
  unfolding decide_action_def pg_policies_sorted decide_loop_find pg_find_governs [OF assms, symmetric] pg_hasJit
  by (auto split: option.splits)

text \<open>
  C4.  A request is allowed exactly when multi-factor authentication was
  done, the device is trusted, the node is active, and the governing policy
  (the active matching policy of highest priority, smallest id among equals)
  says ALLOW and, if it requires just-in-time access, an unexpired grant for
  this user, zone and resource exists.  The decision expires after the
  configured refresh interval.
\<close>

theorem pg_decide_allowed_iff:
  assumes "distinct (map np_id (db_policies s))"
  shows "\<exists>d s'. pg_decide sign refreshMs now identity device node resource s = (Inr (d, sign d), s') \<and>
    ad_expiresAt d = now + refreshMs \<and>
    (ad_allowed d \<longleftrightarrow> ic_mfa identity \<and> postureOk device \<and> mn_active node \<and>
       (\<exists>p. governs (db_policies s) node resource (ic_roles identity) p \<and> np_action p = ALLOW \<and>
          (np_requiresJit p \<longrightarrow> open_grant (db_grants s) (ic_userId identity) resource now)))"
  unfolding pg_decide_def decide_def next_id_def
  using pg_decide_action_allow [OF assms, of now identity device node resource]
  by (simp add: bindJ_def Let_def split_def)

definition demo_policy :: network_policy where
  "demo_policy = \<lparr>np_id = ''p1'', np_name = ''admin'', np_sourceZones = [ZONE_ADMIN_MGMT],
     np_destinationZones = [ZONE_PROD_APP], np_protocols = [TCP], np_destinationPorts = [22], np_action = ALLOW,
     np_requiredRoles = [''sre''], np_requiresJit = True, np_priority = 10, np_version = 1, np_active = True\<rparr>"

definition demo_grant :: jit_grant where
  "demo_grant = \<lparr>jg_id = ''g1'', jg_userId = ''u1'', jg_targetResource = ''db'', jg_targetZone = ZONE_PROD_APP,
     jg_justification = ''incident 4711 triage'', jg_approvedBy = None, jg_grantedAt = 0, jg_expiresAt = 900000,
     jg_terminated = False, jg_terminationReason = None\<rparr>"

definition demo_db :: repo_db where
  "demo_db = \<lparr>db_devices = [], db_nodes = [], db_policies = [demo_policy], db_grants = [demo_grant], db_events = [],
     db_audit = [], db_audit_seq = 0, db_outbox = [], db_fresh = (\<lambda>n. replicate n (CHR ''x'')), db_drawn = 0\<rparr>"

definition demo_posture :: device_posture where
  "demo_posture = \<lparr>osCurrent = True, diskEncrypted = True, secureBoot = True, firewallEnabled = True,
     agentHealthy = True, bannedProcessFound = False, assessedAt = 0\<rparr>"

definition demo_device :: device where
  "demo_device = \<lparr>dev_id = ''d1'', dev_hostname = ''host'', dev_hardwareId = ''hw'', dev_platform = Linux,
     dev_osVersion = ''6.1'', dev_publicAttestationKey = None, dev_compromised = False, dev_revoked = False,
     dev_posture = demo_posture, dev_createdAt = 0, dev_updatedAt = 0, dev_lastPostureAt = None,
     dev_agentVersion = None, dev_quarantineReason = None\<rparr>"

definition demo_node :: mesh_node where
  "demo_node = \<lparr>mn_id = ''n1'', mn_deviceId = ''d1'', mn_wireGuardPublicKey = ''k1'',
     mn_internalIpv4 = ''10.144.0.10'', mn_internalIpv6 = ''fd14:4b41:5043::a'', mn_listenPort = 51820,
     mn_nodeType = CLIENT, mn_zone = ZONE_ADMIN_MGMT, mn_region = None, mn_active = True, mn_lastHandshake = None\<rparr>"

definition demo_identity :: identity_context where
  "demo_identity = \<lparr>ic_userId = ''u1'', ic_roles = [''sre''], ic_attributes = [], ic_mfa = True,
     ic_sourceIp = ''10.0.0.1''\<rparr>"

definition demo_resource :: resource_context where
  "demo_resource = \<lparr>rc_resource = ''db'', rc_zone = ZONE_PROD_APP, rc_protocol = TCP, rc_port = Some 22\<rparr>"

lemmas demo_defs = demo_policy_def demo_grant_def demo_db_def demo_posture_def demo_device_def demo_node_def
  demo_identity_def demo_resource_def

lemma demo_governs: "governs (db_policies demo_db) demo_node demo_resource (ic_roles demo_identity) demo_policy"
  by (simp add: demo_defs governs_def policy_matches_def)

theorem pg_decide_allowed_iff_witness:
  "distinct (map np_id (db_policies demo_db)) \<and>
   (\<exists>d s'. pg_decide (\<lambda>_. ''sig'') 30000 5000 demo_identity demo_device demo_node demo_resource demo_db =
      (Inr (d, ''sig''), s') \<and> ad_allowed d)"
  using pg_decide_allowed_iff [of demo_db "\<lambda>_. ''sig''" 30000 5000 demo_identity demo_device demo_node demo_resource]
    demo_governs
  by (fastforce simp: demo_policy_def demo_grant_def demo_db_def demo_posture_def demo_device_def demo_node_def
      demo_identity_def demo_resource_def postureOk_def open_grant_def)

text \<open>
  Default deny: when no active policy matches, the decision of a trusted,
  authenticated request is DENY with reason ``default deny'' and no policy.
\<close>

theorem decide_default_deny:
  assumes "\<forall>p \<in> set (listPolicies s). \<not> policy_matches p node resource (ic_roles identity)"
    and "ic_mfa identity" "postureOk device" "mn_active node" and "nextId s = (Inr i, s')"
  shows "decide listPolicies listGrants nextId sign refreshMs now identity device node resource s =
    (Inr (\<lparr>ad_allowed = False, ad_action = DENY, ad_reason = ''default deny'', ad_policyId = None,
        ad_decisionId = i, ad_expiresAt = now + refreshMs\<rparr>,
      sign \<lparr>ad_allowed = False, ad_action = DENY, ad_reason = ''default deny'', ad_policyId = None,
        ad_decisionId = i, ad_expiresAt = now + refreshMs\<rparr>), s')"
proof -
  have "find (\<lambda>p. policy_matches p node resource (ic_roles identity))
      (sort_key (\<lambda>p. - np_priority p) (listPolicies s)) = None"
    using assms(1) by (simp add: find_None_iff)
  thus ?thesis using assms(2-5)
    by (simp add: decide_def decide_action_def decide_loop_find bindJ_def Let_def truthy_def)
qed

theorem decide_default_deny_witness:
  "\<exists>d. fst (decide (\<lambda>_. [demo_policy\<lparr>np_sourceZones := [ZONE_DEV]\<rparr>]) pg_listActive_grants next_id (\<lambda>_. ''sig'')
      30000 5000 demo_identity demo_device demo_node demo_resource demo_db) = Inr (d, ''sig'') \<and>
    ad_reason d = ''default deny''"
  using decide_default_deny [of "\<lambda>_. [demo_policy\<lparr>np_sourceZones := [ZONE_DEV]\<rparr>]" demo_db demo_node demo_resource
      demo_identity demo_device next_id "[]" "demo_db\<lparr>db_drawn := 1\<rparr>" pg_listActive_grants "\<lambda>_. ''sig''" 30000 5000]
  by (simp add: demo_defs policy_matches_def postureOk_def next_id_def)

section \<open>JitService\<close>

fun entity_id :: "entity \<Rightarrow> uuid" where
  "entity_id (EDevice d) = dev_id d"
| "entity_id (ENode n) = mn_id n"
| "entity_id (EPolicy p) = np_id p"
| "entity_id (EGrant g) = jg_id g"

text \<open>The object spread \<open>{...g, approvedBy}\<close> on what \<open>repo.get\<close> returned: the extra
  field matters only when that is a grant.\<close>

fun spread_approved :: "uuid \<Rightarrow> entity \<Rightarrow> entity" where
  "spread_approved a (EGrant g) = EGrant (g\<lparr>jg_approvedBy := Some a\<rparr>)"
| "spread_approved a e = e"

fun spread_terminated :: "string \<Rightarrow> entity \<Rightarrow> entity" where
  "spread_terminated r (EGrant g) = EGrant (g\<lparr>jg_terminated := True, jg_terminationReason := Some r\<rparr>)"
| "spread_terminated r e = e"

fun entity_json :: "entity \<Rightarrow> json" where
  "entity_json (EDevice d) = device_json d"
| "entity_json (ENode n) = node_json n"
| "entity_json (EPolicy p) = policy_json p"
| "entity_json (EGrant g) = grant_json g"

definition json_set :: "string \<Rightarrow> json \<Rightarrow> json \<Rightarrow> json" where
  "json_set k v j = (case j of JObj kvs \<Rightarrow> JObj (kvs @ [(k, v)]) | _ \<Rightarrow> j)"

fun approved_json :: "uuid \<Rightarrow> entity \<Rightarrow> json" where
  "approved_json a (EGrant g) = grant_json (g\<lparr>jg_approvedBy := Some a\<rparr>)"
| "approved_json a e = json_set ''approvedBy'' (JStr a) (entity_json e)"

fun terminated_json :: "string \<Rightarrow> entity \<Rightarrow> json" where
  "terminated_json r (EGrant g) = grant_json (g\<lparr>jg_terminated := True, jg_terminationReason := Some r\<rparr>)"
| "terminated_json r e = json_set ''terminationReason'' (JStr r) (json_set ''terminated'' (JBool True) (entity_json e))"

definition jit_request :: "(entity \<Rightarrow> ('s, unit) js) \<Rightarrow> (string \<Rightarrow> json \<Rightarrow> ('s, unit) js) \<Rightarrow> ('s, uuid) js \<Rightarrow> millis \<Rightarrow>
    uuid \<Rightarrow> string \<Rightarrow> security_zone \<Rightarrow> int \<Rightarrow> string \<Rightarrow> ('s, jit_grant) js" where
  "jit_request save pub nextId now userId targetResource targetZone durationMinutes justification =
     (if length (js_trim justification) < 12 then throwJ (ValidationError ''a meaningful justification is required'')
      else bindJ nextId (\<lambda>i.
        let grant = \<lparr>jg_id = i, jg_userId = userId, jg_targetResource = targetResource, jg_targetZone = targetZone,
              jg_justification = justification, jg_approvedBy = None, jg_grantedAt = now,
              jg_expiresAt = now + durationMinutes * 60000, jg_terminated = False, jg_terminationReason = None\<rparr>
        in bindJ (save (EGrant grant)) (\<lambda>_. bindJ (pub ''security.jit.requested'' (grant_json grant)) (\<lambda>_. retJ grant))))"

definition jit_approve :: "(uuid \<Rightarrow> 's \<Rightarrow> entity option) \<Rightarrow> (entity \<Rightarrow> ('s, unit) js) \<Rightarrow>
    (string \<Rightarrow> json \<Rightarrow> ('s, unit) js) \<Rightarrow> uuid \<Rightarrow> uuid \<Rightarrow> string list \<Rightarrow> ('s, entity) js" where
  "jit_approve get save pub grantId approverId approverRoles =
     (if ''security-approver'' \<notin> set approverRoles then throwJ (AuthorizationError ''security approver role required'')
      else bindJ (getJ (get grantId)) (\<lambda>g. case g of
          None \<Rightarrow> throwJ (NotFoundError ''JIT grant'')
        | Some e \<Rightarrow> bindJ (save (spread_approved approverId e)) (\<lambda>_.
            bindJ (pub ''security.jit.approved'' (approved_json approverId e)) (\<lambda>_.
              retJ (spread_approved approverId e)))))"

definition jit_terminate :: "(uuid \<Rightarrow> 's \<Rightarrow> entity option) \<Rightarrow> (entity \<Rightarrow> ('s, unit) js) \<Rightarrow>
    (string \<Rightarrow> json \<Rightarrow> ('s, unit) js) \<Rightarrow> uuid \<Rightarrow> string \<Rightarrow> ('s, entity) js" where
  "jit_terminate get save pub grantId reason = bindJ (getJ (get grantId)) (\<lambda>g. case g of
          None \<Rightarrow> throwJ (NotFoundError ''JIT grant'')
        | Some e \<Rightarrow> bindJ (save (spread_terminated reason e)) (\<lambda>_.
            bindJ (pub ''security.jit.terminated'' (terminated_json reason e)) (\<lambda>_.
              retJ (spread_terminated reason e))))"

section \<open>What the service needs of a grant repository\<close>

definition active_grants :: "millis \<Rightarrow> jit_grant list \<Rightarrow> jit_grant set" where
  "active_grants now gs = {g \<in> set gs. \<not> jg_terminated g \<and> now < jg_expiresAt g}"

lemma ex_field_update:
  assumes "\<And>x. P (f x) \<longleftrightarrow> P x"
  shows "(\<exists>x. ((\<exists>y. y \<in> A \<and> k y = i \<and> x = f y) \<or> x \<in> A \<and> k x \<noteq> i) \<and> P x) \<longleftrightarrow> (\<exists>x. x \<in> A \<and> P x)"
  using assms by metis

locale jit_repository =
  fixes grants :: "'s \<Rightarrow> jit_grant list"
    and get :: "uuid \<Rightarrow> 's \<Rightarrow> entity option"
    and save :: "entity \<Rightarrow> ('s, unit) js"
    and listActive :: "millis \<Rightarrow> 's \<Rightarrow> jit_grant list"
    and pub :: "string \<Rightarrow> json \<Rightarrow> ('s, unit) js"
  assumes list_law: "set (listActive now s) = active_grants now (grants s)"
    and get_law: "get i s = Some (EGrant g) \<Longrightarrow> g \<in> set (grants s) \<and> jg_id g = i"
    and save_new: "jg_id g \<notin> jg_id ` set (grants s) \<Longrightarrow>
      \<exists>s'. save (EGrant g) s = (Inr (), s') \<and> grants s' = grants s @ [g]"
    and save_old: "distinct (map jg_id (grants s)) \<Longrightarrow> h \<in> set (grants s) \<Longrightarrow>
      \<exists>s'. save (EGrant (h\<lparr>jg_approvedBy := a, jg_terminated := t, jg_terminationReason := r\<rparr>)) s = (Inr (), s') \<and>
        grants s' = map (\<lambda>g. if jg_id g = jg_id h
          then g\<lparr>jg_approvedBy := a, jg_terminated := t, jg_terminationReason := r\<rparr> else g) (grants s)"
    and pub_law: "\<exists>s'. pub topic j s = (Inr (), s') \<and> grants s' = grants s"
begin

lemma hasJit_grants: "hasJit (listActive now s) u r now \<longleftrightarrow>
    (\<exists>g \<in> active_grants now (grants s). jg_userId g = u \<and> jg_targetZone g = rc_zone r \<and> jg_targetResource g = rc_resource r)"
  unfolding hasJit_def list_law by (auto simp: active_grants_def)

lemma request_opens:
  assumes "12 \<le> length (js_trim j)" and "nextId s = (Inr i, s1)" "grants s1 = grants s" "i \<notin> jg_id ` set (grants s)"
  shows "\<exists>g s'. jit_request save pub nextId now u (rc_resource r) (rc_zone r) d j s = (Inr g, s') \<and>
    jg_approvedBy g = None \<and> grants s' = grants s @ [g] \<and>
    (\<forall>now'. now' < now + d * 60000 \<longrightarrow> hasJit (listActive now' s') u r now')"
proof -
  define g where "g = \<lparr>jg_id = i, jg_userId = u, jg_targetResource = rc_resource r, jg_targetZone = rc_zone r,
    jg_justification = j, jg_approvedBy = None, jg_grantedAt = now, jg_expiresAt = now + d * 60000,
    jg_terminated = False, jg_terminationReason = None\<rparr>"
  have "jg_id g \<notin> jg_id ` set (grants s1)" using assms(3,4) by (simp add: g_def)
  then obtain s2 where s2: "save (EGrant g) s1 = (Inr (), s2)" "grants s2 = grants s @ [g]"
    using save_new assms(3) by metis
  obtain s3 where s3: "pub ''security.jit.requested'' (grant_json g) s2 = (Inr (), s3)" "grants s3 = grants s @ [g]"
    using pub_law s2(2) by metis
  have "jit_request save pub nextId now u (rc_resource r) (rc_zone r) d j s = (Inr g, s3)"
    using assms(1) by (simp add: jit_request_def Let_def bindJ_Inr [of nextId, OF assms(2)]
        bindJ_Inr [of "save (EGrant g)", OF s2(1)] bindJ_Inr [of "pub _ (grant_json g)", OF s3(1)] g_def [symmetric])
  moreover have "hasJit (listActive now' s3) u r now'" if "now' < now + d * 60000" for now'
    unfolding hasJit_grants
    by (rule bexI [of _ g]) (use that s3(2) in \<open>simp_all add: active_grants_def g_def\<close>)
  moreover have "jg_approvedBy g = None" by (simp add: g_def)
  ultimately show ?thesis using s3(2) by blast
qed

lemma update_old:
  assumes d: "distinct (map jg_id (grants s))" and g: "get i s = Some (EGrant h)"
    and e: "e = EGrant (h\<lparr>jg_approvedBy := a, jg_terminated := t, jg_terminationReason := r\<rparr>)"
  shows "\<exists>s'. bindJ (save e) (\<lambda>_. bindJ (pub topic j) (\<lambda>_. retJ e)) s = (Inr e, s') \<and>
    grants s' = map (\<lambda>g. if jg_id g = i then g\<lparr>jg_approvedBy := a, jg_terminated := t, jg_terminationReason := r\<rparr> else g) (grants s)"
proof -
  have h: "h \<in> set (grants s)" "jg_id h = i" using get_law [OF g] by auto
  obtain s1 where s1: "save e s = (Inr (), s1)"
    "grants s1 = map (\<lambda>g. if jg_id g = i then g\<lparr>jg_approvedBy := a, jg_terminated := t, jg_terminationReason := r\<rparr> else g) (grants s)"
    using save_old [OF d h(1), where a = a and t = t and r = r] e h(2) by auto
  obtain s2 where "pub topic j s1 = (Inr (), s2)" "grants s2 = grants s1" using pub_law [of topic j s1] by auto
  with s1 show ?thesis by (auto simp: bindJ_def)
qed

lemma approve_effect:
  assumes "distinct (map jg_id (grants s))" "get i s = Some (EGrant h)" "''security-approver'' \<in> set roles"
  shows "\<exists>s'. jit_approve get save pub i approver roles s = (Inr (EGrant (h\<lparr>jg_approvedBy := Some approver\<rparr>)), s') \<and>
    grants s' = map (\<lambda>g. if jg_id g = i then g\<lparr>jg_approvedBy := Some approver, jg_terminated := jg_terminated h,
      jg_terminationReason := jg_terminationReason h\<rparr> else g) (grants s)"
  using update_old [OF assms(1,2), where e = "EGrant (h\<lparr>jg_approvedBy := Some approver\<rparr>)"
      and a = "Some approver" and t = "jg_terminated h" and r = "jg_terminationReason h"
      and topic = "''security.jit.approved''" and j = "approved_json approver (EGrant h)"] assms
  by (simp add: jit_approve_def)

lemma grant_by_id: "distinct (map jg_id (grants s)) \<Longrightarrow> get i s = Some (EGrant h) \<Longrightarrow> g \<in> set (grants s) \<Longrightarrow> jg_id g = i \<Longrightarrow> g = h"
  using get_law [of i s h] by (simp add: distinct_map inj_on_def)

lemma approve_no_effect_on_access:
  assumes "distinct (map jg_id (grants s))" "get i s = Some (EGrant h)" "''security-approver'' \<in> set roles"
  shows "\<exists>e s'. jit_approve get save pub i approver roles s = (Inr e, s') \<and>
    (\<forall>now u r. hasJit (listActive now s') u r now \<longleftrightarrow> hasJit (listActive now s) u r now)"
proof -
  obtain s' where s': "jit_approve get save pub i approver roles s = (Inr (EGrant (h\<lparr>jg_approvedBy := Some approver\<rparr>)), s')"
    "grants s' = map (\<lambda>g. if jg_id g = i then g\<lparr>jg_approvedBy := Some approver, jg_terminated := jg_terminated h,
      jg_terminationReason := jg_terminationReason h\<rparr> else g) (grants s)"
    using approve_effect [OF assms] by blast
  have "grants s' = map (\<lambda>g. if jg_id g = i then g\<lparr>jg_approvedBy := Some approver\<rparr> else g) (grants s)"
    unfolding s'(2) by (rule map_cong [OF refl]) (use grant_by_id [OF assms(1,2)] in force)
  hence "hasJit (listActive now s') u r now \<longleftrightarrow> hasJit (listActive now s) u r now" for now u r
    unfolding hasJit_grants active_grants_def by (simp add: Bex_def image_iff) (rule ex_field_update, auto)
  with s'(1) show ?thesis by blast
qed

lemma terminate_closes:
  assumes "distinct (map jg_id (grants s))" "get i s = Some (EGrant h)"
  shows "\<exists>e s'. jit_terminate get save pub i reason s = (Inr e, s') \<and>
    (\<forall>now. set (listActive now s') = {g \<in> set (listActive now s). jg_id g \<noteq> i})"
proof -
  obtain s' where s': "jit_terminate get save pub i reason s = (Inr (EGrant (h\<lparr>jg_terminated := True, jg_terminationReason := Some reason\<rparr>)), s')"
    "grants s' = map (\<lambda>g. if jg_id g = i then g\<lparr>jg_approvedBy := jg_approvedBy h, jg_terminated := True,
      jg_terminationReason := Some reason\<rparr> else g) (grants s)"
    using update_old [OF assms, where e = "EGrant (h\<lparr>jg_terminated := True, jg_terminationReason := Some reason\<rparr>)"
      and a = "jg_approvedBy h" and t = True and r = "Some reason" and topic = "''security.jit.terminated''"
      and j = "terminated_json reason (EGrant h)"] assms(2)
    by (auto simp: jit_terminate_def)
  have "set (listActive now s') = {g \<in> set (listActive now s). jg_id g \<noteq> i}" for now
    unfolding list_law s'(2) by (auto simp: active_grants_def image_iff)
  with s'(1) show ?thesis by blast
qed

end

lemma publish_grants: "\<exists>s'. publish sha256 now topic j s = (Inr (), s') \<and> db_grants s' = db_grants s \<and>
    db_policies s' = db_policies s"
  by (simp add: publish_def next_id_def bindJ_def)

lemma grant_update_id [simp]:
  "jg_id (h\<lparr>jg_approvedBy := a, jg_terminated := t, jg_terminationReason := r\<rparr>) = jg_id h"
  by simp

interpretation pg_jit: jit_repository db_grants pg_get "pg_save now" pg_listActive_grants "publish sha256 now"
  for now :: millis and sha256 :: "string \<Rightarrow> string"
proof unfold_locales
  show "set (pg_listActive_grants t s) = active_grants t (db_grants s)" for t and s :: "'z repo_db_scheme"
    by (auto simp: pg_listActive_grants_def active_grants_def)
  show "g \<in> set (db_grants s) \<and> jg_id g = i" if "pg_get i s = Some (EGrant g)" for i g and s :: "'z repo_db_scheme"
    using that by (auto simp: pg_get_def split: option.splits dest: find_by_Some)
  show "\<exists>s'. pg_save now (EGrant g) s = (Inr (), s') \<and> db_grants s' = db_grants s @ [g]"
    if "jg_id g \<notin> jg_id ` set (db_grants s)" for g and s :: "'z repo_db_scheme"
    using that by (simp add: saveGrant_def upsert_fresh)
  show "\<exists>s'. pg_save now (EGrant (h\<lparr>jg_approvedBy := a, jg_terminated := t, jg_terminationReason := r\<rparr>)) s = (Inr (), s') \<and>
      db_grants s' = map (\<lambda>g. if jg_id g = jg_id h
        then g\<lparr>jg_approvedBy := a, jg_terminated := t, jg_terminationReason := r\<rparr> else g) (db_grants s)"
    if "h \<in> set (db_grants s)" for h a t r and s :: "'z repo_db_scheme"
    using that by (simp add: saveGrant_def upsert_def upd_grant_def)
  show "\<exists>s'. publish sha256 now topic j s = (Inr (), s') \<and> db_grants s' = db_grants s" for topic j and s :: "'z repo_db_scheme"
    using publish_grants [of sha256 now topic j s] by blast
qed

interpretation ms_jit: jit_repository ms_grants ms_get ms_save ms_listActive_grants "\<lambda>_ _. retJ ()"
proof unfold_locales
  show "set (ms_listActive_grants t s) = active_grants t (ms_grants s)" for t s
    by (auto simp: ms_listActive_grants_def active_grants_def)
  show "g \<in> set (ms_grants s) \<and> jg_id g = i" if "ms_get i s = Some (EGrant g)" for i g s
    using that by (auto simp: ms_get_def split: option.splits dest: find_by_Some)
  show "\<exists>s'. ms_save (EGrant g) s = (Inr (), s') \<and> ms_grants s' = ms_grants s @ [g]"
    if "jg_id g \<notin> jg_id ` set (ms_grants s)" for g s
    using that by (simp add: upsert_fresh)
  show "\<exists>s'. ms_save (EGrant (h\<lparr>jg_approvedBy := a, jg_terminated := t, jg_terminationReason := r\<rparr>)) s = (Inr (), s') \<and>
      ms_grants s' = map (\<lambda>g. if jg_id g = jg_id h
        then g\<lparr>jg_approvedBy := a, jg_terminated := t, jg_terminationReason := r\<rparr> else g) (ms_grants s)"
    if d: "distinct (map jg_id (ms_grants s))" and h: "h \<in> set (ms_grants s)" for h a t r s
  proof -
    have "g = h" if "g \<in> set (ms_grants s)" "jg_id g = jg_id h" for g
      using that d h by (simp add: distinct_map inj_on_def)
    thus ?thesis using h by (auto simp: upsert_def)
  qed
qed simp

section \<open>Just-in-time access end to end\<close>

abbreviation pg_jit_request :: "(string \<Rightarrow> string) \<Rightarrow> millis \<Rightarrow> uuid \<Rightarrow> string \<Rightarrow> security_zone \<Rightarrow> int \<Rightarrow> string \<Rightarrow>
    ('z repo_db_scheme, jit_grant) js" where
  "pg_jit_request sha256 now \<equiv> jit_request (pg_save now) (publish sha256 now) next_id now"

abbreviation pg_jit_approve :: "(string \<Rightarrow> string) \<Rightarrow> millis \<Rightarrow> uuid \<Rightarrow> uuid \<Rightarrow> string list \<Rightarrow> ('z repo_db_scheme, entity) js" where
  "pg_jit_approve sha256 now \<equiv> jit_approve pg_get (pg_save now) (publish sha256 now)"

abbreviation pg_jit_terminate :: "(string \<Rightarrow> string) \<Rightarrow> millis \<Rightarrow> uuid \<Rightarrow> string \<Rightarrow> ('z repo_db_scheme, entity) js" where
  "pg_jit_terminate sha256 now \<equiv> jit_terminate pg_get (pg_save now) (publish sha256 now)"

lemma pg_jit_policies:
  "db_policies (snd (pg_jit_request sha256 now u r z d j s)) = db_policies s"
  "pg_get i s = Some (EGrant g) \<Longrightarrow> db_policies (snd (pg_jit_approve sha256 now i a roles s)) = db_policies s"
  by (simp_all add: jit_request_def jit_approve_def bindJ_def next_id_def saveGrant_def publish_def Let_def)

text \<open>
  C33.  A just-in-time request alone opens the access it asks for: the new
  grant has no approver, and from the moment of the request until it expires
  every request of that user that the governing ALLOW policy ties to a grant is
  allowed.  No approval takes part in the decision.
\<close>

theorem jit_request_opens_unapproved:
  assumes "distinct (map np_id (db_policies s))"
    and "governs (db_policies s) node resource (ic_roles identity) p" "np_action p = ALLOW" "np_requiresJit p"
    and "ic_mfa identity" "postureOk device" "mn_active node"
    and "12 \<le> length (js_trim justification)" "db_fresh s (db_drawn s) \<notin> jg_id ` set (db_grants s)"
  shows "\<exists>g s'. pg_jit_request sha256 now (ic_userId identity) (rc_resource resource) (rc_zone resource)
      minutes justification s = (Inr g, s') \<and> jg_approvedBy g = None \<and>
    (\<forall>t. t < now + minutes * 60000 \<longrightarrow> (\<exists>d s''. pg_decide sign refreshMs t identity device node resource s' =
        (Inr (d, sign d), s'') \<and> ad_allowed d))"
proof -
  obtain g s' where g: "pg_jit_request sha256 now (ic_userId identity) (rc_resource resource) (rc_zone resource)
      minutes justification s = (Inr g, s')" "jg_approvedBy g = None"
    "\<And>t. t < now + minutes * 60000 \<Longrightarrow> hasJit (pg_listActive_grants t s') (ic_userId identity) resource t"
    using pg_jit.request_opens [of justification next_id s "db_fresh s (db_drawn s)" "s\<lparr>db_drawn := Suc (db_drawn s)\<rparr>"
        now sha256 now "ic_userId identity" resource minutes] assms(8,9)
    by (auto simp: next_id_def)
  have p: "db_policies s' = db_policies s"
    by (metis g(1) pg_jit_policies(1) snd_conv)
  have "fst (pg_action s' t identity device node resource) = ALLOW" if "t < now + minutes * 60000" for t
    using pg_decide_action_allow [of s'] p assms g(3) [OF that] by (auto simp: pg_hasJit)
  hence "\<exists>d s''. pg_decide sign refreshMs t identity device node resource s' = (Inr (d, sign d), s'') \<and> ad_allowed d"
    if "t < now + minutes * 60000" for t
    using that by (simp add: pg_decide_def decide_def next_id_def bindJ_def Let_def split_def)
  with g show ?thesis by blast
qed

definition demo_open_db :: repo_db where
  "demo_open_db = demo_db\<lparr>db_grants := []\<rparr>"

lemma demo_facts:
  "governs (db_policies demo_open_db) demo_node demo_resource (ic_roles demo_identity) demo_policy"
  "distinct (map np_id (db_policies demo_open_db))" "np_action demo_policy = ALLOW" "np_requiresJit demo_policy"
  "ic_mfa demo_identity" "postureOk demo_device" "mn_active demo_node"
  "db_fresh demo_open_db (db_drawn demo_open_db) \<notin> jg_id ` set (db_grants demo_open_db)"
  using demo_governs by (simp_all add: demo_defs demo_open_db_def postureOk_def)

lemma demo_justification: "12 \<le> length (js_trim ''incident 4711 triage'')"
  by (simp add: js_trim_def js_ws_def)

theorem jit_request_opens_unapproved_witness:
  "\<exists>g s'. pg_jit_request (\<lambda>x. x) 1000 (ic_userId demo_identity) (rc_resource demo_resource) (rc_zone demo_resource) 15
      ''incident 4711 triage'' demo_open_db = (Inr g, s') \<and> jg_approvedBy g = None \<and>
    (\<exists>d s''. pg_decide (\<lambda>_. ''sig'') 30000 2000 demo_identity demo_device demo_node demo_resource s' =
      (Inr (d, ''sig''), s'') \<and> ad_allowed d)"
proof -
  have t: "(2000 :: int) < 1000 + 15 * 60000" by simp
  show ?thesis
    using jit_request_opens_unapproved [OF demo_facts(2,1,3-7) demo_justification demo_facts(8),
        of 1000 "\<lambda>x. x" 15 "\<lambda>_. ''sig''" 30000] t by blast
qed

text \<open>
  C34.  Approving a grant succeeds for a security approver and changes no
  access decision: for every request and every time the outcome (action,
  reason, policy) is the same before and after.
\<close>

theorem jit_approve_changes_no_decision:
  assumes "distinct (map jg_id (db_grants s))" "pg_get i s = Some (EGrant g)" "''security-approver'' \<in> set roles"
  shows "\<exists>e s'. pg_jit_approve sha256 now i approver roles s = (Inr e, s') \<and>
    (\<forall>t identity device node resource. pg_action s' t identity device node resource = pg_action s t identity device node resource)"
proof -
  obtain e s' where e: "pg_jit_approve sha256 now i approver roles s = (Inr e, s')"
    "\<And>t u r. hasJit (pg_listActive_grants t s') u r t \<longleftrightarrow> hasJit (pg_listActive_grants t s) u r t"
    using pg_jit.approve_no_effect_on_access [OF assms] by blast
  moreover have "pg_listActive_policies s' = pg_listActive_policies s"
    unfolding pg_listActive_policies_def by (metis e(1) pg_jit_policies(2) [OF assms(2)] snd_conv)
  ultimately show ?thesis by (auto simp: decide_action_def)
qed

lemma demo_get: "pg_get ''g1'' demo_db = Some (EGrant demo_grant)"
  by (simp add: demo_defs pg_get_def find_by_def)

lemma demo_distinct: "distinct (map jg_id (db_grants demo_db))"
  by (simp add: demo_db_def)

theorem jit_approve_changes_no_decision_witness:
  "\<exists>e s'. pg_jit_approve (\<lambda>x. x) 1000 ''g1'' ''boss'' [''security-approver''] demo_db = (Inr e, s') \<and>
    pg_action s' 5000 demo_identity demo_device demo_node demo_resource =
    pg_action demo_db 5000 demo_identity demo_device demo_node demo_resource"
  using jit_approve_changes_no_decision [OF demo_distinct demo_get, of "[''security-approver'']"] by simp blast

text \<open>
  C32.  Terminating a grant closes exactly that grant, at once and for good: the
  grants listed as active at any time are those active before without it.
\<close>

theorem jit_terminate_closes:
  assumes "distinct (map jg_id (db_grants s))" "pg_get i s = Some (EGrant g)"
  shows "\<exists>e s'. pg_jit_terminate sha256 now i reason s = (Inr e, s') \<and>
    (\<forall>t. set (pg_listActive_grants t s') = {h \<in> set (pg_listActive_grants t s). jg_id h \<noteq> i})"
  by (rule pg_jit.terminate_closes [OF assms])

theorem jit_terminate_closes_witness:
  "\<exists>e s'. pg_jit_terminate (\<lambda>x. x) 1000 ''g1'' ''done'' demo_db = (Inr e, s') \<and> pg_listActive_grants 5 s' = []"
proof -
  have one: "pg_listActive_grants 5 demo_db = [demo_grant]" and i: "jg_id demo_grant = ''g1''"
    by (simp_all add: demo_defs pg_listActive_grants_def)
  obtain e s' where r: "pg_jit_terminate (\<lambda>x. x) 1000 ''g1'' ''done'' demo_db = (Inr e, s')"
    and l: "\<forall>t. set (pg_listActive_grants t s') = {h \<in> set (pg_listActive_grants t demo_db). jg_id h \<noteq> ''g1''}"
    using jit_terminate_closes [OF demo_distinct demo_get, of 1000 "\<lambda>x. x" "''done''"] by (elim exE conjE)
  have "set (pg_listActive_grants 5 s') = {}" using l [rule_format, of 5] one i by simp
  hence "pg_listActive_grants 5 s' = []" by (simp only: set_empty)
  with r show ?thesis by (intro exI conjI)
qed

end
