(* ===== verification/AuditChain.thy ===== *)
theory AuditChain
  imports Store
begin

text \<open>
  The audit chain (\<open>src/application/audit.ts\<close>).  The hash function is the
  parameter \<open>sha\<close> (SHA-256 in hexadecimal).  Instead of assuming it has no
  collisions, tamper evidence is stated as: equal chains, or an explicit
  collision among the texts the two chains hash.
\<close>

section \<open>AuditService\<close>

definition audit_json :: "nat \<Rightarrow> millis \<Rightarrow> string \<Rightarrow> string \<Rightarrow> string \<Rightarrow> json \<Rightarrow> string \<Rightarrow> json" where
  "audit_json sequence when actor action subject payload previousHash =
     JObj [(''sequence'', JNum (int sequence)), (''at'', JStr (to_iso_string when)), (''actor'', JStr actor),
       (''action'', JStr action), (''subject'', JStr subject), (''payload'', payload),
       (''previousHash'', JStr previousHash)]"

definition audit_text :: "audit_record \<Rightarrow> string" where
  "audit_text r = canonicalJson (audit_json (ar_sequence r) (ar_at r) (ar_actor r) (ar_action r) (ar_subject r)
     (ar_payload r) (ar_previousHash r))"

text \<open>Everything \<open>record\<close> does before the row is appended: read the last record and build the next one.\<close>

definition audit_prepare :: "('s \<Rightarrow> audit_record option) \<Rightarrow> (string \<Rightarrow> string) \<Rightarrow> millis \<Rightarrow> string \<Rightarrow> string \<Rightarrow> string \<Rightarrow>
    json \<Rightarrow> 's \<Rightarrow> audit_record" where
  "audit_prepare lastRow sha now actor action subject payload s =
     (let l = lastRow s;
          previousHash = (case l of None \<Rightarrow> ''GENESIS'' | Some r \<Rightarrow> ar_hash r);
          sequence = (case l of None \<Rightarrow> 0 | Some r \<Rightarrow> ar_sequence r) + 1;
          digest = sha (canonicalJson (audit_json sequence now actor action subject payload previousHash))
      in \<lparr>ar_sequence = sequence, ar_at = now, ar_actor = actor, ar_action = action, ar_subject = subject,
          ar_payload = payload, ar_previousHash = previousHash, ar_hash = digest\<rparr>)"

definition audit_write :: "('s \<Rightarrow> audit_record option) \<Rightarrow> (audit_record \<Rightarrow> ('s, unit) js) \<Rightarrow> (string \<Rightarrow> string) \<Rightarrow> millis \<Rightarrow>
    string \<Rightarrow> string \<Rightarrow> string \<Rightarrow> json \<Rightarrow> ('s, audit_record) js" where
  "audit_write lastRow appendRow sha now actor action subject payload =
     bindJ (getJ (audit_prepare lastRow sha now actor action subject payload)) (\<lambda>record.
       bindJ (appendRow record) (\<lambda>_. retJ record))"

fun verify_loop :: "(string \<Rightarrow> string) \<Rightarrow> string \<Rightarrow> audit_record list \<Rightarrow> bool" where
  "verify_loop sha previous [] \<longleftrightarrow> True"
| "verify_loop sha previous (r # rs) \<longleftrightarrow>
     (let expected = sha (audit_text r) in
      if ar_previousHash r \<noteq> previous \<or> ar_hash r \<noteq> expected then False else verify_loop sha (ar_hash r) rs)"

definition audit_verify :: "('s \<Rightarrow> audit_record list) \<Rightarrow> (string \<Rightarrow> string) \<Rightarrow> 's \<Rightarrow> bool" where
  "audit_verify chain sha s \<longleftrightarrow> verify_loop sha ''GENESIS'' (chain s)"

definition head_hash :: "string \<Rightarrow> audit_record list \<Rightarrow> string" where
  "head_hash p rs = (if rs = [] then p else ar_hash (last rs))"

lemma verify_loop_append: "verify_loop sha p (rs @ [r]) \<longleftrightarrow>
    verify_loop sha p rs \<and> ar_previousHash r = head_hash p rs \<and> ar_hash r = sha (audit_text r)"
  by (induction rs arbitrary: p) (auto simp: head_hash_def Let_def)

section \<open>What the service needs of an audit repository\<close>

definition last_seq :: "audit_record list \<Rightarrow> nat" where
  "last_seq rs = (if rs = [] then 0 else ar_sequence (last rs))"

locale audit_repository =
  fixes chain :: "'s \<Rightarrow> audit_record list"
    and last_row :: "'s \<Rightarrow> audit_record option"
    and append_row :: "audit_record \<Rightarrow> ('s, unit) js"
    and in_step :: "'s \<Rightarrow> bool"
  assumes last_law: "in_step s \<Longrightarrow> last_row s = (if chain s = [] then None else Some (last (chain s)))"
    and append_law: "in_step s \<Longrightarrow> ar_sequence r = Suc (last_seq (chain s)) \<Longrightarrow> ar_hash r \<notin> ar_hash ` set (chain s) \<Longrightarrow>
      \<exists>s'. append_row r s = (Inr (), s') \<and> chain s' = chain s @ [r] \<and> in_step s'"
begin

lemma prepare:
  assumes "in_step s" and "r = audit_prepare last_row sha now actor action subject payload s"
  shows "ar_previousHash r = head_hash ''GENESIS'' (chain s)" "ar_sequence r = Suc (last_seq (chain s))"
    "ar_hash r = sha (audit_text r)"
  using assms by (simp_all add: audit_prepare_def last_law head_hash_def last_seq_def audit_text_def Let_def)

lemma write_keeps_verify:
  assumes "in_step s" "audit_verify chain sha s"
    and "ar_hash (audit_prepare last_row sha now actor action subject payload s) \<notin> ar_hash ` set (chain s)"
  shows "\<exists>r s'. audit_write last_row append_row sha now actor action subject payload s = (Inr r, s') \<and>
    chain s' = chain s @ [r] \<and> in_step s' \<and> audit_verify chain sha s'"
proof -
  define r where "r = audit_prepare last_row sha now actor action subject payload s"
  note p = prepare [OF assms(1) r_def]
  obtain s' where s': "append_row r s = (Inr (), s')" "chain s' = chain s @ [r]" "in_step s'"
    using append_law [OF assms(1) p(2)] assms(3) r_def by blast
  have "audit_write last_row append_row sha now actor action subject payload s = (Inr r, s')"
    by (simp add: audit_write_def r_def [symmetric] bindJ_Inr [of "append_row r", OF s'(1)])
  moreover have "audit_verify chain sha s'"
    using assms(2) p s'(2) by (simp add: audit_verify_def verify_loop_append)
  ultimately show ?thesis using s' by blast
qed

end

interpretation ms_audit: audit_repository ms_chain ms_last ms_append_audit "\<lambda>_. True"
  by unfold_locales (simp_all add: ms_chain_def ms_last_def ms_append_audit_def)

text \<open>
  Postgres keeps in step as long as the identity counter equals the last
  sequence number, so that a new row gets the number its hash was taken over.
\<close>

definition pg_in_step :: "'z repo_db_scheme \<Rightarrow> bool" where
  "pg_in_step s \<longleftrightarrow> sorted (map ar_sequence (db_audit s)) \<and> distinct (map ar_sequence (db_audit s)) \<and>
     db_audit_seq s = last_seq (db_audit s)"

lemma sorted_seq_last: "sorted (map ar_sequence rs) \<Longrightarrow> r \<in> set rs \<Longrightarrow> ar_sequence r \<le> last_seq rs"
  by (induction rs rule: rev_induct) (auto simp: last_seq_def sorted_append)

lemma sort_desc_hd:
  assumes "sorted (map f rs)" "distinct (map f rs)" "rs \<noteq> []"
  shows "\<exists>t. sort_key (\<lambda>r. - int (f r)) rs = last rs # t"
proof -
  have "sorted (map (\<lambda>r. - int (f r)) (rev rs))"
    using assms(1) by (induction rs) (auto simp: sorted_append)
  moreover have "inj_on (\<lambda>r. - int (f r)) (set rs)" using assms(2) by (simp add: distinct_map inj_on_def)
  ultimately have "sort_key (\<lambda>r. - int (f r)) rs = rev rs" by (intro sort_key_inj_key_eq) simp_all
  thus ?thesis using assms(3) by (cases rs rule: rev_cases) auto
qed

interpretation pg_audit: audit_repository pg_chain pg_last pg_append_audit pg_in_step
proof unfold_locales
  fix s :: "'z repo_db_scheme" assume s: "pg_in_step s"
  hence c: "pg_chain s = db_audit s" by (simp add: pg_in_step_def pg_chain_def sort_key_id_if_sorted)
  show "pg_last s = (if pg_chain s = [] then None else Some (last (pg_chain s)))"
    using s sort_desc_hd [of ar_sequence "db_audit s"] unfolding c by (auto simp: pg_last_def pg_in_step_def)
next
  fix s :: "'z repo_db_scheme" and r :: audit_record
  assume s: "pg_in_step s" and q: "ar_sequence r = Suc (last_seq (pg_chain s))"
    and h: "ar_hash r \<notin> ar_hash ` set (pg_chain s)"
  have c: "pg_chain s = db_audit s" using s by (simp add: pg_in_step_def pg_chain_def sort_key_id_if_sorted)
  have r: "r\<lparr>ar_sequence := Suc (db_audit_seq s)\<rparr> = r" using q s c by (simp add: pg_in_step_def)
  define s' where "s' = s\<lparr>db_audit_seq := Suc (db_audit_seq s), db_audit := db_audit s @ [r]\<rparr>"
  have a: "pg_append_audit r s = (Inr (), s')"
    using h r by (simp add: pg_append_audit_def c s'_def Let_def)
  have "ar_sequence x < ar_sequence r" if "x \<in> set (db_audit s)" for x
    using sorted_seq_last [of "db_audit s" x] s that q c by (auto simp: pg_in_step_def)
  hence i: "pg_in_step s'" using s q c
    by (fastforce simp: pg_in_step_def s'_def sorted_append last_seq_def)
  hence "pg_chain s' = pg_chain s @ [r]"
    unfolding c by (simp add: pg_in_step_def pg_chain_def sort_key_id_if_sorted) (simp add: s'_def)
  with a i show "\<exists>s'. pg_append_audit r s = (Inr (), s') \<and> pg_chain s' = pg_chain s @ [r] \<and> pg_in_step s'"
    by blast
qed

section \<open>Appending keeps the chain verifiable\<close>


definition empty_db :: repo_db where
  "empty_db = \<lparr>db_devices = [], db_nodes = [], db_policies = [], db_grants = [], db_events = [],
     db_audit = [], db_audit_seq = 0, db_outbox = [], db_fresh = (\<lambda>n. replicate n (CHR ''x'')), db_drawn = 0\<rparr>"


section \<open>Tamper evidence\<close>

definition record_same :: "audit_record \<Rightarrow> audit_record \<Rightarrow> bool" where
  "record_same a b \<longleftrightarrow> ar_sequence a = ar_sequence b \<and> ar_at a = ar_at b \<and> ar_actor a = ar_actor b \<and>
     ar_action a = ar_action b \<and> ar_subject a = ar_subject b \<and> json_same (ar_payload a) (ar_payload b) \<and>
     ar_previousHash a = ar_previousHash b \<and> ar_hash a = ar_hash b"

definition record_ok :: "audit_record \<Rightarrow> bool" where
  "record_ok r \<longleftrightarrow> json_ok (ar_payload r) \<and> iso_range (ar_at r)"

definition collision :: "(string \<Rightarrow> string) \<Rightarrow> audit_record list \<Rightarrow> audit_record list \<Rightarrow> bool" where
  "collision sha c d \<longleftrightarrow> (\<exists>a \<in> set c. \<exists>b \<in> set d. audit_text a \<noteq> audit_text b \<and> sha (audit_text a) = sha (audit_text b))"

lemma audit_json_ok: "json_ok payload \<Longrightarrow> json_ok (audit_json n t actor action subject payload p)"
  by (simp add: audit_json_def printable_def)

lemma audit_text_inj:
  assumes "record_ok a" "record_ok b" "audit_text a = audit_text b" "ar_hash a = ar_hash b"
  shows "record_same a b"
proof -
  have "json_norm (audit_json (ar_sequence a) (ar_at a) (ar_actor a) (ar_action a) (ar_subject a) (ar_payload a) (ar_previousHash a))
     = json_norm (audit_json (ar_sequence b) (ar_at b) (ar_actor b) (ar_action b) (ar_subject b) (ar_payload b) (ar_previousHash b))"
    using assms(1-3) unfolding audit_text_def record_ok_def by (intro canonicalJson_norm audit_json_ok) auto
  hence "json_same (audit_json (ar_sequence a) (ar_at a) (ar_actor a) (ar_action a) (ar_subject a) (ar_payload a) (ar_previousHash a))
     (audit_json (ar_sequence b) (ar_at b) (ar_actor b) (ar_action b) (ar_subject b) (ar_payload b) (ar_previousHash b))"
    by (rule json_norm_same)
  thus ?thesis using assms(1,2,4) to_iso_string_inj [of "ar_at a" "ar_at b"]
    by (simp add: audit_json_def record_same_def record_ok_def)
qed

lemma sha_not_genesis: "\<forall>x. length (sha x) = 64 \<Longrightarrow> sha x \<noteq> ''GENESIS''"
  by (rule notI, drule spec [of _ x]) simp

lemma chains_agree:
  assumes "\<forall>x. length (sha x) = 64"
  shows "verify_loop sha ''GENESIS'' c \<Longrightarrow> verify_loop sha ''GENESIS'' d \<Longrightarrow> \<forall>r \<in> set c \<union> set d. record_ok r \<Longrightarrow>
    head_hash ''GENESIS'' c = head_hash ''GENESIS'' d \<Longrightarrow> \<not> collision sha c d \<Longrightarrow> list_all2 record_same c d"
proof (induction c arbitrary: d rule: rev_induct)
  case Nil
  have "d = []"
  proof (rule ccontr)
    assume "d \<noteq> []"
    then obtain d' b where "d = d' @ [b]" by (cases d rule: rev_cases) auto
    hence "ar_hash b = ''GENESIS''" "ar_hash b = sha (audit_text b)" using Nil by (auto simp: verify_loop_append head_hash_def)
    thus False using sha_not_genesis [OF assms] by simp
  qed
  thus ?case by simp
next
  case (snoc a c)
  have a: "ar_hash a = sha (audit_text a)" "ar_previousHash a = head_hash ''GENESIS'' c" "verify_loop sha ''GENESIS'' c"
    using snoc.prems(1) by (simp_all add: verify_loop_append)
  have "d \<noteq> []"
  proof
    assume "d = []"
    hence "ar_hash a = ''GENESIS''" using snoc.prems(4) by (simp add: head_hash_def)
    thus False using a(1) sha_not_genesis [OF assms] by simp
  qed
  then obtain d' b where d: "d = d' @ [b]" by (cases d rule: rev_cases) auto
  have b: "ar_hash b = sha (audit_text b)" "ar_previousHash b = head_hash ''GENESIS'' d'" "verify_loop sha ''GENESIS'' d'"
    using snoc.prems(2) d by (simp_all add: verify_loop_append)
  have h: "ar_hash a = ar_hash b" using snoc.prems(4) d by (simp add: head_hash_def)
  have "audit_text a = audit_text b" using snoc.prems(5) a(1) b(1) h d by (auto simp: collision_def)
  hence s: "record_same a b" using snoc.prems(3) d h by (intro audit_text_inj) auto
  hence "head_hash ''GENESIS'' c = head_hash ''GENESIS'' d'" using a(2) b(2) by (simp add: record_same_def)
  moreover have "\<not> collision sha c d'" using snoc.prems(5) d by (auto simp: collision_def)
  ultimately have "list_all2 record_same c d'" using snoc.prems(3) d by (intro snoc.IH a(3) b(3)) auto
  thus ?case using s d by (simp add: list_all2_appendI)
qed

text \<open>
  C8.  Tamper evidence: two audit chains that both verify and end in the same
  hash have the same records, one by one (payloads up to the order of object
  keys), unless two different texts among the records they hash collide under
  SHA-256.  So whoever keeps one trusted head hash detects any edit, insertion,
  deletion or truncation of history.
\<close>

theorem audit_tamper_evident:
  assumes "\<forall>x. length (sha x) = 64"
    and "audit_verify pg_chain sha s" "audit_verify pg_chain sha t"
    and "\<forall>r \<in> set (pg_chain s) \<union> set (pg_chain t). record_ok r"
    and "head_hash ''GENESIS'' (pg_chain s) = head_hash ''GENESIS'' (pg_chain t)"
    and "\<not> collision sha (pg_chain s) (pg_chain t)"
  shows "list_all2 record_same (pg_chain s) (pg_chain t)"
  using chains_agree [OF assms(1)] assms(2-6) by (simp add: audit_verify_def)

definition demo_sha :: "string \<Rightarrow> string" where
  "demo_sha x = take 64 (x @ replicate 64 (CHR ''0''))"

lemma demo_sha_length: "\<forall>x. length (demo_sha x) = 64"
  by (simp add: demo_sha_def min_def)

definition demo_record :: "(string \<times> json) list \<Rightarrow> audit_record" where
  "demo_record kvs = \<lparr>ar_sequence = 1, ar_at = 0, ar_actor = ''alice'', ar_action = ''A'', ar_subject = ''x'',
     ar_payload = JObj kvs, ar_previousHash = ''GENESIS'',
     ar_hash = demo_sha (canonicalJson (audit_json 1 0 ''alice'' ''A'' ''x'' (JObj kvs) ''GENESIS''))\<rparr>"

definition demo_audit_db :: "(string \<times> json) list \<Rightarrow> repo_db" where
  "demo_audit_db kvs = empty_db\<lparr>db_audit := [demo_record kvs], db_audit_seq := 1\<rparr>"

lemma demo_audit_db:
  "pg_chain (demo_audit_db kvs) = [demo_record kvs]" "audit_verify pg_chain demo_sha (demo_audit_db kvs)"
  by (simp_all add: demo_audit_db_def pg_chain_def audit_verify_def demo_record_def audit_text_def)

lemma demo_record_ok: "json_ok (JObj kvs) \<Longrightarrow> record_ok (demo_record kvs)"
  by (simp add: record_ok_def demo_record_def iso_range_def civil_def year_of_day_def day_from_year_def Let_def)

lemma demo_texts:
  "audit_text (demo_record [(''a'', JNum 1), (''b'', JNum 2)]) = audit_text (demo_record [(''b'', JNum 2), (''a'', JNum 1)])"
proof -
  have "json_norm (JObj [(''a'', JNum 1), (''b'', JNum 2)]) = json_norm (JObj [(''b'', JNum 2), (''a'', JNum 1)])"
    by (rule json_same_norm) (simp_all add: printable_def)
  thus ?thesis
    unfolding audit_text_def canonicalJson_print demo_record_def audit_json_def
    by (simp only: json_norm.simps list.map prod.case audit_record.select_convs)
qed

theorem audit_tamper_evident_witness:
  "list_all2 record_same (pg_chain (demo_audit_db [(''a'', JNum 1), (''b'', JNum 2)]))
     (pg_chain (demo_audit_db [(''b'', JNum 2), (''a'', JNum 1)]))"
proof (rule audit_tamper_evident [OF demo_sha_length demo_audit_db(2) demo_audit_db(2)])
  show "\<forall>r \<in> set (pg_chain (demo_audit_db [(''a'', JNum 1), (''b'', JNum 2)])) \<union>
      set (pg_chain (demo_audit_db [(''b'', JNum 2), (''a'', JNum 1)])). record_ok r"
    unfolding demo_audit_db(1) by (auto intro!: demo_record_ok simp: printable_def)
  have "ar_hash (demo_record kvs) = demo_sha (audit_text (demo_record kvs))" for kvs
    by (simp add: demo_record_def audit_text_def)
  thus "head_hash ''GENESIS'' (pg_chain (demo_audit_db [(''a'', JNum 1), (''b'', JNum 2)])) =
      head_hash ''GENESIS'' (pg_chain (demo_audit_db [(''b'', JNum 2), (''a'', JNum 1)]))"
    unfolding demo_audit_db(1) by (simp add: head_hash_def demo_texts)
  show "\<not> collision demo_sha (pg_chain (demo_audit_db [(''a'', JNum 1), (''b'', JNum 2)]))
      (pg_chain (demo_audit_db [(''b'', JNum 2), (''a'', JNum 1)]))"
    unfolding demo_audit_db(1) by (simp add: collision_def demo_texts)
qed

section \<open>Two writers\<close>

text \<open>
  C37.  Two writers that both read the last record before either appends leave
  a chain that no longer verifies: each insert succeeds, but the second record
  names the old head as its predecessor.
\<close>

theorem pg_concurrent_audit_breaks_chain:
  assumes "\<forall>x. length (sha x) = 64" "pg_in_step s"
    and "r1 = audit_prepare pg_last sha now1 actor1 action1 subject1 payload1 s"
    and "r2 = audit_prepare pg_last sha now2 actor2 action2 subject2 payload2 s"
    and "pg_append_audit r1 s = (Inr (), s1)" "pg_append_audit r2 s1 = (Inr (), s2)"
  shows "\<not> audit_verify pg_chain sha s2"
proof -
  have c: "pg_chain s = db_audit s" using assms(2) by (simp add: pg_in_step_def pg_chain_def sort_key_id_if_sorted)
  note p1 = pg_audit.prepare [OF assms(2,3)] and p2 = pg_audit.prepare [OF assms(2,4)]
  have f1: "ar_hash r1 \<notin> ar_hash ` set (db_audit s)"
    using assms(5) by (auto simp: pg_append_audit_def Let_def split: if_splits)
  define n where "n = db_audit_seq s"
  have s2: "db_audit s2 = db_audit s @ [r1\<lparr>ar_sequence := Suc n\<rparr>] @ [r2\<lparr>ar_sequence := Suc (Suc n)\<rparr>]"
    using assms(5,6) by (auto simp: pg_append_audit_def Let_def n_def split: if_splits)
  have srt: "sorted (map ar_sequence (db_audit s2))"
    using assms(2) sorted_seq_last [of "db_audit s"]
    by (fastforce simp: s2 sorted_append pg_in_step_def n_def)
  have ch: "pg_chain s2 = (db_audit s @ [r1\<lparr>ar_sequence := Suc n\<rparr>]) @ [r2\<lparr>ar_sequence := Suc (Suc n)\<rparr>]"
    using srt unfolding pg_chain_def by (subst sort_key_id_if_sorted) (simp_all add: s2)
  have "head_hash ''GENESIS'' (db_audit s) \<noteq> ar_hash r1"
  proof (cases "db_audit s = []")
    case True
    thus ?thesis using p1(3) sha_not_genesis [OF assms(1)] by (simp add: head_hash_def not_sym)
  next
    case False
    hence "ar_hash (last (db_audit s)) \<in> ar_hash ` set (db_audit s)" by simp
    thus ?thesis using f1 False unfolding head_hash_def by metis
  qed
  thus ?thesis using p2(1) c
    by (simp add: audit_verify_def ch verify_loop_append del: append_assoc append_Cons) (simp add: head_hash_def)
qed

definition demo_text :: "string \<Rightarrow> string" where
  "demo_text actor = canonicalJson (audit_json 1 0 actor ''A'' ''x'' (JObj []) ''GENESIS'')"

definition demo_sha2 :: "string \<Rightarrow> string" where
  "demo_sha2 x = replicate 64 (if x = demo_text ''a'' then CHR ''0'' else CHR ''1'')"

lemma demo_text_differs: "demo_text ''b'' \<noteq> demo_text ''a''"
proof
  assume "demo_text ''b'' = demo_text ''a''"
  hence "json_same (audit_json 1 0 ''b'' ''A'' ''x'' (JObj []) ''GENESIS'') (audit_json 1 0 ''a'' ''A'' ''x'' (JObj []) ''GENESIS'')"
    unfolding demo_text_def by (intro json_norm_same canonicalJson_norm audit_json_ok) simp_all
  thus False by (simp add: audit_json_def)
qed

lemma demo_prepared: "ar_hash (audit_prepare pg_last demo_sha2 0 actor ''A'' ''x'' (JObj []) empty_db) = demo_sha2 (demo_text actor)"
  by (simp add: audit_prepare_def pg_last_def empty_db_def demo_text_def Let_def)

theorem pg_concurrent_audit_breaks_chain_witness:
  "\<exists>s1 s2. pg_append_audit (audit_prepare pg_last demo_sha2 0 ''a'' ''A'' ''x'' (JObj []) empty_db) empty_db = (Inr (), s1) \<and>
     pg_append_audit (audit_prepare pg_last demo_sha2 0 ''b'' ''A'' ''x'' (JObj []) empty_db) s1 = (Inr (), s2) \<and>
     \<not> audit_verify pg_chain demo_sha2 s2"
proof -
  define r1 r2 where "r1 = audit_prepare pg_last demo_sha2 0 ''a'' ''A'' ''x'' (JObj []) empty_db"
    and "r2 = audit_prepare pg_last demo_sha2 0 ''b'' ''A'' ''x'' (JObj []) empty_db"
  have l: "\<forall>x. length (demo_sha2 x) = 64" and i: "pg_in_step empty_db"
    by (simp_all add: demo_sha2_def empty_db_def pg_in_step_def last_seq_def)
  have d: "ar_hash r2 \<noteq> ar_hash r1"
    unfolding r1_def r2_def demo_prepared using demo_text_differs by (simp add: demo_sha2_def)
  obtain s1 where s1: "pg_append_audit r1 empty_db = (Inr (), s1)" "db_audit s1 = [r1\<lparr>ar_sequence := 1\<rparr>]"
    by (simp add: pg_append_audit_def empty_db_def Let_def)
  obtain s2 where s2: "pg_append_audit r2 s1 = (Inr (), s2)"
    using d by (simp add: pg_append_audit_def s1(2) Let_def)
  have "\<not> audit_verify pg_chain demo_sha2 s2"
    by (rule pg_concurrent_audit_breaks_chain [OF l i r1_def r2_def s1(1) s2])
  with s1(1) s2 show ?thesis unfolding r1_def r2_def by (intro exI conjI)
qed

end
