(* ===== verification/Commands.thy ===== *)
theory Commands
  imports Policy
begin

text \<open>
  The command queue between the control plane and the nodes
  (\<open>services/mesh-controller/pg-command-queue.ts\<close>), the desired state of a node
  (\<open>pg-desired-state-store.ts\<close>), the key rotation ledger
  (\<open>pg-key-rotation-ledger.ts\<close>) and the scheduler that asks for overdue rotations
  (\<open>src/application/key-rotation-scheduler.ts\<close>).
\<close>

section \<open>State\<close>

record command_row =
  cmd_id :: uuid
  cmd_nodeId :: uuid
  cmd_type :: string
  cmd_payload :: json
  cmd_priority :: int
  cmd_issuedAt :: millis
  cmd_notBefore :: millis
  cmd_expiresAt :: millis
  cmd_acknowledgedAt :: "millis option"
  cmd_result :: json

record ack_row =
  ack_commandId :: uuid
  ack_nodeId :: uuid
  ack_type :: string
  ack_issuedAt :: millis
  ack_at :: millis
  ack_status :: string
  ack_details :: json

record route =
  rt_destination :: string
  rt_gateway :: "string option"
  rt_interfaceName :: string
  rt_metric :: nat

record node_desired_state =
  ds_nodeId :: uuid
  ds_revision :: nat
  ds_routes :: "route list"
  ds_dnsServers :: "string list"
  ds_killSwitchEnabled :: bool
  ds_integrityFiles :: "(string \<times> string) list"
  ds_updatedAt :: millis

record rotation_row =
  kr_nodeId :: uuid
  kr_epoch :: nat
  kr_newPublicKey :: string
  kr_rotatedAt :: millis

record queue_db = repo_db +
  q_commands :: "command_row list"
  q_acks :: "ack_row list"
  q_desired :: "node_desired_state list"
  q_rotations :: "rotation_row list"

abbreviation known_node :: "uuid \<Rightarrow> 'z repo_db_scheme \<Rightarrow> bool" where
  "known_node i s \<equiv> i \<in> mn_id ` set (db_nodes s)"

definition json_get :: "string \<Rightarrow> json \<Rightarrow> json option" where
  "json_get k j = (case j of JObj kvs \<Rightarrow> map_of kvs k | _ \<Rightarrow> None)"

text \<open>
  \<open>Number(value)\<close> on the values JSON details hold; a string counts when it is a
  decimal numeral.
\<close>

definition js_number :: "json option \<Rightarrow> int option" where
  "js_number v = (case v of
     Some (JNum n) \<Rightarrow> Some n
   | Some JNull \<Rightarrow> Some 0
   | Some (JBool b) \<Rightarrow> Some (if b then 1 else 0)
   | Some (JStr s) \<Rightarrow> let t = js_trim s in
       if t = [] then Some 0 else if list_all is_digit t then Some (int (radix_val 10 t)) else None
   | _ \<Rightarrow> None)"

definition js_truthy :: "json \<Rightarrow> bool" where
  "js_truthy v \<longleftrightarrow> v \<notin> {JNull, JUndefined, JBool False, JNum 0, JStr []}"

text \<open>\<open>payload.k\<close>: absent fields are \<open>undefined\<close>, a null payload throws.\<close>

definition payload_field :: "string \<Rightarrow> json \<Rightarrow> js_error + json" where
  "payload_field k p = (case p of
     JNull \<Rightarrow> Inl (JsError (''Cannot read properties of null (reading '' @ [CHR 0x27] @ k @ [CHR 0x27] @ '')''))
   | JUndefined \<Rightarrow> Inl (JsError (''Cannot read properties of undefined (reading '' @ [CHR 0x27] @ k @ [CHR 0x27] @ '')''))
   | _ \<Rightarrow> Inr (case json_get k p of None \<Rightarrow> JUndefined | Some v \<Rightarrow> v))"

definition fieldJ :: "string \<Rightarrow> json \<Rightarrow> ('s, json) js" where
  "fieldJ k p = (\<lambda>s. (payload_field k p, s))"

definition nullish :: "json \<Rightarrow> json \<Rightarrow> json" where
  "nullish v d = (if v = JNull \<or> v = JUndefined then d else v)"

definition str_of :: "json option \<Rightarrow> string" where
  "str_of v = (case v of Some (JStr s) \<Rightarrow> s | _ \<Rightarrow> [])"

section \<open>PgCommandQueue\<close>

definition enqueue :: "millis \<Rightarrow> uuid \<Rightarrow> string \<Rightarrow> json \<Rightarrow> int \<Rightarrow> int \<Rightarrow> ('z queue_db_scheme, unit) js" where
  "enqueue now nodeId type payload priority ttlMinutes = bindJ next_id (\<lambda>i s.
     if i \<in> cmd_id ` set (q_commands s) then (Inl (PgError ''23505''), s)
     else if \<not> known_node nodeId s then (Inl (PgError ''23503''), s)
     else (Inr (), s\<lparr>q_commands := q_commands s @ [\<lparr>cmd_id = i, cmd_nodeId = nodeId, cmd_type = type,
       cmd_payload = payload, cmd_priority = priority, cmd_issuedAt = now, cmd_notBefore = now,
       cmd_expiresAt = now + ttlMinutes * 60000, cmd_acknowledgedAt = None, cmd_result = JNull\<rparr>]\<rparr>))"

definition hasPending :: "millis \<Rightarrow> uuid \<Rightarrow> string \<Rightarrow> 'z queue_db_scheme \<Rightarrow> bool" where
  "hasPending now nodeId type s \<longleftrightarrow> (\<exists>c \<in> set (q_commands s). cmd_nodeId c = nodeId \<and> cmd_type c = type \<and>
     cmd_acknowledgedAt c = None \<and> now < cmd_expiresAt c)"

definition deliverable :: "millis \<Rightarrow> uuid \<Rightarrow> command_row \<Rightarrow> bool" where
  "deliverable now nodeId c \<longleftrightarrow> cmd_nodeId c = nodeId \<and> cmd_acknowledgedAt c = None \<and>
     cmd_notBefore c \<le> now \<and> now < cmd_expiresAt c"

definition pending :: "millis \<Rightarrow> uuid \<Rightarrow> nat \<Rightarrow> 'z queue_db_scheme \<Rightarrow> command_row list" where
  "pending now nodeId limit s =
     take limit (sort_key (\<lambda>c. (- cmd_priority c, cmd_issuedAt c)) (filter (deliverable now nodeId) (q_commands s)))"

definition ack_status_of :: "json \<Rightarrow> string" where
  "ack_status_of result = (case json_get ''ok'' result of
     Some (JBool b) \<Rightarrow> (if b then ''SUCCEEDED'' else ''FAILED'') | _ \<Rightarrow> ''ACKNOWLEDGED'')"

definition ack_details_of :: "json \<Rightarrow> json" where
  "ack_details_of result = (if result = JNull \<or> result = JUndefined then JObj [] else result)"

definition acknowledge :: "millis \<Rightarrow> uuid \<Rightarrow> json \<Rightarrow> ('z queue_db_scheme, unit) js" where
  "acknowledge now commandId result s =
     (case find_by cmd_id commandId (q_commands s) of
        None \<Rightarrow> (Inr (), s)
      | Some row \<Rightarrow>
          let s1 = s\<lparr>q_commands := map (\<lambda>c. if cmd_id c = commandId
                then c\<lparr>cmd_acknowledgedAt := Some now, cmd_result := result\<rparr> else c) (q_commands s)\<rparr>
          in if \<exists>a \<in> set (q_acks s). ack_commandId a = commandId \<and> ack_nodeId a = cmd_nodeId row
             then (Inl (PgError ''23505''), s1)
             else if \<not> known_node (cmd_nodeId row) s then (Inl (PgError ''23503''), s1)
             else (Inr (), s1\<lparr>q_acks := q_acks s @ [\<lparr>ack_commandId = commandId, ack_nodeId = cmd_nodeId row,
               ack_type = cmd_type row, ack_issuedAt = cmd_issuedAt row, ack_at = now,
               ack_status = ack_status_of result, ack_details = ack_details_of result\<rparr>]\<rparr>))"

definition latestAcknowledgement :: "uuid \<Rightarrow> string \<Rightarrow> 'z queue_db_scheme \<Rightarrow> ack_row option" where
  "latestAcknowledgement nodeId type s =
     (case sort_key (\<lambda>a. - ack_at a) (filter (\<lambda>a. ack_nodeId a = nodeId \<and> ack_type a = type \<and>
         ack_status a = ''SUCCEEDED'') (q_acks s)) of [] \<Rightarrow> None | a # _ \<Rightarrow> Some a)"

section \<open>PgDesiredStateStore\<close>

definition desired_get :: "uuid \<Rightarrow> 'z queue_db_scheme \<Rightarrow> node_desired_state option" where
  "desired_get nodeId s = find_by ds_nodeId nodeId (q_desired s)"

definition desired_all :: "'z queue_db_scheme \<Rightarrow> node_desired_state list" where
  "desired_all s = q_desired s"

definition upd_desired :: "node_desired_state \<Rightarrow> node_desired_state \<Rightarrow> node_desired_state" where
  "upd_desired new old = new\<lparr>ds_revision := ds_revision old + 1\<rparr>"

definition desired_upsert :: "millis \<Rightarrow> uuid \<Rightarrow> route list \<Rightarrow> string list \<Rightarrow> bool \<Rightarrow> (string \<times> string) list \<Rightarrow>
    ('z queue_db_scheme, node_desired_state option) js" where
  "desired_upsert now nodeId routes dnsServers killSwitch integrityFiles s =
     (if \<not> known_node nodeId s then (Inl (PgError ''23503''), s)
      else let new = \<lparr>ds_nodeId = nodeId, ds_revision = 1, ds_routes = routes, ds_dnsServers = dnsServers,
                 ds_killSwitchEnabled = killSwitch, ds_integrityFiles = integrityFiles, ds_updatedAt = now\<rparr>;
               s' = s\<lparr>q_desired := upsert ds_nodeId upd_desired new (q_desired s)\<rparr>
           in (Inr (desired_get nodeId s'), s'))"

section \<open>PgKeyRotationLedger\<close>

definition max_epoch :: "uuid \<Rightarrow> 'z queue_db_scheme \<Rightarrow> nat" where
  "max_epoch nodeId s = fold max (map kr_epoch (filter (\<lambda>r. kr_nodeId r = nodeId) (q_rotations s))) 0"

definition insert_rotation :: "millis \<Rightarrow> uuid \<Rightarrow> nat \<Rightarrow> string \<Rightarrow> ('z queue_db_scheme, unit) js" where
  "insert_rotation now nodeId epoch key s =
     (if \<exists>r \<in> set (q_rotations s). kr_nodeId r = nodeId \<and> kr_epoch r = epoch then (Inl (PgError ''23505''), s)
      else if \<not> known_node nodeId s then (Inl (PgError ''23503''), s)
      else (Inr (), s\<lparr>q_rotations := q_rotations s @ [\<lparr>kr_nodeId = nodeId, kr_epoch = epoch,
        kr_newPublicKey = key, kr_rotatedAt = now\<rparr>]\<rparr>))"

text \<open>
  The retry loop.  \<open>env k\<close> is what other sessions do to the database between
  the \<open>SELECT\<close> and the \<open>INSERT\<close> when \<open>k\<close> attempts remain.
\<close>

fun rotate_loop :: "(nat \<Rightarrow> 'z queue_db_scheme \<Rightarrow> 'z queue_db_scheme) \<Rightarrow> nat \<Rightarrow> millis \<Rightarrow> uuid \<Rightarrow> string \<Rightarrow>
    ('z queue_db_scheme, nat) js" where
  "rotate_loop env 0 now nodeId key s = (Inl (JsError (''could not allocate a key-rotation epoch for node '' @
     nodeId @ '' after 5 attempts (concurrent rotations?)'')), s)"
| "rotate_loop env (Suc k) now nodeId key s =
     (let nextEpoch = max_epoch nodeId s + 1 in
      case insert_rotation now nodeId nextEpoch key (env k s) of
        (Inr _, s') \<Rightarrow> (Inr nextEpoch, s')
      | (Inl e, s') \<Rightarrow> if e = PgError ''23505'' then rotate_loop env k now nodeId key s' else (Inl e, s'))"

definition rotate_key :: "(nat \<Rightarrow> 'z queue_db_scheme \<Rightarrow> 'z queue_db_scheme) \<Rightarrow> millis \<Rightarrow> uuid \<Rightarrow> string \<Rightarrow>
    ('z queue_db_scheme, nat) js" where
  "rotate_key env = rotate_loop env 5"

definition last_rotated :: "uuid \<Rightarrow> 'z queue_db_scheme \<Rightarrow> millis option" where
  "last_rotated nodeId s = (case map kr_rotatedAt (filter (\<lambda>r. kr_nodeId r = nodeId) (q_rotations s)) of
     [] \<Rightarrow> None | t # ts \<Rightarrow> Some (fold max ts t))"

definition nodesOverdueForRotation :: "int \<Rightarrow> millis \<Rightarrow> 'z queue_db_scheme \<Rightarrow> uuid list" where
  "nodesOverdueForRotation maxAgeDays now s =
     filter (\<lambda>i. case last_rotated i s of None \<Rightarrow> False | Some t \<Rightarrow> t < now - maxAgeDays * 86400000)
       (remdups (map kr_nodeId (q_rotations s)))"

section \<open>KeyRotationSchedulerService\<close>

definition request_rotation :: "millis \<Rightarrow> uuid \<Rightarrow> ('z queue_db_scheme, unit) js" where
  "request_rotation now nodeId = bindJ (getJ (hasPending now nodeId ''ROTATE_IDENTITY_REQUIRED'')) (\<lambda>p.
     if p then retJ () else enqueue now nodeId ''ROTATE_IDENTITY_REQUIRED'' (JObj []) 200 60)"

definition rotation_run :: "int \<Rightarrow> millis \<Rightarrow> ('z queue_db_scheme, nat \<times> uuid list) js" where
  "rotation_run maxAgeDays now = bindJ (getJ (nodesOverdueForRotation maxAgeDays now)) (\<lambda>overdue.
     bindJ (forJ (request_rotation now) overdue) (\<lambda>_. retJ (length overdue, overdue)))"

section \<open>Invariant of the queue\<close>

definition ids_ok :: "'z queue_db_scheme \<Rightarrow> bool" where
  "ids_ok s \<longleftrightarrow> inj (db_fresh s) \<and> (\<forall>c \<in> set (q_commands s). \<exists>k < db_drawn s. cmd_id c = db_fresh s k)"

definition queue_inv :: "'z queue_db_scheme \<Rightarrow> bool" where
  "queue_inv s \<longleftrightarrow> ids_ok s \<and> distinct (map cmd_id (q_commands s)) \<and>
     (\<forall>c \<in> set (q_commands s). known_node (cmd_nodeId c) s) \<and>
     distinct (map (\<lambda>a. (ack_commandId a, ack_nodeId a)) (q_acks s)) \<and>
     (\<forall>a \<in> set (q_acks s). \<exists>k < db_drawn s. ack_commandId a = db_fresh s k) \<and>
     (\<forall>c \<in> set (q_commands s). cmd_acknowledgedAt c \<noteq> None \<longleftrightarrow>
        (\<exists>a \<in> set (q_acks s). ack_commandId a = cmd_id c \<and> ack_nodeId a = cmd_nodeId c))"

lemma queue_invD:
  assumes "queue_inv s"
  shows "inj (db_fresh s)" "\<And>c. c \<in> set (q_commands s) \<Longrightarrow> \<exists>k < db_drawn s. cmd_id c = db_fresh s k"
    "distinct (map cmd_id (q_commands s))" "\<And>c. c \<in> set (q_commands s) \<Longrightarrow> known_node (cmd_nodeId c) s"
    "distinct (map (\<lambda>a. (ack_commandId a, ack_nodeId a)) (q_acks s))"
    "\<And>a. a \<in> set (q_acks s) \<Longrightarrow> \<exists>k < db_drawn s. ack_commandId a = db_fresh s k"
    "\<And>c. c \<in> set (q_commands s) \<Longrightarrow> cmd_acknowledgedAt c \<noteq> None \<longleftrightarrow>
        (\<exists>a \<in> set (q_acks s). ack_commandId a = cmd_id c \<and> ack_nodeId a = cmd_nodeId c)"
  using assms unfolding queue_inv_def ids_ok_def by blast+

lemma queue_invI:
  assumes "inj (db_fresh s)" "\<And>c. c \<in> set (q_commands s) \<Longrightarrow> \<exists>k < db_drawn s. cmd_id c = db_fresh s k"
    "distinct (map cmd_id (q_commands s))" "\<And>c. c \<in> set (q_commands s) \<Longrightarrow> known_node (cmd_nodeId c) s"
    "distinct (map (\<lambda>a. (ack_commandId a, ack_nodeId a)) (q_acks s))"
    "\<And>a. a \<in> set (q_acks s) \<Longrightarrow> \<exists>k < db_drawn s. ack_commandId a = db_fresh s k"
    "\<And>c. c \<in> set (q_commands s) \<Longrightarrow> cmd_acknowledgedAt c \<noteq> None \<longleftrightarrow>
        (\<exists>a \<in> set (q_acks s). ack_commandId a = cmd_id c \<and> ack_nodeId a = cmd_nodeId c)"
  shows "queue_inv s"
  using assms unfolding queue_inv_def ids_ok_def by blast

lemma fresh_id:
  assumes "queue_inv s"
  shows "db_fresh s (db_drawn s) \<notin> cmd_id ` set (q_commands s)"
    "db_fresh s (db_drawn s) \<notin> ack_commandId ` set (q_acks s)"
proof -
  have ne: "x \<noteq> db_fresh s (db_drawn s)" if "\<exists>k < db_drawn s. x = db_fresh s k" for x
    using queue_invD(1) [OF assms] that by (auto simp: inj_def)
  show "db_fresh s (db_drawn s) \<notin> cmd_id ` set (q_commands s)"
    using ne [OF queue_invD(2) [OF assms]] by force
  show "db_fresh s (db_drawn s) \<notin> ack_commandId ` set (q_acks s)"
    using ne [OF queue_invD(6) [OF assms]] by force
qed

text \<open>The row a successful \<open>enqueue\<close> appends.\<close>

definition command_of :: "uuid \<Rightarrow> millis \<Rightarrow> uuid \<Rightarrow> string \<Rightarrow> json \<Rightarrow> int \<Rightarrow> int \<Rightarrow> command_row" where
  "command_of i now nodeId type payload priority ttlMinutes = \<lparr>cmd_id = i, cmd_nodeId = nodeId, cmd_type = type,
     cmd_payload = payload, cmd_priority = priority, cmd_issuedAt = now, cmd_notBefore = now,
     cmd_expiresAt = now + ttlMinutes * 60000, cmd_acknowledgedAt = None, cmd_result = JNull\<rparr>"

lemma enqueue_ok:
  assumes "queue_inv s" "known_node nodeId s"
  shows "enqueue now nodeId type payload priority ttl s =
    (Inr (), s\<lparr>db_drawn := Suc (db_drawn s), q_commands := q_commands s @
      [command_of (db_fresh s (db_drawn s)) now nodeId type payload priority ttl]\<rparr>)"
  using fresh_id(1) [OF assms(1)] assms(2)
  by (simp add: enqueue_def next_id_def bindJ_def command_of_def)

lemma enqueue_unknown:
  assumes "queue_inv s" "\<not> known_node nodeId s"
  shows "enqueue now nodeId type payload priority ttl s = (Inl (PgError ''23503''), s\<lparr>db_drawn := Suc (db_drawn s)\<rparr>)"
  using fresh_id(1) [OF assms(1)] assms(2) by (simp add: enqueue_def next_id_def bindJ_def)

lemma queue_inv_draw: "queue_inv s \<Longrightarrow> queue_inv (s\<lparr>db_drawn := Suc (db_drawn s)\<rparr>)"
  unfolding queue_inv_def ids_ok_def by simp (meson less_SucI)

lemma queue_inv_enqueue: "queue_inv s \<Longrightarrow> queue_inv (snd (enqueue now nodeId type payload priority ttl s))"
proof (cases "known_node nodeId s")
  case True
  assume inv: "queue_inv s"
  note f = fresh_id [OF inv]
  have old: "\<exists>k < Suc (db_drawn s). x = db_fresh s k" if "\<exists>k < db_drawn s. x = db_fresh s k" for x
    using that less_SucI by blast
  have new: "\<exists>k < Suc (db_drawn s). db_fresh s (db_drawn s) = db_fresh s k" by blast
  have no: "\<not> (\<exists>a \<in> set (q_acks s). ack_commandId a = db_fresh s (db_drawn s) \<and> ack_nodeId a = nodeId)"
    using f(2) by force
  show ?thesis
    unfolding enqueue_ok [OF inv True] using inv True f(1) old new no
    by (simp add: queue_inv_def ids_ok_def command_of_def)
next
  case False
  assume "queue_inv s"
  thus ?thesis using enqueue_unknown [OF _ False] queue_inv_draw by simp
qed

lemma find_cmd:
  assumes "queue_inv s" "c \<in> set (q_commands s)"
  shows "find_by cmd_id (cmd_id c) (q_commands s) = Some c"
  using assms by (simp add: queue_inv_def find_by_distinct)

lemma acknowledge_ok:
  assumes "queue_inv s" "c \<in> set (q_commands s)" "cmd_acknowledgedAt c = None"
  shows "acknowledge now (cmd_id c) result s = (Inr (), s\<lparr>q_commands := map (\<lambda>d. if cmd_id d = cmd_id c
      then d\<lparr>cmd_acknowledgedAt := Some now, cmd_result := result\<rparr> else d) (q_commands s),
    q_acks := q_acks s @ [\<lparr>ack_commandId = cmd_id c, ack_nodeId = cmd_nodeId c, ack_type = cmd_type c,
      ack_issuedAt = cmd_issuedAt c, ack_at = now, ack_status = ack_status_of result,
      ack_details = ack_details_of result\<rparr>]\<rparr>)"
proof -
  have "\<not> (\<exists>a \<in> set (q_acks s). ack_commandId a = cmd_id c \<and> ack_nodeId a = cmd_nodeId c)" "known_node (cmd_nodeId c) s"
    using assms(3) queue_invD(4,7) [OF assms(1,2)] by auto
  thus ?thesis by (simp add: acknowledge_def find_cmd [OF assms(1,2)] Let_def)
qed

lemma acknowledge_again:
  assumes "queue_inv s" "c \<in> set (q_commands s)" "cmd_acknowledgedAt c \<noteq> None"
  shows "acknowledge now (cmd_id c) result s = (Inl (PgError ''23505''), s\<lparr>q_commands := map (\<lambda>d. if cmd_id d = cmd_id c
      then d\<lparr>cmd_acknowledgedAt := Some now, cmd_result := result\<rparr> else d) (q_commands s)\<rparr>)"
proof -
  have "\<exists>a \<in> set (q_acks s). ack_commandId a = cmd_id c \<and> ack_nodeId a = cmd_nodeId c"
    using assms(3) queue_invD(7) [OF assms(1,2)] by auto
  thus ?thesis by (simp add: acknowledge_def find_cmd [OF assms(1,2)] Let_def)
qed

lemma map_ack_id [simp]:
  "map cmd_id (map (\<lambda>d. if cmd_id d = i then d\<lparr>cmd_acknowledgedAt := t, cmd_result := r\<rparr> else d) cs) = map cmd_id cs"
  by simp

text \<open>Marking a command keeps the invariant when the acknowledgement record is there afterwards.\<close>

lemma queue_inv_mark:
  assumes inv: "queue_inv s" and c: "c \<in> set (q_commands s)"
    and acks: "acks = q_acks s \<or> (cmd_acknowledgedAt c = None \<and> (\<exists>a. acks = q_acks s @ [a] \<and>
      ack_commandId a = cmd_id c \<and> ack_nodeId a = cmd_nodeId c))"
    and has: "\<exists>a \<in> set acks. ack_commandId a = cmd_id c \<and> ack_nodeId a = cmd_nodeId c"
  shows "queue_inv (s\<lparr>q_commands := map (\<lambda>d. if cmd_id d = cmd_id c
      then d\<lparr>cmd_acknowledgedAt := Some now, cmd_result := result\<rparr> else d) (q_commands s), q_acks := acks\<rparr>)" (is "queue_inv ?t")
proof -
  define f where "f d = (if cmd_id d = cmd_id c then d\<lparr>cmd_acknowledgedAt := Some now, cmd_result := result\<rparr> else d)"
    for d :: command_row
  have f: "cmd_id (f d) = cmd_id d" "cmd_nodeId (f d) = cmd_nodeId d" for d by (simp_all add: f_def)
  define t where "t = s\<lparr>q_commands := map f (q_commands s), q_acks := acks\<rparr>"
  have t: "?t = t" by (simp add: f_def t_def)
  have sel: "db_fresh t = db_fresh s" "db_drawn t = db_drawn s" "db_nodes t = db_nodes s"
    "q_commands t = map f (q_commands s)" "q_acks t = acks" by (simp_all add: t_def)
  have sub: "set (q_acks s) \<subseteq> set acks" using acks by auto
  have new: "a \<in> set (q_acks s) \<or> (ack_commandId a = cmd_id c \<and> ack_nodeId a = cmd_nodeId c)" if "a \<in> set acks" for a
    using acks that by auto
  have uniq: "d = c" if "d \<in> set (q_commands s)" "cmd_id d = cmd_id c" for d
    using queue_invD(3) [OF inv] c that by (simp add: distinct_map inj_on_def)
  show ?thesis unfolding t
  proof (rule queue_invI, unfold sel)
    show "inj (db_fresh s)" by (rule queue_invD(1) [OF inv])
    show "\<exists>k < db_drawn s. cmd_id d = db_fresh s k" if "d \<in> set (map f (q_commands s))" for d
      using that queue_invD(2) [OF inv] f by auto
    show "distinct (map cmd_id (map f (q_commands s)))" using queue_invD(3) [OF inv] by (simp add: comp_def f)
    show "known_node (cmd_nodeId d) s" if "d \<in> set (map f (q_commands s))" for d
      using that queue_invD(4) [OF inv] f by auto
    show "distinct (map (\<lambda>a. (ack_commandId a, ack_nodeId a)) acks)"
      using acks queue_invD(5) [OF inv] queue_invD(7) [OF inv c] by force
    show "\<exists>k < db_drawn s. ack_commandId a = db_fresh s k" if "a \<in> set acks" for a
      using new [OF that] queue_invD(6) [OF inv] queue_invD(2) [OF inv c] by auto
    show "cmd_acknowledgedAt d \<noteq> None \<longleftrightarrow> (\<exists>a \<in> set acks. ack_commandId a = cmd_id d \<and> ack_nodeId a = cmd_nodeId d)"
      if d: "d \<in> set (map f (q_commands s))" for d
    proof -
      obtain e where e: "e \<in> set (q_commands s)" "d = f e" using d by auto
      show ?thesis
      proof (cases "cmd_id e = cmd_id c")
        case True
        hence "e = c" using uniq e by blast
        thus ?thesis using has e by (simp add: f_def)
      next
        case False
        hence "(\<exists>a \<in> set acks. ack_commandId a = cmd_id e \<and> ack_nodeId a = cmd_nodeId e) \<longleftrightarrow>
            (\<exists>a \<in> set (q_acks s). ack_commandId a = cmd_id e \<and> ack_nodeId a = cmd_nodeId e)"
          using new sub by (metis subsetD)
        thus ?thesis using False e queue_invD(7) [OF inv e(1)] by (simp add: f_def)
      qed
    qed
  qed
qed

lemma queue_inv_acknowledge: "queue_inv s \<Longrightarrow> queue_inv (snd (acknowledge now i result s))"
proof (cases "find_by cmd_id i (q_commands s)")
  case None
  assume "queue_inv s"
  thus ?thesis using None by (simp add: acknowledge_def)
next
  case (Some c)
  assume inv: "queue_inv s"
  have c: "c \<in> set (q_commands s)" "cmd_id c = i" using find_by_Some [OF Some] by auto
  show ?thesis
  proof (cases "cmd_acknowledgedAt c = None")
    case True
    show ?thesis unfolding c(2) [symmetric] acknowledge_ok [OF inv c(1) True] snd_conv
      by (rule queue_inv_mark [OF inv c(1)]) (simp_all add: True)
  next
    case False
    have "queue_inv (s\<lparr>q_commands := map (\<lambda>d. if cmd_id d = cmd_id c
        then d\<lparr>cmd_acknowledgedAt := Some now, cmd_result := result\<rparr> else d) (q_commands s), q_acks := q_acks s\<rparr>)"
      by (rule queue_inv_mark [OF inv c(1)]) (use False queue_invD(7) [OF inv c(1)] in simp_all)
    thus ?thesis unfolding c(2) [symmetric] acknowledge_again [OF inv c(1) False] snd_conv by simp
  qed
qed

section \<open>Histories of the queue\<close>

inductive queue_step :: "'z queue_db_scheme \<Rightarrow> 'z queue_db_scheme \<Rightarrow> bool" where
  step_enqueue: "queue_step s (snd (enqueue now nodeId type payload priority ttl s))"
| step_acknowledge: "queue_step s (snd (acknowledge now i result s))"

inductive queue_reach :: "'z queue_db_scheme \<Rightarrow> 'z queue_db_scheme \<Rightarrow> bool" where
  reach_start: "queue_reach s s"
| reach_step: "queue_reach s t \<Longrightarrow> queue_step t u \<Longrightarrow> queue_reach s u"

lemma queue_step_inv: "queue_step s t \<Longrightarrow> queue_inv s \<Longrightarrow> queue_inv t"
  by (induction rule: queue_step.induct) (auto intro: queue_inv_enqueue queue_inv_acknowledge)

lemma queue_reach_inv: "queue_reach s t \<Longrightarrow> queue_inv s \<Longrightarrow> queue_inv t"
  by (induction rule: queue_reach.induct) (auto intro: queue_step_inv)

lemma set_pending: "set (pending now n l s) \<subseteq> {c \<in> set (q_commands s). deliverable now n c}"
  unfolding pending_def using set_take_subset by fastforce


definition demo_queue :: queue_db where
  "demo_queue = \<lparr>db_devices = [demo_device], db_nodes = [demo_node], db_policies = [], db_grants = [], db_events = [],
     db_audit = [], db_audit_seq = 0, db_outbox = [], db_fresh = (\<lambda>n. replicate n (CHR ''x'')), db_drawn = 0,
     q_commands = [], q_acks = [], q_desired = [], q_rotations = []\<rparr>"

lemma demo_fresh_inj: "inj (\<lambda>n. replicate n (CHR ''x''))"
  by (rule injI) (metis length_replicate)

lemma demo_queue_inv: "queue_inv demo_queue"
  by (simp add: queue_inv_def ids_ok_def demo_queue_def demo_fresh_inj)

lemma demo_known: "known_node ''n1'' demo_queue"
  by (simp add: demo_queue_def demo_node_def)


text \<open>
  C28.  An acknowledged command is never offered again, at any later time, to
  any node, and acknowledging it does not change any other command.
\<close>

theorem acknowledged_never_pending:
  assumes "queue_inv s" "c \<in> set (q_commands s)"
  shows "\<forall>t n l. cmd_id c \<notin> cmd_id ` set (pending t n l (snd (acknowledge now (cmd_id c) result s))) \<and>
    filter (\<lambda>d. cmd_id d \<noteq> cmd_id c) (q_commands (snd (acknowledge now (cmd_id c) result s))) =
    filter (\<lambda>d. cmd_id d \<noteq> cmd_id c) (q_commands s)"
proof -
  define f where "f d = (if cmd_id d = cmd_id c then d\<lparr>cmd_acknowledgedAt := Some now, cmd_result := result\<rparr> else d)"
    for d :: command_row
  have q: "q_commands (snd (acknowledge now (cmd_id c) result s)) = map f (q_commands s)"
    by (cases "cmd_acknowledgedAt c = None")
      (simp_all add: acknowledge_ok [OF assms] acknowledge_again [OF assms] f_def)
  have "cmd_id c \<notin> cmd_id ` set (pending t n l (snd (acknowledge now (cmd_id c) result s)))" for t n l
  proof
    assume "cmd_id c \<in> cmd_id ` set (pending t n l (snd (acknowledge now (cmd_id c) result s)))"
    then obtain d where "d \<in> set (map f (q_commands s))" "deliverable t n d" "cmd_id d = cmd_id c"
      using set_pending [of t n l "snd (acknowledge now (cmd_id c) result s)"] unfolding q by force
    thus False by (auto simp: deliverable_def f_def split: if_splits)
  qed
  moreover have "filter (\<lambda>d. cmd_id d \<noteq> cmd_id c) (map f ds) = filter (\<lambda>d. cmd_id d \<noteq> cmd_id c) ds" for ds
    by (induction ds) (auto simp: f_def)
  ultimately show ?thesis by (simp only: q simp_thms)
qed

definition demo_command :: command_row where
  "demo_command = command_of [] 0 ''n1'' ''APPLY_PEERS'' (JObj []) 100 60"

definition demo_one :: queue_db where
  "demo_one = snd (enqueue 0 ''n1'' ''APPLY_PEERS'' (JObj []) 100 60 demo_queue)"

lemma demo_one: "queue_inv demo_one" "q_commands demo_one = [demo_command]"
  unfolding demo_one_def
   apply (rule queue_inv_enqueue [OF demo_queue_inv])
  apply (simp add: enqueue_ok [OF demo_queue_inv demo_known] demo_command_def)
  apply (simp add: demo_queue_def)
  done

theorem acknowledged_never_pending_witness:
  "pending 5 ''n1'' 20 demo_one = [demo_command] \<and>
   cmd_id demo_command \<notin> cmd_id ` set (pending 5 ''n1'' 20 (snd (acknowledge 6 (cmd_id demo_command) JNull demo_one)))"
proof -
  have "demo_command \<in> set (q_commands demo_one)" by (simp add: demo_one(2))
  from acknowledged_never_pending [OF demo_one(1) this] have
    "cmd_id demo_command \<notin> cmd_id ` set (pending 5 ''n1'' 20 (snd (acknowledge 6 (cmd_id demo_command) JNull demo_one)))"
    by blast
  moreover have "pending 5 ''n1'' 20 demo_one = [demo_command]"
    by (simp add: pending_def demo_one(2) deliverable_def demo_command_def command_of_def)
  ultimately show ?thesis by blast
qed

text \<open>
  C36.  Acknowledging a command twice: the second call fails with a unique
  violation on the acknowledgement record, but only after its \<open>UPDATE\<close> has
  replaced the stored result and time of the first acknowledgement.
\<close>

theorem second_acknowledge_fails_but_overwrites:
  assumes "queue_inv s" "c \<in> set (q_commands s)" "cmd_acknowledgedAt c \<noteq> None"
  shows "\<exists>s'. acknowledge now (cmd_id c) result s = (Inl (PgError ''23505''), s') \<and>
    q_acks s' = q_acks s \<and> (\<exists>d \<in> set (q_commands s'). cmd_id d = cmd_id c \<and> cmd_result d = result \<and>
      cmd_acknowledgedAt d = Some now)"
proof -
  define d where "d = c\<lparr>cmd_acknowledgedAt := Some now, cmd_result := result\<rparr>"
  define s' where "s' = s\<lparr>q_commands := map (\<lambda>d. if cmd_id d = cmd_id c
      then d\<lparr>cmd_acknowledgedAt := Some now, cmd_result := result\<rparr> else d) (q_commands s)\<rparr>"
  have "d \<in> set (q_commands s')" using assms(2) by (force simp: s'_def d_def)
  hence "\<exists>d \<in> set (q_commands s'). cmd_id d = cmd_id c \<and> cmd_result d = result \<and> cmd_acknowledgedAt d = Some now"
    by (intro bexI [of _ d]) (simp_all add: d_def)
  moreover have "acknowledge now (cmd_id c) result s = (Inl (PgError ''23505''), s')"
    unfolding s'_def by (rule acknowledge_again [OF assms])
  moreover have "q_acks s' = q_acks s" by (simp add: s'_def)
  ultimately show ?thesis by blast
qed

definition demo_acked :: queue_db where
  "demo_acked = snd (acknowledge 6 (cmd_id demo_command) (JObj [(''ok'', JBool True)]) demo_one)"

lemma demo_acked:
  "queue_inv demo_acked"
  "q_commands demo_acked = [demo_command\<lparr>cmd_acknowledgedAt := Some 6, cmd_result := JObj [(''ok'', JBool True)]\<rparr>]"
proof -
  have d: "demo_command \<in> set (q_commands demo_one)" "cmd_acknowledgedAt demo_command = None"
    by (simp_all add: demo_one(2) demo_command_def command_of_def)
  show "queue_inv demo_acked" unfolding demo_acked_def by (rule queue_inv_acknowledge [OF demo_one(1)])
  show "q_commands demo_acked = [demo_command\<lparr>cmd_acknowledgedAt := Some 6, cmd_result := JObj [(''ok'', JBool True)]\<rparr>]"
    unfolding demo_acked_def acknowledge_ok [OF demo_one(1) d] by (simp add: demo_one(2))
qed

theorem second_acknowledge_fails_but_overwrites_witness:
  "fst (acknowledge 9 (cmd_id demo_command) (JObj [(''ok'', JBool False)]) demo_acked) = Inl (PgError ''23505'')"
proof -
  define c where "c = demo_command\<lparr>cmd_acknowledgedAt := Some 6, cmd_result := JObj [(''ok'', JBool True)]\<rparr>"
  have c: "c \<in> set (q_commands demo_acked)" "cmd_acknowledgedAt c \<noteq> None" "cmd_id c = cmd_id demo_command"
    by (simp_all add: c_def demo_acked(2))
  from second_acknowledge_fails_but_overwrites [OF demo_acked(1) c(1,2), of 9 "JObj [(''ok'', JBool False)]"]
  obtain s' where "acknowledge 9 (cmd_id c) (JObj [(''ok'', JBool False)]) demo_acked = (Inl (PgError ''23505''), s')"
    by (elim exE conjE)
  thus ?thesis unfolding c(3) by simp
qed

section \<open>Key rotation epochs\<close>

lemma fold_max_ge: "a \<le> fold max xs a \<and> (\<forall>x \<in> set xs. x \<le> fold max xs a)" for a :: "'a :: linorder"
proof (induction xs arbitrary: a)
  case (Cons x xs)
  show ?case using Cons [of "max x a"] by auto
qed simp

lemma epoch_le_max: "r \<in> set (q_rotations s) \<Longrightarrow> kr_nodeId r = n \<Longrightarrow> kr_epoch r \<le> max_epoch n s"
  using fold_max_ge [of 0 "map kr_epoch (filter (\<lambda>r. kr_nodeId r = n) (q_rotations s))"]
  by (auto simp: max_epoch_def)

definition rot_inv :: "'z queue_db_scheme \<Rightarrow> bool" where
  "rot_inv s \<longleftrightarrow> distinct (map (\<lambda>r. (kr_nodeId r, kr_epoch r)) (q_rotations s))"

text \<open>What other sessions may do meanwhile: append rotations under the same uniqueness constraint.\<close>

definition ledger_env :: "(nat \<Rightarrow> 'z queue_db_scheme \<Rightarrow> 'z queue_db_scheme) \<Rightarrow> bool" where
  "ledger_env env \<longleftrightarrow> (\<forall>k s. (rot_inv s \<longrightarrow> rot_inv (env k s)) \<and> set (q_rotations s) \<subseteq> set (q_rotations (env k s)) \<and>
     db_nodes (env k s) = db_nodes s)"

lemma insert_rotation_Inr:
  assumes "insert_rotation now n e key s = (Inr u, s')"
  shows "q_rotations s' = q_rotations s @ [\<lparr>kr_nodeId = n, kr_epoch = e, kr_newPublicKey = key, kr_rotatedAt = now\<rparr>] \<and>
    (rot_inv s \<longrightarrow> rot_inv s')"
proof -
  have c: "(n, e) \<notin> (\<lambda>r. (kr_nodeId r, kr_epoch r)) ` set (q_rotations s)"
    and s': "s' = s\<lparr>q_rotations := q_rotations s @ [\<lparr>kr_nodeId = n, kr_epoch = e, kr_newPublicKey = key, kr_rotatedAt = now\<rparr>]\<rparr>"
    using assms by (simp_all add: insert_rotation_def image_iff split: if_splits) metis
  show ?thesis using c by (simp add: s' rot_inv_def)
qed

lemma insert_rotation_Inl: "insert_rotation now n e key s = (Inl x, s') \<Longrightarrow> s' = s"
  by (auto simp: insert_rotation_def split: if_splits)

lemma insert_rotation_next:
  assumes "known_node n s"
  shows "\<exists>s'. insert_rotation now n (max_epoch n s + 1) key s = (Inr (), s')"
  using assms epoch_le_max [of _ s n] by (fastforce simp: insert_rotation_def)

lemma rotate_loop_fresh:
  assumes env: "ledger_env env"
  shows "rot_inv s \<Longrightarrow> rotate_loop env k now n key s = (Inr e, s') \<Longrightarrow>
    rot_inv s' \<and> set (q_rotations s) \<subseteq> set (q_rotations s') \<and> (\<forall>r \<in> set (q_rotations s). kr_nodeId r = n \<longrightarrow> kr_epoch r < e) \<and>
    \<lparr>kr_nodeId = n, kr_epoch = e, kr_newPublicKey = key, kr_rotatedAt = now\<rparr> \<in> set (q_rotations s')"
proof (induction k arbitrary: s)
  case (Suc k)
  have E: "rot_inv (env k s)" "set (q_rotations s) \<subseteq> set (q_rotations (env k s))"
    using env Suc.prems(1) by (simp_all add: ledger_env_def)
  obtain x t where i: "insert_rotation now n (max_epoch n s + 1) key (env k s) = (x, t)" by force
  show ?case
  proof (cases x)
    case (Inl err)
    hence t: "t = env k s" using i insert_rotation_Inl by blast
    hence "rotate_loop env k now n key (env k s) = (Inr e, s')"
      using Suc.prems(2) i Inl by (simp split: if_splits)
    from Suc.IH [OF E(1) this] E(2) show ?thesis by blast
  next
    case (Inr u)
    hence es: "e = max_epoch n s + 1" "s' = t" using Suc.prems(2) i by simp_all
    have "kr_epoch r < e" if "r \<in> set (q_rotations s)" "kr_nodeId r = n" for r
      using epoch_le_max [OF that] es by simp
    thus ?thesis using insert_rotation_Inr [of now n "max_epoch n s + 1" key "env k s" u t] i Inr es E by auto
  qed
qed simp

text \<open>
  C10.  Whatever other sessions append to the ledger between reading the
  highest epoch and inserting the new one, a rotation that returns an epoch has
  recorded exactly that epoch for the node, it is higher than every epoch the
  node had before, no (node, epoch) pair is recorded twice and nothing is lost.
\<close>

theorem rotate_key_fresh:
  assumes "ledger_env env" "rot_inv s" "rotate_key env now n key s = (Inr e, s')"
  shows "rot_inv s' \<and> set (q_rotations s) \<subseteq> set (q_rotations s') \<and>
    (\<forall>r \<in> set (q_rotations s). kr_nodeId r = n \<longrightarrow> kr_epoch r < e) \<and>
    \<lparr>kr_nodeId = n, kr_epoch = e, kr_newPublicKey = key, kr_rotatedAt = now\<rparr> \<in> set (q_rotations s')"
  using rotate_loop_fresh [OF assms(1,2)] assms(3) by (simp add: rotate_key_def)

lemma quiet_env: "ledger_env (\<lambda>_ s. s)"
  by (simp add: ledger_env_def)

theorem rotate_key_fresh_witness:
  "\<exists>s'. rotate_key (\<lambda>_ s. s) 7 ''n1'' ''pk'' demo_queue = (Inr 1, s') \<and> rot_inv s'"
proof -
  have i: "rot_inv demo_queue" by (simp add: rot_inv_def demo_queue_def)
  have m: "max_epoch ''n1'' demo_queue = 0" by (simp add: max_epoch_def demo_queue_def)
  obtain s' where s': "insert_rotation 7 ''n1'' (0 + 1) ''pk'' demo_queue = (Inr (), s')"
    using insert_rotation_next [OF demo_known, of 7 "''pk''"] unfolding m by (elim exE)
  have five: "(5 :: nat) = Suc 4" by simp
  have r: "rotate_key (\<lambda>_ s. s) 7 ''n1'' ''pk'' demo_queue = (Inr 1, s')"
    unfolding rotate_key_def five rotate_loop.simps Let_def m s' by simp
  from rotate_key_fresh [OF quiet_env i r] r show ?thesis by blast
qed

lemma rotate_loop_succeeds:
  assumes env: "ledger_env env"
  shows "known_node n s \<Longrightarrow> j < k \<Longrightarrow> (\<And>s. env j s = s) \<Longrightarrow> \<exists>e s'. rotate_loop env k now n key s = (Inr e, s')"
proof (induction k arbitrary: s)
  case (Suc k)
  obtain x t where i: "insert_rotation now n (max_epoch n s + 1) key (env k s) = (x, t)" by force
  have kn: "known_node n (env k s)" using env Suc.prems(1) by (simp add: ledger_env_def)
  show ?case
  proof (cases x)
    case (Inl err)
    have t: "t = env k s" using i Inl insert_rotation_Inl by blast
    have e: "err = PgError ''23505''" using i Inl kn by (auto simp: insert_rotation_def split: if_splits)
    have "j \<noteq> k"
    proof
      assume "j = k"
      hence "env k s = s" using Suc.prems(3) by simp
      thus False using insert_rotation_next [OF Suc.prems(1), of now key] i Inl by auto
    qed
    hence "j < k" using Suc.prems(2) by simp
    with Suc.IH [OF kn] Suc.prems(3) show ?thesis using i Inl t e by simp
  qed (use i in simp)
qed simp

text \<open>
  C27.  The five attempts are enough unless five other rotations interfere: if
  in at least one attempt nobody else writes between the read and the insert,
  the rotation of an enrolled node returns an epoch.
\<close>

theorem rotate_key_succeeds:
  assumes "ledger_env env" "known_node n s" "j < 5" "\<And>s. env j s = s"
  shows "\<exists>e s'. rotate_key env now n key s = (Inr e, s')"
  unfolding rotate_key_def using rotate_loop_succeeds [OF assms(1,2,3)] assms(4) by blast

theorem rotate_key_succeeds_witness:
  "\<exists>e s'. rotate_key (\<lambda>_ s. s) 7 ''n1'' ''pk'' demo_queue = (Inr e, s')"
  by (rule rotate_key_succeeds [OF quiet_env demo_known, of 0]) simp_all

section \<open>The rotation sweep\<close>

abbreviation rotation_key :: "command_row \<Rightarrow> uuid \<times> string \<times> millis" where
  "rotation_key c \<equiv> (cmd_nodeId c, cmd_type c, cmd_expiresAt c)"

lemma hasPending_append_other:
  "cmd_nodeId c \<noteq> i \<Longrightarrow> hasPending now i ty (s\<lparr>db_drawn := k, q_commands := q_commands s @ [c]\<rparr>) = hasPending now i ty s"
  by (auto simp: hasPending_def)

lemma sweep:
  "queue_inv s \<Longrightarrow> distinct xs \<Longrightarrow> \<forall>i \<in> set xs. known_node i s \<Longrightarrow>
   \<exists>s'. forJ (request_rotation now) xs s = (Inr (), s') \<and> queue_inv s' \<and> db_nodes s' = db_nodes s \<and>
     q_rotations s' = q_rotations s \<and>
     map rotation_key (q_commands s') = map rotation_key (q_commands s) @
       map (\<lambda>i. (i, ''ROTATE_IDENTITY_REQUIRED'', now + 3600000))
         (filter (\<lambda>i. \<not> hasPending now i ''ROTATE_IDENTITY_REQUIRED'' s) xs) \<and>
     (\<forall>i \<in> set xs. hasPending now i ''ROTATE_IDENTITY_REQUIRED'' s') \<and>
     (\<forall>i. hasPending now i ''ROTATE_IDENTITY_REQUIRED'' s \<longrightarrow> hasPending now i ''ROTATE_IDENTITY_REQUIRED'' s')"
proof (induction xs arbitrary: s)
  case (Cons x xs)
  show ?case
  proof (cases "hasPending now x ''ROTATE_IDENTITY_REQUIRED'' s")
    case True
    hence "forJ (request_rotation now) (x # xs) s = forJ (request_rotation now) xs s"
      by (simp add: request_rotation_def bindJ_def)
    moreover obtain s' where "forJ (request_rotation now) xs s = (Inr (), s') \<and> queue_inv s' \<and> db_nodes s' = db_nodes s \<and>
     q_rotations s' = q_rotations s \<and>
     map rotation_key (q_commands s') = map rotation_key (q_commands s) @
       map (\<lambda>i. (i, ''ROTATE_IDENTITY_REQUIRED'', now + 3600000))
         (filter (\<lambda>i. \<not> hasPending now i ''ROTATE_IDENTITY_REQUIRED'' s) xs) \<and>
     (\<forall>i \<in> set xs. hasPending now i ''ROTATE_IDENTITY_REQUIRED'' s') \<and>
     (\<forall>i. hasPending now i ''ROTATE_IDENTITY_REQUIRED'' s \<longrightarrow> hasPending now i ''ROTATE_IDENTITY_REQUIRED'' s')"
      using Cons.IH [of s] Cons.prems by auto
    ultimately show ?thesis using True by (intro exI [of _ s']) simp
  next
    case False
    define c where "c = command_of (db_fresh s (db_drawn s)) now x ''ROTATE_IDENTITY_REQUIRED'' (JObj []) 200 60"
    define t where "t = s\<lparr>db_drawn := Suc (db_drawn s), q_commands := q_commands s @ [c]\<rparr>"
    have kx: "known_node x s" using Cons.prems(3) by simp
    have e: "enqueue now x ''ROTATE_IDENTITY_REQUIRED'' (JObj []) 200 60 s = (Inr (), t)"
      unfolding t_def c_def by (rule enqueue_ok [OF Cons.prems(1) kx])
    have c: "cmd_nodeId c = x" "rotation_key c = (x, ''ROTATE_IDENTITY_REQUIRED'', now + 3600000)"
      "cmd_acknowledgedAt c = None" by (simp_all add: c_def command_of_def)
    have inv: "queue_inv t" using queue_inv_enqueue [OF Cons.prems(1)] e by (metis snd_conv)
    have other: "hasPending now i ''ROTATE_IDENTITY_REQUIRED'' t = hasPending now i ''ROTATE_IDENTITY_REQUIRED'' s" if "i \<noteq> x" for i
      unfolding t_def using c(1) that by (intro hasPending_append_other) simp
    have mine: "hasPending now x ''ROTATE_IDENTITY_REQUIRED'' t"
      using c by (auto simp: hasPending_def t_def)
    have f: "filter (\<lambda>i. \<not> hasPending now i ''ROTATE_IDENTITY_REQUIRED'' t) xs =
        filter (\<lambda>i. \<not> hasPending now i ''ROTATE_IDENTITY_REQUIRED'' s) xs"
    proof (rule filter_cong [OF refl])
      fix i assume "i \<in> set xs"
      hence "i \<noteq> x" using Cons.prems(2) by auto
      thus "(\<not> hasPending now i ''ROTATE_IDENTITY_REQUIRED'' t) = (\<not> hasPending now i ''ROTATE_IDENTITY_REQUIRED'' s)"
        using other by simp
    qed
    obtain s' where s': "forJ (request_rotation now) xs t = (Inr (), s')" "queue_inv s'" "db_nodes s' = db_nodes t"
     "q_rotations s' = q_rotations t"
     "map rotation_key (q_commands s') = map rotation_key (q_commands t) @
       map (\<lambda>i. (i, ''ROTATE_IDENTITY_REQUIRED'', now + 3600000))
         (filter (\<lambda>i. \<not> hasPending now i ''ROTATE_IDENTITY_REQUIRED'' t) xs)"
     "\<forall>i \<in> set xs. hasPending now i ''ROTATE_IDENTITY_REQUIRED'' s'"
     "\<forall>i. hasPending now i ''ROTATE_IDENTITY_REQUIRED'' t \<longrightarrow> hasPending now i ''ROTATE_IDENTITY_REQUIRED'' s'"
      using Cons.IH [of t] Cons.prems inv by (auto simp: t_def)
    have "forJ (request_rotation now) (x # xs) s = (Inr (), s')"
      using False e s'(1) by (simp add: request_rotation_def bindJ_def)
    moreover have "db_nodes t = db_nodes s" "q_rotations t = q_rotations s"
      "map rotation_key (q_commands t) = map rotation_key (q_commands s) @ [(x, ''ROTATE_IDENTITY_REQUIRED'', now + 3600000)]"
      using c(2) by (simp_all add: t_def)
    moreover have "hasPending now i ''ROTATE_IDENTITY_REQUIRED'' s'" if "hasPending now i ''ROTATE_IDENTITY_REQUIRED'' s" for i
      using that s'(7) other [of i] False by blast
    ultimately show ?thesis using s' f False mine by (intro exI [of _ s']) simp
  qed
qed simp

lemma overdue_distinct: "distinct (nodesOverdueForRotation d now s)"
  by (simp add: nodesOverdueForRotation_def)

lemma overdue_known:
  "\<forall>r \<in> set (q_rotations s). known_node (kr_nodeId r) s \<Longrightarrow> i \<in> set (nodesOverdueForRotation d now s) \<Longrightarrow> known_node i s"
  by (auto simp: nodesOverdueForRotation_def)

lemma overdue_cong: "q_rotations s = q_rotations t \<Longrightarrow> nodesOverdueForRotation d now s = nodesOverdueForRotation d now t"
  by (simp add: nodesOverdueForRotation_def last_rotated_def)


definition demo_rotated :: queue_db where
  "demo_rotated = demo_queue\<lparr>q_rotations := [\<lparr>kr_nodeId = ''n1'', kr_epoch = 1, kr_newPublicKey = ''pk'', kr_rotatedAt = 0\<rparr>]\<rparr>"


end
