(* ===== verification/Relays.thy ===== *)
theory Relays
  imports Commands
begin

text \<open>
  The relay fleet: the relay table (\<open>services/relay-fleet/pg-relay-store.ts\<close>) and
  path selection (\<open>src/application/relay-routing.ts\<close>).  Percentages and scores
  are rationals; the columns \<open>numeric(5,2)\<close> round to two decimals.
\<close>

section \<open>PgRelayStore\<close>

record relay_health =
  rh_id :: uuid
  rh_region :: string
  rh_endpoint :: string
  rh_latencyMs :: int
  rh_loadPercent :: rat
  rh_available :: bool
  rh_lastHeartbeat :: millis
  rh_activeSessions :: nat
  rh_capacityPercent :: rat
  rh_throughputBytesPerSec :: nat

record relay_row =
  rr_id :: uuid
  rr_region :: string
  rr_endpoint :: string
  rr_loadPercent :: rat
  rr_latencyMs :: int
  rr_available :: bool
  rr_lastHeartbeat :: "millis option"
  rr_instanceId :: "string option"
  rr_capacityMbps :: int
  rr_activeSessions :: nat
  rr_throughput :: nat

record mesh_db = queue_db +
  mesh_relays :: "relay_row list"

definition round2 :: "rat \<Rightarrow> rat" where
  "round2 x = of_int \<lfloor>x * 100 + 1/2\<rfloor> / 100"

definition toHealth :: "relay_row \<Rightarrow> relay_health" where
  "toHealth row = (let maxSessions = rr_capacityMbps row * 20 in
     \<lparr>rh_id = rr_id row, rh_region = rr_region row, rh_endpoint = rr_endpoint row, rh_latencyMs = rr_latencyMs row,
      rh_loadPercent = rr_loadPercent row, rh_available = rr_available row,
      rh_lastHeartbeat = (case rr_lastHeartbeat row of None \<Rightarrow> 0 | Some t \<Rightarrow> t),
      rh_activeSessions = rr_activeSessions row,
      rh_capacityPercent = (if 0 < maxSessions
        then min 100 (of_nat (rr_activeSessions row) / of_int maxSessions * 100) else 0),
      rh_throughputBytesPerSec = rr_throughput row\<rparr>)"

definition upd_relay :: "relay_row \<Rightarrow> relay_row \<Rightarrow> relay_row" where
  "upd_relay new old = old\<lparr>rr_region := rr_region new, rr_endpoint := rr_endpoint new, rr_available := True,
     rr_lastHeartbeat := rr_lastHeartbeat new, rr_capacityMbps := rr_capacityMbps new\<rparr>"

definition relay_insert :: "millis \<Rightarrow> uuid \<Rightarrow> string \<Rightarrow> string \<Rightarrow> string option \<Rightarrow> int option \<Rightarrow> ('z mesh_db_scheme, unit) js" where
  "relay_insert now relayId region endpoint instanceId capacityMbps = modifyJ (\<lambda>s. s\<lparr>mesh_relays :=
     upsert rr_id upd_relay \<lparr>rr_id = relayId, rr_region = region, rr_endpoint = endpoint, rr_loadPercent = 0,
       rr_latencyMs = 0, rr_available = True, rr_lastHeartbeat = Some now, rr_instanceId = instanceId,
       rr_capacityMbps = (case capacityMbps of None \<Rightarrow> 1000 | Some c \<Rightarrow> c), rr_activeSessions = 0,
       rr_throughput = 0\<rparr> (mesh_relays s)\<rparr>)"

definition relay_get :: "uuid \<Rightarrow> 'z mesh_db_scheme \<Rightarrow> relay_row option" where
  "relay_get relayId s = find_by rr_id relayId (mesh_relays s)"

definition relay_remove :: "uuid \<Rightarrow> ('z mesh_db_scheme, unit) js" where
  "relay_remove relayId = modifyJ (\<lambda>s. s\<lparr>mesh_relays := filter (\<lambda>r. rr_id r \<noteq> relayId) (mesh_relays s)\<rparr>)"

definition relay_list :: "'z mesh_db_scheme \<Rightarrow> relay_health list" where
  "relay_list s = map toHealth (sort_key (\<lambda>r. (rr_region r, rr_id r)) (mesh_relays s))"

definition relay_heartbeat :: "millis \<Rightarrow> uuid \<Rightarrow> rat \<Rightarrow> int \<Rightarrow> nat \<Rightarrow> nat \<Rightarrow> ('z mesh_db_scheme, unit) js" where
  "relay_heartbeat now relayId loadPercent latencyMs activeSessions throughput = modifyJ (\<lambda>s. s\<lparr>mesh_relays :=
     map (\<lambda>r. if rr_id r = relayId then r\<lparr>rr_loadPercent := round2 loadPercent, rr_latencyMs := latencyMs,
       rr_activeSessions := activeSessions, rr_throughput := throughput, rr_available := True,
       rr_lastHeartbeat := Some now\<rparr> else r) (mesh_relays s)\<rparr>)"

definition relay_candidates :: "millis \<Rightarrow> 'z mesh_db_scheme \<Rightarrow> relay_health list" where
  "relay_candidates now s = map toHealth (filter (\<lambda>r. rr_available r \<and>
     (case rr_lastHeartbeat r of None \<Rightarrow> False | Some t \<Rightarrow> now - 45000 < t)) (mesh_relays s))"

section \<open>RelayRoutingService\<close>

datatype path_kind = DIRECT | LOCAL_RELAY | REGIONAL_RELAY

record path_candidate =
  pc_kind :: path_kind
  pc_endpoint :: string
  pc_score :: rat

definition relay_penalty :: "relay_health \<Rightarrow> rat" where
  "relay_penalty r = of_int (rh_latencyMs r) + rh_loadPercent r + rh_capacityPercent r * 2"

definition relay_healthy :: "relay_health \<Rightarrow> millis \<Rightarrow> bool" where
  "relay_healthy r now \<longleftrightarrow> rh_available r \<and> now - rh_lastHeartbeat r < 45000 \<and> rh_loadPercent r < 95 \<and>
     rh_capacityPercent r < 95"

definition routing_select :: "string option \<Rightarrow> relay_health list \<Rightarrow> relay_health list \<Rightarrow> millis \<Rightarrow> path_candidate list" where
  "routing_select directEndpoint local_relays regional now =
     sort_key (\<lambda>c. - pc_score c)
       ((case truthy directEndpoint of None \<Rightarrow> [] | Some e \<Rightarrow> [\<lparr>pc_kind = DIRECT, pc_endpoint = e, pc_score = 1000\<rparr>]) @
        map (\<lambda>r. \<lparr>pc_kind = LOCAL_RELAY, pc_endpoint = rh_endpoint r, pc_score = 800 - relay_penalty r\<rparr>)
          (filter (\<lambda>x. relay_healthy x now) local_relays) @
        map (\<lambda>r. \<lparr>pc_kind = REGIONAL_RELAY, pc_endpoint = rh_endpoint r, pc_score = 600 - relay_penalty r\<rparr>)
          (filter (\<lambda>x. relay_healthy x now) regional))"

section \<open>Facts\<close>

lemma capacity_bounds: "0 \<le> rh_capacityPercent (toHealth row) \<and> rh_capacityPercent (toHealth row) \<le> 100"
  by (simp add: toHealth_def Let_def)

lemma routing_set:
  "c \<in> set (routing_select None ls rs now) \<longleftrightarrow>
    (\<exists>r \<in> set ls. relay_healthy r now \<and> c = \<lparr>pc_kind = LOCAL_RELAY, pc_endpoint = rh_endpoint r, pc_score = 800 - relay_penalty r\<rparr>) \<or>
    (\<exists>r \<in> set rs. relay_healthy r now \<and> c = \<lparr>pc_kind = REGIONAL_RELAY, pc_endpoint = rh_endpoint r, pc_score = 600 - relay_penalty r\<rparr>)"
  by (auto simp: routing_select_def truthy_def)

lemma sort_key_hd_min: "x \<in> set xs \<Longrightarrow> sort_key f xs = y # ys \<Longrightarrow> f y \<le> f x"
proof -
  assume x: "x \<in> set xs" and e: "sort_key f xs = y # ys"
  have "sorted (map f (y # ys))" using e sorted_sort_key [of f xs] by simp
  moreover have "x \<in> set (y # ys)" using x e set_sort [of f xs] by (metis (no_types))
  ultimately show ?thesis by auto
qed


definition demo_relay :: "string \<Rightarrow> int \<Rightarrow> relay_health" where
  "demo_relay e latency = \<lparr>rh_id = e, rh_region = ''eu'', rh_endpoint = e, rh_latencyMs = latency, rh_loadPercent = 10,
     rh_available = True, rh_lastHeartbeat = 0, rh_activeSessions = 1, rh_capacityPercent = 50, rh_throughputBytesPerSec = 0\<rparr>"

text \<open>
  The region tier does not dominate: a healthy relay in the node's own
  region can lose against a relay of another region, when its latency, load
  and capacity penalty is more than 200 points higher.
\<close>

theorem local_relay_can_lose:
  assumes "relay_healthy l now" "relay_healthy r now" "relay_penalty r + 200 < relay_penalty l"
  shows "pc_kind (hd (routing_select None [l] [r] now)) = REGIONAL_RELAY"
  using assms by (simp add: routing_select_def truthy_def)

theorem local_relay_can_lose_witness:
  "pc_kind (hd (routing_select None [demo_relay ''near'' 350] [demo_relay ''far'' 40] 1000)) = REGIONAL_RELAY"
  by (rule local_relay_can_lose) (simp_all add: demo_relay_def relay_healthy_def relay_penalty_def)

end
