(* ===== verification/Mesh.thy ===== *)
theory Mesh
  imports Relays
begin

text \<open>
  Address allocation and mesh topology (\<open>services/mesh-controller/controller.ts\<close>),
  the command sink (\<open>pg-mesh-command-sink.ts\<close>) and the distribution of a new
  peer to the nodes already active (\<open>mesh-controller-peer-distributor.ts\<close>).
\<close>

section \<open>AddressAllocator\<close>

definition ipv4_of :: "nat \<Rightarrow> string" where
  "ipv4_of n = (let a = 10 + n div 254; b = n mod 254 + 1 in
     ''10.144.'' @ dec (a mod 256) @ ''.'' @ dec b)"

definition ipv6_of :: "nat \<Rightarrow> string" where
  "ipv6_of n = ''fd14:4b41:5043::'' @ radix 16 n"

function alloc_from :: "string set \<Rightarrow> string set \<Rightarrow> nat \<Rightarrow> js_error + string \<times> string" where
  "alloc_from used4 used6 n =
     (if \<not> n < 65534 then Inl (JsError ''mesh address pool exhausted'')
      else if ipv4_of n \<notin> used4 \<and> ipv6_of n \<notin> used6 then Inr (ipv4_of n, ipv6_of n)
      else alloc_from used4 used6 (n + 1))"
  by pat_completeness auto
termination
  by (relation "measure (\<lambda>(_, _, n). 65534 - n)") auto

declare alloc_from.simps [simp del]

definition address_next :: "string set \<Rightarrow> string set \<Rightarrow> js_error + string \<times> string" where
  "address_next used4 used6 = alloc_from used4 used6 2"

section \<open>MeshController\<close>

datatype path_choice = PathDirect | PathRelay

record mesh_peer_plan =
  mp_nodeId :: uuid
  mp_publicKey :: string
  mp_endpoint :: "string option"
  mp_allowedIps :: "string list"
  mp_keepaliveSeconds :: nat
  mp_path :: path_choice

definition peer_payload :: "mesh_peer_plan \<Rightarrow> json" where
  "peer_payload p = JObj ([(''publicKey'', JStr (mp_publicKey p)), (''allowedIps'', strs_json (mp_allowedIps p)),
     (''keepaliveSeconds'', JNum (int (mp_keepaliveSeconds p)))] @
     opt_field ''endpoint'' JStr (truthy (mp_endpoint p)))"

definition applyPeersPayload :: "mesh_peer_plan list \<Rightarrow> json" where
  "applyPeersPayload peers = JArr (map peer_payload peers)"

definition zone_allowed :: "security_zone \<Rightarrow> security_zone \<Rightarrow> bool" where
  "zone_allowed a b \<longleftrightarrow>
     (if a = ZONE_FORENSIC_ISOLATION \<or> b = ZONE_FORENSIC_ISOLATION then a = ZONE_ADMIN_MGMT \<or> b = ZONE_ADMIN_MGMT
      else if a = ZONE_DEV \<and> b = ZONE_PROD_DATA then False
      else True)"

text \<open>\<open>relaySource\<close> is optional; \<open>candidates\<close> is what it returns.\<close>

definition selectRelayEndpoint :: "relay_health list option \<Rightarrow> string \<Rightarrow> millis \<Rightarrow> string option" where
  "selectRelayEndpoint source nodeRegion now = (case source of
     None \<Rightarrow> None
   | Some candidates \<Rightarrow>
       let knownRegion = (nodeRegion \<noteq> UNASSIGNED_REGION);
           local_relays = (if knownRegion then filter (\<lambda>c. rh_region c = nodeRegion) candidates else []);
           regional = (if knownRegion then filter (\<lambda>c. rh_region c \<noteq> nodeRegion) candidates else candidates)
       in (case routing_select None local_relays regional now of
             [] \<Rightarrow> None
           | best # _ \<Rightarrow> if pc_kind best \<noteq> DIRECT then Some (pc_endpoint best) else None))"

definition peer_plan :: "string option \<Rightarrow> mesh_node \<Rightarrow> mesh_peer_plan" where
  "peer_plan relay p = \<lparr>mp_nodeId = mn_id p, mp_publicKey = mn_wireGuardPublicKey p, mp_endpoint = truthy relay,
     mp_allowedIps = [mn_internalIpv4 p @ ''/32'', mn_internalIpv6 p @ ''/128''], mp_keepaliveSeconds = 25,
     mp_path = (if truthy relay \<noteq> None then PathRelay else PathDirect)\<rparr>"

definition planFor :: "(string \<Rightarrow> string) \<Rightarrow> relay_health list option \<Rightarrow> millis \<Rightarrow> mesh_node \<Rightarrow> mesh_node list \<Rightarrow> string option \<Rightarrow>
    mesh_peer_plan list \<times> string" where
  "planFor sha256 source now node all relayEndpoint =
     (let resolved = (case relayEndpoint of Some e \<Rightarrow> Some e
            | None \<Rightarrow> selectRelayEndpoint source
                (case mn_region node of None \<Rightarrow> UNASSIGNED_REGION | Some r \<Rightarrow> r) now);
          peers = map (peer_plan resolved)
            (filter (\<lambda>p. zone_allowed (mn_zone node) (mn_zone p))
              (filter (\<lambda>p. mn_active p \<and> mn_id p \<noteq> mn_id node) all))
      in (peers, sha256 (canonicalJson (applyPeersPayload peers))))"

section \<open>PgMeshCommandSink\<close>

definition sink_configure :: "millis \<Rightarrow> mesh_node \<Rightarrow> mesh_peer_plan list \<Rightarrow> ('z queue_db_scheme, unit) js" where
  "sink_configure now node peers = enqueue now (mn_id node) ''APPLY_PEERS'' (JObj [(''peers'', applyPeersPayload peers)]) 100 60"

definition sink_sever :: "millis \<Rightarrow> uuid \<Rightarrow> ('z queue_db_scheme, unit) js" where
  "sink_sever now nodeId = enqueue now nodeId ''QUARANTINE'' (JObj [(''reason'', JStr ''mesh topology quarantine'')]) 200 60"

definition mesh_reconcile :: "(string \<Rightarrow> string) \<Rightarrow> millis \<Rightarrow> mesh_node \<Rightarrow> mesh_node list \<Rightarrow> string option \<Rightarrow>
    ('z mesh_db_scheme, uuid \<times> nat \<times> string) js" where
  "mesh_reconcile sha256 now node all relayEndpoint =
     bindJ (getJ (\<lambda>s. planFor sha256 (Some (relay_candidates now s)) now node all relayEndpoint)) (\<lambda>(peers, topologyHash).
       bindJ (sink_configure now node peers) (\<lambda>_. retJ (mn_id node, length peers, topologyHash)))"

definition mesh_quarantine :: "millis \<Rightarrow> uuid \<Rightarrow> ('z queue_db_scheme, unit) js" where
  "mesh_quarantine now nodeId = sink_sever now nodeId"

section \<open>MeshControllerPeerDistributor\<close>

definition distributor_configure :: "(string \<Rightarrow> string) \<Rightarrow> millis \<Rightarrow> mesh_node \<Rightarrow> mesh_node list \<Rightarrow> ('z mesh_db_scheme, unit) js" where
  "distributor_configure sha256 now node existingPeers =
     (let all = existingPeers @ [node] in
      forJ (\<lambda>peer. bindJ (mesh_reconcile sha256 now peer all None) (\<lambda>_. retJ ())) existingPeers)"

definition distributor_remove :: "uuid \<Rightarrow> ('z mesh_db_scheme, unit) js" where
  "distributor_remove nodeId = retJ ()"

section \<open>Allocation\<close>

lemma dec_no_dot: "CHR ''.'' \<notin> set (dec n)"
  using dec_digits [of "CHR ''.''" n] by (auto simp: is_digit_def)

lemma ipv4_of_inj: "ipv4_of m = ipv4_of n \<longleftrightarrow> (10 + m div 254) mod 256 = (10 + n div 254) mod 256 \<and> m mod 254 = n mod 254"
proof -
  have "dec a @ CHR ''.'' # dec b = dec c @ CHR ''.'' # dec d \<longleftrightarrow> a = c \<and> b = d" for a b c d
  proof
    assume e: "dec a @ CHR ''.'' # dec b = dec c @ CHR ''.'' # dec d"
    have "split_on (CHR ''.'') (dec a @ CHR ''.'' # dec b) = [dec a, dec b]" for a b
      by (simp add: split_on_append split_on_no_sep dec_no_dot)
    thus "a = c \<and> b = d" using e by (metis dec_inj list.inject)
  qed simp
  thus ?thesis by (simp add: ipv4_of_def Let_def)
qed

lemma mod_256_le:
  fixes a b :: nat
  assumes "a \<le> b" "b \<le> 256" "(10 + a) mod 256 = (10 + b) mod 256"
  shows "b = a \<or> b = a + 256"
proof -
  have "10 + a \<le> 10 + b" using assms(1) by simp
  hence "256 dvd (10 + b) - (10 + a)" using mod_eq_dvd_iff_nat [of "10 + a" "10 + b" 256] assms(3) by simp
  then obtain c where c: "b - a = 256 * c" by (auto elim: dvdE)
  have "256 * c \<le> 256" using assms(2) c by linarith
  hence "c = 0 \<or> c = 1" by linarith
  thus ?thesis using c assms(1) by auto
qed

lemma mod_256_cases:
  fixes q r :: nat
  assumes "q \<le> 256" "r \<le> 256" "(10 + q) mod 256 = (10 + r) mod 256"
  shows "q = r \<or> q = r + 256 \<or> r = q + 256"
proof (cases "q \<le> r")
  case True
  thus ?thesis using mod_256_le [of q r] assms by blast
next
  case False
  hence "q = r \<or> q = r + 256" using assms by (intro mod_256_le) simp_all
  thus ?thesis by blast
qed

lemma ipv4_of_inj_on: "inj_on ipv4_of {2..<65026}"
proof (rule inj_onI)
  fix m n assume m: "m \<in> {2..<65026}" and n: "n \<in> {2..<65026}" and e: "ipv4_of m = ipv4_of n"
  define q r q' r' where "q = m div 254" and "r = m mod 254" and "q' = n div 254" and "r' = n mod 254"
  have mn: "m = 254 * q + r" "n = 254 * q' + r'" by (simp_all add: q_def r_def q'_def r'_def)
  have r: "r = r'" "(10 + q) mod 256 = (10 + q') mod 256"
    using e unfolding ipv4_of_inj q_def q'_def r_def r'_def by auto
  have lt: "r < 254" by (simp add: r_def)
  have b: "254 * q + r < 65026" "2 \<le> 254 * q + r" "254 * q' + r < 65026" "2 \<le> 254 * q' + r"
    using m n mn r(1) by auto
  have "q \<le> 256" "q' \<le> 256" using b lt by linarith+
  moreover have "q = 256 \<Longrightarrow> r < 2" "q' = 256 \<Longrightarrow> r < 2" using b by auto
  moreover have "q = 0 \<Longrightarrow> 2 \<le> r" "q' = 0 \<Longrightarrow> 2 \<le> r" using b by auto
  moreover have "q = q' \<or> q = q' + 256 \<or> q' = q + 256"
    using r(2) calculation(1,2) by (intro mod_256_cases)
  ultimately have "q = q'" by auto
  thus "m = n" using mn r by simp
qed

lemma Suc_le_neq: "n + 1 \<le> k \<longleftrightarrow> n \<le> k \<and> k \<noteq> n" for n k :: nat
  by auto

lemma first_from_Suc:
  fixes n N :: nat
  assumes "\<not> free n"
  shows "(\<exists>m. n \<le> m \<and> m < N \<and> P m \<and> free m \<and> (\<forall>k. n \<le> k \<and> k < m \<longrightarrow> \<not> free k)) \<longleftrightarrow>
    (\<exists>m. n + 1 \<le> m \<and> m < N \<and> P m \<and> free m \<and> (\<forall>k. n + 1 \<le> k \<and> k < m \<longrightarrow> \<not> free k))"
  unfolding Suc_le_neq using assms by blast

lemma all_from_Suc:
  fixes n N :: nat
  assumes "\<not> free n"
  shows "(\<forall>m. n \<le> m \<and> m < N \<longrightarrow> \<not> free m) \<longleftrightarrow> (\<forall>m. n + 1 \<le> m \<and> m < N \<longrightarrow> \<not> free m)"
  unfolding Suc_le_neq using assms by blast

definition lease_free :: "string set \<Rightarrow> string set \<Rightarrow> nat \<Rightarrow> bool" where
  "lease_free used4 used6 n \<longleftrightarrow> ipv4_of n \<notin> used4 \<and> ipv6_of n \<notin> used6"

lemma alloc_from_unfold: "alloc_from used4 used6 n =
    (if n < 65534 then if lease_free used4 used6 n then Inr (ipv4_of n, ipv6_of n) else alloc_from used4 used6 (n + 1)
     else alloc_from used4 used6 n)"
  by (subst (1 2) alloc_from.simps) (simp add: lease_free_def Let_def)

lemma alloc_from_stop: "\<not> n < 65534 \<Longrightarrow> \<exists>e. alloc_from used4 used6 n = Inl e"
  by (subst alloc_from.simps) simp

lemma alloc_from_result:
  "alloc_from used4 used6 n = Inr p \<longleftrightarrow> (\<exists>m. n \<le> m \<and> m < 65534 \<and> p = (ipv4_of m, ipv6_of m) \<and>
     lease_free used4 used6 m \<and> (\<forall>k. n \<le> k \<and> k < m \<longrightarrow> \<not> lease_free used4 used6 k))"
proof (induction used4 used6 n rule: alloc_from.induct)
  case (1 used4 used6 n)
  consider (stop) "\<not> n < 65534" | (free) "n < 65534" "lease_free used4 used6 n" | (taken) "n < 65534" "\<not> lease_free used4 used6 n" by blast
  thus ?case
  proof cases
    case stop
    with alloc_from_stop [OF stop, of used4 used6] show ?thesis by (metis Inl_Inr_False le_trans not_le_imp_less not_less)
  next
    case free
    hence "alloc_from used4 used6 n = Inr (ipv4_of n, ipv6_of n)" by (subst alloc_from_unfold) simp
    thus ?thesis using free by (metis Inr_inject le_neq_implies_less order_refl not_less)
  next
    case taken
    hence e: "alloc_from used4 used6 n = alloc_from used4 used6 (n + 1)" by (subst alloc_from_unfold) simp
    show ?thesis unfolding e first_from_Suc [of "lease_free used4 used6" n, OF taken(2)]
      by (rule 1) (use taken in \<open>simp_all add: lease_free_def\<close>)
  qed
qed

lemma alloc_from_exhausted:
  "(\<exists>e. alloc_from used4 used6 n = Inl e) \<longleftrightarrow> (\<forall>m. n \<le> m \<and> m < 65534 \<longrightarrow> \<not> lease_free used4 used6 m)"
proof (induction used4 used6 n rule: alloc_from.induct)
  case (1 used4 used6 n)
  consider (stop) "\<not> n < 65534" | (free) "n < 65534" "lease_free used4 used6 n" | (taken) "n < 65534" "\<not> lease_free used4 used6 n" by blast
  thus ?case
  proof cases
    case stop
    with alloc_from_stop [OF stop, of used4 used6] show ?thesis by (metis le_trans not_le_imp_less not_less)
  next
    case free
    hence "alloc_from used4 used6 n = Inr (ipv4_of n, ipv6_of n)" by (subst alloc_from_unfold) simp
    thus ?thesis using free by (metis Inl_Inr_False order_refl)
  next
    case taken
    hence e: "alloc_from used4 used6 n = alloc_from used4 used6 (n + 1)" by (subst alloc_from_unfold) simp
    show ?thesis unfolding e all_from_Suc [of "lease_free used4 used6" n, OF taken(2)]
      by (rule 1) (use taken in \<open>simp_all add: lease_free_def\<close>)
  qed
qed

lemma ipv6_of_inj: "inj_on ipv6_of A"
  by (rule inj_onI) (simp add: ipv6_of_def radix_inj)

lemma card_blocked: "inj_on f A \<Longrightarrow> finite U \<Longrightarrow> card {m \<in> A. f m \<in> U} \<le> card U"
  by (rule card_inj_on_le [of f]) (auto simp: inj_on_def)

lemma free_lease_exists:
  assumes "finite used4" "finite used6" "card used4 + card used6 < 65024"
  shows "\<exists>m. 2 \<le> m \<and> m < 65026 \<and> lease_free used4 used6 m"
proof (rule ccontr)
  let ?A = "{2..<65026 :: nat}"
  let ?B4 = "{m \<in> ?A. ipv4_of m \<in> used4}" and ?B6 = "{m \<in> ?A. ipv6_of m \<in> used6}"
  assume n: "\<not> ?thesis"
  have sub: "?A \<subseteq> ?B4 \<union> ?B6"
  proof
    fix m assume m: "m \<in> ?A"
    hence "\<not> lease_free used4 used6 m" using n by (metis atLeastLessThan_iff)
    thus "m \<in> ?B4 \<union> ?B6" using m unfolding lease_free_def by blast
  qed
  have fin: "finite (?B4 \<union> ?B6)" by (rule finite_subset [of _ ?A]) (blast, rule finite_atLeastLessThan)
  have "card ?A \<le> card (?B4 \<union> ?B6)" by (rule card_mono [OF fin sub])
  also have "\<dots> \<le> card ?B4 + card ?B6" by (rule card_Un_le)
  also have "\<dots> \<le> card used4 + card used6"
    by (rule add_mono [OF card_blocked [OF ipv4_of_inj_on assms(1)] card_blocked [OF ipv6_of_inj assms(2)]])
  finally have "card ?A < 65024" using assms(3) by (rule le_less_trans)
  thus False by (simp only: card_atLeastLessThan)
qed

text \<open>
  C18.  The allocator returns a pair of addresses neither of which is leased,
  for the first free index, and it fails only when every index is taken; as long
  as fewer than 65024 addresses are leased in total it does not fail.
\<close>

theorem address_next_spec:
  assumes "finite used4" "finite used6"
  shows "(\<forall>p. address_next used4 used6 = Inr p \<longrightarrow> (\<exists>n. 2 \<le> n \<and> n < 65534 \<and> p = (ipv4_of n, ipv6_of n) \<and>
      fst p \<notin> used4 \<and> snd p \<notin> used6 \<and> (\<forall>k. 2 \<le> k \<and> k < n \<longrightarrow> ipv4_of k \<in> used4 \<or> ipv6_of k \<in> used6))) \<and>
    (card used4 + card used6 < 65024 \<longrightarrow> (\<exists>p. address_next used4 used6 = Inr p))"
proof (intro conjI allI impI)
  fix p assume "address_next used4 used6 = Inr p"
  then obtain n where "2 \<le> n" "n < 65534" "p = (ipv4_of n, ipv6_of n)" "lease_free used4 used6 n"
    "\<forall>k. 2 \<le> k \<and> k < n \<longrightarrow> \<not> lease_free used4 used6 k"
    unfolding address_next_def alloc_from_result by blast
  thus "\<exists>n. 2 \<le> n \<and> n < 65534 \<and> p = (ipv4_of n, ipv6_of n) \<and> fst p \<notin> used4 \<and> snd p \<notin> used6 \<and>
      (\<forall>k. 2 \<le> k \<and> k < n \<longrightarrow> ipv4_of k \<in> used4 \<or> ipv6_of k \<in> used6)"
    unfolding lease_free_def by (intro exI [of _ n] conjI) (assumption | simp only: fst_conv snd_conv | blast)+
next
  assume "card used4 + card used6 < 65024"
  from free_lease_exists [OF assms this] obtain m where m: "2 \<le> m" "m < 65026" "lease_free used4 used6 m" by blast
  have "m < 65534" using m(2) by linarith
  hence "\<not> (\<exists>e. alloc_from used4 used6 2 = Inl e)" unfolding alloc_from_exhausted using m by blast
  thus "\<exists>p. address_next used4 used6 = Inr p" unfolding address_next_def by (meson sumE)
qed

theorem address_next_spec_witness:
  "\<exists>p. address_next {ipv4_of 2} {ipv6_of 3} = Inr p \<and> fst p \<noteq> ipv4_of 2 \<and> snd p \<noteq> ipv6_of 3"
  using address_next_spec [of "{ipv4_of 2}" "{ipv6_of 3}"] by force

text \<open>
  The pool contains the addresses of the DNS sinkhole: when the indices
  below 83 are leased, the next lease is \<open>fd14:4b41:5043::53\<close>, and index 62536
  is \<open>10.144.0.53\<close>.
\<close>

theorem allocator_hands_out_sinkhole:
  "address_next {} (ipv6_of ` {2..<83}) = Inr (ipv4_of 83, ''fd14:4b41:5043::53'') \<and> ipv4_of 62536 = ''10.144.0.53''"
proof
  have six: "ipv6_of 83 = ''fd14:4b41:5043::53''"
    unfolding ipv6_of_def by code_simp
  show "address_next {} (ipv6_of ` {2..<83}) = Inr (ipv4_of 83, ''fd14:4b41:5043::53'')"
    unfolding address_next_def alloc_from_result six [symmetric]
  proof (intro exI [of _ 83] conjI allI impI)
    have "ipv6_of 83 \<notin> ipv6_of ` {2..<83}" using inj_onD [OF ipv6_of_inj [of UNIV]] by fastforce
    thus "lease_free {} (ipv6_of ` {2..<83}) 83" unfolding lease_free_def by blast
    fix k :: nat assume "2 \<le> k \<and> k < 83"
    hence "ipv6_of k \<in> ipv6_of ` {2..<83}" by (intro imageI) (simp only: atLeastLessThan_iff)
    thus "\<not> lease_free {} (ipv6_of ` {2..<83}) k" unfolding lease_free_def by blast
  qed (rule refl | simp)+
  have "dec 0 = ''0''" "dec 53 = ''53''" by code_simp+
  thus "ipv4_of 62536 = ''10.144.0.53''" by (simp add: ipv4_of_def)
qed

section \<open>Topology\<close>

lemma planFor_ids: "map mp_nodeId (fst (planFor sha source now node all relay)) =
    map mn_id (filter (\<lambda>p. mn_active p \<and> mn_id p \<noteq> mn_id node \<and> zone_allowed (mn_zone node) (mn_zone p)) all)"
  by (simp add: planFor_def Let_def comp_def peer_plan_def conj_ac)


definition demo_prod :: mesh_node where
  "demo_prod = demo_node\<lparr>mn_id := ''n2'', mn_zone := ZONE_PROD_DATA, mn_wireGuardPublicKey := ''k2''\<rparr>"


text \<open>
  The rule that keeps development nodes away from production data is
  one-sided: the plan of the development node leaves the data node out, but the
  plan of the data node contains the development node.
\<close>

theorem zone_rule_one_sided:
  assumes "mn_zone d = ZONE_DEV" "mn_zone p = ZONE_PROD_DATA" "mn_active d" "mn_active p" "mn_id d \<noteq> mn_id p"
  shows "mn_id p \<notin> mp_nodeId ` set (fst (planFor sha source now d [d, p] relay)) \<and>
    mn_id d \<in> mp_nodeId ` set (fst (planFor sha source now p [d, p] relay))"
proof -
  have "set (map mp_nodeId (fst (planFor sha source now d [d, p] relay))) = {}"
    "set (map mp_nodeId (fst (planFor sha source now p [d, p] relay))) = {mn_id d}"
    unfolding planFor_ids using assms by (simp_all add: zone_allowed_def)
  thus ?thesis by simp
qed

theorem zone_rule_one_sided_witness:
  "mn_id (demo_node\<lparr>mn_zone := ZONE_DEV\<rparr>) \<in>
     mp_nodeId ` set (fst (planFor (\<lambda>x. x) None 0 demo_prod [demo_node\<lparr>mn_zone := ZONE_DEV\<rparr>, demo_prod] None))"
proof -
  have "mn_zone (demo_node\<lparr>mn_zone := ZONE_DEV\<rparr>) = ZONE_DEV" "mn_zone demo_prod = ZONE_PROD_DATA"
    "mn_active (demo_node\<lparr>mn_zone := ZONE_DEV\<rparr>)" "mn_active demo_prod" "mn_id (demo_node\<lparr>mn_zone := ZONE_DEV\<rparr>) \<noteq> mn_id demo_prod"
    by (simp_all add: demo_prod_def demo_node_def)
  from zone_rule_one_sided [OF this] show ?thesis by blast
qed

end
