(* ===== verification/Rollout.thy ===== *)
theory Rollout
  imports Mesh
begin

text \<open>
  Policy rollouts: compilation (\<open>src/application/policy-compiler.ts\<close>), the
  enforcer that persists a commit and broadcasts it to the nodes
  (\<open>src/infrastructure/pg-policy-enforcer.ts\<close>, and \<open>InMemoryEnforcer\<close> of
  \<open>adapters.ts\<close>), the per-node rollout records (\<open>pg-rollout-store.ts\<close>,
  \<open>in-memory-rollout-store.ts\<close>) and the apply-verify-commit-or-rollback protocol
  (\<open>src/application/safe-apply.ts\<close>).
\<close>

section \<open>PolicyCompiler\<close>

definition policy_zones :: "string list" where
  "policy_zones = [''ZONE_PROD_DATA'', ''ZONE_PROD_APP'', ''ZONE_STAGING'', ''ZONE_DEV'', ''ZONE_ADMIN_MGMT'',
     ''ZONE_FORENSIC_ISOLATION'']"

definition compile_rule :: "network_policy \<Rightarrow> js_error + policy_ir_rule" where
  "compile_rule p =
     (if \<not> list_all (\<lambda>z. zone_string z \<in> set policy_zones) (np_sourceZones p) \<or>
         \<not> list_all (\<lambda>z. zone_string z \<in> set policy_zones) (np_destinationZones p)
      then Inl (ValidationError (''invalid zone in '' @ np_name p))
      else if list_ex (\<lambda>x. x < 1 \<or> 65535 < x) (np_destinationPorts p)
      then Inl (ValidationError (''invalid port in '' @ np_name p))
      else Inr \<lparr>ir_id = np_id p, ir_source = np_sourceZones p, ir_destination = np_destinationZones p,
        ir_protocols = np_protocols p, ir_ports = np_destinationPorts p, ir_action = np_action p,
        ir_log = True, ir_expiresAt = None\<rparr>)"

fun compile_rules :: "network_policy list \<Rightarrow> js_error + policy_ir_rule list" where
  "compile_rules [] = Inr []"
| "compile_rules (p # ps) = (case compile_rule p of Inl e \<Rightarrow> Inl e
     | Inr r \<Rightarrow> (case compile_rules ps of Inl e \<Rightarrow> Inl e | Inr rs \<Rightarrow> Inr (r # rs)))"

definition rule_json :: "policy_ir_rule \<Rightarrow> json" where
  "rule_json r = JObj [(''id'', JStr (ir_id r)), (''source'', strs_json (map zone_string (ir_source r))),
     (''destination'', strs_json (map zone_string (ir_destination r))),
     (''protocols'', strs_json (map protocol_string (ir_protocols r))),
     (''ports'', JArr (map (\<lambda>n. JNum (int n)) (ir_ports r))),
     (''action'', JStr (action_string (ir_action r))), (''log'', JBool (ir_log r))]"

definition compile_policies :: "(string \<Rightarrow> string) \<Rightarrow> millis \<Rightarrow> network_policy list \<Rightarrow> js_error + policy_ir_document" where
  "compile_policies sha256 now policies =
     (case compile_rules (sort_key (\<lambda>p. - np_priority p) (filter np_active policies)) of
        Inl e \<Rightarrow> Inl e
      | Inr rules \<Rightarrow> Inr \<lparr>irdoc_version = 1, irdoc_generatedAt = now,
          irdoc_checksum = sha256 (json_stringify (JArr (map rule_json rules))), irdoc_rules = rules\<rparr>)"

definition zones_csv :: "security_zone list \<Rightarrow> string" where
  "zones_csv zs = js_join '','' (map zone_string zs)"

definition protocols_csv :: "protocol list \<Rightarrow> string" where
  "protocols_csv ps = js_join '','' (map protocol_string ps)"

definition ports_csv :: "nat list \<Rightarrow> string" where
  "ports_csv ps = js_join '','' (map dec ps)"

definition linux_plan :: "policy_ir_document \<Rightarrow> (string \<times> string) list \<times> string list" where
  "linux_plan d =
     (map (\<lambda>r. (zones_csv (ir_source r) @ ''|'' @ zones_csv (ir_destination r) @ ''|'' @
          protocols_csv (ir_protocols r) @ ''|'' @ ports_csv (ir_ports r),
        action_string (ir_action r))) (irdoc_rules d),
      map (\<lambda>r. js_lower (action_string (ir_action r)) @ '' '' @ protocols_csv (ir_protocols r) @ '' dport { '' @
          ports_csv (ir_ports r) @ '' } comment '' @ ir_id r) (irdoc_rules d))"

record wfp_filter =
  wfp_name :: string
  wfp_layer :: string
  wfp_action :: string
  wfp_conditions :: "(string \<times> string) list"

definition windows_plan :: "policy_ir_document \<Rightarrow> wfp_filter list" where
  "windows_plan d = map (\<lambda>r. \<lparr>wfp_name = ''BAPC-'' @ ir_id r, wfp_layer = ''ALE_AUTH_CONNECT_V4_V6'',
     wfp_action = (if ir_action r = ALLOW then ''PERMIT'' else ''BLOCK''),
     wfp_conditions = [(''zones'', zones_csv (ir_source r) @ ''->'' @ zones_csv (ir_destination r)),
       (''protocols'', protocols_csv (ir_protocols r)), (''ports'', ports_csv (ir_ports r))]\<rparr>) (irdoc_rules d)"

definition apple_plan :: "policy_ir_document \<Rightarrow> (string list \<times> string list \<times> string) list" where
  "apple_plan d = map (\<lambda>r. ([], map zone_string (ir_destination r),
     if ir_action r = ALLOW then ''allow'' else ''drop'')) (irdoc_rules d)"

section \<open>State\<close>

datatype commit_status = CommitStaged | CommitCommitted | CommitRolledBack

record commit_row =
  pco_id :: uuid
  pco_payload :: json
  pco_status :: commit_status
  pco_initiatedBy :: uuid
  pco_finalizedAt :: "millis option"

datatype rollout_status = PENDING | SUCCEEDED | FAILED | TIMED_OUT | ROLLED_BACK

record rollout_record =
  rr_nodeId :: uuid
  rr_status :: rollout_status
  rr_acknowledgedAt :: "millis option"
  rr_details :: json

record policy_db = mesh_db +
  pol_commits :: "commit_row list"
  pol_rollout :: "(uuid \<times> rollout_record) list"

section \<open>PgPolicyEnforcer\<close>

definition SYSTEM_INITIATOR :: uuid where
  "SYSTEM_INITIATOR = ''00000000-0000-0000-0000-000000000000''"

definition firewall_rule :: "network_policy \<Rightarrow> json" where
  "firewall_rule p = JObj [(''id'', JStr (np_id p)),
     (''action'', JStr (if np_action p = ALLOW then ''ALLOW'' else ''DENY'')),
     (''protocols'', strs_json (map protocol_string (np_protocols p))),
     (''ports'', JArr (map (\<lambda>n. JNum (int n)) (np_destinationPorts p))),
     (''sourceZones'', strs_json (map zone_string (np_sourceZones p))),
     (''destinationZones'', strs_json (map zone_string (np_destinationZones p)))]"

definition firewallRulesFor :: "network_policy list \<Rightarrow> json" where
  "firewallRulesFor policies = JArr (map firewall_rule policies)"

definition insert_commit :: "uuid \<Rightarrow> network_policy list \<Rightarrow> uuid \<Rightarrow> ('z policy_db_scheme, unit) js" where
  "insert_commit commitId policies initiatedBy s =
     (if commitId \<in> pco_id ` set (pol_commits s) then (Inl (PgError ''23505''), s)
      else (Inr (), s\<lparr>pol_commits := pol_commits s @ [\<lparr>pco_id = commitId,
        pco_payload = JArr (map policy_json policies), pco_status = CommitStaged, pco_initiatedBy = initiatedBy,
        pco_finalizedAt = None\<rparr>]\<rparr>))"

definition pe_stage :: "(string \<Rightarrow> string) \<Rightarrow> millis \<Rightarrow> uuid \<Rightarrow> network_policy list \<Rightarrow> uuid option \<Rightarrow>
    ('z policy_db_scheme, uuid list) js" where
  "pe_stage sha256 now commitId policies initiatedBy =
     (case compile_policies sha256 now policies of
        Inl e \<Rightarrow> throwJ e
      | Inr _ \<Rightarrow>
          bindJ (insert_commit commitId policies (case initiatedBy of None \<Rightarrow> SYSTEM_INITIATOR | Some i \<Rightarrow> i)) (\<lambda>_.
          bindJ (getJ pg_list) (\<lambda>nodes.
          bindJ (forJ (\<lambda>node. enqueue now (mn_id node) ''APPLY_FIREWALL'' (JObj [(''commitId'', JStr commitId),
              (''defaultAction'', JStr ''DENY''), (''rules'', firewallRulesFor policies)]) 100 60) nodes) (\<lambda>_.
          retJ (map mn_id nodes)))))"

definition finalize_commit :: "millis \<Rightarrow> uuid \<Rightarrow> commit_status \<Rightarrow> ('z policy_db_scheme, unit) js" where
  "finalize_commit now commitId status = modifyJ (\<lambda>s. s\<lparr>pol_commits := map (\<lambda>r. if pco_id r = commitId
     then r\<lparr>pco_status := status, pco_finalizedAt := Some now\<rparr> else r) (pol_commits s)\<rparr>)"

definition pe_commit :: "millis \<Rightarrow> uuid \<Rightarrow> ('z policy_db_scheme, unit) js" where
  "pe_commit now commitId = finalize_commit now commitId CommitCommitted"

definition pe_rollback :: "millis \<Rightarrow> uuid \<Rightarrow> ('z policy_db_scheme, unit) js" where
  "pe_rollback now commitId = bindJ (finalize_commit now commitId CommitRolledBack) (\<lambda>_.
     bindJ (getJ pg_list) (forJ (\<lambda>node. enqueue now (mn_id node) ''ROLLBACK_FIREWALL''
       (JObj [(''commitId'', JStr commitId)]) 200 60)))"

definition pe_isolateNode :: "millis \<Rightarrow> uuid \<Rightarrow> ('z queue_db_scheme, unit) js" where
  "pe_isolateNode now nodeId = bindJ (getJ (pg_get nodeId)) (\<lambda>n. if n = None then retJ ()
     else enqueue now nodeId ''QUARANTINE'' (JObj [(''reason'', JStr ''policy enforcement point'')]) 200 60)"

definition pe_restoreNode :: "millis \<Rightarrow> uuid \<Rightarrow> ('z queue_db_scheme, unit) js" where
  "pe_restoreNode now nodeId = bindJ (getJ (pg_get nodeId)) (\<lambda>n. if n = None then retJ ()
     else enqueue now nodeId ''RESTORE'' (JObj []) 200 60)"

section \<open>PgRolloutStore\<close>

definition rollout_insert :: "uuid \<Rightarrow> uuid \<Rightarrow> ('z policy_db_scheme, unit) js" where
  "rollout_insert commitId nodeId s =
     (if \<exists>r \<in> set (pol_rollout s). fst r = commitId \<and> rr_nodeId (snd r) = nodeId then (Inr (), s)
      else if commitId \<notin> pco_id ` set (pol_commits s) \<or> \<not> known_node nodeId s then (Inl (PgError ''23503''), s)
      else (Inr (), s\<lparr>pol_rollout := pol_rollout s @ [(commitId, \<lparr>rr_nodeId = nodeId, rr_status = PENDING,
        rr_acknowledgedAt = None, rr_details = JObj []\<rparr>)]\<rparr>))"

definition pg_rollout_start :: "uuid \<Rightarrow> uuid list \<Rightarrow> ('z policy_db_scheme, unit) js" where
  "pg_rollout_start commitId = forJ (rollout_insert commitId)"

definition firewall_acks :: "uuid \<Rightarrow> 'z queue_db_scheme \<Rightarrow> ack_row list" where
  "firewall_acks commitId s = filter (\<lambda>a. ack_type a = ''APPLY_FIREWALL'' \<and>
     json_get ''commitId'' (ack_details a) = Some (JStr commitId)) (q_acks s)"

definition settle :: "uuid \<Rightarrow> ack_row \<Rightarrow> uuid \<times> rollout_record \<Rightarrow> uuid \<times> rollout_record" where
  "settle commitId a r =
     (if fst r = commitId \<and> rr_nodeId (snd r) = ack_nodeId a \<and> rr_status (snd r) = PENDING
      then (fst r, (snd r)\<lparr>rr_status := if ack_status a = ''SUCCEEDED'' then SUCCEEDED else FAILED,
        rr_acknowledgedAt := Some (ack_at a), rr_details := ack_details a\<rparr>)
      else r)"

definition pg_rollout_summary :: "uuid \<Rightarrow> ('z policy_db_scheme, rollout_record list) js" where
  "pg_rollout_summary commitId = getJ (\<lambda>s. map snd (filter (\<lambda>r. fst r = commitId) (pol_rollout s)))"

definition pg_rollout_refresh :: "uuid \<Rightarrow> ('z policy_db_scheme, rollout_record list) js" where
  "pg_rollout_refresh commitId =
     bindJ (getJ (firewall_acks commitId)) (\<lambda>acks.
     bindJ (forJ (\<lambda>a. modifyJ (\<lambda>s. s\<lparr>pol_rollout := map (settle commitId a) (pol_rollout s)\<rparr>)) acks) (\<lambda>_.
     pg_rollout_summary commitId))"

definition set_rollout :: "uuid \<Rightarrow> (rollout_status \<Rightarrow> rollout_status) \<Rightarrow> ('z policy_db_scheme, unit) js" where
  "set_rollout commitId f = modifyJ (\<lambda>s. s\<lparr>pol_rollout := map (\<lambda>r. if fst r = commitId
     then (fst r, (snd r)\<lparr>rr_status := f (rr_status (snd r))\<rparr>) else r) (pol_rollout s)\<rparr>)"

definition time_out :: "rollout_status \<Rightarrow> rollout_status" where
  "time_out x = (if x = PENDING then TIMED_OUT else x)"

definition pg_rollout_finalizeTimeouts :: "uuid \<Rightarrow> ('z policy_db_scheme, unit) js" where
  "pg_rollout_finalizeTimeouts commitId = set_rollout commitId time_out"

definition pg_rollout_markRolledBack :: "uuid \<Rightarrow> ('z policy_db_scheme, unit) js" where
  "pg_rollout_markRolledBack commitId = set_rollout commitId (\<lambda>_. ROLLED_BACK)"

section \<open>The in-memory plane: InMemoryEnforcer, InMemoryRolloutStore, MemoryBus\<close>

record memory_plane =
  mpl_staged :: "(uuid \<times> network_policy list) list"
  mpl_isolated :: "uuid set"
  mpl_rollout :: "(uuid \<times> rollout_record list) list"
  mpl_events :: "(string \<times> json) list"
  mpl_fresh :: "nat \<Rightarrow> uuid"
  mpl_drawn :: nat

definition mem_stage :: "uuid \<Rightarrow> network_policy list \<Rightarrow> (memory_plane, uuid list) js" where
  "mem_stage i p = bindJ (modifyJ (\<lambda>s. s\<lparr>mpl_staged := map_set fst (i, p) (mpl_staged s)\<rparr>)) (\<lambda>_. retJ [])"

definition mem_unstage :: "uuid \<Rightarrow> (memory_plane, unit) js" where
  "mem_unstage i = modifyJ (\<lambda>s. s\<lparr>mpl_staged := filter (\<lambda>r. fst r \<noteq> i) (mpl_staged s)\<rparr>)"

definition mem_isolateNode :: "uuid \<Rightarrow> (memory_plane, unit) js" where
  "mem_isolateNode i = modifyJ (\<lambda>s. s\<lparr>mpl_isolated := insert i (mpl_isolated s)\<rparr>)"

definition mem_restoreNode :: "uuid \<Rightarrow> (memory_plane, unit) js" where
  "mem_restoreNode i = modifyJ (\<lambda>s. s\<lparr>mpl_isolated := mpl_isolated s - {i}\<rparr>)"

definition mem_rollout_start :: "uuid \<Rightarrow> uuid list \<Rightarrow> (memory_plane, unit) js" where
  "mem_rollout_start commitId nodeIds = modifyJ (\<lambda>s. s\<lparr>mpl_rollout := map_set fst (commitId,
     fold (\<lambda>n rows. map_set rr_nodeId \<lparr>rr_nodeId = n, rr_status = PENDING, rr_acknowledgedAt = None, rr_details = JObj []\<rparr> rows)
       nodeIds []) (mpl_rollout s)\<rparr>)"

definition mem_rows :: "uuid \<Rightarrow> memory_plane \<Rightarrow> rollout_record list" where
  "mem_rows commitId s = (case find_by fst commitId (mpl_rollout s) of None \<Rightarrow> [] | Some r \<Rightarrow> snd r)"

definition mem_rollout_summary :: "uuid \<Rightarrow> (memory_plane, rollout_record list) js" where
  "mem_rollout_summary commitId = getJ (mem_rows commitId)"

definition mem_rollout_refresh :: "uuid \<Rightarrow> (memory_plane, rollout_record list) js" where
  "mem_rollout_refresh commitId = mem_rollout_summary commitId"

definition mem_set_rollout :: "uuid \<Rightarrow> (rollout_status \<Rightarrow> rollout_status) \<Rightarrow> (memory_plane, unit) js" where
  "mem_set_rollout commitId f = modifyJ (\<lambda>s. s\<lparr>mpl_rollout := map (\<lambda>r. if fst r = commitId
     then (fst r, map (\<lambda>x. x\<lparr>rr_status := f (rr_status x)\<rparr>) (snd r)) else r) (mpl_rollout s)\<rparr>)"

definition mem_rollout_finalizeTimeouts :: "uuid \<Rightarrow> (memory_plane, unit) js" where
  "mem_rollout_finalizeTimeouts commitId = mem_set_rollout commitId time_out"

definition mem_rollout_markRolledBack :: "uuid \<Rightarrow> (memory_plane, unit) js" where
  "mem_rollout_markRolledBack commitId = mem_set_rollout commitId (\<lambda>_. ROLLED_BACK)"

definition bus_publish :: "string \<Rightarrow> json \<Rightarrow> (memory_plane, unit) js" where
  "bus_publish topic event = modifyJ (\<lambda>s. s\<lparr>mpl_events := mpl_events s @ [(topic, event)]\<rparr>)"

definition mem_next_id :: "(memory_plane, uuid) js" where
  "mem_next_id = (\<lambda>s. (Inr (mpl_fresh s (mpl_drawn s)), s\<lparr>mpl_drawn := Suc (mpl_drawn s)\<rparr>))"

section \<open>SafeApplyService\<close>

text \<open>
  The constructor arguments.  Every operation of a port is a function on the
  state of the plane; those that use the clock take the time.  The threshold
  is exact where the code divides in floating point, and its printed form is
  given with it.
\<close>

record 's safe_apply =
  sa_stage :: "millis \<Rightarrow> uuid \<Rightarrow> network_policy list \<Rightarrow> uuid option \<Rightarrow> ('s, uuid list) js"
  sa_commit :: "millis \<Rightarrow> uuid \<Rightarrow> ('s, unit) js"
  sa_rollback :: "millis \<Rightarrow> uuid \<Rightarrow> ('s, unit) js"
  sa_publish :: "millis \<Rightarrow> string \<Rightarrow> json \<Rightarrow> ('s, unit) js"
  sa_next :: "('s, uuid) js"
  sa_start :: "uuid \<Rightarrow> uuid list \<Rightarrow> ('s, unit) js"
  sa_refresh :: "uuid \<Rightarrow> ('s, rollout_record list) js"
  sa_finalizeTimeouts :: "uuid \<Rightarrow> ('s, unit) js"
  sa_markRolledBack :: "uuid \<Rightarrow> ('s, unit) js"
  sa_summary :: "uuid \<Rightarrow> ('s, rollout_record list) js"
  sa_threshold :: rat
  sa_thresholdText :: string
  sa_pollIntervalMs :: int

text \<open>
  What happens around one poll: the health probe answers, rejects or hangs;
  other sessions act on the database; queries and timers take their time.  A
  timer runs for at least its delay, and at least one millisecond.
\<close>

datatype probe_outcome = ProbeAnswers nat bool | ProbeRejects nat js_error | ProbeHangs

record 's poll_env =
  pv_probe :: probe_outcome
  pv_others :: "'s \<Rightarrow> 's"
  pv_elapsed :: nat

text \<open>\<open>PgControlPlaneProbe\<close>: a failing health check counts as unhealthy.\<close>

definition verifyControlPlane :: "probe_outcome \<Rightarrow> probe_outcome" where
  "verifyControlPlane health = (case health of
     ProbeRejects d e \<Rightarrow> ProbeAnswers d False | ProbeAnswers d b \<Rightarrow> ProbeAnswers d b | ProbeHangs \<Rightarrow> ProbeHangs)"

definition race_probe :: "probe_outcome \<Rightarrow> int \<Rightarrow> js_error + bool \<times> int" where
  "race_probe p remaining = (case p of
     ProbeAnswers d b \<Rightarrow> if int d < remaining then Inr (b, int d) else Inr (False, remaining)
   | ProbeRejects d e \<Rightarrow> if int d < remaining then Inl e else Inr (False, remaining)
   | ProbeHangs \<Rightarrow> Inr (False, remaining))"

definition bad_count :: "rollout_record list \<Rightarrow> bool \<Rightarrow> nat" where
  "bad_count statuses includeTimedOut =
     length (filter (\<lambda>x. rr_status x = FAILED \<or> includeTimedOut \<and> rr_status x = TIMED_OUT) statuses)"

definition failureReason :: "'s safe_apply \<Rightarrow> rollout_record list \<Rightarrow> nat \<Rightarrow> bool \<Rightarrow> string option" where
  "failureReason D statuses targetCount includeTimedOut =
     (if targetCount = 0 then None
      else let bad = bad_count statuses includeTimedOut in
        if sa_threshold D < of_nat bad / of_nat targetCount
        then Some (dec bad @ ''/'' @ dec targetCount @ '' targeted node(s) failed to apply the policy (threshold '' @
          sa_thresholdText D @ '')'')
        else None)"

definition sleep_ms :: "int \<Rightarrow> int" where
  "sleep_ms ms = max 1 ms"

function waitForOutcome :: "'s safe_apply \<Rightarrow> (nat \<Rightarrow> 's poll_env) \<Rightarrow> uuid \<Rightarrow> uuid list \<Rightarrow> millis \<Rightarrow> nat \<Rightarrow> millis \<Rightarrow>
    ('s, string option \<times> millis) js" where
  "waitForOutcome D env commitId ids deadline k t s =
     (if \<not> t < deadline then
        bindJ (sa_finalizeTimeouts D commitId) (\<lambda>_. bindJ (sa_summary D commitId) (\<lambda>finalStatuses.
          retJ (failureReason D finalStatuses (length ids) True, t))) s
      else (case race_probe (pv_probe (env k)) (deadline - t) of
        Inl e \<Rightarrow> (Inl e, s)
      | Inr (probeHealthy, d) \<Rightarrow>
          if \<not> probeHealthy then (Inr (Some ''control plane database unreachable'', t + d), s)
          else (case (if ids \<noteq> [] then sa_refresh D commitId (pv_others (env k) s) else (Inr [], pv_others (env k) s)) of
            (Inl e, s') \<Rightarrow> (Inl e, s')
          | (Inr statuses, s') \<Rightarrow>
              let t' = t + max 0 d + int (pv_elapsed (env k)) in
              (case failureReason D statuses (length ids) False of
                 Some r \<Rightarrow> (Inr (Some r, t'), s')
               | None \<Rightarrow>
                   if ids = [] \<or> list_all (\<lambda>x. rr_status x \<noteq> PENDING) statuses then (Inr (None, t'), s')
                   else waitForOutcome D env commitId ids deadline (Suc k)
                     (t' + sleep_ms (min (sa_pollIntervalMs D) (max 0 (deadline - t')))) s'))))"
  by pat_completeness auto
termination
  by (relation "measure (\<lambda>(D, env, c, ids, deadline, k, t, s). nat (deadline - t))") (auto simp: sleep_ms_def)

declare waitForOutcome.simps [simp del]

record apply_result =
  res_commitId :: uuid
  res_status :: commit_status
  res_reason :: "string option"

definition staged_event :: "uuid \<Rightarrow> millis \<Rightarrow> int \<Rightarrow> uuid list \<Rightarrow> json" where
  "staged_event commitId t0 timeoutMs targetedNodeIds = JObj [(''commitId'', JStr commitId), (''at'', date_json t0),
     (''timeoutMs'', JNum timeoutMs), (''targetedNodeIds'', strs_json targetedNodeIds)]"

definition safe_apply_decide :: "'s safe_apply \<Rightarrow> (nat \<Rightarrow> 's poll_env) \<Rightarrow> millis \<Rightarrow> int \<Rightarrow> uuid \<Rightarrow> uuid list \<Rightarrow>
    ('s, apply_result) js" where
  "safe_apply_decide D env t0 timeoutMs commitId targetedNodeIds =
     bindJ (waitForOutcome D env commitId targetedNodeIds (t0 + timeoutMs) 0 t0) (\<lambda>(rollbackReason, t).
       (case rollbackReason of
          Some reason \<Rightarrow>
            bindJ (sa_markRolledBack D commitId) (\<lambda>_.
            bindJ (sa_rollback D t commitId) (\<lambda>_.
            bindJ (sa_publish D t ''security.policy.rolled_back''
              (JObj [(''commitId'', JStr commitId), (''reason'', JStr reason)])) (\<lambda>_.
            retJ \<lparr>res_commitId = commitId, res_status = CommitRolledBack, res_reason = Some reason\<rparr>)))
        | None \<Rightarrow>
            bindJ (sa_commit D t commitId) (\<lambda>_.
            bindJ (sa_publish D t ''security.policy.committed'' (JObj [(''commitId'', JStr commitId)])) (\<lambda>_.
            retJ \<lparr>res_commitId = commitId, res_status = CommitCommitted, res_reason = None\<rparr>))))"

text \<open>\<open>tc\<close> is the time at which the \<open>catch\<close> block runs.\<close>

definition safe_apply_run :: "'s safe_apply \<Rightarrow> (nat \<Rightarrow> 's poll_env) \<Rightarrow> millis \<Rightarrow> millis \<Rightarrow> network_policy list \<Rightarrow> int \<Rightarrow>
    uuid option \<Rightarrow> ('s, apply_result) js" where
  "safe_apply_run D env t0 tc policies timeoutMs initiatedBy =
     (if timeoutMs < 5000 \<or> 300000 < timeoutMs
      then throwJ (ValidationError ''rollback window must be between 5 and 300 seconds'')
      else bindJ (sa_next D) (\<lambda>commitId.
        bindJ (sa_stage D t0 commitId policies initiatedBy) (\<lambda>targetedNodeIds.
        bindJ (sa_start D commitId targetedNodeIds) (\<lambda>_.
        bindJ (sa_publish D t0 ''security.policy.staged'' (staged_event commitId t0 timeoutMs targetedNodeIds)) (\<lambda>_.
        catchJ (safe_apply_decide D env t0 timeoutMs commitId targetedNodeIds)
          (\<lambda>error. bindJ (sa_markRolledBack D commitId) (\<lambda>_. bindJ (sa_rollback D tc commitId) (\<lambda>_. throwJ error))))))))"

definition pg_safe_apply :: "(string \<Rightarrow> string) \<Rightarrow> rat \<Rightarrow> string \<Rightarrow> int \<Rightarrow> 'z policy_db_scheme safe_apply" where
  "pg_safe_apply sha256 threshold label poll = \<lparr>sa_stage = pe_stage sha256, sa_commit = pe_commit, sa_rollback = pe_rollback,
     sa_publish = publish sha256, sa_next = next_id, sa_start = pg_rollout_start, sa_refresh = pg_rollout_refresh,
     sa_finalizeTimeouts = pg_rollout_finalizeTimeouts, sa_markRolledBack = pg_rollout_markRolledBack,
     sa_summary = pg_rollout_summary, sa_threshold = threshold, sa_thresholdText = label, sa_pollIntervalMs = poll\<rparr>"

definition mem_safe_apply :: "rat \<Rightarrow> string \<Rightarrow> int \<Rightarrow> memory_plane safe_apply" where
  "mem_safe_apply threshold label poll = \<lparr>sa_stage = (\<lambda>_ i p _. mem_stage i p), sa_commit = (\<lambda>_. mem_unstage),
     sa_rollback = (\<lambda>_. mem_unstage), sa_publish = (\<lambda>_. bus_publish), sa_next = mem_next_id,
     sa_start = mem_rollout_start, sa_refresh = mem_rollout_refresh,
     sa_finalizeTimeouts = mem_rollout_finalizeTimeouts, sa_markRolledBack = mem_rollout_markRolledBack,
     sa_summary = mem_rollout_summary, sa_threshold = threshold, sa_thresholdText = label, sa_pollIntervalMs = poll\<rparr>"

end
