(* ===== verification/RolloutSafety.thy ===== *)
theory RolloutSafety
  imports Rollout
begin

text \<open>
  What the rollout protocol guarantees: the contract of a rollout store as a
  locale, met by the Postgres and the in-memory store; commits rest on node
  acknowledgements, rollbacks reach every node, every run is decided.
\<close>

section \<open>Broadcasts through the command queue\<close>

text \<open>What a broadcast may change: new commands and drawn identifiers.\<close>

definition queue_only :: "'z queue_db_scheme \<Rightarrow> 'z queue_db_scheme \<Rightarrow> bool" where
  "queue_only s t \<longleftrightarrow> (\<exists>d cs. t = s\<lparr>db_drawn := d, q_commands := q_commands s @ cs\<rparr>)"

lemma queue_only_refl [simp]: "queue_only s s"
  unfolding queue_only_def by (rule exI [of _ "db_drawn s"], rule exI [of _ "[]"]) simp

lemma queue_only_trans: "queue_only s t \<Longrightarrow> queue_only t u \<Longrightarrow> queue_only s u"
proof -
  assume "queue_only s t" "queue_only t u"
  then obtain d cs d' cs' where "t = s\<lparr>db_drawn := d, q_commands := q_commands s @ cs\<rparr>"
    "u = t\<lparr>db_drawn := d', q_commands := q_commands t @ cs'\<rparr>" unfolding queue_only_def by blast
  hence "u = s\<lparr>db_drawn := d', q_commands := q_commands s @ (cs @ cs')\<rparr>" by simp
  thus ?thesis unfolding queue_only_def by blast
qed

lemma queue_only_nodes: "queue_only s t \<Longrightarrow> db_nodes t = db_nodes s"
  unfolding queue_only_def by (elim exE) simp

lemma queue_only_enqueue: "queue_only s (snd (enqueue now n ty pl pr ttl s))"
  unfolding queue_only_def enqueue_def next_id_def bindJ_def
  by (simp, intro conjI impI)
    (rule exI [of _ "Suc (db_drawn s)"], rule exI [of _ "[]"], simp,
     rule exI [of _ "Suc (db_drawn s)"], rule exI [of _ "[]"], simp,
     rule exI [of _ "Suc (db_drawn s)"], rule exI, rule refl)

lemma queue_only_for: "(\<And>x s. queue_only s (snd (f x s))) \<Longrightarrow> queue_only s (snd (forJ f xs s))"
proof (induction xs arbitrary: s)
  case (Cons x xs)
  obtain r u where u: "f x s = (r, u)" by force
  have su: "queue_only s u" using Cons.prems [of s x] u by simp
  show ?case
  proof (cases r)
    case (Inl e) thus ?thesis using u su by (simp add: bindJ_def)
  next
    case (Inr y) thus ?thesis using u queue_only_trans [OF su Cons.IH [OF Cons.prems]] by (simp add: bindJ_def)
  qed
qed simp

lemmas queue_only_broadcast = queue_only_for [of "\<lambda>n. enqueue now (g n) ty pl pr ttl" for now g ty pl pr ttl, OF queue_only_enqueue]

lemma queue_only_commands: "queue_only s t \<Longrightarrow> set (q_commands s) \<subseteq> set (q_commands t)"
  unfolding queue_only_def by (elim exE) simp

lemma broadcast_ok:
  assumes "queue_inv s" "\<forall>n \<in> set ns. known_node (g n) s"
  shows "\<exists>t. forJ (\<lambda>n. enqueue now (g n) ty pl pr ttl) ns s = (Inr (), t)"
  using assms
proof (induction ns arbitrary: s)
  case (Cons n ns)
  have e: "enqueue now (g n) ty pl pr ttl s = (Inr (), snd (enqueue now (g n) ty pl pr ttl s))"
    using Cons.prems by (simp add: enqueue_ok)
  have "db_nodes (snd (enqueue now (g n) ty pl pr ttl s)) = db_nodes s"
    by (rule queue_only_nodes [OF queue_only_enqueue])
  thus ?case
    using Cons.IH [OF queue_inv_enqueue [OF Cons.prems(1)]] Cons.prems(2)
    by (simp add: bindJ_Inr [of "enqueue now (g n) ty pl pr ttl", OF e])
qed simp

lemma broadcast_queued:
  assumes "forJ (\<lambda>n. enqueue now (g n) ty pl pr ttl) ns s = (Inr (), t)" "n \<in> set ns"
  shows "\<exists>c \<in> set (q_commands t). cmd_nodeId c = g n \<and> cmd_type c = ty \<and> cmd_payload c = pl \<and> cmd_priority c = pr"
  using assms
proof (induction ns arbitrary: s)
  case (Cons m ns)
  from Cons.prems(1) obtain u where u: "enqueue now (g m) ty pl pr ttl s = (Inr (), u)"
    "forJ (\<lambda>n. enqueue now (g n) ty pl pr ttl) ns u = (Inr (), t)" by (auto elim: bindJ_InrE)
  show ?case
  proof (cases "n \<in> set ns")
    case True thus ?thesis using Cons.IH [OF u(2)] by blast
  next
    case False
    hence "n = m" using Cons.prems(2) by simp
    have "\<exists>c \<in> set (q_commands u). cmd_nodeId c = g m \<and> cmd_type c = ty \<and> cmd_payload c = pl \<and> cmd_priority c = pr"
      using u(1) by (auto simp: enqueue_def next_id_def bindJ_def split: if_splits)
    moreover have "set (q_commands u) \<subseteq> set (q_commands t)"
      using queue_only_commands [OF queue_only_broadcast [of u now g ty pl pr ttl ns]] u(2) by simp
    ultimately show ?thesis unfolding \<open>n = m\<close> by blast
  qed
qed simp

section \<open>The contract of a rollout store\<close>

definition rr_pair :: "rollout_record \<Rightarrow> uuid \<times> rollout_status" where
  "rr_pair r = (rr_nodeId r, rr_status r)"

text \<open>A refresh settles pending rows and leaves the others alone.\<close>

definition settled :: "uuid \<times> rollout_status \<Rightarrow> uuid \<times> rollout_status \<Rightarrow> bool" where
  "settled a b \<longleftrightarrow> fst a = fst b \<and> (snd a = snd b \<or> snd a = PENDING \<and> snd b \<in> {SUCCEEDED, FAILED})"

definition failed_rows :: "(uuid \<times> rollout_status) list \<Rightarrow> nat" where
  "failed_rows rows = length (filter (\<lambda>r. snd r \<in> {FAILED, TIMED_OUT}) rows)"

lemma settled_refl [simp]: "settled a a"
  by (simp add: settled_def)

lemma settled_rows:
  assumes "list_all2 settled xs ys"
  shows "map fst ys = map fst xs" "snd ` set xs \<subseteq> {PENDING, SUCCEEDED, FAILED} \<Longrightarrow> snd ` set ys \<subseteq> {PENDING, SUCCEEDED, FAILED}"
  using assms by (induction rule: list_all2_induct) (auto simp: settled_def)

lemma bad_count_rows: "bad_count rs b = length (filter (\<lambda>r. snd r = FAILED \<or> b \<and> snd r = TIMED_OUT) (map rr_pair rs))"
  by (induction rs) (simp_all add: bad_count_def rr_pair_def)

section \<open>The waiting loop, one poll at a time\<close>

lemma wait_timeout:
  "\<not> t < deadline \<Longrightarrow> waitForOutcome D env c ids deadline k t s =
     bindJ (sa_finalizeTimeouts D c) (\<lambda>_. bindJ (sa_summary D c) (\<lambda>rs.
       retJ (failureReason D rs (length ids) True, t))) s"
  by (subst waitForOutcome.simps) simp

lemma wait_rejected:
  "t < deadline \<Longrightarrow> race_probe (pv_probe (env k)) (deadline - t) = Inl e \<Longrightarrow>
   waitForOutcome D env c ids deadline k t s = (Inl e, s)"
  by (subst waitForOutcome.simps) simp

lemma wait_unhealthy:
  "t < deadline \<Longrightarrow> race_probe (pv_probe (env k)) (deadline - t) = Inr (False, d) \<Longrightarrow>
   waitForOutcome D env c ids deadline k t s = (Inr (Some ''control plane database unreachable'', t + d), s)"
  by (subst waitForOutcome.simps) simp

definition polled :: "'s safe_apply \<Rightarrow> 's poll_env \<Rightarrow> uuid \<Rightarrow> uuid list \<Rightarrow> ('s, rollout_record list) js" where
  "polled D e c ids s = (if ids \<noteq> [] then sa_refresh D c (pv_others e s) else (Inr [], pv_others e s))"

definition next_poll :: "'s safe_apply \<Rightarrow> 's poll_env \<Rightarrow> millis \<Rightarrow> millis \<Rightarrow> int \<Rightarrow> millis" where
  "next_poll D e deadline t d = (let t' = t + max 0 d + int (pv_elapsed e) in
     t' + sleep_ms (min (sa_pollIntervalMs D) (max 0 (deadline - t'))))"

lemma next_poll_later: "t < next_poll D e deadline t d"
  by (simp add: next_poll_def Let_def sleep_ms_def)

lemma wait_healthy:
  "t < deadline \<Longrightarrow> race_probe (pv_probe (env k)) (deadline - t) = Inr (True, d) \<Longrightarrow>
   waitForOutcome D env c ids deadline k t s = (case polled D (env k) c ids s of
     (Inl e, s') \<Rightarrow> (Inl e, s')
   | (Inr rs, s') \<Rightarrow> (case failureReason D rs (length ids) False of
        Some r \<Rightarrow> (Inr (Some r, t + max 0 d + int (pv_elapsed (env k))), s')
      | None \<Rightarrow> if ids = [] \<or> list_all (\<lambda>x. rr_status x \<noteq> PENDING) rs
                then (Inr (None, t + max 0 d + int (pv_elapsed (env k))), s')
                else waitForOutcome D env c ids deadline (Suc k) (next_poll D (env k) deadline t d) s'))"
  by (subst waitForOutcome.simps)
    (simp add: polled_def next_poll_def Let_def split: prod.splits sum.splits option.splits)

lemma wait_induct:
  fixes deadline t :: millis
  assumes "\<And>k t s. \<not> t < deadline \<Longrightarrow> P k t s"
    and "\<And>k t s. t < deadline \<Longrightarrow> (\<And>t' s'. t < t' \<Longrightarrow> P (Suc k) t' s') \<Longrightarrow> P k t s"
  shows "P k t s"
proof (induction "nat (deadline - t)" arbitrary: k t s rule: less_induct)
  case less
  show ?case
  proof (cases "t < deadline")
    case True
    show ?thesis by (rule assms(2) [OF True]) (rule less, use True in simp)
  qed (rule assms(1))
qed

lemma race_cases:
  obtains (rejected) e where "race_probe p r = Inl e" | (unhealthy) d where "race_probe p r = Inr (False, d)"
    | (healthy) d where "race_probe p r = Inr (True, d)"
proof (cases "race_probe p r")
  case (Inr b)
  show thesis by (cases b; cases "fst b") (use Inr unhealthy healthy in auto)
qed (rule rejected)

lemma race_answers: "(\<And>d e. p \<noteq> ProbeRejects d e) \<Longrightarrow> race_probe p r \<noteq> Inl x"
  by (cases p) (simp_all add: race_probe_def)

lemma wait_keeps:
  assumes "keeps I (sa_refresh D c)" "keeps I (sa_finalizeTimeouts D c)" "keeps I (sa_summary D c)"
    "\<forall>k s. I s \<longrightarrow> I (pv_others (env k) s)" "I s"
  shows "I (snd (waitForOutcome D env c ids deadline k t s))"
  using assms(5)
proof (induction k t s rule: wait_induct [of deadline])
  case (1 k t s)
  have "keeps I (bindJ (sa_finalizeTimeouts D c) (\<lambda>_. bindJ (sa_summary D c) (\<lambda>rs.
       retJ (failureReason D rs (length ids) True, t))))"
    using assms(2,3) by (intro keeps_bind keeps_ret)
  thus ?case unfolding wait_timeout [OF 1(1)] using 1(2) by (rule keepsD)
next
  case (2 k t s)
  have p: "I (snd (polled D (env k) c ids s))"
    using assms(4) 2(3) keepsD [OF assms(1)] unfolding polled_def by simp
  show ?case
  proof (cases "pv_probe (env k)" "deadline - t" rule: race_cases)
    case (rejected e)
    thus ?thesis using wait_rejected [where env = env and k = k, OF 2(1) rejected] 2(3) by simp
  next
    case (unhealthy d)
    thus ?thesis using wait_unhealthy [where env = env and k = k, OF 2(1) unhealthy] 2(3) by simp
  next
    case (healthy d)
    obtain r u where u: "polled D (env k) c ids s = (r, u)" by force
    have "I (snd (waitForOutcome D env c ids deadline (Suc k) (next_poll D (env k) deadline t d) u))"
      by (rule 2(2) [OF next_poll_later]) (use p u in simp)
    thus ?thesis unfolding wait_healthy [where env = env and k = k, OF 2(1) healthy] u using p u
      by (cases r) (simp_all split: option.splits)
  qed
qed

locale rollout_store =
  fixes D :: "'s safe_apply"
    and rows :: "uuid \<Rightarrow> 's \<Rightarrow> (uuid \<times> rollout_status) list"
  assumes refresh_law: "\<exists>rs t. sa_refresh D c s = (Inr rs, t) \<and> map rr_pair rs = rows c t \<and>
      list_all2 settled (rows c s) (rows c t)"
    and summary_law: "\<exists>rs. sa_summary D c s = (Inr rs, s) \<and> map rr_pair rs = rows c s"
    and finalize_law: "\<exists>t. sa_finalizeTimeouts D c s = (Inr (), t) \<and> rows c t = map (apsnd time_out) (rows c s)"
    and mark_law: "\<exists>t. sa_markRolledBack D c s = (Inr (), t) \<and> rows c t = map (apsnd (\<lambda>_. ROLLED_BACK)) (rows c s)"
begin

lemma polled_ok: "\<exists>rs t. polled D e c ids s = (Inr rs, t)"
  using refresh_law [of c "pv_others e s"] unfolding polled_def by auto

lemma wait_verdict:
  assumes "\<forall>k d e. pv_probe (env k) \<noteq> ProbeRejects d e"
  shows "\<exists>r t' s'. waitForOutcome D env c ids deadline k t s = (Inr (r, t'), s')"
proof (induction k t s rule: wait_induct [of deadline])
  case (1 k t s)
  obtain u where f: "sa_finalizeTimeouts D c s = (Inr (), u)" using finalize_law [of c s] by blast
  obtain rs where "sa_summary D c u = (Inr rs, u)" using summary_law [of c u] by blast
  thus ?case unfolding wait_timeout [OF 1] using f by (simp add: bindJ_def)
next
  case (2 k t s)
  obtain rs u where p: "polled D (env k) c ids s = (Inr rs, u)" using polled_ok by blast
  show ?case
  proof (cases "pv_probe (env k)" "deadline - t" rule: race_cases)
    case (rejected e)
    thus ?thesis using race_answers assms by blast
  next
    case (unhealthy d)
    show ?thesis unfolding wait_unhealthy [where env = env and k = k, OF 2(1) unhealthy] by blast
  next
    case (healthy d)
    show ?thesis unfolding wait_healthy [where env = env and k = k, OF 2(1) healthy] p using 2(2) [OF next_poll_later, of D "env k" deadline d u]
      by (simp split: option.splits)
  qed
qed

lemma wait_commit:
  assumes "\<forall>k s. rows c (pv_others (env k) s) = rows c s" "ids \<noteq> []"
    and "waitForOutcome D env c ids deadline k t s = (Inr (None, t'), s')"
    and "snd ` set (rows c s) \<subseteq> {PENDING, SUCCEEDED, FAILED}"
  shows "map fst (rows c s') = map fst (rows c s) \<and> snd ` set (rows c s') \<subseteq> {SUCCEEDED, FAILED, TIMED_OUT} \<and>
    of_nat (failed_rows (rows c s')) \<le> sa_threshold D * of_nat (length ids)"
  using assms(3,4)
proof (induction k t s rule: wait_induct [of deadline])
  case (1 k t s)
  obtain u where u: "sa_finalizeTimeouts D c s = (Inr (), u)" "rows c u = map (apsnd time_out) (rows c s)"
    using finalize_law [of c s] by blast
  obtain rs where rs: "sa_summary D c u = (Inr rs, u)" "map rr_pair rs = rows c u" using summary_law [of c u] by blast
  have s': "s' = u" "failureReason D rs (length ids) True = None"
    using 1(2) unfolding wait_timeout [OF 1(1)] by (simp_all add: bindJ_def u(1) rs(1))
  have "of_nat (bad_count rs True) / of_nat (length ids) \<le> sa_threshold D"
    using s'(2) assms(2) by (simp add: failureReason_def Let_def split: if_splits)
  moreover have "bad_count rs True = failed_rows (rows c u)"
    unfolding bad_count_rows rs(2) failed_rows_def by simp
  moreover have "snd ` set (rows c u) \<subseteq> {SUCCEEDED, FAILED, TIMED_OUT}"
    unfolding u(2) using 1(3) by (force simp: time_out_def)
  ultimately show ?case using assms(2) u(2) s'(1) by (simp add: divide_le_eq comp_def)
next
  case (2 k t s)
  let ?o = "pv_others (env k) s"
  obtain rs u where u: "sa_refresh D c ?o = (Inr rs, u)" "map rr_pair rs = rows c u" "list_all2 settled (rows c ?o) (rows c u)"
    using refresh_law [of c ?o] by blast
  have p: "polled D (env k) c ids s = (Inr rs, u)" using assms(2) u(1) by (simp add: polled_def)
  note r = settled_rows [OF u(3) [unfolded assms(1) [rule_format]]]
  obtain d where h: "race_probe (pv_probe (env k)) (deadline - t) = Inr (True, d)"
    using 2(3) wait_rejected [where env = env and k = k, OF 2(1)] wait_unhealthy [where env = env and k = k, OF 2(1)]
    by (cases "pv_probe (env k)" "deadline - t" rule: race_cases) simp_all
  note w = 2(3) [unfolded wait_healthy [where env = env and k = k, OF 2(1) h] p]
  show ?case
  proof (cases "list_all (\<lambda>x. rr_status x \<noteq> PENDING) rs")
    case True
    hence e: "s' = u" "failureReason D rs (length ids) False = None" using w by (auto split: option.splits)
    have np: "PENDING \<notin> snd ` set (rows c u)" using True unfolding u(2) [symmetric] by (auto simp: list_all_iff rr_pair_def)
    have ok: "snd ` set (rows c u) \<subseteq> {PENDING, SUCCEEDED, FAILED}" using r(2) 2(4) by blast
    hence "failed_rows (rows c u) = bad_count rs False"
      unfolding bad_count_rows u(2) failed_rows_def by (intro arg_cong [of _ _ length] filter_cong) auto
    moreover have "of_nat (bad_count rs False) / of_nat (length ids) \<le> sa_threshold D"
      using e(2) assms(2) by (simp add: failureReason_def Let_def split: if_splits)
    moreover have "snd ` set (rows c u) \<subseteq> {SUCCEEDED, FAILED, TIMED_OUT}"
      using ok [unfolded subset_insert [OF np]] by (rule subset_trans) simp
    ultimately show ?thesis unfolding e(1) using assms(2) r(1) by (simp only: divide_le_eq of_nat_0_less_iff length_greater_0_conv) simp
  next
    case False
    hence "waitForOutcome D env c ids deadline (Suc k) (next_poll D (env k) deadline t d) u = (Inr (None, t'), s')"
      using w assms(2) by (simp split: option.splits)
    from 2(2) [OF next_poll_later this] show ?thesis using r 2(4) by simp
  qed
qed

end

section \<open>The two rollout stores meet the contract\<close>

definition pg_rows :: "uuid \<Rightarrow> 'z policy_db_scheme \<Rightarrow> (uuid \<times> rollout_status) list" where
  "pg_rows c s = map (rr_pair \<circ> snd) (filter (\<lambda>r. fst r = c) (pol_rollout s))"

abbreviation settle_all :: "uuid \<Rightarrow> ack_row list \<Rightarrow> (uuid \<times> rollout_record) list \<Rightarrow> (uuid \<times> rollout_record) list" where
  "settle_all c \<equiv> fold (\<lambda>a. map (settle c a))"

lemma forJ_settle: "forJ (\<lambda>a. modifyJ (\<lambda>s. s\<lparr>pol_rollout := map (settle c a) (pol_rollout s)\<rparr>)) acks s =
    (Inr (), s\<lparr>pol_rollout := settle_all c acks (pol_rollout s)\<rparr>)"
  by (induction acks arbitrary: s) simp_all

lemma pg_refresh_eq: "pg_rollout_refresh c s =
    (let t = s\<lparr>pol_rollout := settle_all c (firewall_acks c s) (pol_rollout s)\<rparr>
     in (Inr (map snd (filter (\<lambda>r. fst r = c) (pol_rollout t))), t))"
  unfolding pg_rollout_refresh_def pg_rollout_summary_def Let_def
  by (simp add: bindJ_Inr [OF forJ_settle])

lemma settled_trans: "settled a b \<Longrightarrow> settled b c \<Longrightarrow> settled a c"
  by (auto simp: settled_def)

lemma settled_list_trans: "list_all2 settled xs ys \<Longrightarrow> list_all2 settled ys zs \<Longrightarrow> list_all2 settled xs zs"
  by (rule list_all2_trans [of settled settled settled]) (rule settled_trans)

lemma settle_fst [simp]: "fst (settle c a r) = fst r"
  by (simp add: settle_def)

lemma settle_settled: "settled (rr_pair (snd r)) (rr_pair (snd (settle c a r)))"
  by (simp add: settle_def settled_def rr_pair_def)

lemma settle_all_settled:
  "list_all2 settled (map (rr_pair \<circ> snd) (filter (\<lambda>r. fst r = c) xs))
     (map (rr_pair \<circ> snd) (filter (\<lambda>r. fst r = c) (settle_all c acks xs)))"
proof (induction acks arbitrary: xs)
  case Nil
  show ?case by (simp add: list_all2_same)
next
  case (Cons a acks)
  have "list_all2 settled (map (rr_pair \<circ> snd) (filter (\<lambda>r. fst r = c) xs))
      (map (rr_pair \<circ> snd) (filter (\<lambda>r. fst r = c) (map (settle c a) xs)))"
    by (induction xs) (simp_all add: settle_settled)
  from settled_list_trans [OF this Cons.IH [of "map (settle c a) xs"]] show ?case by (simp only: fold.simps comp_def)
qed

lemma set_rollout_rows:
  "pg_rows c (snd (set_rollout c f s)) = map (apsnd f) (pg_rows c s)" "fst (set_rollout c f s) = Inr ()"
proof -
  have "map (rr_pair \<circ> snd) (filter (\<lambda>r. fst r = c) (map (\<lambda>r. if fst r = c
      then (fst r, (snd r)\<lparr>rr_status := f (rr_status (snd r))\<rparr>) else r) xs)) =
    map (apsnd f) (map (rr_pair \<circ> snd) (filter (\<lambda>r. fst r = c) xs))" for xs
    by (induction xs) (auto simp: rr_pair_def)
  thus "pg_rows c (snd (set_rollout c f s)) = map (apsnd f) (pg_rows c s)"
    by (simp add: set_rollout_def pg_rows_def)
qed (simp add: set_rollout_def)

interpretation pg_rollout: rollout_store "pg_safe_apply sha256 threshold label poll" pg_rows for sha256 threshold label poll
proof (unfold_locales, goal_cases)
  case (1 c s)
  show ?case using settle_all_settled [of c "pol_rollout s" "firewall_acks c s"]
    by (simp add: pg_safe_apply_def pg_refresh_eq Let_def pg_rows_def)
next
  case (2 c s)
  show ?case by (simp add: pg_safe_apply_def pg_rollout_summary_def pg_rows_def)
next
  case (3 c s)
  show ?case using set_rollout_rows [of c time_out s] by (metis pg_rollout_finalizeTimeouts_def pg_safe_apply_def
    prod.collapse safe_apply.select_convs(8))
next
  case (4 c s)
  show ?case using set_rollout_rows [of c "\<lambda>_. ROLLED_BACK" s] by (metis pg_rollout_markRolledBack_def pg_safe_apply_def
    prod.collapse safe_apply.select_convs(9))
qed

definition mem_pairs :: "uuid \<Rightarrow> memory_plane \<Rightarrow> (uuid \<times> rollout_status) list" where
  "mem_pairs c s = map rr_pair (mem_rows c s)"

lemma mem_set_rollout_rows:
  "mem_pairs c (snd (mem_set_rollout c f s)) = map (apsnd f) (mem_pairs c s)" "fst (mem_set_rollout c f s) = Inr ()"
proof -
  let ?g = "\<lambda>r. if fst r = c then (fst r, map (\<lambda>x. x\<lparr>rr_status := f (rr_status x)\<rparr>) (snd r)) else r"
  have "mpl_rollout (snd (mem_set_rollout c f s)) = map ?g (mpl_rollout s)" by (simp add: mem_set_rollout_def)
  hence e: "find_by fst c (mpl_rollout (snd (mem_set_rollout c f s))) = map_option ?g (find_by fst c (mpl_rollout s))"
    by (simp only:) (rule find_by_map, simp)
  show "mem_pairs c (snd (mem_set_rollout c f s)) = map (apsnd f) (mem_pairs c s)"
  proof (cases "find_by fst c (mpl_rollout s)")
    case None thus ?thesis by (simp add: mem_pairs_def mem_rows_def e)
  next
    case (Some r)
    thus ?thesis using find_by_Some [OF Some] by (simp add: mem_pairs_def mem_rows_def e rr_pair_def)
  qed
qed (simp add: mem_set_rollout_def)

interpretation mem_rollout: rollout_store "mem_safe_apply threshold label poll" mem_pairs for threshold label poll
proof (unfold_locales, goal_cases)
  case (1 c s)
  show ?case by (simp add: mem_safe_apply_def mem_rollout_refresh_def mem_rollout_summary_def mem_pairs_def list_all2_same)
next
  case (2 c s)
  show ?case by (simp add: mem_safe_apply_def mem_rollout_summary_def mem_pairs_def)
next
  case (3 c s)
  show ?case using mem_set_rollout_rows [of c time_out s] by (metis mem_rollout_finalizeTimeouts_def mem_safe_apply_def
    prod.collapse safe_apply.select_convs(8))
next
  case (4 c s)
  show ?case using mem_set_rollout_rows [of c "\<lambda>_. ROLLED_BACK" s] by (metis mem_rollout_markRolledBack_def mem_safe_apply_def
    prod.collapse safe_apply.select_convs(9))
qed

section \<open>Runs of the protocol\<close>

lemma catch_rethrow: "catchJ m (\<lambda>e. bindJ (a e) (\<lambda>_. bindJ (b e) (\<lambda>_. throwJ e))) s = (Inr x, t) \<longleftrightarrow> m s = (Inr x, t)"
  by (auto simp: catchJ_def bindJ_def split: prod.splits sum.splits)

lemma safe_apply_decide_Inr:
  assumes "safe_apply_decide D env t0 timeoutMs c ids s4 = (Inr res, t)"
  shows "\<exists>reason t' s5. waitForOutcome D env c ids (t0 + timeoutMs) 0 t0 s4 = (Inr (reason, t'), s5) \<and> res_commitId res = c \<and>
    (case reason of
       None \<Rightarrow> res_status res = CommitCommitted \<and> (\<exists>s6 ev. sa_commit D t' c s5 = (Inr (), s6) \<and>
         sa_publish D t' ''security.policy.committed'' ev s6 = (Inr (), t))
     | Some r \<Rightarrow> res_status res = CommitRolledBack \<and> (\<exists>s6 s7 ev. sa_markRolledBack D c s5 = (Inr (), s6) \<and>
         sa_rollback D t' c s6 = (Inr (), s7) \<and> sa_publish D t' ''security.policy.rolled_back'' ev s7 = (Inr (), t)))"
proof -
  obtain reason t' s5 where w: "waitForOutcome D env c ids (t0 + timeoutMs) 0 t0 s4 = (Inr (reason, t'), s5)"
    using assms unfolding safe_apply_decide_def by (elim bindJ_InrE) (metis surj_pair)
  note run = assms [unfolded safe_apply_decide_def bindJ_Inr [of "waitForOutcome D env c ids (t0 + timeoutMs) 0 t0", OF w] prod.case]
  show ?thesis
  proof (cases reason)
    case None
    note run' = run [unfolded None option.case]
    from run' obtain s6 where 6: "sa_commit D t' c s5 = (Inr (), s6)" and run6:
        "bindJ (sa_publish D t' ''security.policy.committed'' (JObj [(''commitId'', JStr c)])) (\<lambda>_.
          retJ \<lparr>res_commitId = c, res_status = CommitCommitted, res_reason = None\<rparr>) s6 = (Inr res, t)"
      by (rule bindJ_InrE) simp
    from run6 have "sa_publish D t' ''security.policy.committed'' (JObj [(''commitId'', JStr c)]) s6 = (Inr (), t)"
      "res = \<lparr>res_commitId = c, res_status = CommitCommitted, res_reason = None\<rparr>" by (auto elim: bindJ_InrE)
    thus ?thesis using w None 6 by (intro exI [of _ None] exI [of _ t'] exI [of _ s5]) auto
  next
    case (Some r)
    let ?ev = "JObj [(''commitId'', JStr c), (''reason'', JStr r)]"
    let ?k = "retJ \<lparr>res_commitId = c, res_status = CommitRolledBack, res_reason = Some r\<rparr>"
    note run' = run [unfolded Some option.case]
    from run' obtain s6 where 6: "sa_markRolledBack D c s5 = (Inr (), s6)" and run6:
        "bindJ (sa_rollback D t' c) (\<lambda>_. bindJ (sa_publish D t' ''security.policy.rolled_back'' ?ev) (\<lambda>_. ?k)) s6 = (Inr res, t)"
      by (rule bindJ_InrE) simp
    from run6 obtain s7 where 7: "sa_rollback D t' c s6 = (Inr (), s7)" and run7:
        "bindJ (sa_publish D t' ''security.policy.rolled_back'' ?ev) (\<lambda>_. ?k) s7 = (Inr res, t)"
      by (rule bindJ_InrE) simp
    from run7 have "sa_publish D t' ''security.policy.rolled_back'' ?ev s7 = (Inr (), t)"
      "res = \<lparr>res_commitId = c, res_status = CommitRolledBack, res_reason = Some r\<rparr>" by (auto elim: bindJ_InrE)
    thus ?thesis using w Some 6 7 by (intro exI [of _ "Some r"] exI [of _ t'] exI [of _ s5]) auto
  qed
qed

lemma safe_apply_run_Inr:
  assumes "safe_apply_run D env t0 tc policies timeoutMs initiatedBy s = (Inr res, t)"
  shows "\<exists>c s1 ids s2 s3 s4. sa_next D s = (Inr c, s1) \<and>
    sa_stage D t0 c policies initiatedBy s1 = (Inr ids, s2) \<and> sa_start D c ids s2 = (Inr (), s3) \<and>
    sa_publish D t0 ''security.policy.staged'' (staged_event c t0 timeoutMs ids) s3 = (Inr (), s4) \<and>
    (\<exists>reason t' s5. waitForOutcome D env c ids (t0 + timeoutMs) 0 t0 s4 = (Inr (reason, t'), s5) \<and> res_commitId res = c \<and>
    (case reason of
       None \<Rightarrow> res_status res = CommitCommitted \<and> (\<exists>s6 ev. sa_commit D t' c s5 = (Inr (), s6) \<and>
         sa_publish D t' ''security.policy.committed'' ev s6 = (Inr (), t))
     | Some r \<Rightarrow> res_status res = CommitRolledBack \<and> (\<exists>s6 s7 ev. sa_markRolledBack D c s5 = (Inr (), s6) \<and>
         sa_rollback D t' c s6 = (Inr (), s7) \<and> sa_publish D t' ''security.policy.rolled_back'' ev s7 = (Inr (), t))))"
proof -
  have "\<not> (timeoutMs < 5000 \<or> 300000 < timeoutMs)" using assms by (auto simp: safe_apply_run_def)
  note run = assms [unfolded safe_apply_run_def if_not_P [OF this]]
  from run obtain c s1 where 1: "sa_next D s = (Inr c, s1)" and run1: "bindJ (sa_stage D t0 c policies initiatedBy) (\<lambda>ids.
        bindJ (sa_start D c ids) (\<lambda>_. bindJ (sa_publish D t0 ''security.policy.staged'' (staged_event c t0 timeoutMs ids)) (\<lambda>_.
        catchJ (safe_apply_decide D env t0 timeoutMs c ids)
          (\<lambda>error. bindJ (sa_markRolledBack D c) (\<lambda>_. bindJ (sa_rollback D tc c) (\<lambda>_. throwJ error)))))) s1 = (Inr res, t)"
    by (rule bindJ_InrE)
  from run1 obtain ids s2 where 2: "sa_stage D t0 c policies initiatedBy s1 = (Inr ids, s2)" and run2:
      "bindJ (sa_start D c ids) (\<lambda>_. bindJ (sa_publish D t0 ''security.policy.staged'' (staged_event c t0 timeoutMs ids)) (\<lambda>_.
        catchJ (safe_apply_decide D env t0 timeoutMs c ids)
          (\<lambda>error. bindJ (sa_markRolledBack D c) (\<lambda>_. bindJ (sa_rollback D tc c) (\<lambda>_. throwJ error))))) s2 = (Inr res, t)"
    by (rule bindJ_InrE)
  from run2 obtain s3 where 3: "sa_start D c ids s2 = (Inr (), s3)" and run3:
      "bindJ (sa_publish D t0 ''security.policy.staged'' (staged_event c t0 timeoutMs ids)) (\<lambda>_.
        catchJ (safe_apply_decide D env t0 timeoutMs c ids)
          (\<lambda>error. bindJ (sa_markRolledBack D c) (\<lambda>_. bindJ (sa_rollback D tc c) (\<lambda>_. throwJ error)))) s3 = (Inr res, t)"
    by (rule bindJ_InrE) simp
  from run3 obtain s4 where 4: "sa_publish D t0 ''security.policy.staged'' (staged_event c t0 timeoutMs ids) s3 = (Inr (), s4)"
    and run4: "safe_apply_decide D env t0 timeoutMs c ids s4 = (Inr res, t)"
    by (rule bindJ_InrE) (simp add: catch_rethrow)
  show ?thesis
    by (rule exI [of _ c], rule exI [of _ s1], rule exI [of _ ids], rule exI [of _ s2], rule exI [of _ s3], rule exI [of _ s4])
      (intro conjI 1 2 3 4 safe_apply_decide_Inr [OF run4])
qed

lemma publish_frame:
  assumes "publish sha256 now topic ev s = (r, t)"
  shows "r = Inr () \<and> (\<exists>ob. t = s\<lparr>db_drawn := Suc (db_drawn s), db_outbox := ob\<rparr>)"
proof -
  have "t = s\<lparr>db_drawn := Suc (db_drawn s), db_outbox := db_outbox t\<rparr>" "r = Inr ()"
    using assms by (auto simp: publish_def next_id_def bindJ_def)
  thus ?thesis by blast
qed

lemma publish_sel:
  fixes s t :: "'z policy_db_scheme"
  assumes "publish sha256 now topic ev s = (r, t)"
  shows "pol_rollout t = pol_rollout s" "pol_commits t = pol_commits s" "q_acks t = q_acks s" "q_commands t = q_commands s"
    "db_nodes t = db_nodes s"
  using publish_frame [OF assms] by auto

definition pending_record :: "uuid \<Rightarrow> rollout_record" where
  "pending_record n = \<lparr>rr_nodeId = n, rr_status = PENDING, rr_acknowledgedAt = None, rr_details = JObj []\<rparr>"

lemma start_rows:
  assumes "pg_rollout_start c ids s = (Inr (), t)" "distinct ids" "\<forall>r \<in> set (pol_rollout s). fst r = c \<longrightarrow> rr_nodeId (snd r) \<notin> set ids"
  shows "t = s\<lparr>pol_rollout := pol_rollout s @ map (\<lambda>n. (c, pending_record n)) ids\<rparr>"
  using assms unfolding pg_rollout_start_def
proof (induction ids arbitrary: s)
  case (Cons n ids)
  let ?u = "s\<lparr>pol_rollout := pol_rollout s @ [(c, pending_record n)]\<rparr>"
  have "\<not> (\<exists>r \<in> set (pol_rollout s). fst r = c \<and> rr_nodeId (snd r) = n)" using Cons.prems(3) by auto
  moreover obtain u where u: "rollout_insert c n s = (Inr (), u)" "forJ (rollout_insert c) ids u = (Inr (), t)"
    using Cons.prems(1) by (auto elim: bindJ_InrE)
  ultimately have "u = ?u" by (auto simp: rollout_insert_def pending_record_def split: if_splits)
  moreover have "\<forall>r \<in> set (pol_rollout ?u). fst r = c \<longrightarrow> rr_nodeId (snd r) \<notin> set ids"
    using Cons.prems(2,3) by (auto simp: pending_record_def)
  ultimately show ?case using Cons.IH [of ?u] u(2) Cons.prems(2) by simp
qed simp

lemma stage_Inr:
  assumes "pe_stage sha256 now c policies by s = (Inr ids, t)"
  shows "ids = map mn_id (pg_list s) \<and> pol_rollout t = pol_rollout s \<and> db_nodes t = db_nodes s \<and> q_acks t = q_acks s \<and>
    (\<exists>row. pol_commits t = pol_commits s @ [row] \<and> pco_id row = c \<and> pco_status row = CommitStaged)"
proof -
  obtain d where d: "compile_policies sha256 now policies = Inr d"
    using assms by (cases "compile_policies sha256 now policies") (simp_all add: pe_stage_def)
  let ?pl = "JObj [(''commitId'', JStr c), (''defaultAction'', JStr ''DENY''), (''rules'', firewallRulesFor policies)]"
  let ?by = "case by of None \<Rightarrow> SYSTEM_INITIATOR | Some i \<Rightarrow> i"
  obtain u where u: "insert_commit c policies ?by s = (Inr (), u)"
    and run: "bindJ (forJ (\<lambda>node. enqueue now (mn_id node) ''APPLY_FIREWALL'' ?pl 100 60) (pg_list u)) (\<lambda>_. retJ (map mn_id (pg_list u))) u
      = (Inr ids, t)"
    using assms unfolding pe_stage_def d sum.case by (rule bindJ_InrE) simp
  have u': "pol_rollout u = pol_rollout s" "db_nodes u = db_nodes s" "q_acks u = q_acks s"
    "\<exists>row. pol_commits u = pol_commits s @ [row] \<and> pco_id row = c \<and> pco_status row = CommitStaged"
    using u by (auto simp: insert_commit_def split: if_splits)
  from run have t: "forJ (\<lambda>node. enqueue now (mn_id node) ''APPLY_FIREWALL'' ?pl 100 60) (pg_list u) u = (Inr (), t)"
    and ids: "ids = map mn_id (pg_list u)" by (auto elim: bindJ_InrE)
  have "queue_only u t" using queue_only_broadcast [of u now mn_id "''APPLY_FIREWALL''" ?pl 100 60 "pg_list u"] t by simp
  hence "pol_rollout t = pol_rollout u" "db_nodes t = db_nodes u" "q_acks t = q_acks u" "pol_commits t = pol_commits u"
    unfolding queue_only_def by auto
  moreover have "pg_list u = pg_list s" by (simp add: pg_list_def u'(2))
  ultimately show ?thesis using u' ids by simp
qed

text \<open>A \<open>SUCCEEDED\<close> row rests on an acknowledgement of this commit by its node.\<close>

definition backed :: "uuid \<Rightarrow> 'z policy_db_scheme \<Rightarrow> bool" where
  "backed c s \<longleftrightarrow> (\<forall>r \<in> set (pol_rollout s). fst r = c \<and> rr_status (snd r) = SUCCEEDED \<longrightarrow>
     (\<exists>a \<in> set (firewall_acks c s). ack_nodeId a = rr_nodeId (snd r) \<and> ack_status a = ''SUCCEEDED''))"

lemma settle_backed:
  assumes "\<forall>r \<in> set xs. fst r = c \<and> rr_status (snd r) = SUCCEEDED \<longrightarrow> (\<exists>a \<in> A. ack_nodeId a = rr_nodeId (snd r) \<and> ack_status a = ''SUCCEEDED'')"
    and "set acks \<subseteq> A"
  shows "\<forall>r \<in> set (settle_all c acks xs). fst r = c \<and> rr_status (snd r) = SUCCEEDED \<longrightarrow>
    (\<exists>a \<in> A. ack_nodeId a = rr_nodeId (snd r) \<and> ack_status a = ''SUCCEEDED'')"
  using assms
proof (induction acks arbitrary: xs)
  case (Cons a acks)
  have "\<forall>r \<in> set (map (settle c a) xs). fst r = c \<and> rr_status (snd r) = SUCCEEDED \<longrightarrow>
      (\<exists>a \<in> A. ack_nodeId a = rr_nodeId (snd r) \<and> ack_status a = ''SUCCEEDED'')"
    using Cons.prems by (auto simp: settle_def)
  from Cons.IH [OF this] show ?case using Cons.prems(2) by simp
qed simp

lemma backed_refresh: "keeps (backed c) (pg_rollout_refresh c)"
proof (rule keepsI)
  fix s :: "'z policy_db_scheme" assume b: "backed c s"
  let ?t = "s\<lparr>pol_rollout := settle_all c (firewall_acks c s) (pol_rollout s)\<rparr>"
  have "firewall_acks c ?t = firewall_acks c s" by (simp add: firewall_acks_def)
  hence "backed c ?t" using settle_backed [OF b [unfolded backed_def] subset_refl] by (simp add: backed_def)
  thus "backed c (snd (pg_rollout_refresh c s))" by (simp add: pg_refresh_eq Let_def)
qed

lemma backed_finalize: "keeps (backed c) (pg_rollout_finalizeTimeouts c)"
proof (rule keepsI)
  fix s :: "'z policy_db_scheme" assume b: "backed c s"
  have "firewall_acks c (s\<lparr>pol_rollout := x\<rparr>) = firewall_acks c s" for x by (simp add: firewall_acks_def)
  thus "backed c (snd (pg_rollout_finalizeTimeouts c s))"
    using b by (force simp: backed_def pg_rollout_finalizeTimeouts_def set_rollout_def time_out_def split: if_splits)
qed

lemma wait_no_targets:
  assumes "t < deadline" "waitForOutcome D env c [] deadline k t s = (Inr (None, t'), s')"
  shows "s' = pv_others (env k) s"
proof (cases "pv_probe (env k)" "deadline - t" rule: race_cases)
  case (rejected e)
  thus ?thesis using wait_rejected [where env = env and k = k, OF assms(1) rejected] assms(2) by simp
next
  case (unhealthy d)
  thus ?thesis using wait_unhealthy [where env = env and k = k, OF assms(1) unhealthy] assms(2) by simp
next
  case (healthy d)
  show ?thesis using assms(2) unfolding wait_healthy [where env = env and k = k, OF assms(1) healthy]
    by (simp add: polled_def failureReason_def)
qed

lemma backed_rows: "backed c s \<longleftrightarrow> (\<forall>(n, st) \<in> set (pg_rows c s). st = SUCCEEDED \<longrightarrow>
    (\<exists>a \<in> set (firewall_acks c s). ack_nodeId a = n \<and> ack_status a = ''SUCCEEDED''))"
  by (force simp: backed_def pg_rows_def rr_pair_def)

lemma distinct_pg_list: "distinct (map mn_id (db_nodes s)) \<Longrightarrow> distinct (map mn_id (pg_list s))"
  by (simp add: pg_list_def distinct_map inj_on_def)

lemma pg_deps [simp]:
  "sa_next (pg_safe_apply sha256 threshold label poll) = next_id" "sa_stage (pg_safe_apply sha256 threshold label poll) = pe_stage sha256"
  "sa_start (pg_safe_apply sha256 threshold label poll) = pg_rollout_start" "sa_publish (pg_safe_apply sha256 threshold label poll) = publish sha256"
  "sa_commit (pg_safe_apply sha256 threshold label poll) = pe_commit" "sa_rollback (pg_safe_apply sha256 threshold label poll) = pe_rollback"
  "sa_refresh (pg_safe_apply sha256 threshold label poll) = pg_rollout_refresh" "sa_summary (pg_safe_apply sha256 threshold label poll) = pg_rollout_summary"
  "sa_finalizeTimeouts (pg_safe_apply sha256 threshold label poll) = pg_rollout_finalizeTimeouts"
  "sa_markRolledBack (pg_safe_apply sha256 threshold label poll) = pg_rollout_markRolledBack"
  "sa_threshold (pg_safe_apply sha256 threshold label poll) = threshold"
  by (simp_all add: pg_safe_apply_def)

text \<open>A run that returned, taken apart: the state \<open>u\<close> in which it started to wait and the verdict.\<close>

lemma pg_run_Inr:
  fixes s t :: "'z policy_db_scheme"
  assumes "safe_apply_run (pg_safe_apply sha256 threshold label poll) env t0 tc policies timeoutMs initiatedBy s = (Inr res, t)"
  obtains c and u s2 s3 :: "'z policy_db_scheme" and reason t' v where "c = db_fresh s (db_drawn s)" "res_commitId res = c" "0 < timeoutMs"
    "pol_rollout s2 = pol_rollout s" "pg_rollout_start c (map mn_id (pg_list s)) s2 = (Inr (), s3)" "pol_rollout u = pol_rollout s3"
    "waitForOutcome (pg_safe_apply sha256 threshold label poll) env c (map mn_id (pg_list s)) (t0 + timeoutMs) 0 t0 u = (Inr (reason, t'), v)"
    "case reason of
       None \<Rightarrow> res_status res = CommitCommitted \<and> (\<exists>v1 ev. pe_commit t' c v = (Inr (), v1) \<and>
         publish sha256 t' ''security.policy.committed'' ev v1 = (Inr (), t))
     | Some r \<Rightarrow> res_status res = CommitRolledBack \<and> (\<exists>v1 v2 ev. pg_rollout_markRolledBack c v = (Inr (), v1) \<and>
         pe_rollback t' c v1 = (Inr (), v2) \<and> publish sha256 t' ''security.policy.rolled_back'' ev v2 = (Inr (), t))"
proof -
  obtain c s1 ids s2 s3 u where 1: "next_id s = (Inr c, s1)" and 2: "pe_stage sha256 t0 c policies initiatedBy s1 = (Inr ids, s2)"
    and 3: "pg_rollout_start c ids s2 = (Inr (), s3)"
    and 4: "publish sha256 t0 ''security.policy.staged'' (staged_event c t0 timeoutMs ids) s3 = (Inr (), u)"
    and rest: "\<exists>reason t' v. waitForOutcome (pg_safe_apply sha256 threshold label poll) env c ids (t0 + timeoutMs) 0 t0 u = (Inr (reason, t'), v) \<and>
     res_commitId res = c \<and> (case reason of
       None \<Rightarrow> res_status res = CommitCommitted \<and> (\<exists>v1 ev. pe_commit t' c v = (Inr (), v1) \<and>
         publish sha256 t' ''security.policy.committed'' ev v1 = (Inr (), t))
     | Some r \<Rightarrow> res_status res = CommitRolledBack \<and> (\<exists>v1 v2 ev. pg_rollout_markRolledBack c v = (Inr (), v1) \<and>
         pe_rollback t' c v1 = (Inr (), v2) \<and> publish sha256 t' ''security.policy.rolled_back'' ev v2 = (Inr (), t)))"
    using safe_apply_run_Inr [OF assms, unfolded pg_deps] by (elim exE conjE) (rule that, assumption+, intro exI conjI)
  have c: "c = db_fresh s (db_drawn s)" and s1: "s1 = s\<lparr>db_drawn := Suc (db_drawn s)\<rparr>" using 1 by (auto simp: next_id_def)
  have st: "ids = map mn_id (pg_list s)" "pol_rollout s2 = pol_rollout s" using stage_Inr [OF 2] by (auto simp: s1 pg_list_def)
  have "0 < timeoutMs" using assms by (auto simp: safe_apply_run_def split: if_splits)
  with rest show thesis
    using that [of c s2 s3 u] c st(2) 3 [unfolded st(1)] publish_sel(1) [OF 4] unfolding st(1) by blast
qed

lemma started_rows:
  assumes "pg_rollout_start c ids s = (Inr (), t)" "distinct ids" "\<forall>r \<in> set (pol_rollout s). fst r \<noteq> c"
    "pol_rollout u = pol_rollout t"
  shows "pg_rows c u = map (\<lambda>n. (n, PENDING)) ids"
proof -
  have "pol_rollout u = pol_rollout s @ map (\<lambda>n. (c, pending_record n)) ids" using start_rows [OF assms(1,2)] assms(3,4) by simp
  thus ?thesis using assms(3) by (simp add: pg_rows_def filter_empty_conv rr_pair_def pending_record_def comp_def)
qed

lemma wait_backed:
  assumes "\<forall>k u. pol_rollout (pv_others (env k) u) = pol_rollout u \<and> set (q_acks u) \<subseteq> set (q_acks (pv_others (env k) u))"
    and "backed c u"
  shows "backed c (snd (waitForOutcome (pg_safe_apply sha256 threshold label poll) env c ids deadline k t u))"
proof (rule wait_keeps)
  show "\<forall>k u. backed c u \<longrightarrow> backed c (pv_others (env k) u)"
    using assms(1) by (fastforce simp: backed_def firewall_acks_def)
qed (simp_all add: backed_refresh backed_finalize pg_rollout_summary_def assms(2))

lemma wait_commit_pg:
  assumes "\<forall>k u. pol_rollout (pv_others (env k) u) = pol_rollout u" "t0 < deadline"
    and "waitForOutcome (pg_safe_apply sha256 threshold label poll) env c ids deadline 0 t0 u = (Inr (None, t'), v)"
    and "pg_rows c u = map (\<lambda>n. (n, PENDING)) ids"
  shows "map fst (pg_rows c v) = ids \<and> snd ` set (pg_rows c v) \<subseteq> {SUCCEEDED, FAILED, TIMED_OUT} \<and>
    of_nat (failed_rows (pg_rows c v)) \<le> threshold * of_nat (length ids)"
proof (cases "ids = []")
  case True
  have "v = pv_others (env 0) u" by (rule wait_no_targets [OF assms(2) assms(3) [unfolded True]])
  thus ?thesis using assms(1,4) True by (simp add: failed_rows_def pg_rows_def)
next
  case False
  have ro: "\<forall>k u. pg_rows c (pv_others (env k) u) = pg_rows c u" using assms(1) by (simp add: pg_rows_def)
  have "snd ` set (pg_rows c u) \<subseteq> {PENDING, SUCCEEDED, FAILED}" by (auto simp: assms(4))
  from pg_rollout.wait_commit [OF ro False assms(3) this] show ?thesis by (simp add: assms(4) comp_def)
qed

text \<open>
  C1.  A rollout is reported committed only on the word of the nodes: there is
  one row for every node that was active when it was staged, none is pending,
  at most the configured fraction of them failed or timed out, and every row
  that says \<open>SUCCEEDED\<close> rests on an acknowledgement by that node of the
  \<open>APPLY_FIREWALL\<close> command of this commit.
\<close>

theorem safe_apply_commit_safe:
  fixes s t :: "'z policy_db_scheme"
  assumes run: "safe_apply_run (pg_safe_apply sha256 threshold label poll) env t0 tc policies timeoutMs initiatedBy s = (Inr res, t)"
    and com: "res_status res = CommitCommitted"
    and nodes: "distinct (map mn_id (db_nodes s))"
    and fresh: "\<forall>r \<in> set (pol_rollout s). fst r \<noteq> db_fresh s (db_drawn s)"
    and others: "\<forall>k u. pol_rollout (pv_others (env k) u) = pol_rollout u \<and> set (q_acks u) \<subseteq> set (q_acks (pv_others (env k) u))"
  shows "map fst (pg_rows (res_commitId res) t) = map mn_id (pg_list s) \<and>
    (\<forall>(n, st) \<in> set (pg_rows (res_commitId res) t). st \<in> {SUCCEEDED, FAILED, TIMED_OUT} \<and> (st = SUCCEEDED \<longrightarrow>
      (\<exists>a \<in> set (firewall_acks (res_commitId res) t). ack_nodeId a = n \<and> ack_status a = ''SUCCEEDED''))) \<and>
    of_nat (failed_rows (pg_rows (res_commitId res) t)) \<le> threshold * of_nat (length (pg_list s))"
proof -
  from run obtain c and u s2 s3 :: "'z policy_db_scheme" and reason t' v where c: "c = db_fresh s (db_drawn s)" "res_commitId res = c" and tm: "0 < timeoutMs"
    and st: "pol_rollout s2 = pol_rollout s" "pg_rollout_start c (map mn_id (pg_list s)) s2 = (Inr (), s3)" "pol_rollout u = pol_rollout s3"
    and w: "waitForOutcome (pg_safe_apply sha256 threshold label poll) env c (map mn_id (pg_list s)) (t0 + timeoutMs) 0 t0 u = (Inr (reason, t'), v)"
    and rest: "case reason of
       None \<Rightarrow> res_status res = CommitCommitted \<and> (\<exists>v1 ev. pe_commit t' c v = (Inr (), v1) \<and>
         publish sha256 t' ''security.policy.committed'' ev v1 = (Inr (), t))
     | Some r \<Rightarrow> res_status res = CommitRolledBack \<and> (\<exists>v1 v2 ev. pg_rollout_markRolledBack c v = (Inr (), v1) \<and>
         pe_rollback t' c v1 = (Inr (), v2) \<and> publish sha256 t' ''security.policy.rolled_back'' ev v2 = (Inr (), t))"
    by (rule pg_run_Inr)
  have reason: "reason = None" using rest com by (cases reason) simp_all
  obtain v1 ev where v: "pe_commit t' c v = (Inr (), v1)" "publish sha256 t' ''security.policy.committed'' ev v1 = (Inr (), t)"
    using rest [unfolded reason option.case] by blast
  have "pol_rollout t = pol_rollout v" "q_acks t = q_acks v"
    using v(1) publish_sel(1,3) [OF v(2)] by (auto simp: pe_commit_def finalize_commit_def)
  hence rt: "pg_rows c t = pg_rows c v" "firewall_acks c t = firewall_acks c v" by (simp_all add: pg_rows_def firewall_acks_def)
  have r: "pg_rows c u = map (\<lambda>n. (n, PENDING)) (map mn_id (pg_list s))"
    by (rule started_rows [OF st(2) distinct_pg_list [OF nodes] _ st(3)]) (use fresh st(1) c(1) in simp)
  have "backed c u" unfolding backed_rows r by simp
  hence b: "backed c v" using wait_backed [OF others] w by (metis snd_conv)
  have "map fst (pg_rows c v) = map mn_id (pg_list s) \<and> snd ` set (pg_rows c v) \<subseteq> {SUCCEEDED, FAILED, TIMED_OUT} \<and>
      of_nat (failed_rows (pg_rows c v)) \<le> threshold * of_nat (length (map mn_id (pg_list s)))"
    by (rule wait_commit_pg [OF _ _ w [unfolded reason] r]) (use others tm in auto)
  thus ?thesis using b [unfolded backed_rows] unfolding c(2) rt by fastforce
qed

section \<open>Rollback and the final status\<close>

definition decided :: "uuid \<Rightarrow> commit_status \<Rightarrow> 'z policy_db_scheme \<Rightarrow> bool" where
  "decided c st s \<longleftrightarrow> (\<forall>r \<in> set (pol_commits s). pco_id r = c \<longrightarrow> pco_status r = st)"

lemma decided_cong: "pol_commits t = pol_commits s \<Longrightarrow> decided c st t = decided c st s"
  by (simp add: decided_def)

lemma finalize_decided: "decided c st (snd (finalize_commit now c st s))"
  by (simp add: finalize_commit_def decided_def ball_Un)

lemma rollback_decided:
  assumes "pe_rollback now c s = (r, t)"
  shows "decided c CommitRolledBack t" "pol_rollout t = pol_rollout s" "db_nodes t = db_nodes s"
    "r = Inr () \<Longrightarrow> n \<in> set (pg_list t) \<Longrightarrow> \<exists>q \<in> set (q_commands t). cmd_nodeId q = mn_id n \<and> cmd_type q = ''ROLLBACK_FIREWALL'' \<and>
       cmd_payload q = JObj [(''commitId'', JStr c)] \<and> cmd_priority q = 200"
proof -
  define u where "u = snd (finalize_commit now c CommitRolledBack s)"
  have f: "finalize_commit now c CommitRolledBack s = (Inr (), u)" by (simp add: u_def finalize_commit_def)
  have u: "pol_rollout u = pol_rollout s" "db_nodes u = db_nodes s" by (simp_all add: u_def finalize_commit_def)
  have t: "forJ (\<lambda>node. enqueue now (mn_id node) ''ROLLBACK_FIREWALL'' (JObj [(''commitId'', JStr c)]) 200 60) (pg_list u) u = (r, t)"
    using assms unfolding pe_rollback_def bindJ_Inr [of "finalize_commit now c CommitRolledBack", OF f] by simp
  have q: "queue_only u t"
    using queue_only_broadcast [of u now mn_id "''ROLLBACK_FIREWALL''" "JObj [(''commitId'', JStr c)]" 200 60 "pg_list u"] t by simp
  hence sel: "pol_commits t = pol_commits u" "pol_rollout t = pol_rollout u" "db_nodes t = db_nodes u" unfolding queue_only_def by auto
  show "decided c CommitRolledBack t" using finalize_decided [of c CommitRolledBack now s] decided_cong [OF sel(1)] by (simp add: f)
  show "pol_rollout t = pol_rollout s" "db_nodes t = db_nodes s" using sel u by simp_all
  assume "r = Inr ()" "n \<in> set (pg_list t)"
  thus "\<exists>q \<in> set (q_commands t). cmd_nodeId q = mn_id n \<and> cmd_type q = ''ROLLBACK_FIREWALL'' \<and>
       cmd_payload q = JObj [(''commitId'', JStr c)] \<and> cmd_priority q = 200"
    using broadcast_queued [OF t [unfolded \<open>r = Inr ()\<close>], of n] sel(3) by (simp add: pg_list_def)
qed

text \<open>
  C12.  A rollout that is reported rolled back is rolled back everywhere: every
  row of it says so, the commit is recorded as rolled back, and every active
  node has the order to restore its previous rules, ahead of other commands.
\<close>

theorem safe_apply_rollback_complete:
  fixes s t :: "'z policy_db_scheme"
  assumes run: "safe_apply_run (pg_safe_apply sha256 threshold label poll) env t0 tc policies timeoutMs initiatedBy s = (Inr res, t)"
    and rb: "res_status res = CommitRolledBack"
  shows "snd ` set (pg_rows (res_commitId res) t) \<subseteq> {ROLLED_BACK} \<and> decided (res_commitId res) CommitRolledBack t \<and>
    (\<forall>n \<in> set (pg_list t). \<exists>q \<in> set (q_commands t). cmd_nodeId q = mn_id n \<and> cmd_type q = ''ROLLBACK_FIREWALL'' \<and>
       cmd_payload q = JObj [(''commitId'', JStr (res_commitId res))] \<and> cmd_priority q = 200)"
proof -
  from run obtain c and u s2 s3 :: "'z policy_db_scheme" and reason t' v where c: "c = db_fresh s (db_drawn s)" "res_commitId res = c"
    and "0 < timeoutMs" "pol_rollout s2 = pol_rollout s" "pg_rollout_start c (map mn_id (pg_list s)) s2 = (Inr (), s3)"
      "pol_rollout u = pol_rollout s3"
      "waitForOutcome (pg_safe_apply sha256 threshold label poll) env c (map mn_id (pg_list s)) (t0 + timeoutMs) 0 t0 u = (Inr (reason, t'), v)"
    and rest: "case reason of
       None \<Rightarrow> res_status res = CommitCommitted \<and> (\<exists>v1 ev. pe_commit t' c v = (Inr (), v1) \<and>
         publish sha256 t' ''security.policy.committed'' ev v1 = (Inr (), t))
     | Some r \<Rightarrow> res_status res = CommitRolledBack \<and> (\<exists>v1 v2 ev. pg_rollout_markRolledBack c v = (Inr (), v1) \<and>
         pe_rollback t' c v1 = (Inr (), v2) \<and> publish sha256 t' ''security.policy.rolled_back'' ev v2 = (Inr (), t))"
    by (rule pg_run_Inr)
  obtain r where r: "reason = Some r" using rest rb by (cases reason) simp_all
  obtain v1 v2 ev where v: "pg_rollout_markRolledBack c v = (Inr (), v1)" "pe_rollback t' c v1 = (Inr (), v2)"
    "publish sha256 t' ''security.policy.rolled_back'' ev v2 = (Inr (), t)"
    using rest [unfolded r option.case] by blast
  note p = publish_sel [OF v(3)] and q = rollback_decided [OF v(2)]
  have "pg_rows c t = map (apsnd (\<lambda>_. ROLLED_BACK)) (pg_rows c v)"
    using set_rollout_rows(1) [of c "\<lambda>_. ROLLED_BACK" v] v(1) p(1) q(2) by (simp add: pg_rollout_markRolledBack_def pg_rows_def)
  moreover have "decided c CommitRolledBack t" using q(1) decided_cong [OF p(2)] by blast
  moreover have "pg_list t = pg_list v2" by (simp add: pg_list_def p(5))
  ultimately show ?thesis unfolding c(2) p(4) using q(4) by auto
qed

section \<open>Every run is decided\<close>

lemma queue_inv_same:
  assumes "queue_inv s" "db_fresh t = db_fresh s" "db_drawn s \<le> db_drawn t" "q_commands t = q_commands s" "q_acks t = q_acks s"
    "db_nodes t = db_nodes s"
  shows "queue_inv t"
proof (rule queue_invI, unfold assms(2,4-6), goal_cases)
  have up: "\<exists>k < db_drawn t. x = db_fresh s k" if "\<exists>k < db_drawn s. x = db_fresh s k" for x
    using that assms(3) less_le_trans by blast
  {
    case 2 thus ?case by (intro up queue_invD(2) [OF assms(1)])
  next
    case 6 thus ?case by (intro up queue_invD(6) [OF assms(1)])
  }
  case 1 show ?case by (rule queue_invD(1) [OF assms(1)])
next
  case 3 show ?case by (rule queue_invD(3) [OF assms(1)])
next
  case (4 c) thus ?case by (rule queue_invD(4) [OF assms(1)])
next
  case 5 show ?case by (rule queue_invD(5) [OF assms(1)])
next
  case (7 c) thus ?case by (rule queue_invD(7) [OF assms(1)])
qed

lemma known_listed: "n \<in> set (pg_list s) \<Longrightarrow> known_node (mn_id n) s"
  by (simp add: pg_list_def)

lemma broadcast_list:
  assumes "queue_inv s"
  shows "\<exists>t. forJ (\<lambda>node. enqueue now (mn_id node) ty pl pr ttl) (pg_list s) s = (Inr (), t) \<and> queue_inv t \<and> queue_only s t"
proof -
  have k: "\<forall>n \<in> set (pg_list s). known_node (mn_id n) s" using known_listed by blast
  obtain t where t: "forJ (\<lambda>node. enqueue now (mn_id node) ty pl pr ttl) (pg_list s) s = (Inr (), t)"
    using broadcast_ok [OF assms k] by blast
  have "keeps queue_inv (forJ (\<lambda>node. enqueue now (mn_id node) ty pl pr ttl) (pg_list s))"
    by (intro keeps_for keepsI queue_inv_enqueue)
  from keepsD [OF this assms] have "queue_inv t" by (simp add: t)
  moreover have "queue_only s t" using queue_only_broadcast [of s now mn_id ty pl pr ttl "pg_list s"] t by simp
  ultimately show ?thesis using t by blast
qed

lemma stage_ok:
  assumes "queue_inv s" "c \<notin> pco_id ` set (pol_commits s)" "compile_policies sha256 now policies = Inr d"
  shows "\<exists>t. pe_stage sha256 now c policies by s = (Inr (map mn_id (pg_list s)), t) \<and> queue_inv t"
proof -
  let ?by = "case by of None \<Rightarrow> SYSTEM_INITIATOR | Some i \<Rightarrow> i"
  define u where "u = snd (insert_commit c policies ?by s)"
  have u: "insert_commit c policies ?by s = (Inr (), u)" "db_fresh u = db_fresh s" "db_drawn u = db_drawn s"
      "q_commands u = q_commands s" "q_acks u = q_acks s" "db_nodes u = db_nodes s"
    using assms(2) by (simp_all add: insert_commit_def u_def)
  have "queue_inv u" by (rule queue_inv_same [OF assms(1)]) (simp_all add: u)
  let ?pl = "JObj [(''commitId'', JStr c), (''defaultAction'', JStr ''DENY''), (''rules'', firewallRulesFor policies)]"
  let ?m = "forJ (\<lambda>node. enqueue now (mn_id node) ''APPLY_FIREWALL'' ?pl 100 60) (pg_list s)"
  have l: "pg_list u = pg_list s" by (simp add: pg_list_def u)
  from broadcast_list [OF \<open>queue_inv u\<close>, of now "''APPLY_FIREWALL''" ?pl 100 60, unfolded l] obtain t where t: "?m u = (Inr (), t)" "queue_inv t"
    by (elim exE conjE)
  have "pe_stage sha256 now c policies by s = (Inr (map mn_id (pg_list s)), t)"
    unfolding pe_stage_def assms(3) sum.case bindJ_Inr [of "insert_commit c policies ?by", OF u(1)] bindJ_get l
      bindJ_Inr [of ?m, OF t(1)]
    by (rule retJ_apply)
  thus ?thesis using t(2) by blast
qed

lemma insert_ok:
  assumes "c \<in> pco_id ` set (pol_commits s)" "known_node n s"
  shows "\<exists>r. rollout_insert c n s = (Inr (), s\<lparr>pol_rollout := r\<rparr>)"
proof (cases "\<exists>r \<in> set (pol_rollout s). fst r = c \<and> rr_nodeId (snd r) = n")
  case True
  hence "rollout_insert c n s = (Inr (), s\<lparr>pol_rollout := pol_rollout s\<rparr>)" unfolding rollout_insert_def by (simp only: if_True) simp
  thus ?thesis by blast
next
  case False
  have "\<not> (c \<notin> pco_id ` set (pol_commits s) \<or> \<not> known_node n s)" using assms by blast
  with False show ?thesis unfolding rollout_insert_def by (simp only: if_False) blast
qed

lemma start_ok:
  assumes "c \<in> pco_id ` set (pol_commits s)" "\<forall>n \<in> set ids. known_node n s"
  shows "\<exists>r. pg_rollout_start c ids s = (Inr (), s\<lparr>pol_rollout := r\<rparr>)"
  using assms unfolding pg_rollout_start_def
proof (induction ids arbitrary: s)
  case Nil
  have "forJ (rollout_insert c) [] s = (Inr (), s\<lparr>pol_rollout := pol_rollout s\<rparr>)" by simp
  thus ?case by blast
next
  case (Cons n ids)
  obtain r where r: "rollout_insert c n s = (Inr (), s\<lparr>pol_rollout := r\<rparr>)" using insert_ok Cons.prems by (metis list.set_intros(1))
  have "c \<in> pco_id ` set (pol_commits (s\<lparr>pol_rollout := r\<rparr>))" "\<forall>n \<in> set ids. known_node n (s\<lparr>pol_rollout := r\<rparr>)"
    using Cons.prems by simp_all
  from Cons.IH [OF this] obtain q where
    q: "forJ (rollout_insert c) ids (s\<lparr>pol_rollout := r\<rparr>) = (Inr (), s\<lparr>pol_rollout := q\<rparr>)" by auto
  have "forJ (rollout_insert c) (n # ids) s = (Inr (), s\<lparr>pol_rollout := q\<rparr>)"
    unfolding forJ.simps bindJ_Inr [of "rollout_insert c n", OF r] by (rule q)
  thus ?case by blast
qed

lemma queue_inv_rollout: "queue_inv (s\<lparr>pol_rollout := r\<rparr>) \<longleftrightarrow> queue_inv s"
  by (simp add: queue_inv_def ids_ok_def)

lemma queue_inv_commits: "queue_inv (s\<lparr>pol_commits := r\<rparr>) \<longleftrightarrow> queue_inv s"
  by (simp add: queue_inv_def ids_ok_def)

lemma queue_inv_publish: "queue_inv s \<Longrightarrow> publish sha256 now topic ev s = (r, t) \<Longrightarrow> queue_inv t"
proof -
  assume "queue_inv s" "publish sha256 now topic ev s = (r, t)"
  moreover then obtain ob where t: "t = s\<lparr>db_drawn := Suc (db_drawn s), db_outbox := ob\<rparr>" using publish_frame by blast
  ultimately show ?thesis by (elim queue_inv_same) (simp_all add: t)
qed

lemma queue_inv_wait:
  assumes "\<forall>k u. queue_inv u \<longrightarrow> queue_inv (pv_others (env k) u)" "queue_inv u"
  shows "queue_inv (snd (waitForOutcome (pg_safe_apply sha256 threshold label poll) env c ids deadline k t u))"
  by (rule wait_keeps)
    (simp_all add: assms keeps_def pg_refresh_eq Let_def queue_inv_rollout pg_rollout_finalizeTimeouts_def set_rollout_def
      pg_rollout_summary_def)

lemma rollback_ok:
  assumes "queue_inv s"
  shows "\<exists>t. pe_rollback now c s = (Inr (), t)"
proof -
  define u where "u = snd (finalize_commit now c CommitRolledBack s)"
  have u: "finalize_commit now c CommitRolledBack s = (Inr (), u)" "queue_inv u"
    using assms by (simp_all add: u_def finalize_commit_def queue_inv_commits)
  obtain t where "forJ (\<lambda>node. enqueue now (mn_id node) ''ROLLBACK_FIREWALL'' (JObj [(''commitId'', JStr c)]) 200 60) (pg_list u) u = (Inr (), t)"
    using broadcast_list [OF u(2), of now "''ROLLBACK_FIREWALL''" "JObj [(''commitId'', JStr c)]" 200 60] by (elim exE conjE)
  thus ?thesis unfolding pe_rollback_def bindJ_Inr [of "finalize_commit now c CommitRolledBack", OF u(1)] bindJ_get by blast
qed

text \<open>The verdict, once waiting has begun.\<close>

lemma decide_ok:
  fixes u :: "'z policy_db_scheme"
  assumes "queue_inv u" "\<forall>k u. queue_inv u \<longrightarrow> queue_inv (pv_others (env k) u)"
    and "\<forall>k. \<exists>h. pv_probe (env k) = verifyControlPlane h"
  shows "\<exists>res t. safe_apply_decide (pg_safe_apply sha256 threshold label poll) env t0 timeoutMs c ids u = (Inr res, t) \<and>
    res_commitId res = c \<and> res_status res \<noteq> CommitStaged \<and> decided c (res_status res) t"
proof -
  let ?D = "pg_safe_apply sha256 threshold label poll :: 'z policy_db_scheme safe_apply"
  let ?w = "waitForOutcome ?D env c ids (t0 + timeoutMs) 0 t0"
  have "\<forall>k d e. pv_probe (env k) \<noteq> ProbeRejects d e"
  proof (intro allI)
    fix k d e show "pv_probe (env k) \<noteq> ProbeRejects d e"
    proof -
      obtain h where "pv_probe (env k) = verifyControlPlane h" using assms(3) by blast
      thus ?thesis by (cases h) (simp_all add: verifyControlPlane_def)
    qed
  qed
  then obtain reason t' v where w: "?w u = (Inr (reason, t'), v)" using pg_rollout.wait_verdict by blast
  have iv: "queue_inv v" using queue_inv_wait [OF assms(2,1)] w by (metis snd_conv)
  note run = safe_apply_decide_def [of ?D env t0 timeoutMs c ids, THEN fun_cong, of u, unfolded bindJ_Inr [of ?w, OF w] prod.case pg_deps]
  show ?thesis
  proof (cases reason)
    case None
    define v1 where "v1 = snd (pe_commit t' c v)"
    have 1: "pe_commit t' c v = (Inr (), v1)" by (simp add: v1_def pe_commit_def finalize_commit_def)
    obtain r t where 2: "publish sha256 t' ''security.policy.committed'' (JObj [(''commitId'', JStr c)]) v1 = (r, t)" by force
    have "r = Inr ()" using publish_frame [OF 2] by simp
    note run = run [unfolded None option.case bindJ_Inr [of "pe_commit t' c", OF 1]
        bindJ_Inr [of "publish sha256 t' ''security.policy.committed'' (JObj [(''commitId'', JStr c)])", OF 2 [unfolded this]]]
    have "decided c CommitCommitted t"
      using decided_cong [OF publish_sel(2) [OF 2]] finalize_decided [of c CommitCommitted t' v] by (simp add: v1_def pe_commit_def)
    thus ?thesis using run by simp
  next
    case (Some rr)
    define v1 where "v1 = snd (pg_rollout_markRolledBack c v)"
    have 1: "pg_rollout_markRolledBack c v = (Inr (), v1)" by (simp add: v1_def pg_rollout_markRolledBack_def set_rollout_def)
    have "queue_inv v1" using iv by (simp add: v1_def pg_rollout_markRolledBack_def set_rollout_def queue_inv_rollout)
    then obtain v2 where 2: "pe_rollback t' c v1 = (Inr (), v2)" using rollback_ok by blast
    let ?ev = "JObj [(''commitId'', JStr c), (''reason'', JStr rr)]"
    obtain r t where 3: "publish sha256 t' ''security.policy.rolled_back'' ?ev v2 = (r, t)" by force
    have "r = Inr ()" using publish_frame [OF 3] by simp
    note run = run [unfolded Some option.case bindJ_Inr [of "pg_rollout_markRolledBack c", OF 1] bindJ_Inr [of "pe_rollback t' c", OF 2]
        bindJ_Inr [of "publish sha256 t' ''security.policy.rolled_back'' ?ev", OF 3 [unfolded this]]]
    have "decided c CommitRolledBack t" using decided_cong [OF publish_sel(2) [OF 3]] rollback_decided(1) [OF 2] by simp
    thus ?thesis using run by simp
  qed
qed


section \<open>A plane with one node\<close>

definition demo_plane :: policy_db where
  "demo_plane = \<lparr>db_devices = [demo_device], db_nodes = [demo_node], db_policies = [], db_grants = [], db_events = [],
     db_audit = [], db_audit_seq = 0, db_outbox = [], db_fresh = (\<lambda>n. replicate n (CHR ''x'')), db_drawn = 1,
     q_commands = [], q_acks = [], q_desired = [], q_rotations = [], mesh_relays = [], pol_commits = [], pol_rollout = []\<rparr>"

definition demo_ack :: ack_row where
  "demo_ack = \<lparr>ack_commandId = ''xx'', ack_nodeId = ''n1'', ack_type = ''APPLY_FIREWALL'', ack_issuedAt = 0, ack_at = 5,
     ack_status = ''SUCCEEDED'', ack_details = JObj [(''ok'', JBool True), (''commitId'', JStr ''x'')]\<rparr>"

definition demo_env :: "bool \<Rightarrow> nat \<Rightarrow> policy_db poll_env" where
  "demo_env healthy k = \<lparr>pv_probe = verifyControlPlane (ProbeAnswers 1 healthy),
     pv_others = (\<lambda>s. s\<lparr>q_acks := q_acks s @ [demo_ack]\<rparr>), pv_elapsed = 0\<rparr>"

lemmas run_defs = safe_apply_run_def pg_safe_apply_def next_id_def pe_stage_def compile_policies_def insert_commit_def
  bindJ_def pg_list_def enqueue_def pg_rollout_start_def rollout_insert_def publish_def safe_apply_decide_def catchJ_def
  waitForOutcome.simps race_probe_def verifyControlPlane_def pg_rollout_refresh_def pg_rollout_summary_def firewall_acks_def
  settle_def json_get_def failureReason_def bad_count_def pe_commit_def finalize_commit_def pe_rollback_def
  pg_rollout_markRolledBack_def set_rollout_def

lemma demo_run:
  "fst (safe_apply_run (pg_safe_apply (\<lambda>x. []) 0 ''0'' 1000) (demo_env True) 0 0 [] 60000 None demo_plane) =
     Inr \<lparr>res_commitId = ''x'', res_status = CommitCommitted, res_reason = None\<rparr>"
  "fst (safe_apply_run (pg_safe_apply (\<lambda>x. []) 0 ''0'' 1000) (demo_env False) 0 0 [] 60000 None demo_plane) =
     Inr \<lparr>res_commitId = ''x'', res_status = CommitRolledBack, res_reason = Some ''control plane database unreachable''\<rparr>"
  by (simp_all add: run_defs demo_plane_def demo_node_def demo_env_def demo_ack_def)

lemma demo_plane_facts: "distinct (map mn_id (db_nodes demo_plane))" "pol_rollout demo_plane = []" "pol_commits demo_plane = []"
    "map mn_id (pg_list demo_plane) = [''n1'']" "queue_inv demo_plane"
  by (simp_all add: demo_plane_def pg_list_def demo_node_def queue_inv_def ids_ok_def demo_fresh_inj)

theorem safe_apply_commit_safe_witness:
  "\<exists>t. safe_apply_run (pg_safe_apply (\<lambda>x. []) 0 ''0'' 1000) (demo_env True) 0 0 [] 60000 None demo_plane =
      (Inr \<lparr>res_commitId = ''x'', res_status = CommitCommitted, res_reason = None\<rparr>, t) \<and> map fst (pg_rows ''x'' t) = [''n1'']"
proof -
  obtain t where t: "safe_apply_run (pg_safe_apply (\<lambda>x. []) 0 ''0'' 1000) (demo_env True) 0 0 [] 60000 None demo_plane =
      (Inr \<lparr>res_commitId = ''x'', res_status = CommitCommitted, res_reason = None\<rparr>, t)"
    using demo_run(1) by (metis prod.collapse)
  have o: "\<forall>k u. pol_rollout (pv_others (demo_env True k) u) = pol_rollout u \<and> set (q_acks u) \<subseteq> set (q_acks (pv_others (demo_env True k) u))"
    by (simp add: demo_env_def subset_insertI)
  have "map fst (pg_rows ''x'' t) = map mn_id (pg_list demo_plane)"
    using conjunct1 [OF safe_apply_commit_safe [OF t apply_result.select_convs(2) demo_plane_facts(1) _ o]]
    by (simp only: demo_plane_facts(2) apply_result.select_convs list.set ball_empty)
  hence "map fst (pg_rows ''x'' t) = [''n1'']" by (simp only: demo_plane_facts(4))
  thus ?thesis using t by (intro exI [of _ t] conjI)
qed

theorem safe_apply_rollback_complete_witness:
  "\<exists>t. safe_apply_run (pg_safe_apply (\<lambda>x. []) 0 ''0'' 1000) (demo_env False) 0 0 [] 60000 None demo_plane =
      (Inr \<lparr>res_commitId = ''x'', res_status = CommitRolledBack, res_reason = Some ''control plane database unreachable''\<rparr>, t) \<and>
    decided ''x'' CommitRolledBack t"
proof -
  obtain t where t: "safe_apply_run (pg_safe_apply (\<lambda>x. []) 0 ''0'' 1000) (demo_env False) 0 0 [] 60000 None demo_plane =
      (Inr \<lparr>res_commitId = ''x'', res_status = CommitRolledBack, res_reason = Some ''control plane database unreachable''\<rparr>, t)"
    using demo_run(2) by (metis prod.collapse)
  have "decided ''x'' CommitRolledBack t" using safe_apply_rollback_complete [OF t] by simp
  thus ?thesis using t by blast
qed


section \<open>Isolation of a node\<close>

text \<open>
  C35.  Isolating an enrolled node queues one \<open>QUARANTINE\<close> order at high
  priority; an identifier the repository does not know at all is ignored.  But
  the repository looks the identifier up among devices, policies and grants
  too, and for such an identifier the request fails on the foreign key.
\<close>

theorem isolateNode_spec:
  assumes "queue_inv s"
  shows "(pg_get i s = None \<longrightarrow> pe_isolateNode now i s = (Inr (), s)) \<and>
    (known_node i s \<longrightarrow> (\<exists>c. pe_isolateNode now i s = (Inr (), s\<lparr>db_drawn := Suc (db_drawn s), q_commands := q_commands s @ [c]\<rparr>) \<and>
       cmd_nodeId c = i \<and> cmd_type c = ''QUARANTINE'' \<and> cmd_priority c = 200)) \<and>
    (\<not> known_node i s \<and> pg_get i s \<noteq> None \<longrightarrow> fst (pe_isolateNode now i s) = Inl (PgError ''23503''))"
proof (intro conjI impI)
  assume "pg_get i s = None"
  thus "pe_isolateNode now i s = (Inr (), s)" by (simp add: pe_isolateNode_def)
next
  assume k: "known_node i s"
  hence "pg_get i s \<noteq> None" by (auto simp: pg_get_def find_by_None split: option.splits)
  hence e: "pe_isolateNode now i s = enqueue now i ''QUARANTINE'' (JObj [(''reason'', JStr ''policy enforcement point'')]) 200 60 s"
    unfolding pe_isolateNode_def bindJ_get by (simp only: if_False)
  show "\<exists>c. pe_isolateNode now i s = (Inr (), s\<lparr>db_drawn := Suc (db_drawn s), q_commands := q_commands s @ [c]\<rparr>) \<and>
       cmd_nodeId c = i \<and> cmd_type c = ''QUARANTINE'' \<and> cmd_priority c = 200"
    unfolding e enqueue_ok [OF assms k] by (intro exI conjI, rule refl) (simp_all add: command_of_def)
next
  assume "\<not> known_node i s \<and> pg_get i s \<noteq> None"
  thus "fst (pe_isolateNode now i s) = Inl (PgError ''23503'')"
    unfolding pe_isolateNode_def bindJ_get by (simp add: enqueue_unknown [OF assms])
qed

theorem isolateNode_spec_witness: "fst (pe_isolateNode 0 ''d1'' demo_queue) = Inl (PgError ''23503'')"
proof -
  have "\<not> known_node ''d1'' demo_queue" "pg_get ''d1'' demo_queue \<noteq> None"
    by (simp_all add: demo_queue_def demo_node_def demo_device_def pg_get_def find_by_def)
  thus ?thesis using isolateNode_spec [OF demo_queue_inv, of "''d1''" 0] by blast
qed

end
