(* ===== verification/JsonParse.thy ===== *)
theory JsonParse
  imports Json
begin

text \<open>
  \<open>JSON.parse\<close>, and the proof that it inverts \<open>JSON.stringify\<close>.  As in
  \<open>Json\<close> numbers are integers and characters are bytes: numerals with a
  fraction or an exponent and escapes above \<open>00FF\<close> are outside the model and
  rejected.  The nesting depth is bounded by fuel; twice the length of the
  text is enough, since every two levels of recursion consume a character.
\<close>

section \<open>The parser\<close>

definition json_ws :: "char \<Rightarrow> bool" where
  "json_ws c \<longleftrightarrow> c \<in> {CHR '' '', CHR 0x09, CHR 0x0A, CHR 0x0D}"

definition skip_ws :: "string \<Rightarrow> string" where
  "skip_ws s = dropWhile json_ws s"

definition is_hex :: "char \<Rightarrow> bool" where
  "is_hex c \<longleftrightarrow> (let n = (of_char c :: nat) in 48 \<le> n \<and> n \<le> 57 \<or> 97 \<le> n \<and> n \<le> 102 \<or> 65 \<le> n \<and> n \<le> 70)"

definition hex_val :: "string \<Rightarrow> nat" where
  "hex_val s = radix_val 16 (map (\<lambda>c. if 65 \<le> (of_char c :: nat) \<and> (of_char c :: nat) \<le> 70 then char_of ((of_char c :: nat) + 32) else c) s)"

definition simple_escape :: "char \<Rightarrow> char option" where
  "simple_escape d = (if d = CHR ''b'' then Some (CHR 0x08) else if d = CHR ''f'' then Some (CHR 0x0C)
     else if d = CHR ''n'' then Some (CHR 0x0A) else if d = CHR ''r'' then Some (CHR 0x0D)
     else if d = CHR ''t'' then Some (CHR 0x09)
     else if d = CHR 0x22 \<or> d = CHR 0x5C \<or> d = CHR ''/'' then Some d else None)"

definition cons_char :: "char \<Rightarrow> (string \<times> string) option \<Rightarrow> (string \<times> string) option" where
  "cons_char c r = map_option (\<lambda>(s, q). (c # s, q)) r"

text \<open>The rest of a string literal after its opening quote.\<close>

fun parse_chars :: "string \<Rightarrow> (string \<times> string) option" where
  "parse_chars [] = None"
| "parse_chars (c # r) =
     (if c = CHR 0x22 then Some ([], r)
      else if c \<noteq> CHR 0x5C then (if (of_char c :: nat) < 32 then None else cons_char c (parse_chars r))
      else (case r of
          [] \<Rightarrow> None
        | d # q \<Rightarrow>
            if d = CHR ''u'' then
              (case q of h1 # h2 # h3 # h4 # q' \<Rightarrow>
                 if list_all is_hex [h1, h2, h3, h4] \<and> hex_val [h1, h2, h3, h4] < 256
                 then cons_char (char_of (hex_val [h1, h2, h3, h4])) (parse_chars q') else None
               | _ \<Rightarrow> None)
            else (case simple_escape d of None \<Rightarrow> None | Some e \<Rightarrow> cons_char e (parse_chars q))))"

definition parse_digits :: "string \<Rightarrow> (nat \<times> string) option" where
  "parse_digits s = (let ds = takeWhile is_digit s; r = dropWhile is_digit s in
     if ds = [] \<or> (1 < length ds \<and> hd ds = CHR ''0'') \<or> (r \<noteq> [] \<and> hd r \<in> {CHR ''.'', CHR ''e'', CHR ''E''}) then None
     else Some (radix_val 10 ds, r))"

definition parse_number :: "string \<Rightarrow> (json \<times> string) option" where
  "parse_number s = (case s of
     c # r \<Rightarrow> if c = CHR ''-'' then map_option (\<lambda>(n, q). (JNum (- int n), q)) (parse_digits r)
              else map_option (\<lambda>(n, q). (JNum (int n), q)) (parse_digits s)
   | [] \<Rightarrow> None)"

text \<open>A repeated key keeps its first place and takes the last value.\<close>

definition obj_set :: "string \<times> json \<Rightarrow> (string \<times> json) list \<Rightarrow> (string \<times> json) list" where
  "obj_set kv kvs = (if fst kv \<in> fst ` set kvs then map (\<lambda>x. if fst x = fst kv then kv else x) kvs else kvs @ [kv])"

definition parse_literal :: "string \<Rightarrow> (json \<times> string) option" where
  "parse_literal s =
     (if starts_with s ''true'' then Some (JBool True, drop 4 s)
      else if starts_with s ''false'' then Some (JBool False, drop 5 s)
      else if starts_with s ''null'' then Some (JNull, drop 4 s)
      else parse_number s)"

fun parse_value :: "nat \<Rightarrow> string \<Rightarrow> (json \<times> string) option"
  and parse_elems :: "nat \<Rightarrow> string \<Rightarrow> (json list \<times> string) option"
  and parse_members :: "nat \<Rightarrow> string \<Rightarrow> ((string \<times> json) list \<times> string) option" where
  "parse_value 0 s = None"
| "parse_value (Suc n) s = (case skip_ws s of
     [] \<Rightarrow> None
   | c # r \<Rightarrow>
       if c = CHR 0x7B then
         (case skip_ws r of d # q \<Rightarrow> if d = CHR 0x7D then Some (JObj [], q)
              else map_option (\<lambda>(kvs, q). (JObj (fold obj_set kvs []), q)) (parse_members n r)
          | [] \<Rightarrow> None)
       else if c = CHR 0x5B then
         (case skip_ws r of d # q \<Rightarrow> if d = CHR 0x5D then Some (JArr [], q)
              else map_option (\<lambda>(vs, q). (JArr vs, q)) (parse_elems n r)
          | [] \<Rightarrow> None)
       else if c = CHR 0x22 then map_option (\<lambda>(t, q). (JStr t, q)) (parse_chars r)
       else parse_literal (c # r))"
| "parse_elems 0 s = None"
| "parse_elems (Suc n) s = (case parse_value n s of
     None \<Rightarrow> None
   | Some (v, q) \<Rightarrow> (case skip_ws q of
        [] \<Rightarrow> None
      | d # q' \<Rightarrow> if d = CHR '','' then map_option (\<lambda>(vs, r). (v # vs, r)) (parse_elems n q')
                  else if d = CHR 0x5D then Some ([v], q') else None))"
| "parse_members 0 s = None"
| "parse_members (Suc n) s = (case skip_ws s of
     [] \<Rightarrow> None
   | c # r \<Rightarrow> if c \<noteq> CHR 0x22 then None else (case parse_chars r of
        None \<Rightarrow> None
      | Some (k, q) \<Rightarrow> (case skip_ws q of
           [] \<Rightarrow> None
         | d # q1 \<Rightarrow> if d \<noteq> CHR '':'' then None else (case parse_value n q1 of
              None \<Rightarrow> None
            | Some (v, q2) \<Rightarrow> (case skip_ws q2 of
                 [] \<Rightarrow> None
               | e # q3 \<Rightarrow> if e = CHR '','' then map_option (\<lambda>(kvs, r). ((k, v) # kvs, r)) (parse_members n q3)
                           else if e = CHR 0x7D then Some ([(k, v)], q3) else None)))))"

definition json_parse :: "string \<Rightarrow> json option" where
  "json_parse s = (case parse_value (2 * length s + 2) s of
     None \<Rightarrow> None | Some (v, r) \<Rightarrow> if skip_ws r = [] then Some v else None)"

section \<open>Parsing inverts printing\<close>

lemma digit_char_hex_lower: "d < 16 \<Longrightarrow> is_hex (digit_char d) \<and> \<not> (65 \<le> (of_char (digit_char d) :: nat) \<and> (of_char (digit_char d) :: nat) \<le> 70)"
  by (auto simp: is_hex_def of_digit_char Let_def)

lemma hex_val_lower:
  "\<forall>c \<in> set s. \<exists>d < 16. c = digit_char d \<Longrightarrow> hex_val s = radix_val 16 s \<and> list_all is_hex s"
proof -
  assume a: "\<forall>c \<in> set s. \<exists>d < 16. c = digit_char d"
  hence "map (\<lambda>c. if 65 \<le> (of_char c :: nat) \<and> (of_char c :: nat) \<le> 70 then char_of ((of_char c :: nat) + 32) else c) s = s"
    using digit_char_hex_lower by (intro map_idI) auto
  thus ?thesis using a digit_char_hex_lower by (auto simp: hex_val_def list_all_iff)
qed

lemma pad_hex_digits: "c \<in> set (pad_start 4 (CHR ''0'') (radix 16 n)) \<Longrightarrow> \<exists>d < 16. c = digit_char d"
proof -
  assume "c \<in> set (pad_start 4 (CHR ''0'') (radix 16 n))"
  then consider "c = CHR ''0''" | "c \<in> set (radix 16 n)" by (auto simp: pad_start_def split: if_splits)
  thus ?thesis
  proof cases
    case 1
    thus ?thesis by (intro exI [of _ 0]) (simp add: char_eq_code of_digit_char)
  qed (use radix_digits [of 16 c n] in simp)
qed

lemma parse_chars_hex: 
  assumes "length h = 4" "list_all is_hex h" "hex_val h < 256"
  shows "parse_chars (CHR 0x5C # CHR ''u'' # h @ x) = cons_char (char_of (hex_val h)) (parse_chars x)"
proof -
  obtain h1 h2 h3 h4 where "h = [h1, h2, h3, h4]" using assms(1) by (auto simp: numeral_eq_Suc length_Suc_conv)
  thus ?thesis using assms(2,3) by (simp del: parse_chars.simps add: parse_chars.simps(2) [of "CHR 0x5C"])
qed

lemma parse_chars_esc: "parse_chars (esc_char c @ x) = cons_char c (parse_chars x)"
proof -
  define n :: nat where "n = of_char c"
  have c: "c = char_of n" by (simp add: n_def)
  let ?h = "pad_start 4 (CHR ''0'') (radix 16 n)"
  show ?thesis
  proof (cases "n < 32 \<and> n \<notin> {8, 9, 10, 12, 13}")
    case True
    hence e: "esc_char c = CHR 0x5C # CHR ''u'' # ?h"
      by (auto simp: esc_char_def n_def [symmetric] Let_def)
    have "length ?h = 4" using True by (intro length_pad radix_length) auto
    moreover have h: "hex_val ?h = radix_val 16 ?h \<and> list_all is_hex ?h" by (intro hex_val_lower ballI pad_hex_digits)
    moreover have "radix_val 16 ?h = n" by (simp add: radix_val_pad radix_val_radix)
    ultimately show ?thesis using True parse_chars_hex [of ?h x] unfolding e by (simp add: c del: parse_chars.simps)
  next
    case False
    then consider "c = CHR 0x08" | "c = CHR 0x09" | "c = CHR 0x0A" | "c = CHR 0x0C" | "c = CHR 0x0D"
      | "c = CHR 0x22" | "c = CHR 0x5C" | "32 \<le> n" "c \<noteq> CHR 0x22" "c \<noteq> CHR 0x5C"
      unfolding n_def char_eq_code by fastforce
    thus ?thesis
    proof cases
      case 8
      hence "n \<noteq> 34" "n \<noteq> 92" by (simp_all add: n_def char_eq_code)
      hence "esc_char c = [c]" using 8(1) by (simp add: esc_char_def n_def [symmetric] Let_def)
      thus ?thesis using 8 by (simp add: n_def)
    qed (simp_all add: esc_char_def simple_escape_def)
  qed
qed

lemma parse_chars_literal: "parse_chars (concat (map esc_char s) @ CHR 0x22 # r) = Some (s, r)"
  by (induction s) (simp_all add: parse_chars_esc cons_char_def)

lemma radix_no_zero: "0 < n \<Longrightarrow> hd (dec n) \<noteq> CHR ''0''"
proof (induction n rule: less_induct)
  case (less n)
  show ?case
  proof (cases "n < 10")
    case True
    hence "(of_char (digit_char n) :: nat) \<noteq> 48" using less.prems by (simp add: of_digit_char)
    hence "digit_char n \<noteq> CHR ''0''" by auto
    thus ?thesis using True by (simp add: radix.simps [of 10 n])
  next
    case False
    hence "hd (dec (n div 10)) \<noteq> CHR ''0''" by (intro less.IH) auto
    thus ?thesis using False by (subst radix.simps) simp
  qed
qed

lemma parse_digits_dec: "delim r \<Longrightarrow> parse_digits (dec n @ r) = Some (n, r)"
proof -
  assume d: "delim r"
  have t: "takeWhile is_digit (dec n @ r) = dec n" "dropWhile is_digit (dec n @ r) = r"
    using d dec_digits [of _ n] by (cases r; auto simp: delim_def is_digit_def takeWhile_append dropWhile_append)+
  have "length (dec n) = 1 \<or> hd (dec n) \<noteq> CHR ''0''"
    using radix_no_zero [of n] by (cases "n = 0") (auto simp: radix.simps [of 10 0])
  moreover have "r \<noteq> [] \<Longrightarrow> hd r \<notin> {CHR ''.'', CHR ''e'', CHR ''E''}" using d by (cases r) (auto simp: delim_def)
  moreover have "radix_val 10 (dec n) = n" by (simp add: radix_val_radix)
  ultimately show ?thesis by (auto simp: parse_digits_def t Let_def)
qed

lemma parse_number_int: "delim r \<Longrightarrow> parse_number (int_string i @ r) = Some (JNum i, r)"
proof -
  assume d: "delim r"
  obtain c q where c: "dec (nat i) = c # q" by (cases "dec (nat i)") simp_all
  have "c \<noteq> CHR ''-''" using dec_not_minus [of "nat i"] c by auto
  thus ?thesis using parse_digits_dec [OF d, of "nat i"] parse_digits_dec [OF d, of "nat (- i)"] c
    by (auto simp: parse_number_def int_string_def)
qed

text \<open>A value \<open>JSON.parse\<close> can return.\<close>

fun json_plain :: "json \<Rightarrow> bool" where
  "json_plain JUndefined \<longleftrightarrow> False"
| "json_plain (JArr vs) \<longleftrightarrow> list_all json_plain vs"
| "json_plain (JObj kvs) \<longleftrightarrow> distinct (map fst kvs) \<and> list_all (\<lambda>(k, v). json_plain v) kvs"
| "json_plain v \<longleftrightarrow> True"

lemma json_plain_defined: "json_plain v \<Longrightarrow> v \<noteq> JUndefined"
  by auto

lemma stringify_print: "json_plain v \<Longrightarrow> json_stringify v = json_print v"
proof (induction v)
  case (JArr vs)
  hence "map (\<lambda>v. if v = JUndefined then ''null'' else json_stringify v) vs =
      map (\<lambda>v. if v = JUndefined then [] else json_print v) vs"
    by (intro map_cong) (auto simp: list_all_iff)
  thus ?case by (simp only: json_stringify.simps json_print.simps)
next
  case (JObj kvs)
  have "filter (\<lambda>kv. snd kv \<noteq> JUndefined) kvs = kvs"
    using JObj.prems by (intro filter_True) (auto simp: list_all_iff)
  moreover have "map (\<lambda>kv. json_string (fst kv) @ '':'' @ json_stringify (snd kv)) kvs =
      map (\<lambda>(k, v). json_string k @ '':'' @ json_print v) kvs"
    using JObj by (intro map_cong) (auto simp: list_all_iff)
  ultimately show ?case by (simp only: json_stringify.simps json_print.simps)
qed simp_all

lemma skip_ws_print [simp]: "skip_ws (json_print v @ r) = json_print v @ r"
proof -
  obtain c q where c: "json_print v = c # q" "char_class c = print_class v" using json_print_hd [of v] by blast
  hence "char_class c \<noteq> 8" using print_class_lt [of v] by linarith
  moreover have "char_class c = 8" if "json_ws c" using that by (auto simp: json_ws_def char_class_def is_digit_def)
  ultimately show ?thesis using c(1) by (auto simp: skip_ws_def)
qed

lemma skip_ws_delim [simp]: "skip_ws (CHR '','' # r) = CHR '','' # r" "skip_ws (CHR '']'' # r) = CHR '']'' # r"
  "skip_ws (CHR ''}'' # r) = CHR ''}'' # r" "skip_ws (CHR '':'' # r) = CHR '':'' # r" "skip_ws (CHR 0x22 # r) = CHR 0x22 # r"
  "skip_ws (CHR ''['' # r) = CHR ''['' # r" "skip_ws (CHR ''{'' # r) = CHR ''{'' # r"
  by (simp_all add: skip_ws_def json_ws_def)

definition parses :: "json \<Rightarrow> bool" where
  "parses v \<longleftrightarrow> (\<forall>n r. 2 * length (json_print v) \<le> n \<longrightarrow> delim r \<longrightarrow> parse_value n (json_print v @ r) = Some (v, r))"

lemma print_nonempty: "0 < length (json_print v)"
  using json_print_hd [of v] by auto

declare parse_value.simps [simp del] parse_elems.simps [simp del] parse_members.simps [simp del] parse_chars.simps [simp del]

lemma parse_elems_print:
  assumes "vs \<noteq> []" "list_all parses vs" "2 * length (js_join [CHR '',''] (map json_print vs)) < n"
  shows "parse_elems n (js_join [CHR '',''] (map json_print vs) @ CHR '']'' # r) = Some (vs, r)"
  using assms
proof (induction vs arbitrary: n)
  case (Cons v vs)
  obtain m where n: "n = Suc m" using Cons.prems(3) by (cases n) auto
  show ?case
  proof (cases vs)
    case Nil
    have "parse_value m (json_print v @ CHR '']'' # r) = Some (v, CHR '']'' # r)"
      using Cons.prems(2,3) unfolding n Nil by (simp add: parses_def)
    thus ?thesis unfolding n Nil by (simp add: parse_elems.simps)
  next
    case vs: (Cons w ws)
    have l: "2 * length (js_join [CHR '',''] (map json_print vs)) < m" "2 * length (json_print v) \<le> m"
      using Cons.prems(3) unfolding n vs by simp_all
    have "parse_elems m (js_join [CHR '',''] (map json_print vs) @ CHR '']'' # r) = Some (vs, r)"
      using Cons.prems(2) l vs by (intro Cons.IH) simp_all
    moreover have "parse_value m (json_print v @ CHR '','' # q) = Some (v, CHR '','' # q)" for q
      using Cons.prems(2) l(2) by (simp add: parses_def)
    ultimately show ?thesis unfolding n vs by (simp add: parse_elems.simps)
  qed
qed simp

abbreviation member_text :: "string \<times> json \<Rightarrow> string" where
  "member_text \<equiv> \<lambda>(k, v). json_string k @ '':'' @ json_print v"

lemma parse_member:
  assumes "parses v" "2 * length (json_print v) \<le> m" "d = CHR '','' \<or> d = CHR ''}''"
  shows "parse_members (Suc m) (json_string k @ CHR '':'' # json_print v @ d # q) =
    (if d = CHR '','' then map_option (\<lambda>(kvs, r). ((k, v) # kvs, r)) (parse_members m q) else Some ([(k, v)], q))"
proof -
  have "parse_value m (json_print v @ d # q) = Some (v, d # q)" using assms by (auto simp: parses_def)
  moreover have "skip_ws (d # q) = d # q" using assms(3) by auto
  moreover have "skip_ws (json_string k @ x) = json_string k @ x" for x by (simp add: json_string_def)
  ultimately show ?thesis using assms(3) by (auto simp: parse_members.simps json_string_def parse_chars_literal)
qed

lemma parse_members_print:
  assumes "kvs \<noteq> []" "list_all (\<lambda>(k, v). parses v) kvs" "2 * length (js_join [CHR '',''] (map member_text kvs)) < n"
  shows "parse_members n (js_join [CHR '',''] (map member_text kvs) @ CHR ''}'' # r) = Some (kvs, r)"
  using assms
proof (induction kvs arbitrary: n)
  case (Cons kv kvs)
  obtain m where n: "n = Suc m" using Cons.prems(3) by (cases n) auto
  obtain k v where kv: "kv = (k, v)" by (cases kv)
  have v: "parses v" using Cons.prems(2) kv by simp
  show ?case
  proof (cases kvs)
    case Nil
    have "2 * length (json_print v) \<le> m" using Cons.prems(3) unfolding n Nil kv by simp
    thus ?thesis using parse_member [OF v, of m "CHR ''}''" k r] unfolding n Nil kv by simp
  next
    case kvs: (Cons w ws)
    have l: "2 * length (js_join [CHR '',''] (map member_text kvs)) < m" "2 * length (json_print v) \<le> m"
      using Cons.prems(3) unfolding n kvs kv by simp_all
    have "parse_members m (js_join [CHR '',''] (map member_text kvs) @ CHR ''}'' # r) = Some (kvs, r)"
      using Cons.prems(2) l(1) kvs by (intro Cons.IH) simp_all
    thus ?thesis
      using parse_member [OF v l(2), of "CHR '',''" k "js_join [CHR '',''] (map member_text kvs) @ CHR ''}'' # r"]
      unfolding n kvs kv by simp
  qed
qed simp

lemma obj_set_distinct: "distinct (map fst (acc @ kvs)) \<Longrightarrow> fold obj_set kvs acc = acc @ kvs"
proof (induction kvs arbitrary: acc)
  case (Cons kv kvs)
  hence "obj_set kv acc = acc @ [kv]" by (auto simp: obj_set_def)
  thus ?case using Cons.IH [of "acc @ [kv]"] Cons.prems by simp
qed simp

lemma parse_literal_number: "delim r \<Longrightarrow> parse_literal (int_string i @ r) = Some (JNum i, r)"
proof -
  assume d: "delim r"
  obtain c q where c: "int_string i = c # q" by (cases "int_string i") (auto simp: int_string_def split: if_splits)
  hence "c = CHR ''-'' \<or> is_digit c" by (rule int_string_hd)
  hence "c \<notin> {CHR ''t'', CHR ''f'', CHR ''n''}" by (auto simp: is_digit_def)
  hence "\<not> starts_with (c # x) ''true'' \<and> \<not> starts_with (c # x) ''false'' \<and> \<not> starts_with (c # x) ''null''" for x
    by (auto simp: starts_with_iff)
  thus ?thesis using parse_number_int [OF d, of i] c by (simp add: parse_literal_def)
qed

lemma parse_value_scalar: "parse_value (Suc m) (json_print v @ r) = Some (v, r)"
  if "delim r" "print_class v < 6" "v \<noteq> JUndefined"
proof (cases v)
  case (JNum i)
  obtain c q where c: "int_string i = c # q" by (cases "int_string i") (auto simp: int_string_def split: if_splits)
  hence "c = CHR ''-'' \<or> is_digit c" by (rule int_string_hd)
  hence n: "c \<noteq> CHR 0x7B \<and> c \<noteq> CHR 0x5B \<and> c \<noteq> CHR 0x22" by (auto simp: is_digit_def)
  have "skip_ws (int_string i @ r) = int_string i @ r" using skip_ws_print [of "JNum i" r] by simp
  thus ?thesis using parse_literal_number [OF that(1), of i] n JNum c by (simp add: parse_value.simps)
next
  case (JStr s)
  have "json_string s @ r = CHR 0x22 # concat (map esc_char s) @ CHR 0x22 # r" by (simp add: json_string_def)
  thus ?thesis using JStr by (simp add: parse_value.simps parse_chars_literal)
qed (use that in \<open>simp_all add: parse_value.simps skip_ws_def json_ws_def parse_literal_def starts_with_def print_class_def\<close>)

lemma parses_scalar: "print_class v < 6 \<Longrightarrow> v \<noteq> JUndefined \<Longrightarrow> parses v"
  unfolding parses_def
proof (intro allI impI)
  fix n r assume a: "print_class v < 6" "v \<noteq> JUndefined" "2 * length (json_print v) \<le> n" "delim r"
  obtain m where "n = Suc m" using a(3) print_nonempty [of v] by (cases n) auto
  thus "parse_value n (json_print v @ r) = Some (v, r)" using parse_value_scalar [OF a(4,1,2)] by simp
qed

lemma json_plain_parses: "json_plain v \<Longrightarrow> parses v"
proof (induction v)
  case (JArr vs)
  have all: "list_all parses vs" using JArr by (auto simp: list_all_iff)
  have pr: "json_print (JArr vs) = CHR ''['' # js_join [CHR '',''] (map json_print vs) @ [CHR '']'']"
    using JArr.prems json_plain_defined by (auto simp: list_all_iff intro!: arg_cong [of _ _ "js_join _"])
  show ?case unfolding parses_def pr
  proof (intro allI impI)
    fix n r assume n: "2 * length (CHR ''['' # js_join [CHR '',''] (map json_print vs) @ [CHR '']'']) \<le> n" and "delim r"
    then obtain m where m: "n = Suc m" by (cases n) auto
    show "parse_value n ((CHR ''['' # js_join [CHR '',''] (map json_print vs) @ [CHR '']'']) @ r) = Some (JArr vs, r)"
    proof (cases vs)
      case Nil
      thus ?thesis using m by (simp add: parse_value.simps)
    next
      case vs: (Cons w ws)
      let ?t = "js_join [CHR '',''] (map json_print vs) @ CHR '']'' # r"
      have p: "parse_elems m ?t = Some (vs, r)" using all n m vs by (intro parse_elems_print) simp_all
      obtain q where q: "?t = json_print w @ q" using vs by (cases ws) auto
      have "skip_ws ?t = ?t" using q by simp
      moreover obtain d x where d: "?t = d # x" "d \<noteq> CHR '']''"
        using q json_print_hd [of w] json_print_not_close(1) [of w q] by fastforce
      ultimately show ?thesis using p m by (simp add: parse_value.simps)
    qed
  qed
next
  case (JObj kvs)
  have all: "list_all (\<lambda>(k, v). parses v) kvs" using JObj by (fastforce simp: list_all_iff)
  have set: "fold obj_set kvs [] = kvs" using JObj.prems obj_set_distinct [of "[]" kvs] by simp
  show ?case unfolding parses_def json_print.simps
  proof (intro allI impI)
    fix n r assume n: "2 * length (''{'' @ js_join '','' (map member_text kvs) @ ''}'') \<le> n" and "delim r"
    then obtain m where m: "n = Suc m" by (cases n) auto
    show "parse_value n ((''{'' @ js_join '','' (map member_text kvs) @ ''}'') @ r) = Some (JObj kvs, r)"
    proof (cases kvs)
      case Nil
      thus ?thesis using m by (simp add: parse_value.simps)
    next
      case kvs: (Cons w ws)
      let ?t = "js_join '','' (map member_text kvs) @ CHR ''}'' # r"
      have p: "parse_members m ?t = Some (kvs, r)" using all n m kvs by (intro parse_members_print) simp_all
      obtain x where "?t = CHR 0x22 # x" using kvs by (cases ws; cases w) (auto simp: json_string_def)
      thus ?thesis using p m set by (simp add: parse_value.simps)
    qed
  qed
qed (simp_all add: parses_scalar print_class_def)

theorem json_parse_stringify: "json_plain v \<Longrightarrow> json_parse (json_stringify v) = Some v"
proof -
  assume v: "json_plain v"
  have "parse_value (2 * length (json_print v) + 2) (json_print v @ []) = Some (v, [])"
    using json_plain_parses [OF v, unfolded parses_def, THEN spec [of _ "2 * length (json_print v) + 2"], THEN spec [of _ "[]"]]
    by (simp add: delim_def)
  thus ?thesis by (simp add: json_parse_def stringify_print [OF v] skip_ws_def)
qed

end
