(* ===== verification/Codec.thy ===== *)
theory Codec
  imports JsonParse
begin

text \<open>
  The buffer encodings of Node the sources use, on byte strings: hexadecimal
  and base64url, with the lenient decoders of \<open>Buffer.from\<close>.  A hexadecimal
  decoder stops at the first pair that is not hexadecimal; a base64 decoder
  skips characters outside the alphabet and drops an incomplete last byte.
\<close>

text \<open>\<open>xs[i]\<close>: \<open>undefined\<close> out of range.\<close>

definition nth_opt :: "nat \<Rightarrow> 'a list \<Rightarrow> 'a option" where
  "nth_opt i xs = (if i < length xs then Some (xs ! i) else None)"

section \<open>Hexadecimal\<close>

definition hex_byte :: "char \<Rightarrow> char \<Rightarrow> char" where
  "hex_byte a b = char_of (hex_val [a, b])"

fun from_hex :: "string \<Rightarrow> string" where
  "from_hex (a # b # r) = (if is_hex a \<and> is_hex b then hex_byte a b # from_hex r else [])"
| "from_hex _ = []"

definition to_hex :: "string \<Rightarrow> string" where
  "to_hex bs = concat (map (\<lambda>c. [digit_char (of_char c div 16), digit_char (of_char c mod 16)]) bs)"

section \<open>Base64url\<close>

definition b64_char :: "nat \<Rightarrow> char" where
  "b64_char n = (if n < 26 then char_of (n + 65) else if n < 52 then char_of (n + 71) else if n < 62 then char_of (n - 4)
     else if n = 62 then CHR ''-'' else CHR ''_'')"

definition b64_val :: "char \<Rightarrow> nat option" where
  "b64_val c = (let n = (of_char c :: nat) in
     if 65 \<le> n \<and> n \<le> 90 then Some (n - 65) else if 97 \<le> n \<and> n \<le> 122 then Some (n - 71)
     else if 48 \<le> n \<and> n \<le> 57 then Some (n + 4) else if c = CHR ''-'' \<or> c = CHR ''+'' then Some 62
     else if c = CHR ''_'' \<or> c = CHR ''/'' then Some 63 else None)"

fun b64_group :: "nat list \<Rightarrow> nat list" where
  "b64_group (a # b # c # r) = [a div 4, (a mod 4) * 16 + b div 16, (b mod 16) * 4 + c div 64, c mod 64] @ b64_group r"
| "b64_group [a, b] = [a div 4, (a mod 4) * 16 + b div 16, (b mod 16) * 4]"
| "b64_group [a] = [a div 4, (a mod 4) * 16]"
| "b64_group [] = []"

fun b64_ungroup :: "nat list \<Rightarrow> nat list" where
  "b64_ungroup (a # b # c # d # r) = [a * 4 + b div 16, (b mod 16) * 16 + c div 4, (c mod 4) * 64 + d] @ b64_ungroup r"
| "b64_ungroup [a, b, c] = [a * 4 + b div 16, (b mod 16) * 16 + c div 4]"
| "b64_ungroup [a, b] = [a * 4 + b div 16]"
| "b64_ungroup _ = []"

definition to_base64url :: "string \<Rightarrow> string" where
  "to_base64url bs = map b64_char (b64_group (map of_char bs))"

definition from_base64url :: "string \<Rightarrow> string" where
  "from_base64url s = map char_of (b64_ungroup (List.map_filter b64_val s))"

section \<open>Round trips\<close>

lemma digit_char_hex: "n < 16 \<Longrightarrow> is_hex (digit_char n)"
  by (auto simp: is_hex_def digit_char_def Let_def)

lemma hex_val_digits: "a < 16 \<Longrightarrow> b < 16 \<Longrightarrow> hex_val [digit_char a, digit_char b] = 16 * a + b"
  by (auto simp: hex_val_def digit_char_def radix_val_def digit_val_def)

lemma from_to_hex: "from_hex (to_hex bs) = bs"
proof (induction bs)
  case Nil
  show ?case by (simp add: to_hex_def)
next
  case (Cons c bs)
  let ?n = "of_char c :: nat"
  have n: "?n < 256" by simp
  hence d: "?n div 16 < 16" by (simp add: less_mult_imp_div_less)
  hence "hex_byte (digit_char (?n div 16)) (digit_char (?n mod 16)) = c"
    by (simp add: hex_byte_def hex_val_digits)
  thus ?case using Cons.IH d by (simp add: to_hex_def digit_char_hex)
qed

lemma to_hex_length: "length (to_hex bs) = 2 * length bs"
  by (induction bs) (simp_all add: to_hex_def)

lemma b64_val_char: "n < 64 \<Longrightarrow> b64_val (b64_char n) = Some n"
  by (auto simp: b64_val_def b64_char_def Let_def)

lemma b64_ungroup_group: "list_all (\<lambda>n. n < 256) xs \<Longrightarrow> b64_ungroup (b64_group xs) = xs"
  by (induction xs rule: b64_group.induct) (auto simp: algebra_simps)

lemma b64_group_bound: "list_all (\<lambda>n. n < 256) xs \<Longrightarrow> list_all (\<lambda>n. n < 64) (b64_group xs)"
  by (induction xs rule: b64_group.induct) (auto simp: less_mult_imp_div_less)

lemma map_filter_b64: "list_all (\<lambda>n. n < 64) xs \<Longrightarrow> List.map_filter b64_val (map b64_char xs) = xs"
  by (induction xs) (auto simp: List.map_filter_def b64_val_char)

lemma bytes_bound: "list_all (\<lambda>n. n < 256) (map (of_char :: char \<Rightarrow> nat) bs)"
  by (induction bs) simp_all

lemma from_to_base64url: "from_base64url (to_base64url bs) = bs"
  by (simp add: from_base64url_def to_base64url_def map_filter_b64 b64_group_bound bytes_bound b64_ungroup_group comp_def)

lemma b64_char_no_dot: "n < 64 \<Longrightarrow> b64_char n \<noteq> CHR ''.''"
  using b64_val_char [of n] by (auto simp: b64_val_def)

lemma to_base64url_no_dot: "CHR ''.'' \<notin> set (to_base64url bs)"
proof -
  have "list_all (\<lambda>n. n < 64) (b64_group (map of_char bs))" by (rule b64_group_bound) (rule bytes_bound)
  hence "\<forall>n \<in> set (b64_group (map of_char bs)). b64_char n \<noteq> CHR ''.''" by (auto simp: list_all_iff b64_char_no_dot)
  thus ?thesis by (auto simp: to_base64url_def)
qed

end
