(* ===== verification/Trust.thy ===== *)
theory Trust
  imports Rollout Codec
begin

text \<open>
  Trust Core (\<open>services/trust-core\<close>) and hardware attestation
  (\<open>src/infrastructure/attestation\<close>).  The ASN.1, X.509 and RSA code is
  node-forge and node:crypto: it appears as the records \<open>forge\<close> and \<open>rsa_lib\<close>
  and as the function arguments of the definitions that call it.  Byte strings
  are strings.
\<close>

section \<open>Tables\<close>

record cert_row =
  ct_id :: uuid
  ct_nodeId :: uuid
  ct_issuerId :: uuid
  ct_serial :: string
  ct_subject :: string
  ct_issuedAt :: millis
  ct_expiresAt :: millis
  ct_revoked :: bool
  ct_reason :: "string option"
  ct_revokedAt :: "millis option"

record issuer_row =
  iss_id :: uuid
  iss_name :: string
  iss_pem :: string
  iss_keyReference :: string
  iss_active :: bool

record anchor_row =
  anc_keyReference :: string
  anc_subjectCn :: string
  anc_certificatePem :: string
  anc_privateKeyPem :: string

record trust_db = policy_db +
  tc_certs :: "cert_row list"
  tc_issuers :: "issuer_row list"
  tc_anchors :: "anchor_row list"

section \<open>PgCertificateStore\<close>

definition cert_save :: "cert_row \<Rightarrow> ('z trust_db_scheme, unit) js" where
  "cert_save r = (\<lambda>s.
     if ct_id r \<in> ct_id ` set (tc_certs s) \<or> ct_serial r \<in> ct_serial ` set (tc_certs s) then (Inl (PgError ''23505''), s)
     else if \<not> known_node (ct_nodeId r) s \<or> ct_issuerId r \<notin> iss_id ` set (tc_issuers s) then (Inl (PgError ''23503''), s)
     else (Inr (), s\<lparr>tc_certs := tc_certs s @ [r]\<rparr>))"

definition cert_revoke :: "string \<Rightarrow> string \<Rightarrow> millis \<Rightarrow> ('z trust_db_scheme, unit) js" where
  "cert_revoke serial reason t = modifyJ (\<lambda>s. s\<lparr>tc_certs := map (\<lambda>c. if ct_serial c = serial
     then c\<lparr>ct_revoked := True, ct_reason := Some reason, ct_revokedAt := Some t\<rparr> else c) (tc_certs s)\<rparr>)"

definition activeCertificateFor :: "uuid \<Rightarrow> 'z trust_db_scheme \<Rightarrow> string option" where
  "activeCertificateFor nodeId s = (case sort_key (\<lambda>c. - ct_issuedAt c)
       (filter (\<lambda>c. ct_nodeId c = nodeId \<and> \<not> ct_revoked c) (tc_certs s)) of
     [] \<Rightarrow> None | c # _ \<Rightarrow> Some (ct_serial c))"

definition expiringWithin :: "int \<Rightarrow> millis \<Rightarrow> 'z trust_db_scheme \<Rightarrow> cert_row list" where
  "expiringWithin days now s = sort_key ct_expiresAt
     (filter (\<lambda>c. \<not> ct_revoked c \<and> ct_expiresAt c < now + days * 86400000) (tc_certs s))"

definition listRevoked :: "'z trust_db_scheme \<Rightarrow> (string \<times> millis) list" where
  "listRevoked s = map (\<lambda>c. (ct_serial c, the (ct_revokedAt c)))
     (sort_key (\<lambda>c. the (ct_revokedAt c)) (filter (\<lambda>c. ct_revoked c \<and> ct_revokedAt c \<noteq> None) (tc_certs s)))"

section \<open>ForgeX509Builder\<close>

datatype x509_extension =
    BasicConstraints bool
  | KeyUsage bool bool bool bool bool
  | ExtKeyUsage bool bool
  | SubjectAltName nat "string option"

type_synonym dn = "(string \<times> string option) list"

record x509_input =
  xi_serial :: string
  xi_subject :: string
  xi_publicKeyPem :: string
  xi_issuerCertificatePem :: string
  xi_notBefore :: millis
  xi_notAfter :: millis
  xi_extensions :: "(string \<times> string) list"

record 'k x509_cert =
  xc_publicKey :: 'k
  xc_serialNumber :: string
  xc_notBefore :: millis
  xc_notAfter :: millis
  xc_subject :: dn
  xc_issuer :: dn
  xc_extensions :: "x509_extension list"
  xc_signature :: string

record 'k forge =
  fg_certificateSubject :: "string \<Rightarrow> js_error + dn"
  fg_publicKeyFromPem :: "string \<Rightarrow> js_error + 'k"
  fg_tbs :: "'k x509_cert \<Rightarrow> string"
  fg_certificateToPem :: "'k x509_cert \<Rightarrow> string"

definition parseDn :: "string \<Rightarrow> dn" where
  "parseDn text = map (\<lambda>pair. let parts = map js_trim (split_on (CHR ''='') pair); name = hd parts in
     (if name = ''CN'' then ''commonName'' else if name = ''OU'' then ''organizationalUnitName'' else name, nth_opt 1 parts))
     (split_on (CHR '','') text)"

definition csv_flags :: "string \<Rightarrow> string list" where
  "csv_flags csv = map js_trim (split_on (CHR '','') csv)"

definition parseKeyUsage :: "string \<Rightarrow> x509_extension" where
  "parseKeyUsage csv = (let flags = set (csv_flags csv) in KeyUsage (''digitalSignature'' \<in> flags)
     (''keyEncipherment'' \<in> flags) (''keyAgreement'' \<in> flags) (''keyCertSign'' \<in> flags) (''cRLSign'' \<in> flags))"

definition parseExtKeyUsage :: "string \<Rightarrow> x509_extension" where
  "parseExtKeyUsage csv = (let flags = set (csv_flags csv) in ExtKeyUsage (''serverAuth'' \<in> flags) (''clientAuth'' \<in> flags))"

definition parseSubjectAltName :: "string \<Rightarrow> x509_extension" where
  "parseSubjectAltName v = (let parts = split_on (CHR '':'') v; name = nth_opt 1 parts in
     if hd parts = ''URI'' then SubjectAltName 6 name
     else SubjectAltName 2 (case name of None \<Rightarrow> Some v | Some n \<Rightarrow> Some n))"

definition extension_entry :: "string \<Rightarrow> (string \<Rightarrow> x509_extension) \<Rightarrow> (string \<times> string) list \<Rightarrow> x509_extension list" where
  "extension_entry k f exts = (case map_of exts k of None \<Rightarrow> [] | Some v \<Rightarrow> if v = [] then [] else [f v])"

definition x509_extensions :: "(string \<times> string) list \<Rightarrow> x509_extension list" where
  "x509_extensions exts =
     extension_entry ''basicConstraints'' (\<lambda>v. BasicConstraints (str_includes v ''TRUE'')) exts @
     extension_entry ''keyUsage'' parseKeyUsage exts @
     extension_entry ''extendedKeyUsage'' parseExtKeyUsage exts @
     extension_entry ''subjectAltName'' parseSubjectAltName exts"

definition x509_create :: "'k forge \<Rightarrow> (string \<Rightarrow> js_error + string) \<Rightarrow> x509_input \<Rightarrow> js_error + string" where
  "x509_create F sign input = (case fg_certificateSubject F (xi_issuerCertificatePem input) of Inl e \<Rightarrow> Inl e | Inr issuer \<Rightarrow>
     (case fg_publicKeyFromPem F (xi_publicKeyPem input) of Inl e \<Rightarrow> Inl e | Inr key \<Rightarrow>
       let cert = \<lparr>xc_publicKey = key, xc_serialNumber = xi_serial input, xc_notBefore = xi_notBefore input,
             xc_notAfter = xi_notAfter input, xc_subject = parseDn (xi_subject input), xc_issuer = issuer,
             xc_extensions = x509_extensions (xi_extensions input), xc_signature = []\<rparr>
       in (case sign (fg_tbs F cert) of Inl e \<Rightarrow> Inl e
           | Inr signature \<Rightarrow> Inr (fg_certificateToPem F (cert\<lparr>xc_signature := signature\<rparr>)))))"

section \<open>Key providers\<close>

text \<open>Signing and the public key of a key reference, as \<open>ProtectedKeyProvider\<close>.\<close>

record key_provider =
  kp_sign :: "string \<Rightarrow> string \<Rightarrow> string \<Rightarrow> js_error + string"
  kp_publicKey :: "string \<Rightarrow> js_error + string"

record 'p rsa_lib =
  rsa_publicKeyToPem :: "'p \<Rightarrow> string"
  rsa_privateKeyToPem :: "'p \<Rightarrow> string"
  rsa_privateKeyFromPem :: "string \<Rightarrow> js_error + 'p"
  rsa_sign :: "'p \<Rightarrow> string \<Rightarrow> string"

type_synonym 'p dev_keys = "(string \<times> 'p) list"

text \<open>\<open>DevKeyProvider\<close>; \<open>pair\<close> is the key pair \<open>generateKeyPair\<close> returns.\<close>

definition dev_generate :: "'p rsa_lib \<Rightarrow> 'p \<Rightarrow> string \<Rightarrow> 'p dev_keys \<Rightarrow> string \<times> 'p dev_keys" where
  "dev_generate R pair ref keys = (rsa_publicKeyToPem R pair, map_set fst (ref, pair) keys)"

definition dev_importPrivateKeyPem :: "'p rsa_lib \<Rightarrow> string \<Rightarrow> string \<Rightarrow> 'p dev_keys \<Rightarrow> js_error + string \<times> 'p dev_keys" where
  "dev_importPrivateKeyPem R ref pem keys = (case rsa_privateKeyFromPem R pem of Inl e \<Rightarrow> Inl e
     | Inr pair \<Rightarrow> Inr (rsa_publicKeyToPem R pair, map_set fst (ref, pair) keys))"

definition dev_key :: "string \<Rightarrow> 'p dev_keys \<Rightarrow> js_error + 'p" where
  "dev_key ref keys = (case map_of keys ref of None \<Rightarrow> Inl (JsError (''unknown key reference '' @ ref)) | Some p \<Rightarrow> Inr p)"

definition dev_sign :: "'p rsa_lib \<Rightarrow> 'p dev_keys \<Rightarrow> string \<Rightarrow> string \<Rightarrow> string \<Rightarrow> js_error + string" where
  "dev_sign R keys ref algorithm payload =
     (if algorithm \<noteq> ''RS256'' then Inl (JsError (''DevKeyProvider only supports RS256 (got '' @ algorithm @ '')''))
      else (case dev_key ref keys of Inl e \<Rightarrow> Inl e | Inr p \<Rightarrow> Inr (rsa_sign R p payload)))"

definition dev_publicKey :: "'p rsa_lib \<Rightarrow> 'p dev_keys \<Rightarrow> string \<Rightarrow> js_error + string" where
  "dev_publicKey R keys ref = (case dev_key ref keys of Inl e \<Rightarrow> Inl e | Inr p \<Rightarrow> Inr (rsa_publicKeyToPem R p))"

definition exportPrivateKeyPemForDevOnly :: "'p rsa_lib \<Rightarrow> 'p dev_keys \<Rightarrow> string \<Rightarrow> js_error + string" where
  "exportPrivateKeyPemForDevOnly R keys ref =
     (case dev_key ref keys of Inl e \<Rightarrow> Inl e | Inr p \<Rightarrow> Inr (rsa_privateKeyToPem R p))"

definition dev_provider :: "'p rsa_lib \<Rightarrow> 'p dev_keys \<Rightarrow> key_provider" where
  "dev_provider R keys = \<lparr>kp_sign = dev_sign R keys, kp_publicKey = dev_publicKey R keys\<rparr>"

text \<open>
  \<open>AwsKmsKeyProvider\<close>; \<open>send_sign\<close> and \<open>send_key\<close> are the KMS calls (an absent
  signature or key is \<open>None\<close>), \<open>b64\<close> the base64 encoding of a buffer.
\<close>

fun chunks64 :: "string \<Rightarrow> string list" where
  "chunks64 [] = []"
| "chunks64 (c # r) = (c # take 63 r) # chunks64 (drop 63 r)"

definition kms_pem :: "(string \<Rightarrow> string) \<Rightarrow> string \<Rightarrow> string \<Rightarrow> string" where
  "kms_pem b64 der label = ''-----BEGIN '' @ label @ ''-----'' @ [CHR 0x0A] @ js_join [CHR 0x0A] (chunks64 (b64 der)) @
     [CHR 0x0A] @ ''-----END '' @ label @ ''-----'' @ [CHR 0x0A]"

definition kms_keyId :: "(string \<times> string) list \<Rightarrow> string \<Rightarrow> js_error + string" where
  "kms_keyId ids ref = (case map_of ids ref of
     None \<Rightarrow> Inl (JsError (''no AWS KMS key configured for reference '' @ [CHR 0x22] @ ref @ [CHR 0x22]))
   | Some k \<Rightarrow> if k = [] then Inl (JsError (''no AWS KMS key configured for reference '' @ [CHR 0x22] @ ref @ [CHR 0x22])) else Inr k)"

definition kms_sign :: "(string \<Rightarrow> string \<Rightarrow> js_error + string option) \<Rightarrow> (string \<times> string) list \<Rightarrow>
    string \<Rightarrow> string \<Rightarrow> string \<Rightarrow> js_error + string" where
  "kms_sign send_sign ids ref algorithm payload =
     (if algorithm \<noteq> ''RS256'' then Inl (JsError (''AwsKmsKeyProvider only supports RS256 (got '' @ algorithm @ '')''))
      else (case kms_keyId ids ref of Inl e \<Rightarrow> Inl e | Inr k \<Rightarrow> (case send_sign k payload of Inl e \<Rightarrow> Inl e
        | Inr None \<Rightarrow> Inl (JsError (''AWS KMS returned no signature for key reference '' @ [CHR 0x22] @ ref @ [CHR 0x22]))
        | Inr (Some sig) \<Rightarrow> Inr sig)))"

definition kms_publicKey :: "(string \<Rightarrow> string) \<Rightarrow> (string \<Rightarrow> js_error + string option) \<Rightarrow> (string \<times> string) list \<Rightarrow>
    string \<Rightarrow> js_error + string" where
  "kms_publicKey b64 send_key ids ref = (case kms_keyId ids ref of Inl e \<Rightarrow> Inl e | Inr k \<Rightarrow> (case send_key k of Inl e \<Rightarrow> Inl e
     | Inr None \<Rightarrow> Inl (JsError (''AWS KMS returned no public key for key reference '' @ [CHR 0x22] @ ref @ [CHR 0x22]))
     | Inr (Some der) \<Rightarrow> Inr (kms_pem b64 der ''PUBLIC KEY'')))"

section \<open>Self-signed authorities and the trust anchor\<close>

text \<open>
  \<open>placeholder key cn\<close> is the PEM of the unsigned certificate that only carries
  the subject into \<open>x509_create\<close>.
\<close>

definition selfSignWithExistingKey :: "'k forge \<Rightarrow> (string \<Rightarrow> string \<Rightarrow> string) \<Rightarrow> key_provider \<Rightarrow> millis \<Rightarrow>
    string \<Rightarrow> string \<Rightarrow> int \<Rightarrow> js_error + string" where
  "selfSignWithExistingKey F placeholder keys now subjectCn ref validityDays =
     (case kp_publicKey keys ref of Inl e \<Rightarrow> Inl e | Inr publicKeyPem \<Rightarrow>
       (case fg_publicKeyFromPem F publicKeyPem of Inl e \<Rightarrow> Inl e | Inr _ \<Rightarrow>
         x509_create F (kp_sign keys ref ''RS256'')
           \<lparr>xi_serial = ''01'', xi_subject = ''CN='' @ subjectCn, xi_publicKeyPem = publicKeyPem,
            xi_issuerCertificatePem = placeholder publicKeyPem subjectCn, xi_notBefore = now,
            xi_notAfter = now + validityDays * 86400000,
            xi_extensions = [(''basicConstraints'', ''CA:TRUE''), (''keyUsage'', ''keyCertSign,cRLSign'')]\<rparr>))"

definition createSelfSignedDevCa :: "'k forge \<Rightarrow> 'p rsa_lib \<Rightarrow> (string \<Rightarrow> string \<Rightarrow> string) \<Rightarrow> 'p \<Rightarrow> millis \<Rightarrow>
    string \<Rightarrow> string \<Rightarrow> js_error + 'p dev_keys \<times> string" where
  "createSelfSignedDevCa F R placeholder pair now subjectCn ref =
     (let keys = snd (dev_generate R pair ref []) in
      case selfSignWithExistingKey F placeholder (dev_provider R keys) now subjectCn ref 365 of
        Inl e \<Rightarrow> Inl e | Inr pem \<Rightarrow> Inr (keys, pem))"

text \<open>
  \<open>PgDevTrustAnchorStore.loadOrCreate\<close>; \<open>env\<close> is what other processes commit
  while the key is generated.
\<close>

definition find_anchor :: "string \<Rightarrow> 'z trust_db_scheme \<Rightarrow> (string \<times> string) option" where
  "find_anchor ref s = map_option (\<lambda>a. (anc_certificatePem a, anc_privateKeyPem a)) (find_by anc_keyReference ref (tc_anchors s))"

definition loadOrCreate :: "('z trust_db_scheme \<Rightarrow> 'z trust_db_scheme) \<Rightarrow> string \<Rightarrow> string \<Rightarrow> (js_error + string \<times> string) \<Rightarrow>
    ('z trust_db_scheme, string \<times> string) js" where
  "loadOrCreate env ref subjectCn generated = bindJ (getJ (find_anchor ref)) (\<lambda>existing. case existing of
     Some a \<Rightarrow> retJ a
   | None \<Rightarrow> bindJ (\<lambda>s. (generated, env s)) (\<lambda>g.
       bindJ (modifyJ (\<lambda>s. if ref \<in> anc_keyReference ` set (tc_anchors s) then s
         else s\<lparr>tc_anchors := tc_anchors s @ [\<lparr>anc_keyReference = ref, anc_subjectCn = subjectCn,
            anc_certificatePem = fst g, anc_privateKeyPem = snd g\<rparr>]\<rparr>)) (\<lambda>_.
       bindJ (getJ (find_anchor ref)) (\<lambda>winner. case winner of
         Some a \<Rightarrow> retJ a | None \<Rightarrow> throwJ (JsError ''Cannot read properties of undefined'')))))"

definition ISSUER_NAME :: string where
  "ISSUER_NAME = ''bapc-trust-anchor''"

definition upsertIssuerRow :: "string \<Rightarrow> string \<Rightarrow> ('z trust_db_scheme, uuid) js" where
  "upsertIssuerRow pem ref = bindJ next_id (\<lambda>i. \<lambda>s. case find_by iss_name ISSUER_NAME (tc_issuers s) of
     None \<Rightarrow> (Inr i, s\<lparr>tc_issuers := tc_issuers s @ [\<lparr>iss_id = i, iss_name = ISSUER_NAME, iss_pem = pem,
        iss_keyReference = ref, iss_active = True\<rparr>]\<rparr>)
   | Some r \<Rightarrow> if iss_active r then (Inr (iss_id r), s\<lparr>tc_issuers := map (\<lambda>x. if iss_name x = ISSUER_NAME
        then x\<lparr>iss_pem := pem, iss_keyReference := ref\<rparr> else x) (tc_issuers s)\<rparr>)
      else (Inl (JsError (''certificate issuer '' @ [CHR 0x27] @ ISSUER_NAME @ [CHR 0x27] @
        '' has been deactivated - cannot issue or sign with it'')), s))"

record trust_anchor =
  ta_keys :: key_provider
  ta_keyReference :: string
  ta_issuerId :: uuid
  ta_certificatePem :: string
  ta_algorithm :: string
  ta_mode :: string

definition env_get :: "(string \<times> string) list \<Rightarrow> string \<Rightarrow> string option" where
  "env_get env k = map_of env k"

definition loadTrustAnchor :: "'k forge \<Rightarrow> 'p rsa_lib \<Rightarrow> (string \<Rightarrow> string \<Rightarrow> string) \<Rightarrow> (string \<Rightarrow> key_provider) \<Rightarrow>
    'p \<Rightarrow> ('z trust_db_scheme \<Rightarrow> 'z trust_db_scheme) \<Rightarrow> millis \<Rightarrow> (string \<times> string) list \<Rightarrow>
    ('z trust_db_scheme, trust_anchor) js" where
  "loadTrustAnchor F R placeholder kms pair others now env =
     (case truthy (env_get env ''AWS_KMS_INTERMEDIATE_KEY_ID'') of
        Some kmsKeyId \<Rightarrow>
          (let keys = kms kmsKeyId;
               cn = (case env_get env ''TRUST_ANCHOR_SUBJECT'' of None \<Rightarrow> ''BAPC Intermediate CA 1'' | Some x \<Rightarrow> x) in
           bindJ (\<lambda>s. (selfSignWithExistingKey F placeholder keys now cn ''intermediate'' 365, s)) (\<lambda>pem.
           bindJ (upsertIssuerRow pem ''intermediate'') (\<lambda>issuerId.
           retJ \<lparr>ta_keys = keys, ta_keyReference = ''intermediate'', ta_issuerId = issuerId, ta_certificatePem = pem,
             ta_algorithm = ''RS256'', ta_mode = ''aws-kms''\<rparr>)))
      | None \<Rightarrow>
          (let ref = ''trust-anchor''; subjectCn = ''BAPC Development CA - not for production'';
               generated = (case createSelfSignedDevCa F R placeholder pair now subjectCn ref of Inl e \<Rightarrow> Inl e
                 | Inr (keys, pem) \<Rightarrow> (case exportPrivateKeyPemForDevOnly R keys ref of Inl e \<Rightarrow> Inl e | Inr sk \<Rightarrow> Inr (pem, sk))) in
           bindJ (loadOrCreate others ref subjectCn generated) (\<lambda>anchor.
           bindJ (\<lambda>s. (dev_importPrivateKeyPem R ref (snd anchor) [], s)) (\<lambda>(_, keys).
           bindJ (upsertIssuerRow (fst anchor) ref) (\<lambda>issuerId.
           retJ \<lparr>ta_keys = dev_provider R keys, ta_keyReference = ref, ta_issuerId = issuerId,
             ta_certificatePem = fst anchor, ta_algorithm = ''RS256'', ta_mode = ''development-shared-ca''\<rparr>)))))"

section \<open>TrustCoreIssuer\<close>

record issued_certificate =
  ic_serial :: string
  ic_certificatePem :: string
  ic_expiresAt :: millis

definition issueNode :: "'k forge \<Rightarrow> trust_anchor \<Rightarrow> millis \<Rightarrow> uuid \<Rightarrow> string \<Rightarrow> int \<Rightarrow>
    ('z trust_db_scheme, issued_certificate) js" where
  "issueNode F A now nodeId nodePublicKeyPem ttlMinutes =
     (if ttlMinutes < 5 \<or> 1440 < ttlMinutes then throwJ (JsError ''certificate TTL outside allowed range'') else
      let expiresAt = now + ttlMinutes * 60000; subject = ''CN=node:'' @ nodeId @ '',OU=BAPC VPN Digital Security'' in
      bindJ next_id (\<lambda>u. let serial = filter (\<lambda>c. c \<noteq> CHR ''-'') u in
      bindJ (\<lambda>s. (x509_create F (kp_sign (ta_keys A) (ta_keyReference A) (ta_algorithm A))
          \<lparr>xi_serial = serial, xi_subject = subject, xi_publicKeyPem = nodePublicKeyPem,
           xi_issuerCertificatePem = ta_certificatePem A, xi_notBefore = now - 60000, xi_notAfter = expiresAt,
           xi_extensions = [(''basicConstraints'', ''CA:FALSE''), (''keyUsage'', ''digitalSignature,keyAgreement''),
             (''extendedKeyUsage'', ''clientAuth,serverAuth''), (''subjectAltName'', ''URI:bapc:security:node:'' @ nodeId)]\<rparr>, s)) (\<lambda>pem.
      bindJ next_id (\<lambda>i.
      bindJ (cert_save \<lparr>ct_id = i, ct_nodeId = nodeId, ct_issuerId = ta_issuerId A, ct_serial = serial, ct_subject = subject,
          ct_issuedAt = now, ct_expiresAt = expiresAt, ct_revoked = False, ct_reason = None, ct_revokedAt = None\<rparr>) (\<lambda>_.
      retJ \<lparr>ic_serial = serial, ic_certificatePem = pem, ic_expiresAt = expiresAt\<rparr>)))))"

definition issuer_revoke :: "millis \<Rightarrow> string \<Rightarrow> string \<Rightarrow> ('z trust_db_scheme, unit) js" where
  "issuer_revoke now serial reason =
     (if length (js_trim reason) < 5 then throwJ (JsError ''revocation reason required'') else cert_revoke serial reason now)"

section \<open>ForgeCrlBuilder\<close>

datatype asn1 = ASeq "asn1 list" | APrim nat string

record crl_lib =
  cl_toDer :: "asn1 \<Rightarrow> string"
  cl_oidToDer :: "string \<Rightarrow> string"
  cl_dateToUtcTime :: "millis \<Rightarrow> string"
  cl_subjectAsn1 :: "string \<Rightarrow> js_error + asn1"

definition intHex :: "string \<Rightarrow> asn1" where
  "intHex hex = (let bytes = from_hex hex in
     APrim 2 (case bytes of [] \<Rightarrow> [] | b # _ \<Rightarrow> if 128 \<le> (of_char b :: nat) then CHR 0x00 # bytes else bytes))"

definition algorithmIdentifier :: "crl_lib \<Rightarrow> string \<Rightarrow> asn1" where
  "algorithmIdentifier L oid = ASeq [APrim 6 (cl_oidToDer L oid), APrim 5 []]"

definition utcTime :: "crl_lib \<Rightarrow> millis \<Rightarrow> asn1" where
  "utcTime L d = APrim 23 (cl_dateToUtcTime L d)"

definition sha256WithRSAEncryption :: string where
  "sha256WithRSAEncryption = ''1.2.840.113549.1.1.11''"

definition crl_tbs :: "crl_lib \<Rightarrow> asn1 \<Rightarrow> millis \<Rightarrow> millis \<Rightarrow> (string \<times> millis) list \<Rightarrow> asn1" where
  "crl_tbs L subject thisUpdate nextUpdate revoked = ASeq [APrim 2 [CHR 0x01], algorithmIdentifier L sha256WithRSAEncryption,
     subject, utcTime L thisUpdate, utcTime L nextUpdate,
     ASeq (map (\<lambda>(serialHex, revokedAt). ASeq [intHex serialHex, utcTime L revokedAt]) revoked)]"

definition crl_build :: "crl_lib \<Rightarrow> (string \<Rightarrow> js_error + string) \<Rightarrow> string \<Rightarrow> millis \<Rightarrow> millis \<Rightarrow> (string \<times> millis) list \<Rightarrow>
    js_error + string" where
  "crl_build L sign issuerPem thisUpdate nextUpdate revoked = (case cl_subjectAsn1 L issuerPem of Inl e \<Rightarrow> Inl e | Inr subject \<Rightarrow>
     let tbs = crl_tbs L subject thisUpdate nextUpdate revoked in
     (case sign (cl_toDer L tbs) of Inl e \<Rightarrow> Inl e | Inr signature \<Rightarrow>
        Inr (cl_toDer L (ASeq [tbs, algorithmIdentifier L sha256WithRSAEncryption, APrim 3 (CHR 0x00 # signature)]))))"

section \<open>Hardware attestation\<close>

record attestation_envelope =
  ae_provider :: string
  ae_nonce :: string
  ae_pcrDigest :: string
  ae_akPublicKeyPem :: string
  ae_signature :: string

text \<open>A field read from a parsed value: \<open>Some\<close> when it is a string.\<close>

definition string_field :: "json \<Rightarrow> string \<Rightarrow> string option" where
  "string_field e k = (case json_get k e of Some (JStr x) \<Rightarrow> Some x | _ \<Rightarrow> None)"

definition require_field :: "json \<Rightarrow> string \<Rightarrow> (string \<Rightarrow> bool) \<Rightarrow> string \<Rightarrow> (string \<Rightarrow> string + 'a) \<Rightarrow> string + 'a" where
  "require_field e k ok message f = (case string_field e k of None \<Rightarrow> Inl message | Some x \<Rightarrow> if ok x then f x else Inl message)"

definition parseAttestationEnvelope :: "string \<Rightarrow> string + attestation_envelope" where
  "parseAttestationEnvelope quote = (case json_parse quote of
     None \<Rightarrow> Inl ''attestation quote is not a valid attestation envelope (not JSON)''
   | Some e \<Rightarrow> if (case e of JObj _ \<Rightarrow> False | JArr _ \<Rightarrow> False | _ \<Rightarrow> True)
      then Inl ''attestation envelope must be a JSON object'' else
       require_field e ''provider'' (\<lambda>x. x \<in> {''windows-tpm'', ''linux-tpm2'', ''apple-secure-enclave''})
         ''attestation envelope has an unrecognized provider'' (\<lambda>provider.
       require_field e ''nonce'' (\<lambda>x. 8 \<le> length x)
         ''attestation envelope nonce must be a string of at least 8 characters'' (\<lambda>nonce.
       require_field e ''pcrDigest'' (\<lambda>x. length x = 64 \<and> list_all is_hex x)
         ''attestation envelope pcrDigest must be a 64-character hex SHA-256 digest'' (\<lambda>pcrDigest.
       require_field e ''akPublicKeyPem'' (\<lambda>x. str_includes x ''BEGIN PUBLIC KEY'')
         ''attestation envelope akPublicKeyPem must be a PEM-encoded public key'' (\<lambda>akPublicKeyPem.
       require_field e ''signature'' (\<lambda>x. x \<noteq> []) ''attestation envelope signature is required'' (\<lambda>signature.
       Inr \<lparr>ae_provider = provider, ae_nonce = nonce, ae_pcrDigest = pcrDigest, ae_akPublicKeyPem = akPublicKeyPem,
         ae_signature = signature\<rparr>))))))"

definition attestationSignedPayload :: "string \<Rightarrow> attestation_envelope \<Rightarrow> string option \<Rightarrow> string" where
  "attestationSignedPayload hardwareId e identity = canonicalJson (JObj [(''hardwareId'', JStr hardwareId),
     (''nonce'', JStr (ae_nonce e)), (''pcrDigest'', JStr (ae_pcrDigest e)),
     (''identityPublicKeyPem'', case identity of None \<Rightarrow> JNull | Some k \<Rightarrow> JStr k)])"

text \<open>
  \<open>keyType\<close> is \<open>createPublicKey(pem).asymmetricKeyType\<close> and \<open>verify\<close> is
  \<open>createVerify\<close> with its arguments; \<open>None\<close> when they throw.
\<close>

record sig_lib =
  sl_keyType :: "string \<Rightarrow> string option"
  sl_verify :: "string \<Rightarrow> string \<Rightarrow> string \<Rightarrow> bool option"

definition hardware_verify :: "sig_lib \<Rightarrow> string \<Rightarrow> string \<Rightarrow> string \<Rightarrow> string \<Rightarrow> string option \<Rightarrow> bool" where
  "hardware_verify S provider expectedKeyType hardwareId quote identity = (case parseAttestationEnvelope quote of
     Inl _ \<Rightarrow> False
   | Inr e \<Rightarrow> ae_provider e = provider \<and> sl_keyType S (ae_akPublicKeyPem e) = Some expectedKeyType \<and>
       sl_verify S (ae_akPublicKeyPem e) (attestationSignedPayload hardwareId e identity) (ae_signature e) = Some True)"

datatype attestation_provider = DevelopmentAttestation | WindowsTpm | LinuxTpm2 | AppleSecureEnclave

datatype environment = EnvDevelopment | EnvTest | EnvProduction

definition buildAttestationVerifier :: "attestation_provider \<Rightarrow> environment \<Rightarrow> js_error + attestation_provider" where
  "buildAttestationVerifier provider environment =
     (if provider = DevelopmentAttestation \<and> environment = EnvProduction
      then Inl (JsError ''ATTESTATION_PROVIDER=development cannot be used when NODE_ENV=production'')
      else Inr provider)"

definition NOT_IMPLEMENTED :: string where
  "NOT_IMPLEMENTED = ''Apple Secure Enclave attestation (DeviceCheck/App Attest) requires a '' @
     ''native Swift component running under an Apple Developer Program '' @
     ''entitlement to produce and this control plane to verify against Apple'' @ [CHR 0x27] @ ''s '' @
     ''own attestation service - this cannot be implemented or tested without '' @
     ''that, and there is no Apple client in this repository yet (see '' @
     ''native/apple/adapter.ts'' @ [CHR 0x27] @ ''s own NOT_IMPLEMENTED for the matching gap on '' @
     ''the network-control side). This class exists so a future Apple client '' @
     ''has a real AttestationVerifier contract to implement against, the same '' @
     ''role ApplePlatformAdapter plays for PlatformAdapter.''"

fun attestation_verify :: "sig_lib \<Rightarrow> attestation_provider \<Rightarrow> string \<Rightarrow> string \<Rightarrow> string option \<Rightarrow> js_error + bool" where
  "attestation_verify S DevelopmentAttestation hardwareId quote identity = Inr True"
| "attestation_verify S WindowsTpm hardwareId quote identity = Inr (hardware_verify S ''windows-tpm'' ''rsa'' hardwareId quote identity)"
| "attestation_verify S LinuxTpm2 hardwareId quote identity = Inr (hardware_verify S ''linux-tpm2'' ''ec'' hardwareId quote identity)"
| "attestation_verify S AppleSecureEnclave hardwareId quote identity = Inl (JsError NOT_IMPLEMENTED)"

end
