(* ===== verification/Enroll.thy ===== *)
theory Enroll
  imports Trust
begin

text \<open>
  Enrolment (\<open>src/application/enrollment.ts\<close>, \<open>src/runtime/enroll-node.ts\<close>), device
  heartbeats (\<open>src/application/heartbeat.ts\<close>) and the gRPC mesh service
  (\<open>src/api/grpc/server.ts\<close>) on the Postgres stores, as \<open>src/runtime/grpc-server.ts\<close>
  wires them.  The parsing of certificate requests and RSA verification are
  parameters; a handler returns what it passes to its callback.
\<close>

section \<open>EnrollmentService\<close>

record enrollment_request =
  er_hostname :: string
  er_hardwareId :: string
  er_platform :: platform
  er_osVersion :: string
  er_attestationQuote :: string
  er_attestationPublicKey :: string
  er_wireGuardPublicKey :: string
  er_internalIpv4 :: string
  er_internalIpv6 :: string
  er_zone :: security_zone

record 'k enroll_services =
  es_forge :: "'k forge"
  es_sig :: sig_lib
  es_attest :: attestation_provider
  es_anchor :: trust_anchor
  es_sha256 :: "string \<Rightarrow> string"
  es_certificateTtlMinutes :: int

record enrollment_result =
  eres_device :: device
  eres_node :: mesh_node
  eres_certificate :: issued_certificate
  eres_peers :: "mesh_node list"

definition initial_posture :: "millis \<Rightarrow> device_posture" where
  "initial_posture now = \<lparr>osCurrent = True, diskEncrypted = True, secureBoot = True, firewallEnabled = True,
     agentHealthy = True, bannedProcessFound = False, assessedAt = now\<rparr>"

definition new_device :: "millis \<Rightarrow> uuid \<Rightarrow> enrollment_request \<Rightarrow> device" where
  "new_device now deviceId r = \<lparr>dev_id = deviceId, dev_hostname = er_hostname r, dev_hardwareId = er_hardwareId r,
     dev_platform = er_platform r, dev_osVersion = er_osVersion r, dev_publicAttestationKey = Some (er_attestationPublicKey r),
     dev_compromised = False, dev_revoked = False, dev_posture = initial_posture now, dev_createdAt = now, dev_updatedAt = now,
     dev_lastPostureAt = None, dev_agentVersion = None, dev_quarantineReason = None\<rparr>"

definition new_node :: "uuid \<Rightarrow> uuid \<Rightarrow> enrollment_request \<Rightarrow> mesh_node" where
  "new_node nodeId deviceId r = \<lparr>mn_id = nodeId, mn_deviceId = deviceId, mn_wireGuardPublicKey = er_wireGuardPublicKey r,
     mn_internalIpv4 = er_internalIpv4 r, mn_internalIpv6 = er_internalIpv6 r, mn_listenPort = 51820, mn_nodeType = SERVER,
     mn_zone = er_zone r, mn_region = None, mn_active = True, mn_lastHandshake = None\<rparr>"

definition enroll_register :: "'k enroll_services \<Rightarrow> millis \<Rightarrow> enrollment_request \<Rightarrow> ('z trust_db_scheme, enrollment_result) js" where
  "enroll_register E now r =
     (if er_wireGuardPublicKey r = [] \<or> er_hardwareId r = [] then throwJ (ValidationError ''hardware and public keys are required'')
      else if er_attestationPublicKey r = []
      then throwJ (ValidationError ''a verified certificate public key (attestationPublicKey) is required'') else
      bindJ (getJ (pg_findByHardwareId (er_hardwareId r))) (\<lambda>known. if known \<noteq> None then throwJ (ConflictError ''hardware already enrolled'') else
      bindJ (getJ (pg_findByPublicKey (er_wireGuardPublicKey r))) (\<lambda>used.
        if used \<noteq> None then throwJ (ConflictError ''WireGuard public key already enrolled'') else
      bindJ (\<lambda>s. (attestation_verify (es_sig E) (es_attest E) (er_hardwareId r) (er_attestationQuote r)
          (Some (er_attestationPublicKey r)), s)) (\<lambda>ok.
        if \<not> ok then throwJ (ValidationError ''hardware attestation failed'') else
      bindJ next_id (\<lambda>deviceId. bindJ next_id (\<lambda>nodeId.
        let device = new_device now deviceId r; node = new_node nodeId deviceId r in
      bindJ (pg_transaction (bindJ (saveDevice now device) (\<lambda>_. saveNode node))) (\<lambda>_.
      bindJ (issueNode (es_forge E) (es_anchor E) now nodeId (er_attestationPublicKey r) (es_certificateTtlMinutes E)) (\<lambda>certificate.
      bindJ (getJ (\<lambda>s. filter (\<lambda>x. mn_active x \<and> mn_id x \<noteq> nodeId) (pg_list s))) (\<lambda>active.
      bindJ (distributor_configure (es_sha256 E) now node active) (\<lambda>_.
      retJ \<lparr>eres_device = device, eres_node = node, eres_certificate = certificate, eres_peers = active\<rparr>))))))))))"

section \<open>HeartbeatService\<close>

record heartbeat =
  hb_nodeId :: uuid
  hb_at :: millis
  hb_posture :: device_posture
  hb_agentVersion :: string

definition posture_compliant :: "device_posture \<Rightarrow> bool" where
  "posture_compliant p \<longleftrightarrow> osCurrent p \<and> diskEncrypted p \<and> secureBoot p \<and> firewallEnabled p \<and> agentHealthy p \<and> \<not> bannedProcessFound p"

text \<open>
  \<open>nodes.get\<close> answers for any identifier; a row without \<open>deviceId\<close> has no device.
\<close>

definition device_of_entity :: "entity \<Rightarrow> 'z repo_db_scheme \<Rightarrow> device option" where
  "device_of_entity n s = (case n of ENode m \<Rightarrow> (case pg_get (mn_deviceId m) s of Some (EDevice d) \<Rightarrow> Some d | _ \<Rightarrow> None) | _ \<Rightarrow> None)"

definition heartbeat_accept :: "(string \<Rightarrow> string) \<Rightarrow> millis \<Rightarrow> heartbeat \<Rightarrow> ('z repo_db_scheme, bool) js" where
  "heartbeat_accept sha256 now h = bindJ (getJ (pg_get (hb_nodeId h))) (\<lambda>found. case found of
     None \<Rightarrow> throwJ (JsError ''unregistered node'')
   | Some node \<Rightarrow> if 120000 < abs (now - hb_at h) then throwJ (JsError ''stale heartbeat'') else
       bindJ (getJ (device_of_entity node)) (\<lambda>dev. case dev of
         None \<Rightarrow> throwJ (JsError ''device missing'')
       | Some d \<Rightarrow> bindJ (saveDevice now (d\<lparr>dev_posture := hb_posture h, dev_updatedAt := hb_at h,
             dev_lastPostureAt := Some (hb_at h), dev_agentVersion := Some (hb_agentVersion h)\<rparr>)) (\<lambda>_.
           let compliant = posture_compliant (hb_posture h) in
           bindJ (publish sha256 now (if compliant then ''security.heartbeat.accepted'' else ''security.posture.failed'')
             (JObj [(''nodeId'', JStr (hb_nodeId h)), (''agentVersion'', JStr (hb_agentVersion h)), (''compliant'', JBool compliant)])) (\<lambda>_.
           retJ compliant))))"

section \<open>MeshOrchestrationService\<close>

definition CONTROLLER_COMMAND_ACTIONS :: "string list" where
  "CONTROLLER_COMMAND_ACTIONS = [''NOOP'', ''RELOAD_POLICIES'', ''ROTATE_KEYS'', ''QUARANTINE_NODE'', ''SEVER_ALL'']"

definition REST_COMMAND_TO_CONTROLLER_ACTION :: "(string \<times> string) list" where
  "REST_COMMAND_TO_CONTROLLER_ACTION = [(''QUARANTINE'', ''QUARANTINE_NODE''), (''RESTORE'', ''RELOAD_POLICIES''),
     (''APPLY_PEERS'', ''RELOAD_POLICIES''), (''ROTATE_IDENTITY_REQUIRED'', ''ROTATE_KEYS'')]"

definition controllerActionFor :: "string \<Rightarrow> string" where
  "controllerActionFor commandType = (if commandType \<in> set CONTROLLER_COMMAND_ACTIONS then commandType
     else (case map_of REST_COMMAND_TO_CONTROLLER_ACTION commandType of None \<Rightarrow> ''NOOP'' | Some a \<Rightarrow> a))"

text \<open>\<open>rsaVerify\<close> is \<open>cryptoVerify\<close> with RSA-SHA256; \<open>None\<close> when it throws.\<close>

definition verifyRotationSignature :: "(string \<Rightarrow> string \<Rightarrow> string \<Rightarrow> bool option) \<Rightarrow> string \<Rightarrow> string \<Rightarrow> string \<Rightarrow> string \<Rightarrow> bool" where
  "verifyRotationSignature rsaVerify pem nodeId newPublicKey signature =
     (signature \<noteq> [] \<and> rsaVerify pem (nodeId @ '':'' @ newPublicKey) signature = Some True)"

record 'c csr_lib =
  csr_parse :: "string \<Rightarrow> 'c option"
  csr_verify :: "'c \<Rightarrow> js_error + bool"
  csr_publicKeyPem :: "'c \<Rightarrow> string"

definition publicKeyPemFromCsrDer :: "'c csr_lib \<Rightarrow> string \<Rightarrow> js_error + string" where
  "publicKeyPemFromCsrDer L csrDer =
     (if csrDer = [] then Inl (JsError ''csr_der is required: submit a self-signed PKCS#10 CSR to obtain a certificate'')
      else (case csr_parse L csrDer of
        None \<Rightarrow> Inl (JsError ''csr_der could not be parsed as a PKCS#10 CertificationRequest'')
      | Some csr \<Rightarrow> (case csr_verify L csr of Inl e \<Rightarrow> Inl e
        | Inr ok \<Rightarrow> if \<not> ok then Inl (JsError ''CSR signature does not verify against its own embedded public key'')
            else Inr (csr_publicKeyPem L csr))))"

definition detectPlatform :: "string \<Rightarrow> platform" where
  "detectPlatform osSignature = (let s = js_lower osSignature in
     if str_includes s ''windows'' then Windows
     else if str_includes s ''mac'' \<or> str_includes s ''darwin'' then Macos
     else if str_includes s ''ipados'' then Ipados
     else if str_includes s ''ios'' then Ios
     else Linux)"

record node_registration_request =
  nr_hardwareUuid :: string
  nr_wireguardPublicKey :: string
  nr_hardwareAttestationQuote :: string
  nr_osSignature :: string
  nr_csrDer :: string

record peer_config =
  pc_publicKey :: string
  pc_endpoint :: string
  pc_allowedIps :: "string list"
  pc_keepaliveInterval :: nat

record node_registration_response =
  rr_internalIpv4 :: string
  rr_internalIpv6 :: string
  rr_initialPeers :: "peer_config list"
  rr_signedClientCertificate :: string
  rr_assignedZone :: string
  rr_nodeId :: uuid

datatype grpc_status = INVALID_ARGUMENT | FAILED_PRECONDITION

definition initial_peer :: "mesh_node \<Rightarrow> peer_config" where
  "initial_peer p = \<lparr>pc_publicKey = mn_wireGuardPublicKey p, pc_endpoint = [],
     pc_allowedIps = [mn_internalIpv4 p @ ''/32'', mn_internalIpv6 p @ ''/128''], pc_keepaliveInterval = 25\<rparr>"

definition grpc_reply :: "grpc_status \<Rightarrow> ('s, 'a) js \<Rightarrow> ('s, grpc_status \<times> string + 'a) js" where
  "grpc_reply code m = catchJ (bindJ m (\<lambda>x. retJ (Inr x))) (\<lambda>e. retJ (Inl (code, error_message e)))"

definition registerNode :: "'c csr_lib \<Rightarrow> 'k enroll_services \<Rightarrow> millis \<Rightarrow> node_registration_request \<Rightarrow>
    ('z trust_db_scheme, grpc_status \<times> string + node_registration_response) js" where
  "registerNode L E now req = grpc_reply INVALID_ARGUMENT (
     bindJ (\<lambda>s. (address_next (mn_internalIpv4 ` set (pg_list s)) (mn_internalIpv6 ` set (pg_list s)), s)) (\<lambda>(ipv4, ipv6).
     bindJ (\<lambda>s. (publicKeyPemFromCsrDer L (nr_csrDer req), s)) (\<lambda>attestationPublicKey.
     bindJ (enroll_register E now \<lparr>er_hostname = ''node-'' @ take 8 (nr_hardwareUuid req), er_hardwareId = nr_hardwareUuid req,
         er_platform = detectPlatform (nr_osSignature req), er_osVersion = nr_osSignature req,
         er_attestationQuote = nr_hardwareAttestationQuote req, er_attestationPublicKey = attestationPublicKey,
         er_wireGuardPublicKey = nr_wireguardPublicKey req, er_internalIpv4 = ipv4, er_internalIpv6 = ipv6,
         er_zone = ZONE_PROD_APP\<rparr>) (\<lambda>result.
     retJ \<lparr>rr_internalIpv4 = mn_internalIpv4 (eres_node result), rr_internalIpv6 = mn_internalIpv6 (eres_node result),
       rr_initialPeers = map initial_peer (eres_peers result),
       rr_signedClientCertificate = ic_certificatePem (eres_certificate result),
       rr_assignedZone = zone_string (mn_zone (eres_node result)), rr_nodeId = mn_id (eres_node result)\<rparr>))))"

definition rotatePeerKey :: "(string \<Rightarrow> string) \<Rightarrow> (string \<Rightarrow> string \<Rightarrow> string \<Rightarrow> bool option) \<Rightarrow>
    (nat \<Rightarrow> 'z mesh_db_scheme \<Rightarrow> 'z mesh_db_scheme) \<Rightarrow> millis \<Rightarrow> uuid \<Rightarrow> string \<Rightarrow> string \<Rightarrow>
    ('z mesh_db_scheme, grpc_status \<times> string + nat) js" where
  "rotatePeerKey sha256 rsaVerify env now nodeId newPublicKey signature = grpc_reply FAILED_PRECONDITION (
     bindJ (getJ (pg_get nodeId)) (\<lambda>found. case found of None \<Rightarrow> throwJ (JsError ''node not found'') | Some n \<Rightarrow>
     bindJ (getJ (device_of_entity n)) (\<lambda>dev.
       case (n, case dev of None \<Rightarrow> None | Some d \<Rightarrow> truthy (dev_publicAttestationKey d)) of
         (ENode node, Some pem) \<Rightarrow>
           if \<not> verifyRotationSignature rsaVerify pem nodeId newPublicKey signature
           then throwJ (JsError (''rotation signature does not verify against the node'' @ [CHR 0x27] @ ''s enrolled identity key'')) else
           bindJ (getJ (pg_findByPublicKey newPublicKey)) (\<lambda>existing.
             if existing \<noteq> None then throwJ (JsError ''public key already in use'') else
           bindJ (rotate_key env now nodeId newPublicKey) (\<lambda>epoch.
           let rotated = node\<lparr>mn_wireGuardPublicKey := newPublicKey\<rparr> in
           bindJ (saveNode rotated) (\<lambda>_.
           bindJ (getJ pg_list) (\<lambda>all.
           bindJ (mesh_reconcile sha256 now rotated all None) (\<lambda>_.
           retJ epoch)))))
       | _ \<Rightarrow> throwJ (JsError ''node has no enrolled identity key on record - cannot verify rotation signature''))))"

text \<open>One message on the heartbeat stream: the commands written back, each an action and a payload.\<close>

definition noop_command :: "string \<times> string" where
  "noop_command = (''NOOP'', [])"

definition grpc_ack :: "millis \<Rightarrow> json" where
  "grpc_ack now = JObj [(''deliveredAt'', date_json now), (''via'', JStr ''grpc-stream-heartbeat'')]"

definition streamHeartbeat :: "millis \<Rightarrow> uuid \<Rightarrow> ('z queue_db_scheme, (string \<times> string) list) js" where
  "streamHeartbeat now nodeId = bindJ (getJ (\<lambda>s. if nodeId = [] then [] else pending now nodeId 1 s)) (\<lambda>commands. case commands of
     [] \<Rightarrow> retJ [noop_command]
   | c # _ \<Rightarrow>
       (let w = (controllerActionFor (cmd_type c),
            json_stringify (if cmd_payload c = JNull \<or> cmd_payload c = JUndefined then JObj [] else cmd_payload c)) in
        catchJ (bindJ (acknowledge now (cmd_id c) (grpc_ack now)) (\<lambda>_. retJ [w])) (\<lambda>_. retJ [w, noop_command])))"

section \<open>The enrolling node\<close>

definition WIREGUARD_LISTEN_PORT :: nat where
  "WIREGUARD_LISTEN_PORT = 51820"

definition wireguard_peer :: "peer_config \<Rightarrow> json" where
  "wireguard_peer p = JObj ([(''publicKey'', JStr (pc_publicKey p)), (''allowedIps'', strs_json (pc_allowedIps p)),
     (''keepaliveSeconds'', JNum (int (pc_keepaliveInterval p)))] @
     (if pc_endpoint p \<noteq> [] then [(''endpoint'', JStr (pc_endpoint p))] else []))"

definition wireguard_config :: "string \<Rightarrow> node_registration_response \<Rightarrow> json" where
  "wireguard_config privateKey reply = JObj [(''privateKeyReference'', JStr privateKey),
     (''addresses'', strs_json [rr_internalIpv4 reply @ ''/32'', rr_internalIpv6 reply @ ''/128'']),
     (''listenPort'', JNum (int WIREGUARD_LISTEN_PORT)), (''peers'', JArr (map wireguard_peer (rr_initialPeers reply)))]"

record enroll_node_result =
  en_nodeId :: uuid
  en_assignedZone :: string
  en_wireGuardPrivateKey :: string
  en_wireGuardPublicKey :: string
  en_identityPrivateKeyPem :: string
  en_certificatePem :: string

text \<open>
  \<open>wg\<close> is the key pair \<open>generateWireGuardKeyPair\<close> returns (public, private), \<open>csr\<close>
  the request and private key of \<open>generateIdentityCsr\<close> for a common name.
\<close>

definition enrollNode :: "(node_registration_request \<Rightarrow> ('s, node_registration_response) js) \<Rightarrow> (json \<Rightarrow> ('s, unit) js) \<Rightarrow>
    string \<times> string \<Rightarrow> (string \<Rightarrow> string \<times> string) \<Rightarrow> string \<Rightarrow> string \<Rightarrow> ('s, enroll_node_result) js" where
  "enrollNode client applyWireGuard wg csr hardwareUuid osSignature =
     (case csr (''node-'' @ hardwareUuid) of (csrDer, privateKeyPem) \<Rightarrow>
      bindJ (client \<lparr>nr_hardwareUuid = hardwareUuid, nr_wireguardPublicKey = fst wg, nr_hardwareAttestationQuote = [],
        nr_osSignature = osSignature, nr_csrDer = csrDer\<rparr>) (\<lambda>reply.
      if rr_nodeId reply = []
      then throwJ (JsError ''registerNode did not return a node_id - is the control plane running an older mesh.proto?'')
      else bindJ (applyWireGuard (wireguard_config (snd wg) reply)) (\<lambda>_.
        retJ \<lparr>en_nodeId = rr_nodeId reply, en_assignedZone = rr_assignedZone reply, en_wireGuardPrivateKey = snd wg,
          en_wireGuardPublicKey = fst wg, en_identityPrivateKeyPem = privateKeyPem,
          en_certificatePem = rr_signedClientCertificate reply\<rparr>)))"

end
