(* ===== verification/Signing.thy ===== *)
theory Signing
  imports Commands Codec Policy
begin

text \<open>
  Everything the system authenticates with HMAC-SHA256: access decisions
  (\<open>hmac-decision-signer.ts\<close>), outbox events (\<open>outbox-event-signer.ts\<close>), the
  Headquarters handshake (\<open>bapc-handshake.ts\<close>), ecosystem events
  (\<open>integrations.ts\<close>), Diagnostics clearances (\<open>diagnostics-clearance.ts\<close>) and
  bearer tokens (\<open>src/api/rest/guard.ts\<close>).  The keyed hash is the argument
  \<open>hmac\<close>: key and message to the bytes of the digest.  \<open>timingSafeEqual\<close> on buffers
  of one length is equality.
\<close>

section \<open>HmacDecisionSigner\<close>

definition decision_body :: "access_decision \<Rightarrow> string" where
  "decision_body d = json_stringify (JObj [(''decisionId'', JStr (ad_decisionId d)), (''allowed'', JBool (ad_allowed d)),
     (''action'', JStr (action_string (ad_action d))), (''reason'', JStr (ad_reason d)),
     (''policyId'', case ad_policyId d of None \<Rightarrow> JNull | Some p \<Rightarrow> JStr p), (''expiresAt'', date_json (ad_expiresAt d))])"

definition decision_sign :: "(string \<Rightarrow> string \<Rightarrow> string) \<Rightarrow> string \<Rightarrow> access_decision \<Rightarrow> string" where
  "decision_sign hmac secret d = to_hex (hmac secret (decision_body d))"

definition decision_verify :: "(string \<Rightarrow> string \<Rightarrow> string) \<Rightarrow> string \<Rightarrow> access_decision \<Rightarrow> string \<Rightarrow> bool" where
  "decision_verify hmac secret d signature \<longleftrightarrow> from_hex (decision_sign hmac secret d) = from_hex signature"

section \<open>OutboxEventSigner\<close>

definition outbox_sign :: "(string \<Rightarrow> string \<Rightarrow> string) \<Rightarrow> string \<Rightarrow> string \<Rightarrow> json \<Rightarrow> string" where
  "outbox_sign hmac secret topic event = to_hex (hmac secret (topic @ json_stringify event))"

definition outbox_verify :: "(string \<Rightarrow> string \<Rightarrow> string) \<Rightarrow> string \<Rightarrow> string \<Rightarrow> json \<Rightarrow> string \<Rightarrow> bool" where
  "outbox_verify hmac secret topic event signature \<longleftrightarrow> from_hex (outbox_sign hmac secret topic event) = from_hex signature"

section \<open>Headquarters handshake\<close>

definition verifyBapcHandshakeSignature :: "(string \<Rightarrow> string \<Rightarrow> string) \<Rightarrow> string \<Rightarrow> string \<Rightarrow> string option \<Rightarrow> string option \<Rightarrow> bool" where
  "verifyBapcHandshakeSignature hmac appId secret nonce signature =
     (case (truthy nonce, truthy signature) of
        (Some n, Some g) \<Rightarrow> from_hex (to_hex (hmac secret (appId @ '':'' @ n))) = from_hex g
      | _ \<Rightarrow> False)"

section \<open>EcosystemIntegrationService\<close>

text \<open>
  An event arrives as a parsed JSON value; \<open>date_parse\<close> is \<open>Date.parse\<close> on a
  string, \<open>None\<close> for NaN.  Every comparison with NaN is false.
\<close>

definition js_date :: "(string \<Rightarrow> millis option) \<Rightarrow> json \<Rightarrow> millis option" where
  "js_date date_parse v = (case v of JStr x \<Rightarrow> date_parse x | JUndefined \<Rightarrow> None | _ \<Rightarrow> js_number (Some v))"

definition ecosystem_body :: "json \<Rightarrow> json" where
  "ecosystem_body e = JObj (map (\<lambda>k. (k, case json_get k e of None \<Rightarrow> JUndefined | Some v \<Rightarrow> v))
     [''source'', ''type'', ''at'', ''nonce'', ''payload''])"

definition ecosystem_sign :: "(string \<Rightarrow> string \<Rightarrow> string) \<Rightarrow> (string \<Rightarrow> string) \<Rightarrow> json \<Rightarrow> string" where
  "ecosystem_sign hmac secrets e = to_hex (hmac (secrets (str_of (json_get ''source'' e))) (json_stringify (ecosystem_body e)))"

definition ecosystem_accept :: "(string \<Rightarrow> string \<Rightarrow> string) \<Rightarrow> (string \<Rightarrow> millis option) \<Rightarrow> (string \<Rightarrow> string) \<Rightarrow>
    (string \<Rightarrow> string) \<Rightarrow> millis \<Rightarrow> millis \<Rightarrow> json \<Rightarrow> ('z repo_db_scheme, unit) js" where
  "ecosystem_accept hmac date_parse sha256 secrets clock now e =
     bindJ (fieldJ ''at'' e) (\<lambda>t.
     if (case js_date date_parse t of None \<Rightarrow> False | Some t \<Rightarrow> 300000 < abs (now - t))
     then throwJ (JsError ''event outside replay window'')
     else (case json_get ''signature'' e of
        Some (JStr g) \<Rightarrow>
          if from_hex (ecosystem_sign hmac secrets e) \<noteq> from_hex g then throwJ (JsError ''invalid ecosystem signature'')
          else publish sha256 clock (''ecosystem.'' @ str_of (json_get ''source'' e) @ ''.'' @ str_of (json_get ''type'' e)) e
      | _ \<Rightarrow> throwJ (JsError ''The first argument must be of type string or an instance of Buffer'')))"

section \<open>Diagnostics clearance\<close>

datatype clearance_verifier = FormatOnlyClearance | DiagnosticsClearance

definition clearance_prefix :: string where
  "clearance_prefix = ''diag-clearance:''"

definition diagnostics_verify :: "(string \<Rightarrow> string \<Rightarrow> string) \<Rightarrow> (string \<Rightarrow> millis option) \<Rightarrow> (string \<Rightarrow> string) \<Rightarrow>
    (string \<Rightarrow> string) \<Rightarrow> millis \<Rightarrow> string \<Rightarrow> uuid \<Rightarrow> millis \<Rightarrow> ('z repo_db_scheme, json \<times> json) js" where
  "diagnostics_verify hmac date_parse sha256 secrets clock token nodeId now =
     (if \<not> starts_with token clearance_prefix then throwJ (JsError ''signed Diagnostics clearance required'')
      else (case json_parse (from_base64url (drop (length clearance_prefix) token)) of
        None \<Rightarrow> throwJ (JsError ''malformed Diagnostics clearance token'')
      | Some event \<Rightarrow>
          bindJ (fieldJ ''source'' event) (\<lambda>source.
          if source \<noteq> JStr ''diagnostics'' then throwJ (JsError ''clearance must be signed by BAPC Diagnostics'') else
          bindJ (fieldJ ''type'' event) (\<lambda>type.
          if type \<noteq> JStr ''forensic.clearance'' then throwJ (JsError ''wrong clearance event type'') else
          bindJ (ecosystem_accept hmac date_parse sha256 secrets clock now event) (\<lambda>_.
          bindJ (fieldJ ''payload'' event) (\<lambda>payload.
          bindJ (fieldJ ''nodeId'' payload) (\<lambda>scope.
          if scope \<noteq> JStr nodeId then throwJ (JsError ''clearance token is not scoped to this node'') else
          bindJ (fieldJ ''approvedBy'' payload) (\<lambda>approvedBy.
          bindJ (fieldJ ''caseId'' payload) (\<lambda>caseId.
          if \<not> js_truthy approvedBy \<or> \<not> js_truthy caseId
          then throwJ (JsError ''clearance token is missing approvedBy/caseId'') else
          retJ (approvedBy, caseId))))))))))"

definition format_only_verify :: "string \<Rightarrow> ('z repo_db_scheme, json \<times> json) js" where
  "format_only_verify token =
     (if \<not> starts_with token clearance_prefix then throwJ (JsError ''signed Diagnostics clearance required'')
      else retJ (JStr ''unverified'', JStr ''unverified''))"

record clearance_payload =
  cp_nodeId :: uuid
  cp_approvedBy :: string
  cp_caseId :: string

definition clearance_event :: "clearance_payload \<Rightarrow> millis \<Rightarrow> uuid \<Rightarrow> (string \<times> json) list" where
  "clearance_event p t nonce = [(''source'', JStr ''diagnostics''), (''type'', JStr ''forensic.clearance''),
     (''at'', date_json t), (''nonce'', JStr nonce), (''payload'', JObj [(''nodeId'', JStr (cp_nodeId p)),
       (''approvedBy'', JStr (cp_approvedBy p)), (''caseId'', JStr (cp_caseId p))])]"

definition issueClearanceToken :: "(string \<Rightarrow> string \<Rightarrow> string) \<Rightarrow> (string \<Rightarrow> string) \<Rightarrow> clearance_payload \<Rightarrow> millis \<Rightarrow> uuid \<Rightarrow> string" where
  "issueClearanceToken hmac secrets p t nonce =
     (let unsigned = clearance_event p t nonce in
      clearance_prefix @ to_base64url (json_stringify
        (JObj (unsigned @ [(''signature'', JStr (ecosystem_sign hmac secrets (JObj unsigned)))]))))"

section \<open>HmacBearerGuard\<close>

record api_claims =
  cl_sub :: string
  cl_roles :: "string list"

text \<open>\<open>exp\<close> is in seconds; a token without one expires an hour after it is minted.\<close>

definition guard_mint :: "(string \<Rightarrow> string \<Rightarrow> string) \<Rightarrow> string \<Rightarrow> millis \<Rightarrow> string \<Rightarrow> string list \<Rightarrow> int option \<Rightarrow> string" where
  "guard_mint hmac secret now sub roles expiry =
     (let encoded = to_base64url (json_stringify (JObj [(''sub'', JStr sub), (''roles'', strs_json roles),
            (''exp'', JNum (case expiry of None \<Rightarrow> now div 1000 + 3600 | Some x \<Rightarrow> x))]))
      in encoded @ ''.'' @ to_base64url (hmac secret encoded))"

definition unauthorized :: "string \<Rightarrow> js_error" where
  "unauthorized m = HttpError 401 ''unauthorized'' m"

text \<open>The claims of a verified payload; \<open>roles\<close> may hold anything, and only strings can match a role.\<close>

definition guard_claims :: "millis \<Rightarrow> string list \<Rightarrow> json \<Rightarrow> js_error + api_claims" where
  "guard_claims now requiredRoles claims =
     (case payload_field ''sub'' claims of Inl e \<Rightarrow> Inl e | Inr sub \<Rightarrow>
      (case (json_get ''roles'' claims, json_get ''exp'' claims) of
         (Some (JArr roles), Some expiry) \<Rightarrow>
           if \<not> js_truthy sub \<or> \<not> js_truthy expiry then Inl (unauthorized ''invalid bearer claims'')
           else if (case js_number (Some expiry) of None \<Rightarrow> False | Some x \<Rightarrow> x * 1000 \<le> now) then Inl (unauthorized ''expired bearer token'')
           else if requiredRoles \<noteq> [] \<and> \<not> list_ex (\<lambda>r. JStr r \<in> set roles) requiredRoles
           then Inl (HttpError 403 ''forbidden'' ''required role missing'')
           else Inr \<lparr>cl_sub = str_of (Some sub), cl_roles = map (\<lambda>r. str_of (Some r)) roles\<rparr>
       | _ \<Rightarrow> Inl (unauthorized ''invalid bearer claims'')))"

definition guard_verify :: "(string \<Rightarrow> string \<Rightarrow> string) \<Rightarrow> string \<Rightarrow> millis \<Rightarrow> string list \<Rightarrow> string option \<Rightarrow> js_error + api_claims" where
  "guard_verify hmac secret now requiredRoles authorization =
     (case authorization of None \<Rightarrow> Inl (unauthorized ''missing bearer token'') | Some auth \<Rightarrow>
      if \<not> starts_with auth ''Bearer '' then Inl (unauthorized ''missing bearer token'') else
      (case split_on (CHR ''.'') (drop 7 auth) of
         encoded # signature # _ \<Rightarrow>
           if encoded = [] \<or> signature = [] then Inl (unauthorized ''malformed bearer token'')
           else if to_base64url (hmac secret encoded) \<noteq> signature then Inl (unauthorized ''invalid bearer token'')
           else (case json_parse (from_base64url encoded) of
               None \<Rightarrow> Inl (JsError ''Unexpected token in JSON'')
             | Some claims \<Rightarrow> guard_claims now requiredRoles claims)
       | _ \<Rightarrow> Inl (unauthorized ''malformed bearer token'')))"

section \<open>SignedEventClient\<close>

definition signed_event :: "(string \<Rightarrow> string \<Rightarrow> string) \<Rightarrow> string \<Rightarrow> string \<Rightarrow> string \<Rightarrow> (string \<times> json) list \<Rightarrow> millis \<Rightarrow> uuid \<Rightarrow> json" where
  "signed_event hmac source secret type payload t nonce =
     (let unsigned = [(''source'', JStr source), (''type'', JStr type), (''at'', date_json t), (''nonce'', JStr nonce), (''payload'', JObj payload)]
      in JObj (unsigned @ [(''signature'', JStr (to_hex (hmac secret (json_stringify (JObj unsigned)))))]))"

section \<open>Tokens verify\<close>

lemma plain_strs [simp]: "json_plain (strs_json xs)"
  by (simp add: strs_json_def list_all_iff)

lemma starts_with_append [simp]: "starts_with (p @ s) p"
  by (simp add: starts_with_def)

lemma b64_group_ne [simp]: "b64_group xs = [] \<longleftrightarrow> xs = []"
  by (cases xs rule: b64_group.cases) simp_all

lemma to_base64url_ne [simp]: "to_base64url bs = [] \<longleftrightarrow> bs = []"
  by (simp add: to_base64url_def)

lemma json_stringify_obj_ne [simp]: "json_stringify (JObj kvs) \<noteq> []"
  by simp

lemma split_token: "CHR ''.'' \<notin> set a \<Longrightarrow> CHR ''.'' \<notin> set b \<Longrightarrow> split_on (CHR ''.'') (a @ CHR ''.'' # b) = [a, b]"
  using split_join [of "[a, b]" "CHR ''.''"] by auto

lemma strs_roles: "map (\<lambda>r. str_of (Some r)) (map JStr roles) = roles"
  by (simp add: str_of_def comp_def)

lemma guard_mint_verifies:
  assumes "\<And>k m. hmac k m \<noteq> []" and "sub \<noteq> []" and "expiry \<noteq> 0" "now < expiry * 1000"
    and "requiredRoles = [] \<or> list_ex (\<lambda>r. r \<in> set roles) requiredRoles"
  shows "guard_verify hmac secret now requiredRoles (Some (''Bearer '' @ guard_mint hmac secret t sub roles (Some expiry))) =
    Inr \<lparr>cl_sub = sub, cl_roles = roles\<rparr>"
proof -
  define claims where "claims = JObj [(''sub'', JStr sub), (''roles'', strs_json roles), (''exp'', JNum expiry)]"
  define encoded where "encoded = to_base64url (json_stringify claims)"
  have tok: "guard_mint hmac secret t sub roles (Some expiry) = encoded @ CHR ''.'' # to_base64url (hmac secret encoded)"
    by (simp add: guard_mint_def encoded_def claims_def Let_def)
  have "encoded \<noteq> []" unfolding encoded_def claims_def by simp
  moreover have "json_parse (from_base64url encoded) = Some claims"
    unfolding encoded_def from_to_base64url by (rule json_parse_stringify) (simp add: claims_def)
  moreover have "guard_claims now requiredRoles claims = Inr \<lparr>cl_sub = sub, cl_roles = roles\<rparr>"
    using assms(2-5) by (auto simp: guard_claims_def claims_def payload_field_def json_get_def strs_json_def js_truthy_def
        js_number_def str_of_def comp_def list_ex_iff)
  ultimately show ?thesis unfolding guard_verify_def tok
    using assms(1) by (simp add: starts_with_def split_token encoded_def [symmetric] to_base64url_no_dot [of "json_stringify claims", folded encoded_def] to_base64url_no_dot)
qed

lemma split_two:
  assumes "split_on c s = a # b # ps"
  shows "\<exists>rest. s = a @ c # b @ rest \<and> (rest = [] \<or> hd rest = c)"
proof -
  have s: "s = js_join [c] (a # b # ps)" using join_split [of c s] assms by simp
  show ?thesis
  proof (cases ps)
    case (Cons d ds)
    hence "s = a @ c # b @ (c # js_join [c] ps)" using s by simp
    thus ?thesis by (intro exI [of _ "c # js_join [c] ps"]) simp
  qed (use s in simp)
qed

lemma guard_claims_Inr:
  assumes "guard_claims now requiredRoles claims = Inr c"
  shows "requiredRoles = [] \<or> list_ex (\<lambda>r. r \<in> set (cl_roles c)) requiredRoles"
    and "\<forall>x. js_number (json_get ''exp'' claims) = Some x \<longrightarrow> now < x * 1000"
proof -
  obtain sub roles expiry where g: "json_get ''roles'' claims = Some (JArr roles)" "json_get ''exp'' claims = Some expiry"
    "requiredRoles = [] \<or> list_ex (\<lambda>r. JStr r \<in> set roles) requiredRoles"
    "\<not> (case js_number (Some expiry) of None \<Rightarrow> False | Some x \<Rightarrow> x * 1000 \<le> now)"
    "c = \<lparr>cl_sub = str_of (Some sub), cl_roles = map (\<lambda>r. str_of (Some r)) roles\<rparr>"
    using assms unfolding guard_claims_def by (auto split: sum.splits option.splits json.splits if_splits)
  show "\<forall>x. js_number (json_get ''exp'' claims) = Some x \<longrightarrow> now < x * 1000" using g(2,4) by auto
  have "r \<in> set (cl_roles c)" if "JStr r \<in> set roles" for r
    using that imageI [OF that, of "\<lambda>r. str_of (Some r)"] g(5) by (simp add: str_of_def)
  thus "requiredRoles = [] \<or> list_ex (\<lambda>r. r \<in> set (cl_roles c)) requiredRoles"
    using g(3) by (auto simp: list_ex_iff)
qed

text \<open>
  C3. A request is authenticated only by a token whose payload carries the HMAC under the server's secret: an accepted
  header is \<open>Bearer\<close>, the payload, its own signature and possibly further dot-separated parts, the payload has not
  expired, and it holds one of the required roles.
\<close>

theorem guard_verify_sound:
  assumes "guard_verify hmac secret now requiredRoles authorization = Inr c"
  shows "\<exists>encoded rest claims. authorization = Some (''Bearer '' @ encoded @ ''.'' @ to_base64url (hmac secret encoded) @ rest) \<and>
    (rest = [] \<or> hd rest = CHR ''.'') \<and> json_parse (from_base64url encoded) = Some claims \<and>
    (\<forall>x. js_number (json_get ''exp'' claims) = Some x \<longrightarrow> now < x * 1000) \<and>
    (requiredRoles = [] \<or> list_ex (\<lambda>r. r \<in> set (cl_roles c)) requiredRoles)"
proof -
  obtain auth encoded signature ps claims where g: "authorization = Some auth" "starts_with auth ''Bearer ''"
    "split_on (CHR ''.'') (drop 7 auth) = encoded # signature # ps" "to_base64url (hmac secret encoded) = signature"
    "json_parse (from_base64url encoded) = Some claims" "guard_claims now requiredRoles claims = Inr c"
    using assms unfolding guard_verify_def by (auto split: option.splits list.splits if_splits)
  obtain rest where r: "drop 7 auth = encoded @ CHR ''.'' # signature @ rest" "rest = [] \<or> hd rest = CHR ''.''"
    using split_two [OF g(3)] by blast
  have "auth = ''Bearer '' @ drop 7 auth" using g(2) by (auto simp: starts_with_iff)
  hence "authorization = Some (''Bearer '' @ encoded @ ''.'' @ to_base64url (hmac secret encoded) @ rest)"
    using g(1,4) r(1) by simp
  thus ?thesis using r(2) g(5) guard_claims_Inr [OF g(6)] by blast
qed

theorem guard_verify_sound_witness:
  "\<exists>encoded rest. Some (''Bearer '' @ guard_mint (\<lambda>k m. CHR ''#'' # k @ m) ''key'' 0 ''alice'' [''admin''] (Some 2)) =
     Some (''Bearer '' @ encoded @ ''.'' @ to_base64url (CHR ''#'' # ''key'' @ encoded) @ rest)"
proof -
  have "guard_verify (\<lambda>k m. CHR ''#'' # k @ m) ''key'' 1000 [''admin''] (Some (''Bearer '' @
      guard_mint (\<lambda>k m. CHR ''#'' # k @ m) ''key'' 0 ''alice'' [''admin''] (Some 2))) = Inr \<lparr>cl_sub = ''alice'', cl_roles = [''admin'']\<rparr>"
    by (rule guard_mint_verifies) simp_all
  from guard_verify_sound [OF this] show ?thesis by blast
qed

text \<open>
  C29. A bearer token minted by \<open>HmacBearerGuard.mint\<close> is accepted by \<open>verify\<close> until it expires, for every
  list of required roles it has one of, and gives back the subject and the roles it was minted with.
\<close>

theorem guard_roundtrip:
  assumes "\<And>k m. hmac k m \<noteq> []" and "sub \<noteq> []" and "expiry \<noteq> 0" "now < expiry * 1000"
    and "requiredRoles = [] \<or> list_ex (\<lambda>r. r \<in> set roles) requiredRoles"
  shows "guard_verify hmac secret now requiredRoles (Some (''Bearer '' @ guard_mint hmac secret t sub roles (Some expiry))) =
    Inr \<lparr>cl_sub = sub, cl_roles = roles\<rparr>"
  using assms by (rule guard_mint_verifies)

theorem guard_roundtrip_witness:
  "guard_verify (\<lambda>k m. CHR ''#'' # k @ m) ''key'' 1000 [''security-read''] (Some (''Bearer '' @
     guard_mint (\<lambda>k m. CHR ''#'' # k @ m) ''key'' 0 ''alice'' [''security-read'', ''security-user''] (Some 2))) =
   Inr \<lparr>cl_sub = ''alice'', cl_roles = [''security-read'', ''security-user'']\<rparr>"
  by (rule guard_roundtrip) simp_all

lemma fieldJ_Inr: "payload_field k p = Inr v \<Longrightarrow> bindJ (fieldJ k p) f s = f v s"
  by (simp add: fieldJ_def bindJ_def)

lemma payload_field_obj: "payload_field k (JObj kvs) = Inr (case map_of kvs k of None \<Rightarrow> JUndefined | Some v \<Rightarrow> v)"
  by (simp add: payload_field_def json_get_def)

definition clearance_full :: "(string \<Rightarrow> string \<Rightarrow> string) \<Rightarrow> (string \<Rightarrow> string) \<Rightarrow> clearance_payload \<Rightarrow> millis \<Rightarrow> uuid \<Rightarrow> json" where
  "clearance_full hmac secrets p t nonce = JObj (clearance_event p t nonce @
     [(''signature'', JStr (ecosystem_sign hmac secrets (JObj (clearance_event p t nonce))))])"

lemma clearance_fields:
  "payload_field ''source'' (clearance_full hmac secrets p t nonce) = Inr (JStr ''diagnostics'')"
  "payload_field ''type'' (clearance_full hmac secrets p t nonce) = Inr (JStr ''forensic.clearance'')"
  "payload_field ''at'' (clearance_full hmac secrets p t nonce) = Inr (date_json t)"
  "payload_field ''payload'' (clearance_full hmac secrets p t nonce) = Inr (JObj [(''nodeId'', JStr (cp_nodeId p)),
       (''approvedBy'', JStr (cp_approvedBy p)), (''caseId'', JStr (cp_caseId p))])"
  "json_get ''source'' (clearance_full hmac secrets p t nonce) = Some (JStr ''diagnostics'')"
  "json_get ''signature'' (clearance_full hmac secrets p t nonce) =
     Some (JStr (ecosystem_sign hmac secrets (clearance_full hmac secrets p t nonce)))"
  by (simp_all add: clearance_full_def clearance_event_def payload_field_obj json_get_def ecosystem_sign_def ecosystem_body_def)

lemma clearance_parsed:
  "json_parse (from_base64url (drop (length clearance_prefix) (issueClearanceToken hmac secrets p t nonce))) =
     Some (clearance_full hmac secrets p t nonce)"
proof -
  have "json_plain (clearance_full hmac secrets p t nonce)"
    by (simp add: clearance_full_def clearance_event_def date_json_def)
  hence "json_parse (json_stringify (clearance_full hmac secrets p t nonce)) = Some (clearance_full hmac secrets p t nonce)"
    by (rule json_parse_stringify)
  moreover have "issueClearanceToken hmac secrets p t nonce = clearance_prefix @ to_base64url (json_stringify (clearance_full hmac secrets p t nonce))"
    by (simp only: issueClearanceToken_def clearance_full_def Let_def)
  ultimately show ?thesis by (simp add: from_to_base64url)
qed

lemma clearance_accept:
  assumes "date_parse (to_iso_string t) = Some t"
  shows "ecosystem_accept hmac date_parse sha256 secrets clock now (clearance_full hmac secrets p t nonce) s =
    (if 300000 < abs (now - t) then (Inl (JsError ''event outside replay window''), s)
     else publish sha256 clock (''ecosystem.'' @ ''diagnostics'' @ ''.'' @ str_of (json_get ''type'' (clearance_full hmac secrets p t nonce)))
       (clearance_full hmac secrets p t nonce) s)"
  unfolding ecosystem_accept_def
  by (simp add: fieldJ_Inr [OF clearance_fields(3)] clearance_fields(5,6) js_date_def date_json_def assms str_of_def)

lemma publish_ok: "\<exists>s'. publish sha256 now topic ev s = (Inr (), s')"
  by (simp add: publish_def next_id_def bindJ_def)

text \<open>
  C30. A clearance token issued for a node is accepted exactly for that node, within five minutes of its
  timestamp, and only when it names an approver and a case; acceptance returns these two.  The hypothesis says
  that \<open>Date.parse\<close> reads what \<open>toISOString\<close> printed.
\<close>

theorem clearance_verifies_iff:
  assumes "date_parse (to_iso_string t) = Some t"
  shows "fst (diagnostics_verify hmac date_parse sha256 secrets clock (issueClearanceToken hmac secrets p t nonce) nodeId now s) =
      Inr (JStr (cp_approvedBy p), JStr (cp_caseId p)) \<longleftrightarrow>
    nodeId = cp_nodeId p \<and> abs (now - t) \<le> 300000 \<and> cp_approvedBy p \<noteq> [] \<and> cp_caseId p \<noteq> []"
proof -
  have start: "starts_with (issueClearanceToken hmac secrets p t nonce) clearance_prefix"
    by (simp add: issueClearanceToken_def Let_def)
  let ?e = "clearance_full hmac secrets p t nonce"
  have eq: "diagnostics_verify hmac date_parse sha256 secrets clock (issueClearanceToken hmac secrets p t nonce) nodeId now s =
    bindJ (ecosystem_accept hmac date_parse sha256 secrets clock now ?e) (\<lambda>_.
      if JStr (cp_nodeId p) \<noteq> JStr nodeId then throwJ (JsError ''clearance token is not scoped to this node'') else
      if \<not> js_truthy (JStr (cp_approvedBy p)) \<or> \<not> js_truthy (JStr (cp_caseId p))
      then throwJ (JsError ''clearance token is missing approvedBy/caseId'')
      else retJ (JStr (cp_approvedBy p), JStr (cp_caseId p))) s"
    unfolding diagnostics_verify_def clearance_parsed using start
    by (simp add: fieldJ_Inr [OF clearance_fields(1)] fieldJ_Inr [OF clearance_fields(2)] bindJ_def fieldJ_def clearance_fields
        payload_field_obj split: prod.splits sum.splits)
  show ?thesis
  proof (cases "300000 < abs (now - t)")
    case True
    thus ?thesis unfolding eq by (simp add: clearance_accept [of date_parse t, OF assms] bindJ_def)
  next
    case False
    have "\<exists>s'. ecosystem_accept hmac date_parse sha256 secrets clock now ?e s = (Inr (), s')"
      unfolding clearance_accept [of date_parse t, OF assms] if_not_P [OF False] by (rule publish_ok)
    then obtain s' where "ecosystem_accept hmac date_parse sha256 secrets clock now ?e s = (Inr (), s')" ..
    thus ?thesis using False unfolding eq by (auto simp: bindJ_Inr js_truthy_def)
  qed
qed

theorem clearance_verifies_iff_witness:
  "fst (diagnostics_verify (\<lambda>k m. k @ m) (\<lambda>_. Some 5) (\<lambda>x. x) (\<lambda>_. ''key'') 6
     (issueClearanceToken (\<lambda>k m. k @ m) (\<lambda>_. ''key'') \<lparr>cp_nodeId = ''n1'', cp_approvedBy = ''eve'', cp_caseId = ''c7''\<rparr> 5 ''u1'')
     ''n1'' 6 demo_db) = Inr (JStr ''eve'', JStr ''c7'')"
  using clearance_verifies_iff [of "\<lambda>_. Some 5" 5 "\<lambda>k m. k @ m" "\<lambda>x. x" "\<lambda>_. ''key''" 6
      "\<lparr>cp_nodeId = ''n1'', cp_approvedBy = ''eve'', cp_caseId = ''c7''\<rparr>" "''u1''" "''n1''" 6 demo_db] by simp

end
