(* ===== verification/Threat.thy ===== *)
theory Threat
  imports Enroll Signing "HOL-Library.Multiset"
begin

text \<open>
  Threat scoring, correlation and containment (\<open>services/threat-engine\<close>,
  \<open>src/application/threat-response.ts\<close>) and the SOC backend
  (\<open>apps/security-soc\<close>, \<open>src/application/soc.ts\<close>) over the Postgres stores.
  A number is a rational or NaN (\<open>None\<close>), which Postgres stores and every sum
  propagates; the database keeps three decimals of a confidence and two of a weight.
\<close>

section \<open>State\<close>

type_synonym js_num = "rat option"

record threat_signal =
  ts_nodeId :: "uuid option"
  ts_kind :: string
  ts_confidence :: js_num
  ts_weight :: js_num
  ts_at :: millis
  ts_metadata :: json

record signal_row =
  sr_nodeKey :: string
  sr_kind :: string
  sr_confidence :: js_num
  sr_weight :: js_num
  sr_occurredAt :: millis
  sr_metadata :: json

record incident_row =
  inc_id :: uuid
  inc_title :: string
  inc_severity :: severity
  inc_open :: bool
  inc_primaryNodeId :: "uuid option"
  inc_openedAt :: millis
  inc_closedAt :: "millis option"
  inc_score :: "int option"
  inc_signals :: "threat_signal list"
  inc_unresolvedNodeId :: "uuid option"

record threat_db = trust_db +
  th_signals :: "signal_row list"
  th_incidents :: "incident_row list"

definition UNATTRIBUTED :: string where
  "UNATTRIBUTED = ''__unattributed__''"

section \<open>ThreatSignalStore\<close>

type_synonym signal_windows = "(string \<times> threat_signal list) list"

definition windows_get :: "string \<Rightarrow> signal_windows \<Rightarrow> threat_signal list" where
  "windows_get nodeKey w = (case map_of w nodeKey of None \<Rightarrow> [] | Some kept \<Rightarrow> kept)"

definition windows_delete :: "string \<Rightarrow> signal_windows \<Rightarrow> signal_windows" where
  "windows_delete nodeKey w = filter (\<lambda>e. fst e \<noteq> nodeKey) w"

definition mem_signal_record :: "string \<Rightarrow> threat_signal \<Rightarrow> (signal_windows, unit) js" where
  "mem_signal_record nodeKey signal = modifyJ (\<lambda>w. map_set fst (nodeKey, windows_get nodeKey w @ [signal]) w)"

definition mem_signal_window :: "string \<Rightarrow> millis \<Rightarrow> (signal_windows, threat_signal list) js" where
  "mem_signal_window nodeKey sinceMs = (\<lambda>w. let kept = filter (\<lambda>s. sinceMs \<le> ts_at s) (windows_get nodeKey w) in
     (Inr kept, if kept \<noteq> [] then map_set fst (nodeKey, kept) w else windows_delete nodeKey w))"

definition mem_signal_clear :: "string \<Rightarrow> (signal_windows, nat) js" where
  "mem_signal_clear nodeKey = (\<lambda>w. (Inr (length (windows_get nodeKey w)), windows_delete nodeKey w))"

text \<open>\<open>numeric(4,3)\<close> and \<open>numeric(10,2)\<close> round to that many decimals; a confidence above 9.999 overflows.\<close>

definition round3 :: "rat \<Rightarrow> rat" where
  "round3 x = of_int (round (x * 1000)) / 1000"

definition overflows :: "rat \<Rightarrow> js_num \<Rightarrow> bool" where
  "overflows bound x = (case x of None \<Rightarrow> False | Some r \<Rightarrow> bound \<le> abs r)"

definition pg_signal_record :: "string \<Rightarrow> threat_signal \<Rightarrow> ('z threat_db_scheme, unit) js" where
  "pg_signal_record nodeKey signal = (\<lambda>s.
     if overflows 10 (map_option round3 (ts_confidence signal)) \<or> overflows (10 ^ 8) (map_option round2 (ts_weight signal)) then (Inl (PgError ''22003''), s)
     else (Inr (), s\<lparr>th_signals := th_signals s @ [\<lparr>sr_nodeKey = nodeKey, sr_kind = ts_kind signal,
       sr_confidence = map_option round3 (ts_confidence signal), sr_weight = map_option round2 (ts_weight signal),
       sr_occurredAt = ts_at signal, sr_metadata = ts_metadata signal\<rparr>]\<rparr>))"

definition toSignal :: "string \<Rightarrow> signal_row \<Rightarrow> threat_signal" where
  "toSignal nodeKey r = \<lparr>ts_nodeId = (if nodeKey \<noteq> UNATTRIBUTED then Some nodeKey else None), ts_kind = sr_kind r,
     ts_confidence = sr_confidence r, ts_weight = sr_weight r, ts_at = sr_occurredAt r, ts_metadata = sr_metadata r\<rparr>"

definition pg_signal_window :: "string \<Rightarrow> millis \<Rightarrow> ('z threat_db_scheme, threat_signal list) js" where
  "pg_signal_window nodeKey sinceMs =
     bindJ (modifyJ (\<lambda>s. s\<lparr>th_signals := filter (\<lambda>r. \<not> (sr_nodeKey r = nodeKey \<and> sr_occurredAt r < sinceMs)) (th_signals s)\<rparr>)) (\<lambda>_.
     getJ (\<lambda>s. map (toSignal nodeKey) (sort_key sr_occurredAt (filter (\<lambda>r. sr_nodeKey r = nodeKey) (th_signals s)))))"

definition pg_signal_clear :: "string \<Rightarrow> ('z threat_db_scheme, nat) js" where
  "pg_signal_clear nodeKey = (\<lambda>s. (Inr (length (filter (\<lambda>r. sr_nodeKey r = nodeKey) (th_signals s))),
     s\<lparr>th_signals := filter (\<lambda>r. sr_nodeKey r \<noteq> nodeKey) (th_signals s)\<rparr>))"

definition latest_at :: "signal_row list \<Rightarrow> millis" where
  "latest_at rows = (case map sr_occurredAt rows of [] \<Rightarrow> 0 | t # ts \<Rightarrow> fold max ts t)"

definition activeWindows :: "millis \<Rightarrow> 'z threat_db_scheme \<Rightarrow> (string \<times> nat \<times> millis) list" where
  "activeWindows sinceMs s = (let rows = filter (\<lambda>r. sinceMs \<le> sr_occurredAt r) (th_signals s) in
     sort_key (\<lambda>g. - snd (snd g)) (map (\<lambda>k. let mine = filter (\<lambda>r. sr_nodeKey r = k) rows in (k, length mine, latest_at mine))
       (remdups (map sr_nodeKey rows))))"

section \<open>PgIncidentPort\<close>

definition incident_event :: "millis \<Rightarrow> severity \<Rightarrow> string \<Rightarrow> string \<Rightarrow> json \<Rightarrow> ('z repo_db_scheme, unit) js" where
  "incident_event now severity type description metadata = bindJ next_id (\<lambda>i.
     pg_append_event \<lparr>ev_id = i, ev_nodeId = None, ev_at = now, ev_severity = severity, ev_engine = ''threat-correlator'',
       ev_type = type, ev_sourceIp = None, ev_destinationIp = None, ev_description = description, ev_metadata = metadata\<rparr>)"

definition incident_insert :: "incident_row \<Rightarrow> ('z threat_db_scheme, unit) js" where
  "incident_insert r = (\<lambda>s.
     if inc_id r \<in> inc_id ` set (th_incidents s) then (Inl (PgError ''23505''), s)
     else if (case inc_primaryNodeId r of None \<Rightarrow> False | Some n \<Rightarrow> \<not> known_node n s) then (Inl (PgError ''23503''), s)
     else (Inr (), s\<lparr>th_incidents := th_incidents s @ [r]\<rparr>))"

definition score_string :: "int option \<Rightarrow> string" where
  "score_string score = (case score of None \<Rightarrow> ''NaN'' | Some n \<Rightarrow> int_string n)"

definition incident_open :: "millis \<Rightarrow> uuid \<Rightarrow> uuid option \<Rightarrow> severity \<Rightarrow> int option \<Rightarrow> threat_signal list \<Rightarrow> ('z threat_db_scheme, unit) js" where
  "incident_open now i nodeId severity score signals =
     (let row = \<lparr>inc_id = i, inc_title = ''Correlated threat evaluation (score '' @ score_string score @ '')'', inc_severity = severity,
        inc_open = True, inc_primaryNodeId = nodeId, inc_openedAt = now, inc_closedAt = None, inc_score = score,
        inc_signals = signals, inc_unresolvedNodeId = None\<rparr> in
      catchJ (incident_insert row) (\<lambda>e. if nodeId = None \<or> e \<noteq> PgError ''23503'' then throwJ e
        else incident_insert (row\<lparr>inc_primaryNodeId := None, inc_unresolvedNodeId := nodeId\<rparr>)))"

definition concerns :: "uuid \<Rightarrow> incident_row \<Rightarrow> bool" where
  "concerns nodeId r \<longleftrightarrow> (inc_primaryNodeId r = Some nodeId \<or> inc_unresolvedNodeId r = Some nodeId) \<and> inc_open r"

definition incident_close :: "millis \<Rightarrow> uuid \<Rightarrow> string \<Rightarrow> ('z threat_db_scheme, nat) js" where
  "incident_close now nodeId closedBy = bindJ (getJ (\<lambda>s. filter (concerns nodeId) (th_incidents s))) (\<lambda>rows.
     bindJ (modifyJ (\<lambda>s. s\<lparr>th_incidents := map (\<lambda>r. if concerns nodeId r
       then r\<lparr>inc_open := False, inc_closedAt := Some now\<rparr> else r) (th_incidents s)\<rparr>)) (\<lambda>_.
     bindJ (if rows = [] then retJ () else incident_event now INFO ''INCIDENT_RESOLVED''
         (dec (length rows) @ '' incident(s) resolved for node '' @ nodeId)
         (JObj [(''nodeId'', JStr nodeId), (''closedBy'', JStr closedBy), (''incidentIds'', strs_json (map inc_id rows))])) (\<lambda>_.
     retJ (length rows))))"

section \<open>PgThreatActionPort\<close>

definition act_reauthenticate :: "(string \<Rightarrow> string) \<Rightarrow> millis \<Rightarrow> uuid \<Rightarrow> ('z repo_db_scheme, unit) js" where
  "act_reauthenticate sha256 now nodeId = publish sha256 now ''security.challenge.required'' (JObj [(''nodeId'', JStr nodeId)])"

definition zone_of_entity :: "entity \<Rightarrow> security_zone option" where
  "zone_of_entity n = (case n of ENode m \<Rightarrow> Some (mn_zone m) | _ \<Rightarrow> None)"

definition terminate_grants :: "millis \<Rightarrow> security_zone option \<Rightarrow> string \<Rightarrow> ('z repo_db_scheme, unit) js" where
  "terminate_grants now zone reason = bindJ (getJ (pg_listActive_grants now)) (\<lambda>grants.
     forJ (\<lambda>g. saveGrant (g\<lparr>jg_terminated := True, jg_terminationReason := Some reason\<rparr>))
       (filter (\<lambda>g. Some (jg_targetZone g) = zone) grants))"

definition act_terminateJit :: "millis \<Rightarrow> uuid \<Rightarrow> ('z repo_db_scheme, unit) js" where
  "act_terminateJit now nodeId = bindJ (getJ (pg_get nodeId)) (\<lambda>n. case n of None \<Rightarrow> retJ ()
     | Some node \<Rightarrow> terminate_grants now (zone_of_entity node) ''threat correlation'')"

definition act_isolate :: "millis \<Rightarrow> uuid \<Rightarrow> string \<Rightarrow> ('z policy_db_scheme, unit) js" where
  "act_isolate now nodeId reason = pe_isolateNode now nodeId"

definition act_revokeNodeCertificates :: "millis \<Rightarrow> uuid \<Rightarrow> string \<Rightarrow> ('z trust_db_scheme, unit) js" where
  "act_revokeNodeCertificates now nodeId reason = bindJ (getJ (activeCertificateFor nodeId)) (\<lambda>c. case c of
     None \<Rightarrow> retJ () | Some serial \<Rightarrow> cert_revoke serial reason now)"

definition act_rotateMeshIdentity :: "millis \<Rightarrow> uuid \<Rightarrow> ('z queue_db_scheme, unit) js" where
  "act_rotateMeshIdentity now nodeId = bindJ (getJ (pg_get nodeId)) (\<lambda>n. if n = None then retJ () else
     bindJ (getJ (hasPending now nodeId ''ROTATE_IDENTITY_REQUIRED'')) (\<lambda>p. if p then retJ () else
       enqueue now nodeId ''ROTATE_IDENTITY_REQUIRED'' (JObj []) 200 60))"

definition act_restore :: "millis \<Rightarrow> uuid \<Rightarrow> ('z policy_db_scheme, unit) js" where
  "act_restore now nodeId = pe_restoreNode now nodeId"

section \<open>ThreatEngine\<close>

definition clamp01 :: "rat \<Rightarrow> rat" where
  "clamp01 x = max 0 (min 1 x)"

definition signal_mass :: "threat_signal \<Rightarrow> js_num" where
  "signal_mass s = (case (ts_confidence s, ts_weight s) of (Some c, Some w) \<Rightarrow> Some (clamp01 c * max 0 w) | _ \<Rightarrow> None)"

definition num_add :: "js_num \<Rightarrow> js_num \<Rightarrow> js_num" where
  "num_add x y = (case (x, y) of (Some a, Some b) \<Rightarrow> Some (a + b) | _ \<Rightarrow> None)"

definition engine_score :: "threat_signal list \<Rightarrow> int option" where
  "engine_score signals = map_option (\<lambda>raw. min 100 (math_round raw)) (fold (\<lambda>s n. num_add n (signal_mass s)) signals (Some 0))"

definition score_at_least :: "int \<Rightarrow> int option \<Rightarrow> bool" where
  "score_at_least k score = (case score of None \<Rightarrow> False | Some n \<Rightarrow> k \<le> n)"

definition severity_of :: "int option \<Rightarrow> severity" where
  "severity_of score = (if score_at_least 85 score then EMERGENCY else if score_at_least 65 score then CRITICAL
     else if score_at_least 35 score then WARN else INFO)"

definition signals_node :: "threat_signal list \<Rightarrow> uuid option" where
  "signals_node signals = (case find (\<lambda>s. truthy (ts_nodeId s) \<noteq> None) signals of None \<Rightarrow> None | Some s \<Rightarrow> ts_nodeId s)"

definition respond :: "(string \<Rightarrow> string) \<Rightarrow> millis \<Rightarrow> severity \<Rightarrow> uuid \<Rightarrow> ('z trust_db_scheme, unit) js" where
  "respond sha256 now severity nodeId = (case severity of
     INFO \<Rightarrow> retJ ()
   | WARN \<Rightarrow> act_reauthenticate sha256 now nodeId
   | CRITICAL \<Rightarrow> bindJ (act_terminateJit now nodeId) (\<lambda>_. act_isolate now nodeId ''critical threat score'')
   | EMERGENCY \<Rightarrow> bindJ (act_terminateJit now nodeId) (\<lambda>_. bindJ (act_isolate now nodeId ''emergency threat score'') (\<lambda>_.
       bindJ (act_revokeNodeCertificates now nodeId ''emergency containment'') (\<lambda>_. act_rotateMeshIdentity now nodeId))))"

definition engine_evaluate :: "(string \<Rightarrow> string) \<Rightarrow> millis \<Rightarrow> threat_signal list \<Rightarrow> ('z threat_db_scheme, int option \<times> severity \<times> bool) js" where
  "engine_evaluate sha256 now signals =
     (let score = engine_score signals; severity = severity_of score; nodeId = signals_node signals in
      bindJ next_id (\<lambda>i.
      bindJ (incident_open now i nodeId severity score signals) (\<lambda>_.
      bindJ (case nodeId of None \<Rightarrow> retJ () | Some n \<Rightarrow> respond sha256 now severity n) (\<lambda>_.
      bindJ (incident_event now severity ''THREAT_EVALUATED'' (''threat score '' @ score_string score)
        (JObj [(''score'', case score of None \<Rightarrow> JNull | Some n \<Rightarrow> JNum n), (''signalCount'', JNum (int (length signals))),
          (''nodeId'', case nodeId of None \<Rightarrow> JNull | Some n \<Rightarrow> JStr n)])) (\<lambda>_.
      retJ (score, severity, nodeId \<noteq> None \<and> score_at_least 65 score))))))"

definition resolveIncidents :: "millis \<Rightarrow> uuid \<Rightarrow> string \<Rightarrow> ('z threat_db_scheme, nat) js" where
  "resolveIncidents now nodeId closedBy = incident_close now nodeId closedBy"

definition engine_restore :: "millis \<Rightarrow> uuid \<Rightarrow> string \<Rightarrow> bool \<Rightarrow> ('z threat_db_scheme, unit) js" where
  "engine_restore now nodeId approvedBy forensicClearance =
     (if \<not> forensicClearance then throwJ (JsError ''forensic clearance required before restore'')
      else if length (js_trim approvedBy) < 3 then throwJ (JsError ''restore approver required'')
      else bindJ (act_restore now nodeId) (\<lambda>_. incident_event now INFO ''NODE_RESTORED'' ''node restored after forensic clearance''
        (JObj [(''nodeId'', JStr nodeId), (''approvedBy'', JStr approvedBy)])))"

section \<open>ThreatCorrelator\<close>

text \<open>The correlator over a signal store: \<open>store_record\<close>, \<open>store_window\<close> and \<open>store_clear\<close> are its operations.\<close>

definition node_key :: "threat_signal \<Rightarrow> string" where
  "node_key signal = (case ts_nodeId signal of None \<Rightarrow> UNATTRIBUTED | Some n \<Rightarrow> n)"

definition correlate :: "(string \<Rightarrow> threat_signal \<Rightarrow> ('s, unit) js) \<Rightarrow> (string \<Rightarrow> millis \<Rightarrow> ('s, threat_signal list) js) \<Rightarrow>
    millis \<Rightarrow> threat_signal \<Rightarrow> ('s, threat_signal list) js" where
  "correlate store_record store_window windowMs signal =
     bindJ (store_record (node_key signal) signal) (\<lambda>_. store_window (node_key signal) (ts_at signal - windowMs))"

definition correlator_ingest :: "(string \<Rightarrow> string) \<Rightarrow> millis \<Rightarrow> millis \<Rightarrow> threat_signal \<Rightarrow>
    ('z threat_db_scheme, int option \<times> severity \<times> bool) js" where
  "correlator_ingest sha256 windowMs now signal =
     bindJ (correlate pg_signal_record pg_signal_window windowMs signal) (\<lambda>kept. engine_evaluate sha256 now kept)"

definition correlator_dismiss :: "(uuid \<Rightarrow> string \<Rightarrow> nat \<Rightarrow> ('z threat_db_scheme, unit) js) \<Rightarrow> millis \<Rightarrow> uuid \<Rightarrow> string \<Rightarrow>
    ('z threat_db_scheme, nat) js" where
  "correlator_dismiss dismissals now nodeId dismissedBy = bindJ (pg_signal_clear nodeId) (\<lambda>count.
     bindJ (dismissals nodeId dismissedBy count) (\<lambda>_.
     bindJ (resolveIncidents now nodeId dismissedBy) (\<lambda>_. retJ count)))"

definition activeSignalCount :: "millis \<Rightarrow> millis \<Rightarrow> uuid \<Rightarrow> ('z threat_db_scheme, nat) js" where
  "activeSignalCount windowMs now nodeId = bindJ (pg_signal_window nodeId (now - windowMs)) (\<lambda>kept. retJ (length kept))"

section \<open>ThreatResponseService\<close>

definition threat_level :: "security_event \<Rightarrow> nat" where
  "threat_level e = (let n = js_number (Some (case json_get ''score'' (ev_metadata e) of None \<Rightarrow> JNum 0 | Some v \<Rightarrow> nullish v (JNum 0)));
       at_least = (\<lambda>k. case n of None \<Rightarrow> False | Some x \<Rightarrow> k \<le> x) in
     if ev_severity e = EMERGENCY \<or> at_least 90 then 3
     else if ev_severity e = CRITICAL \<or> at_least 70 then 2
     else if ev_severity e = WARN \<or> at_least 40 then 1 else 0)"

datatype response_action = OBSERVE | REAUTHENTICATE | MANUAL_REVIEW | UNKNOWN_NODE | QUARANTINED

definition mark_compromised :: "millis \<Rightarrow> security_event \<Rightarrow> entity \<Rightarrow> ('z repo_db_scheme, unit) js" where
  "mark_compromised now e node = bindJ (getJ (device_of_entity node)) (\<lambda>dev. case dev of None \<Rightarrow> retJ ()
     | Some d \<Rightarrow> saveDevice now (d\<lparr>dev_compromised := True, dev_updatedAt := ev_at e,
         dev_quarantineReason := Some (ev_description e)\<rparr>))"

definition device_id_field :: "entity \<Rightarrow> (string \<times> json) list" where
  "device_id_field n = (case n of ENode m \<Rightarrow> [(''deviceId'', JStr (mn_deviceId m))] | _ \<Rightarrow> [])"

definition threat_handle :: "(string \<Rightarrow> string) \<Rightarrow> millis \<Rightarrow> security_event \<Rightarrow> ('z policy_db_scheme, nat \<times> response_action) js" where
  "threat_handle sha256 now e = bindJ (pg_append_event e) (\<lambda>_.
     let level = threat_level e in
     if level = 0 then retJ (level, OBSERVE)
     else if level = 1 then bindJ (publish sha256 now ''security.challenge.required''
         (JObj (opt_field ''nodeId'' JStr (ev_nodeId e)))) (\<lambda>_. retJ (level, REAUTHENTICATE))
     else (case truthy (ev_nodeId e) of
        None \<Rightarrow> retJ (level, MANUAL_REVIEW)
      | Some nodeId \<Rightarrow> bindJ (getJ (pg_get nodeId)) (\<lambda>found. case found of
          None \<Rightarrow> retJ (level, UNKNOWN_NODE)
        | Some node \<Rightarrow>
            bindJ (mark_compromised now e node) (\<lambda>_.
            bindJ (terminate_grants (ev_at e) (zone_of_entity node) ''security incident'') (\<lambda>_.
            bindJ (pe_isolateNode now (entity_id node)) (\<lambda>_.
            bindJ (publish sha256 now ''diagnostics.forensic_access.ready'' (JObj ([(''nodeId'', JStr (entity_id node))] @
              device_id_field node @ [(''level'', JNum (int level))]))) (\<lambda>_.
            retJ (level, QUARANTINED))))))))"

text \<open>\<open>verify\<close> is the clearance check the service was built with.\<close>

definition clear_device :: "millis \<Rightarrow> entity \<Rightarrow> ('z repo_db_scheme, unit) js" where
  "clear_device now node = bindJ (getJ (device_of_entity node)) (\<lambda>dev. case dev of None \<Rightarrow> retJ ()
     | Some d \<Rightarrow> saveDevice now (d\<lparr>dev_compromised := False, dev_updatedAt := now, dev_quarantineReason := None\<rparr>))"

definition threat_restore :: "(string \<Rightarrow> uuid \<Rightarrow> millis \<Rightarrow> ('z policy_db_scheme, json \<times> json) js) \<Rightarrow> (string \<Rightarrow> string) \<Rightarrow>
    millis \<Rightarrow> uuid \<Rightarrow> string \<Rightarrow> ('z policy_db_scheme, unit) js" where
  "threat_restore verify sha256 now nodeId clearanceToken = bindJ (verify clearanceToken nodeId now) (\<lambda>(approvedBy, caseId).
     bindJ (getJ (pg_get nodeId)) (\<lambda>found. case found of
       None \<Rightarrow> throwJ (JsError ''node not found'')
     | Some node \<Rightarrow>
         bindJ (clear_device now node) (\<lambda>_.
         bindJ (pe_restoreNode now nodeId) (\<lambda>_.
         publish sha256 now ''security.node.restored'' (JObj [(''nodeId'', JStr nodeId), (''approvedBy'', approvedBy), (''caseId'', caseId)])))))"

section \<open>SOC\<close>

definition soc_quarantine_action :: "(string \<Rightarrow> string) \<Rightarrow> millis \<Rightarrow> uuid \<Rightarrow> string \<Rightarrow> string \<Rightarrow> ('z policy_db_scheme, unit) js" where
  "soc_quarantine_action sha256 now nodeId reason actor = bindJ next_id (\<lambda>i. bindJ (threat_handle sha256 now
     \<lparr>ev_id = i, ev_nodeId = Some nodeId, ev_at = now, ev_severity = CRITICAL, ev_engine = ''soc-console'',
      ev_type = ''MANUAL_QUARANTINE'', ev_sourceIp = None, ev_destinationIp = None, ev_description = reason,
      ev_metadata = JObj [(''score'', JNum 90), (''actor'', JStr actor)]\<rparr>) (\<lambda>_. retJ ()))"

definition lockdown_action :: "(string \<Rightarrow> string) \<Rightarrow> millis \<Rightarrow> string \<Rightarrow> string \<Rightarrow> string \<Rightarrow> ('z policy_db_scheme, unit) js" where
  "lockdown_action sha256 now reason actor confirmation =
     bindJ (getJ (\<lambda>s. filter mn_active (pg_list s))) (\<lambda>activeNodes.
     bindJ (forJ (\<lambda>n. pe_isolateNode now (mn_id n)) activeNodes) (\<lambda>_.
     bindJ (getJ (pg_listActive_grants now)) (\<lambda>activeGrants.
     bindJ (forJ (\<lambda>g. saveGrant (g\<lparr>jg_terminated := True,
         jg_terminationReason := Some (''emergency lockdown: '' @ reason)\<rparr>)) activeGrants) (\<lambda>_.
     publish sha256 now ''security.emergency_lockdown'' (JObj [(''reason'', JStr reason), (''actor'', JStr actor),
       (''confirmation'', JStr confirmation), (''at'', date_json now),
       (''nodesIsolated'', JNum (int (length activeNodes))), (''grantsTerminated'', JNum (int (length activeGrants)))])))))"

definition soc_quarantine :: "(string \<Rightarrow> string) \<Rightarrow> millis \<Rightarrow> uuid \<Rightarrow> string \<Rightarrow> string \<Rightarrow> ('z policy_db_scheme, uuid) js" where
  "soc_quarantine sha256 now nodeId reason actor =
     (if length (js_trim reason) < 12 then throwJ (JsError ''quarantine reason must be meaningful'')
      else bindJ (soc_quarantine_action sha256 now nodeId reason actor) (\<lambda>_. retJ nodeId))"

definition soc_restore :: "(string \<Rightarrow> uuid \<Rightarrow> millis \<Rightarrow> ('z policy_db_scheme, json \<times> json) js) \<Rightarrow> (string \<Rightarrow> string) \<Rightarrow>
    millis \<Rightarrow> uuid \<Rightarrow> string \<Rightarrow> string \<Rightarrow> ('z policy_db_scheme, uuid) js" where
  "soc_restore verify sha256 now nodeId actor clearanceToken =
     bindJ (threat_restore verify sha256 now nodeId clearanceToken) (\<lambda>_. retJ nodeId)"

definition soc_emergencyLockdown :: "(string \<Rightarrow> string) \<Rightarrow> millis \<Rightarrow> string \<Rightarrow> string \<Rightarrow> string \<Rightarrow> ('z policy_db_scheme, json) js" where
  "soc_emergencyLockdown sha256 now reason actor confirmation =
     (if confirmation \<noteq> ''LOCKDOWN'' then throwJ (JsError ''typed LOCKDOWN confirmation required'')
      else if length (js_trim reason) < 20 then throwJ (JsError ''detailed emergency reason required'')
      else bindJ (lockdown_action sha256 now reason actor confirmation) (\<lambda>_.
        retJ (JObj [(''accepted'', JBool True), (''scope'', JStr ''ecosystem'')])))"

text \<open>The read models of the console: the rows each query selects, in its order.\<close>

definition soc_nodes :: "'z threat_db_scheme \<Rightarrow> mesh_node list" where
  "soc_nodes s = sort_key mn_id (db_nodes s)"

definition soc_incidents :: "'z threat_db_scheme \<Rightarrow> incident_row list" where
  "soc_incidents s = take 100 (sort_key (\<lambda>r. - inc_openedAt r) (th_incidents s))"

definition soc_policies :: "'z threat_db_scheme \<Rightarrow> network_policy list" where
  "soc_policies s = sort_key (\<lambda>p. - np_priority p) (filter np_active (db_policies s))"

definition soc_jit :: "millis \<Rightarrow> 'z threat_db_scheme \<Rightarrow> jit_grant list" where
  "soc_jit now s = sort_key jg_expiresAt (filter (\<lambda>g. \<not> jg_terminated g \<and> now < jg_expiresAt g) (db_grants s))"

definition soc_certificates :: "'z threat_db_scheme \<Rightarrow> cert_row list" where
  "soc_certificates s = take 200 (sort_key ct_expiresAt (filter (\<lambda>c. \<not> ct_revoked c) (tc_certs s)))"

text \<open>\<open>ORDER BY revoked_at DESC\<close> puts rows without a timestamp first.\<close>

definition soc_revokedCertificates :: "'z threat_db_scheme \<Rightarrow> cert_row list" where
  "soc_revokedCertificates s = take 200 (sort_key (\<lambda>c. case ct_revokedAt c of None \<Rightarrow> (0, 0) | Some t \<Rightarrow> (1 :: nat, - t))
     (filter ct_revoked (tc_certs s)))"

definition soc_events :: "int \<Rightarrow> 'z threat_db_scheme \<Rightarrow> security_event list" where
  "soc_events limit s = take (nat (max 1 (min limit 500))) (sort_key (\<lambda>e. - ev_at e) (db_events s))"

record soc_counts =
  so_devices :: nat
  so_revokedDevices :: nat
  so_compromisedDevices :: nat
  so_nodes :: nat
  so_activeNodes :: nat
  so_activeJit :: nat
  so_activePolicies :: nat
  so_criticalEvents :: nat

definition soc_snapshot :: "millis \<Rightarrow> 'z repo_db_scheme \<Rightarrow> soc_counts \<times> mesh_node list \<times> security_event list" where
  "soc_snapshot now s = (let devices = pg_listAll s; nodes = pg_list s; grants = pg_listActive_grants now s; events = pg_recent 100 s in
     (\<lparr>so_devices = length devices, so_revokedDevices = length (filter dev_revoked devices),
       so_compromisedDevices = length (filter dev_compromised devices), so_nodes = length nodes,
       so_activeNodes = length (filter mn_active nodes), so_activeJit = length grants,
       so_activePolicies = length (pg_listActive_policies s),
       so_criticalEvents = length (filter (\<lambda>e. ev_severity e = CRITICAL \<or> ev_severity e = EMERGENCY) events)\<rparr>, nodes, events))"

definition soc_relays :: "'z threat_db_scheme \<Rightarrow> relay_row list" where
  "soc_relays s = sort_key rr_region (mesh_relays s)"

record soc_view =
  vw_generatedAt :: millis
  vw_nodes :: "mesh_node list"
  vw_incidents :: "incident_row list"
  vw_policies :: "network_policy list"
  vw_jit :: "jit_grant list"
  vw_relays :: "relay_row list"
  vw_certificates :: "cert_row list"
  vw_revokedCertificates :: "cert_row list"
  vw_events :: "security_event list"

definition soc_full_snapshot :: "millis \<Rightarrow> ('z threat_db_scheme, soc_view) js" where
  "soc_full_snapshot now = getJ (\<lambda>s. \<lparr>vw_generatedAt = now, vw_nodes = soc_nodes s, vw_incidents = soc_incidents s,
     vw_policies = soc_policies s, vw_jit = soc_jit now s, vw_relays = soc_relays s, vw_certificates = soc_certificates s,
     vw_revokedCertificates = soc_revokedCertificates s, vw_events = soc_events 100 s\<rparr>)"

section \<open>The signal stores implement one specification\<close>

text \<open>
  The specification of a signal store: a multiset of signals for every node key.
  Recording adds to it, a window query keeps and returns what is recent enough,
  clearing empties it.
\<close>

locale signal_store =
  fixes record_signal :: "string \<Rightarrow> threat_signal \<Rightarrow> ('s, unit) js"
    and window :: "string \<Rightarrow> millis \<Rightarrow> ('s, threat_signal list) js"
    and clear :: "string \<Rightarrow> ('s, nat) js"
    and abs :: "'s \<Rightarrow> string \<Rightarrow> threat_signal multiset"
    and storable :: "string \<Rightarrow> threat_signal \<Rightarrow> bool"
  assumes record_abs: "storable k x \<Longrightarrow> \<exists>s'. record_signal k x s = (Inr (), s') \<and> abs s' = (abs s)(k := add_mset x (abs s k))"
    and window_abs: "\<exists>xs s'. window k t s = (Inr xs, s') \<and> mset xs = filter_mset (\<lambda>x. t \<le> ts_at x) (abs s k) \<and>
      abs s' = (abs s)(k := mset xs)"
    and clear_abs: "\<exists>s'. clear k s = (Inr (size (abs s k)), s') \<and> abs s' = (abs s)(k := {#})"

text \<open>A history of ingested signals and dismissals, and what it yields: a score or the number of dismissed signals.\<close>

datatype signal_event = Ingest threat_signal | Dismiss uuid

fun signal_run :: "(string \<Rightarrow> threat_signal \<Rightarrow> ('s, unit) js) \<Rightarrow> (string \<Rightarrow> millis \<Rightarrow> ('s, threat_signal list) js) \<Rightarrow>
    (string \<Rightarrow> ('s, nat) js) \<Rightarrow> millis \<Rightarrow> signal_event list \<Rightarrow> ('s, (int option + nat) list) js" where
  "signal_run rec win clr windowMs [] = retJ []"
| "signal_run rec win clr windowMs (Ingest x # es) = bindJ (correlate rec win windowMs x) (\<lambda>kept.
     bindJ (signal_run rec win clr windowMs es) (\<lambda>out. retJ (Inl (engine_score kept) # out)))"
| "signal_run rec win clr windowMs (Dismiss k # es) = bindJ (clr k) (\<lambda>n.
     bindJ (signal_run rec win clr windowMs es) (\<lambda>out. retJ (Inr n # out)))"

definition mset_score :: "threat_signal multiset \<Rightarrow> int option" where
  "mset_score M = (if \<exists>x \<in># M. signal_mass x = None then None
     else Some (min 100 (math_round (\<Sum>x\<in>#M. the (signal_mass x)))))"

fun spec_run :: "millis \<Rightarrow> signal_event list \<Rightarrow> (string \<Rightarrow> threat_signal multiset) \<Rightarrow> (int option + nat) list" where
  "spec_run windowMs [] a = []"
| "spec_run windowMs (Ingest x # es) a = (let k = node_key x;
       w = filter_mset (\<lambda>y. ts_at x - windowMs \<le> ts_at y) (add_mset x (a k))
     in Inl (mset_score w) # spec_run windowMs es (a(k := w)))"
| "spec_run windowMs (Dismiss k # es) a = Inr (size (a k)) # spec_run windowMs es (a(k := {#}))"

lemma fold_num_add:
  "fold (\<lambda>s n. num_add n (signal_mass s)) xs (Some a) =
     (if \<exists>x \<in> set xs. signal_mass x = None then None else Some (a + (\<Sum>x\<leftarrow>xs. the (signal_mass x))))"
proof (induction xs arbitrary: a)
  case (Cons x xs)
  have n: "fold (\<lambda>s n. num_add n (signal_mass s)) xs None = None" by (induction xs) (simp_all add: num_add_def)
  show ?case using Cons n by (cases "signal_mass x") (simp_all add: num_add_def)
qed simp

lemma engine_score_mset: "engine_score xs = mset_score (mset xs)"
proof -
  have "(\<Sum>x\<leftarrow>xs. the (signal_mass x)) = (\<Sum>x\<in>#mset xs. the (signal_mass x))" by (simp add: sum_mset_sum_list [symmetric])
  thus ?thesis by (simp add: engine_score_def mset_score_def fold_num_add)
qed

context signal_store
begin

lemma correlate_abs:
  assumes "storable (node_key x) x"
  shows "\<exists>xs s'. correlate record_signal window windowMs x s = (Inr xs, s') \<and>
    mset xs = filter_mset (\<lambda>y. ts_at x - windowMs \<le> ts_at y) (add_mset x (abs s (node_key x))) \<and> abs s' = (abs s)(node_key x := mset xs)"
proof -
  obtain s1 where r: "record_signal (node_key x) x s = (Inr (), s1)"
    "abs s1 = (abs s)(node_key x := add_mset x (abs s (node_key x)))" using record_abs [OF assms] by blast
  obtain xs s' where w: "window (node_key x) (ts_at x - windowMs) s1 = (Inr xs, s')"
    "mset xs = filter_mset (\<lambda>y. ts_at x - windowMs \<le> ts_at y) (abs s1 (node_key x))" "abs s' = (abs s1)(node_key x := mset xs)"
    using window_abs by blast
  show ?thesis using r w by (simp add: correlate_def bindJ_def)
qed

lemma run_spec:
  assumes "list_all (\<lambda>e. case e of Ingest x \<Rightarrow> storable (node_key x) x | Dismiss _ \<Rightarrow> True) es"
  shows "fst (signal_run record_signal window clear windowMs es s) = Inr (spec_run windowMs es (abs s))"
  using assms
proof (induction es arbitrary: s)
  case (Cons e es)
  show ?case
  proof (cases e)
    case (Ingest x)
    obtain xs s' where c: "correlate record_signal window windowMs x s = (Inr xs, s')"
      "mset xs = filter_mset (\<lambda>y. ts_at x - windowMs \<le> ts_at y) (add_mset x (abs s (node_key x)))" "abs s' = (abs s)(node_key x := mset xs)"
      using correlate_abs [of x windowMs s] Cons.prems Ingest by auto
    obtain r t where r: "signal_run record_signal window clear windowMs es s' = (r, t)" by force
    have "r = Inr (spec_run windowMs es (abs s'))" using Cons.IH [of s'] Cons.prems r by simp
    hence "signal_run record_signal window clear windowMs (Ingest x # es) s = (Inr (Inl (engine_score xs) # spec_run windowMs es (abs s')), t)"
      using c(1) r by (simp add: bindJ_def)
    thus ?thesis unfolding Ingest by (simp only: fst_conv spec_run.simps Let_def engine_score_mset c(2,3))
  next
    case (Dismiss k)
    obtain s' where c: "clear k s = (Inr (size (abs s k)), s')" "abs s' = (abs s)(k := {#})" using clear_abs by blast
    obtain r t where r: "signal_run record_signal window clear windowMs es s' = (r, t)" by force
    have "r = Inr (spec_run windowMs es (abs s'))" using Cons.IH [of s'] Cons.prems r by simp
    thus ?thesis using c r Dismiss by (simp add: bindJ_def)
  qed
qed simp

end

lemma windows_map_set [simp]: "windows_get k (map_set fst (k', xs) w) = (if k = k' then xs else windows_get k w)"
  by (simp add: windows_get_def map_of_find_by find_by_map_set)

lemma windows_delete [simp]: "windows_get k (windows_delete k' w) = (if k = k' then [] else windows_get k w)"
  by (induction w) (auto simp: windows_get_def windows_delete_def)

interpretation mem_signals: signal_store mem_signal_record mem_signal_window mem_signal_clear "\<lambda>w k. mset (windows_get k w)" "\<lambda>k x. True"
proof unfold_locales
  fix k x w
  show "\<exists>w'. mem_signal_record k x w = (Inr (), w') \<and>
      (\<lambda>k. mset (windows_get k w')) = (\<lambda>k. mset (windows_get k w))(k := add_mset x (mset (windows_get k w)))"
    by (auto simp: mem_signal_record_def)
next
  fix k t w
  define kept where "kept = filter (\<lambda>s. t \<le> ts_at s) (windows_get k w)"
  have m: "filter_mset (\<lambda>x. t \<le> ts_at x) (mset (windows_get k w)) = mset kept" by (simp add: kept_def)
  show "\<exists>xs w'. mem_signal_window k t w = (Inr xs, w') \<and> mset xs = filter_mset (\<lambda>x. t \<le> ts_at x) (mset (windows_get k w)) \<and>
      (\<lambda>k. mset (windows_get k w')) = (\<lambda>k. mset (windows_get k w))(k := mset xs)"
    unfolding m mem_signal_window_def Let_def kept_def [symmetric] by auto
next
  fix k w
  show "\<exists>w'. mem_signal_clear k w = (Inr (size (mset (windows_get k w))), w') \<and>
      (\<lambda>k. mset (windows_get k w')) = (\<lambda>k. mset (windows_get k w))(k := {#})"
    by (auto simp: mem_signal_clear_def)
qed

text \<open>Signals the table holds exactly: no rounding, no overflow, and a node key that reads back as the same node.\<close>

definition pg_storable :: "string \<Rightarrow> threat_signal \<Rightarrow> bool" where
  "pg_storable k x \<longleftrightarrow> k = node_key x \<and> ts_nodeId x \<noteq> Some UNATTRIBUTED \<and>
     map_option round3 (ts_confidence x) = ts_confidence x \<and> map_option round2 (ts_weight x) = ts_weight x \<and>
     \<not> overflows 10 (ts_confidence x) \<and> \<not> overflows (10 ^ 8) (ts_weight x)"

definition pg_window :: "'z threat_db_scheme \<Rightarrow> string \<Rightarrow> threat_signal multiset" where
  "pg_window s k = mset (map (toSignal k) (filter (\<lambda>r. sr_nodeKey r = k) (th_signals s)))"

interpretation pg_signals: signal_store pg_signal_record pg_signal_window pg_signal_clear pg_window pg_storable
proof unfold_locales
  fix k x and s :: "'z threat_db_scheme" assume ok: "pg_storable k x"
  let ?row = "\<lparr>sr_nodeKey = k, sr_kind = ts_kind x, sr_confidence = ts_confidence x, sr_weight = ts_weight x,
       sr_occurredAt = ts_at x, sr_metadata = ts_metadata x\<rparr>"
  have "toSignal k ?row = x" using ok by (cases x) (auto simp: toSignal_def pg_storable_def node_key_def split: option.splits)
  moreover have "pg_signal_record k x s = (Inr (), s\<lparr>th_signals := th_signals s @ [?row]\<rparr>)"
    using ok by (simp add: pg_signal_record_def pg_storable_def)
  ultimately show "\<exists>s'. pg_signal_record k x s = (Inr (), s') \<and> pg_window s' = (pg_window s)(k := add_mset x (pg_window s k))"
    by (auto simp: pg_window_def)
next
  fix k t and s :: "'z threat_db_scheme"
  let ?s = "s\<lparr>th_signals := filter (\<lambda>r. \<not> (sr_nodeKey r = k \<and> sr_occurredAt r < t)) (th_signals s)\<rparr>"
  let ?xs = "map (toSignal k) (sort_key sr_occurredAt (filter (\<lambda>r. sr_nodeKey r = k) (th_signals ?s)))"
  have w: "pg_signal_window k t s = (Inr ?xs, ?s)" by (simp add: pg_signal_window_def)
  have m: "mset ?xs = pg_window ?s k" by (simp add: pg_window_def)
  moreover have "pg_window ?s k = filter_mset (\<lambda>x. t \<le> ts_at x) (pg_window s k)"
    by (simp add: pg_window_def filter_mset_image_mset filter_filter_mset toSignal_def comp_def conj_commute not_less cong: conj_cong)
  moreover have "pg_window ?s k' = pg_window s k'" if "k' \<noteq> k" for k'
    using that by (simp add: pg_window_def) (metis (mono_tags, lifting) filter_cong)
  ultimately have "mset ?xs = filter_mset (\<lambda>x. t \<le> ts_at x) (pg_window s k)" "pg_window ?s = (pg_window s)(k := mset ?xs)"
    by (auto simp del: mset_map)
  thus "\<exists>xs s'. pg_signal_window k t s = (Inr xs, s') \<and> mset xs = filter_mset (\<lambda>x. t \<le> ts_at x) (pg_window s k) \<and>
      pg_window s' = (pg_window s)(k := mset xs)" using w by blast
next
  fix k and s :: "'z threat_db_scheme"
  let ?s = "s\<lparr>th_signals := filter (\<lambda>r. sr_nodeKey r \<noteq> k) (th_signals s)\<rparr>"
  have f: "filter (\<lambda>r. sr_nodeKey r = k') (filter (\<lambda>r. sr_nodeKey r \<noteq> k) xs) = (if k' = k then [] else filter (\<lambda>r. sr_nodeKey r = k') xs)" for k' xs
    by (induction xs) auto
  have "pg_window ?s = (pg_window s)(k := {#})" by (intro ext) (simp add: pg_window_def f del: filter_filter mset_filter)
  moreover have "size (pg_window s k) = length (filter (\<lambda>r. sr_nodeKey r = k) (th_signals s))"
    by (simp add: pg_window_def del: mset_map mset_filter)
  ultimately show "\<exists>s'. pg_signal_clear k s = (Inr (size (pg_window s k)), s') \<and> pg_window s' = (pg_window s)(k := {#})"
    unfolding pg_signal_clear_def by simp
qed


definition demo_signal :: "js_num \<Rightarrow> millis \<Rightarrow> threat_signal" where
  "demo_signal w t = \<lparr>ts_nodeId = Some ''n1'', ts_kind = ''posture_failure'', ts_confidence = Some 1, ts_weight = w,
     ts_at = t, ts_metadata = JObj []\<rparr>"

definition demo_threat :: threat_db where
  "demo_threat = \<lparr>db_devices = [demo_device], db_nodes = [demo_node], db_policies = [], db_grants = [], db_events = [],
     db_audit = [], db_audit_seq = 0, db_outbox = [], db_fresh = (\<lambda>n. replicate n (CHR ''x'')), db_drawn = 1,
     q_commands = [], q_acks = [], q_desired = [], q_rotations = [], mesh_relays = [], pol_commits = [], pol_rollout = [],
     tc_certs = [], tc_issuers = [], tc_anchors = [], th_signals = [], th_incidents = []\<rparr>"

lemma demo_storable: "pg_storable (node_key (demo_signal (Some 15) t)) (demo_signal (Some 15) t)"
  by (simp add: pg_storable_def demo_signal_def UNATTRIBUTED_def round3_def round2_def overflows_def floor_eq_iff)


section \<open>Scores\<close>

text \<open>
  C38. One signal whose confidence or weight is not a number silences the correlator for its node: as long as it is
  inside the window, every later signal of that node, however heavy, leaves the score NaN, the severity INFO and the
  node uncontained.
\<close>

theorem nan_signal_blinds:
  assumes "r \<in> set (th_signals s)" "sr_nodeKey r = node_key x" "sr_confidence r = None \<or> sr_weight r = None"
    and "ts_at x - windowMs \<le> sr_occurredAt r" "correlate pg_signal_record pg_signal_window windowMs x s = (Inr kept, s')"
  shows "engine_score kept = None \<and> severity_of (engine_score kept) = INFO \<and> \<not> score_at_least 65 (engine_score kept)"
proof -
  obtain s1 where r1: "pg_signal_record (node_key x) x s = (Inr (), s1)"
    and w: "pg_signal_window (node_key x) (ts_at x - windowMs) s1 = (Inr kept, s')"
    using assms(5) unfolding correlate_def by (rule bindJ_InrE) auto
  have "r \<in> set (th_signals s1)" using r1 assms(1) by (auto simp: pg_signal_record_def split: if_splits)
  hence "toSignal (node_key x) r \<in> set kept" using w assms(2,4) by (auto simp: pg_signal_window_def)
  moreover have "signal_mass (toSignal (node_key x) r) = None" using assms(3) by (auto simp: signal_mass_def toSignal_def split: option.splits)
  ultimately have "\<exists>y \<in> set kept. signal_mass y = None" by blast
  hence "engine_score kept = None" by (simp add: engine_score_def fold_num_add)
  thus ?thesis by (simp add: severity_of_def score_at_least_def)
qed

theorem nan_signal_blinds_witness:
  "\<exists>kept s'. correlate pg_signal_record pg_signal_window 100 (demo_signal (Some 99) 2)
      (demo_threat\<lparr>th_signals := [\<lparr>sr_nodeKey = ''n1'', sr_kind = ''k'', sr_confidence = None, sr_weight = Some 1, sr_occurredAt = 1, sr_metadata = JNull\<rparr>]\<rparr>)
     = (Inr kept, s') \<and> severity_of (engine_score kept) = INFO"
proof -
  let ?r = "\<lparr>sr_nodeKey = ''n1'', sr_kind = ''k'', sr_confidence = None, sr_weight = Some 1, sr_occurredAt = 1, sr_metadata = JNull\<rparr>"
  obtain kept s' where "correlate pg_signal_record pg_signal_window 100 (demo_signal (Some 99) 2) (demo_threat\<lparr>th_signals := [?r]\<rparr>) = (Inr kept, s')"
    by (simp add: correlate_def pg_signal_record_def pg_signal_window_def demo_signal_def overflows_def round3_def round2_def bindJ_def)
  moreover from nan_signal_blinds [of ?r "demo_threat\<lparr>th_signals := [?r]\<rparr>" "demo_signal (Some 99) 2" 100, OF _ _ _ _ this]
  have "severity_of (engine_score kept) = INFO" by (simp add: demo_signal_def node_key_def severity_of_def score_at_least_def)
  ultimately show ?thesis by blast
qed

end
