(* ===== verification/Rest.thy ===== *)
theory Rest
  imports Signing
begin

text \<open>
  The REST layer (\<open>src/api/rest\<close>): error mapping, rate limiting, idempotency,
  replay protection, metrics and the router.  Strings are bytes, so
  percent-encoded octets above 127 are outside the model and refused like
  malformed ones.
\<close>

section \<open>Errors\<close>

definition mentions :: "string list \<Rightarrow> string \<Rightarrow> bool" where
  "mentions needles m \<longleftrightarrow> list_ex (\<lambda>n. str_includes (js_lower m) n) needles"

definition asHttpError :: "js_error \<Rightarrow> nat \<times> string \<times> string" where
  "asHttpError e = (case e of HttpError status code m \<Rightarrow> (status, code, m)
   | _ \<Rightarrow> let m = error_message e in
      if mentions [''authorization'', ''role required'', ''token''] m then (403, ''forbidden'', m)
      else if mentions [''not found'', ''missing''] m then (404, ''not_found'', m)
      else if mentions [''invalid'', ''required'', ''malformed'', ''stale''] m then (400, ''invalid_request'', m)
      else (500, ''internal_error'', ''internal request failure''))"

section \<open>Rate limiter\<close>

record rate_limit_rule =
  rl_limit :: nat
  rl_windowMs :: int

type_synonym hits = "(string \<times> millis list) list"

definition hits_get :: "string \<Rightarrow> hits \<Rightarrow> millis list" where
  "hits_get key h = (case map_of h key of None \<Rightarrow> [] | Some ts \<Rightarrow> ts)"

text \<open>The result: allowed, remaining, and \<open>resetAt\<close>, which is NaN when a limit of 0 meets an empty window.\<close>

definition rate_check :: "string \<Rightarrow> rate_limit_rule \<Rightarrow> millis \<Rightarrow> hits \<Rightarrow> (bool \<times> nat \<times> millis option) \<times> hits" where
  "rate_check key rule now h =
     (let existing = filter (\<lambda>t. now - rl_windowMs rule < t) (hits_get key h) in
      if rl_limit rule \<le> length existing
      then ((False, 0, case existing of [] \<Rightarrow> None | t # _ \<Rightarrow> Some (t + rl_windowMs rule)), map_set fst (key, existing) h)
      else ((True, rl_limit rule - Suc (length existing), Some (now + rl_windowMs rule)),
            map_set fst (key, existing @ [now]) h))"

definition rate_sweep :: "millis \<Rightarrow> hits \<Rightarrow> hits" where
  "rate_sweep now h = filter (\<lambda>e. snd e \<noteq> []) (map (\<lambda>(k, ts). (k, filter (\<lambda>t. now - 3600000 < t) ts)) h)"

section \<open>Idempotency\<close>

record stored_response =
  sp_status :: nat
  sp_body :: json

record idem_row =
  im_key :: string
  im_requestHash :: string
  im_response :: stored_response
  im_expiresAt :: millis

text \<open>A store: its read, which may discard expired rows, and its write.\<close>

record 's idem_store =
  is_get :: "millis \<Rightarrow> string \<Rightarrow> ('s, (string \<times> stored_response) option) js"
  is_put :: "millis \<Rightarrow> string \<Rightarrow> string \<Rightarrow> string \<Rightarrow> stored_response \<Rightarrow> int \<Rightarrow> ('s, unit) js"

definition row_result :: "idem_row option \<Rightarrow> (string \<times> stored_response) option" where
  "row_result r = map_option (\<lambda>x. (im_requestHash x, im_response x)) r"

definition mem_idem_get :: "millis \<Rightarrow> string \<Rightarrow> (idem_row list, (string \<times> stored_response) option) js" where
  "mem_idem_get now key = (\<lambda>rows. case find_by im_key key rows of
     None \<Rightarrow> (Inr None, rows)
   | Some r \<Rightarrow> if im_expiresAt r < now then (Inr None, filter (\<lambda>x. im_key x \<noteq> key) rows) else (Inr (row_result (Some r)), rows))"

definition mem_idem_put :: "millis \<Rightarrow> string \<Rightarrow> string \<Rightarrow> string \<Rightarrow> stored_response \<Rightarrow> int \<Rightarrow> (idem_row list, unit) js" where
  "mem_idem_put now key actor requestHash response ttlMs = modifyJ (\<lambda>rows. map_set im_key
     \<lparr>im_key = key, im_requestHash = requestHash, im_response = response, im_expiresAt = now + ttlMs\<rparr> rows)"

definition pg_idem_get :: "millis \<Rightarrow> string \<Rightarrow> (idem_row list, (string \<times> stored_response) option) js" where
  "pg_idem_get now key = getJ (\<lambda>rows. row_result (find (\<lambda>r. im_key r = key \<and> now < im_expiresAt r) rows))"

definition pg_idem_put :: "millis \<Rightarrow> string \<Rightarrow> string \<Rightarrow> string \<Rightarrow> stored_response \<Rightarrow> int \<Rightarrow> (idem_row list, unit) js" where
  "pg_idem_put now key actor requestHash response ttlMs = modifyJ (\<lambda>rows. if key \<in> im_key ` set rows then rows
     else rows @ [\<lparr>im_key = key, im_requestHash = requestHash, im_response = response, im_expiresAt = now + ttlMs\<rparr>])"

definition mem_idem :: "idem_row list idem_store" where
  "mem_idem = \<lparr>is_get = mem_idem_get, is_put = mem_idem_put\<rparr>"

definition pg_idem :: "idem_row list idem_store" where
  "pg_idem = \<lparr>is_get = pg_idem_get, is_put = pg_idem_put\<rparr>"

definition hashRequestBody :: "(string \<Rightarrow> string) \<Rightarrow> json \<Rightarrow> string" where
  "hashRequestBody sha256 v = sha256 (json_stringify (nullish v JNull))"

definition withIdempotency :: "(string \<Rightarrow> string) \<Rightarrow> 's idem_store \<Rightarrow> millis \<Rightarrow> string option \<Rightarrow> string \<Rightarrow> json \<Rightarrow> int \<Rightarrow>
    ('s, stored_response) js \<Rightarrow> ('s, stored_response) js" where
  "withIdempotency sha256 store now key actor body ttlMs compute = (case truthy key of
     None \<Rightarrow> compute
   | Some k \<Rightarrow> let requestHash = hashRequestBody sha256 body in
       bindJ (is_get store now k) (\<lambda>existing. case existing of
         Some (h, response) \<Rightarrow>
           if h \<noteq> requestHash
           then throwJ (HttpError 409 ''idempotency_conflict'' ''idempotency key reused with a different request body'')
           else retJ response
       | None \<Rightarrow> bindJ compute (\<lambda>response.
           bindJ (is_put store now k actor requestHash response ttlMs) (\<lambda>_. retJ response))))"

section \<open>Replay guard\<close>

record nonce_row =
  nn_nonce :: string
  nn_expiresAt :: millis

record 's replay_store =
  rs_claim :: "millis \<Rightarrow> string \<Rightarrow> string \<Rightarrow> int \<Rightarrow> ('s, bool) js"

definition mem_claim :: "millis \<Rightarrow> string \<Rightarrow> string \<Rightarrow> int \<Rightarrow> (nonce_row list, bool) js" where
  "mem_claim now nonce actor ttlMs = (\<lambda>seen. case find_by nn_nonce nonce seen of
     Some r \<Rightarrow> if now < nn_expiresAt r then (Inr False, seen)
       else (Inr True, map_set nn_nonce \<lparr>nn_nonce = nonce, nn_expiresAt = now + ttlMs\<rparr> seen)
   | None \<Rightarrow> (Inr True, map_set nn_nonce \<lparr>nn_nonce = nonce, nn_expiresAt = now + ttlMs\<rparr> seen))"

definition pg_claim :: "millis \<Rightarrow> string \<Rightarrow> string \<Rightarrow> int \<Rightarrow> (nonce_row list, bool) js" where
  "pg_claim now nonce actor ttlMs = (\<lambda>rows. if nonce \<in> nn_nonce ` set rows then (Inr False, rows)
     else (Inr True, rows @ [\<lparr>nn_nonce = nonce, nn_expiresAt = now + ttlMs\<rparr>]))"

definition enforceReplayNonce :: "'s replay_store \<Rightarrow> millis \<Rightarrow> string option \<Rightarrow> string \<Rightarrow> int \<Rightarrow> ('s, unit) js" where
  "enforceReplayNonce store now nonce actor ttlMs = (case truthy nonce of
     None \<Rightarrow> throwJ (HttpError 400 ''nonce_required'' ''X-Request-Nonce header is required for this operation'')
   | Some n \<Rightarrow> bindJ (rs_claim store now n actor ttlMs) (\<lambda>first.
       if \<not> first then throwJ (HttpError 409 ''replay_detected'' ''nonce already used (possible replay)'') else retJ ()))"

section \<open>Metrics\<close>

record metrics =
  mt_counters :: "(string \<times> int) list"
  mt_labelSets :: "(string \<times> (string \<times> int) list) list"

definition count_get :: "string \<Rightarrow> (string \<times> int) list \<Rightarrow> int" where
  "count_get k kvs = (case map_of kvs k of None \<Rightarrow> 0 | Some n \<Rightarrow> n)"

definition metrics_incr :: "string \<Rightarrow> int \<Rightarrow> metrics \<Rightarrow> metrics" where
  "metrics_incr name by_n m = m\<lparr>mt_counters := map_set fst (name, count_get name (mt_counters m) + by_n) (mt_counters m)\<rparr>"

definition label_key :: "(string \<times> string) list \<Rightarrow> string" where
  "label_key labels = js_join '','' (map (\<lambda>(k, v). k @ ''='' @ [CHR 0x22] @ v @ [CHR 0x22])
     (sort_key (\<lambda>kv. collation_key (fst kv)) labels))"

definition metrics_incrLabeled :: "string \<Rightarrow> (string \<times> string) list \<Rightarrow> int \<Rightarrow> metrics \<Rightarrow> metrics" where
  "metrics_incrLabeled name labels by_n m =
     (let key = label_key labels; old = (case map_of (mt_labelSets m) name of None \<Rightarrow> [] | Some x \<Rightarrow> x) in
      m\<lparr>mt_labelSets := map_set fst (name, map_set fst (key, count_get key old + by_n) old) (mt_labelSets m)\<rparr>)"

definition metrics_render :: "metrics \<Rightarrow> string" where
  "metrics_render m = js_join [CHR 0x0A]
     (concat (map (\<lambda>(name, v). [''# TYPE '' @ name @ '' counter'', name @ '' '' @ int_string v]) (mt_counters m)) @
      concat (map (\<lambda>(name, kvs). (''# TYPE '' @ name @ '' counter'') #
        map (\<lambda>(labels, v). name @ [CHR 0x7B] @ labels @ [CHR 0x7D] @ '' '' @ int_string v) kvs) (mt_labelSets m))) @ [CHR 0x0A]"

section \<open>Router\<close>

record http_request =
  rq_method :: string
  rq_url :: string
  rq_headers :: "(string \<times> string) list"
  rq_chunks :: "string list"

record http_response =
  rp_status :: nat
  rp_headers :: "(string \<times> string) list"
  rp_body :: string

record rest_ctx =
  cx_headers :: "(string \<times> string) list"
  cx_claims :: api_claims
  cx_body :: json
  cx_params :: "(string \<times> string) list"
  cx_query :: "(string \<times> string) list"

datatype 's rest_handler =
    JsonHandler "rest_ctx \<Rightarrow> ('s, json) js"
  | RawHandler "rest_ctx \<Rightarrow> ('s, string \<times> string) js"

record route_options =
  op_idempotent :: bool
  op_rateLimit :: "rate_limit_rule option"
  op_public :: bool
  op_replayProtected :: bool

definition default_options :: route_options where
  "default_options = \<lparr>op_idempotent = False, op_rateLimit = None, op_public = False, op_replayProtected = False\<rparr>"

record 's rest_route =
  ro_method :: string
  ro_path :: string
  ro_roles :: "string list"
  ro_handler :: "'s rest_handler"
  ro_options :: route_options

definition DEFAULT_RATE_LIMIT :: rate_limit_rule where
  "DEFAULT_RATE_LIMIT = \<lparr>rl_limit = 60, rl_windowMs = 60000\<rparr>"

text \<open>
  The route table of a router grows by \<open>add\<close>.  A pattern is matched segment by
  segment: a segment \<open>:key\<close> matches any non-empty segment, as the regular
  expression \<open>add\<close> builds does for paths without special characters.
\<close>

definition router_add :: "string \<Rightarrow> string \<Rightarrow> string list \<Rightarrow> 's rest_handler \<Rightarrow> route_options \<Rightarrow> 's rest_route list \<Rightarrow> 's rest_route list" where
  "router_add m path roles handler options routes =
     routes @ [\<lparr>ro_method = m, ro_path = path, ro_roles = roles, ro_handler = handler, ro_options = options\<rparr>]"

fun match_segments :: "string list \<Rightarrow> string list \<Rightarrow> (string \<times> string) list option" where
  "match_segments [] [] = Some []"
| "match_segments (p # ps) (x # xs) =
     (if starts_with p '':'' \<and> 1 < length p
      then (if x = [] then None else map_option (\<lambda>r. (drop 1 p, x) # r) (match_segments ps xs))
      else if p = x then match_segments ps xs else None)"
| "match_segments _ _ = None"

definition route_match :: "string \<Rightarrow> string \<Rightarrow> 's rest_route \<Rightarrow> bool" where
  "route_match m path r \<longleftrightarrow> ro_method r = m \<and> match_segments (split_on (CHR ''/'') (ro_path r)) (split_on (CHR ''/'') path) \<noteq> None"

fun percent_decode :: "string \<Rightarrow> string option" where
  "percent_decode [] = Some []"
| "percent_decode (c # r) =
     (if c = CHR 0x25 then (case r of
          a # b # q \<Rightarrow> if is_hex a \<and> is_hex b \<and> hex_val [a, b] < 128
            then map_option (\<lambda>t. char_of (hex_val [a, b]) # t) (percent_decode q) else None
        | _ \<Rightarrow> None)
      else map_option (\<lambda>t. c # t) (percent_decode r))"

fun form_decode :: "string \<Rightarrow> string" where
  "form_decode [] = []"
| "form_decode (c # r) =
     (if c = CHR ''+'' then CHR '' '' # form_decode r
      else if c = CHR 0x25 then (case r of
          a # b # q \<Rightarrow> if is_hex a \<and> is_hex b then char_of (hex_val [a, b]) # form_decode q else c # form_decode r
        | _ \<Rightarrow> c # form_decode r)
      else c # form_decode r)"

definition search_params :: "string \<Rightarrow> (string \<times> string) list" where
  "search_params raw = map (\<lambda>pair. (form_decode (takeWhile (\<lambda>c. c \<noteq> CHR ''='') pair),
       form_decode (drop 1 (dropWhile (\<lambda>c. c \<noteq> CHR ''='') pair))))
     (filter (\<lambda>p. p \<noteq> []) (split_on (CHR ''&'') raw))"

primrec decode_params :: "(string \<times> string) list \<Rightarrow> js_error + (string \<times> string) list" where
  "decode_params [] = Inr []"
| "decode_params (kv # r) = (case percent_decode (snd kv) of
     None \<Rightarrow> Inl (JsError ''URI malformed'')
   | Some v \<Rightarrow> (case decode_params r of Inl e \<Rightarrow> Inl e | Inr rest \<Rightarrow> Inr ((fst kv, v) # rest)))"

definition cors_headers :: "http_request \<Rightarrow> (string \<times> string) list" where
  "cors_headers req = (case truthy (map_of (rq_headers req) ''origin'') of None \<Rightarrow> []
   | Some origin \<Rightarrow> [(''Access-Control-Allow-Origin'', origin),
       (''Access-Control-Allow-Methods'', ''GET,POST,PUT,DELETE,OPTIONS''),
       (''Access-Control-Allow-Headers'', ''authorization,content-type,idempotency-key,x-request-nonce''),
       (''Access-Control-Max-Age'', ''600''), (''Vary'', ''Origin'')])"

fun read_chunks :: "nat \<Rightarrow> string list \<Rightarrow> js_error + string list" where
  "read_chunks sofar [] = Inr []"
| "read_chunks sofar (b # bs) =
     (if 1000000 < sofar + length b then Inl (HttpError 413 ''body_too_large'' ''body too large'')
      else (case read_chunks (sofar + length b) bs of Inl e \<Rightarrow> Inl e | Inr r \<Rightarrow> Inr (b # r)))"

definition readJson :: "http_request \<Rightarrow> js_error + json" where
  "readJson req = (if rq_method req \<in> {''GET'', ''HEAD''} then Inr (JObj []) else
     (case read_chunks 0 (rq_chunks req) of Inl e \<Rightarrow> Inl e
      | Inr chunks \<Rightarrow> if chunks = [] then Inr (JObj [])
          else if \<not> str_includes (case map_of (rq_headers req) ''content-type'' of None \<Rightarrow> [] | Some t \<Rightarrow> t) ''application/json''
          then Inl (HttpError 415 ''unsupported_media'' ''application/json required'')
          else (case json_parse (concat chunks) of None \<Rightarrow> Inl (HttpError 400 ''invalid_json'' ''invalid JSON'') | Some v \<Rightarrow> Inr v)))"

definition rest_respond :: "nat \<Rightarrow> json \<Rightarrow> (string \<times> string) list \<Rightarrow> http_response" where
  "rest_respond status v extra = \<lparr>rp_status = status,
     rp_headers = [(''content-type'', ''application/json; charset=utf-8''), (''cache-control'', ''no-store''),
       (''x-content-type-options'', ''nosniff''), (''x-frame-options'', ''DENY''), (''referrer-policy'', ''no-referrer''),
       (''content-security-policy'', ''default-src '' @ [CHR 0x27] @ ''none'' @ [CHR 0x27])] @ extra,
     rp_body = json_stringify v\<rparr>"

text \<open>The state of a router: its limiter, the metrics, the headers set on the response so far, and the application.\<close>

record 's rest_state =
  rst_hits :: hits
  rst_metrics :: metrics
  rst_retryAfter :: "string option"
  rst_app :: 's

record 's rest_config =
  rc_hmac :: "string \<Rightarrow> string \<Rightarrow> string"
  rc_sha256 :: "string \<Rightarrow> string"
  rc_secret :: string
  rc_idempotency :: "'s idem_store"
  rc_replay :: "'s replay_store"
  rc_exposeMetrics :: bool

definition on_app :: "('s, 'a) js \<Rightarrow> ('s rest_state, 'a) js" where
  "on_app m = (\<lambda>t. case m (rst_app t) of (r, a) \<Rightarrow> (r, t\<lparr>rst_app := a\<rparr>))"

definition pureJ :: "js_error + 'a \<Rightarrow> ('s, 'a) js" where
  "pureJ r = (\<lambda>s. (r, s))"

definition limit_step :: "millis \<Rightarrow> string \<Rightarrow> rate_limit_rule \<Rightarrow> ('s rest_state, unit) js" where
  "limit_step now key rule = (\<lambda>t. case rate_check key rule now (rst_hits t) of ((allowed, _, resetAt), h) \<Rightarrow>
     if allowed then (Inr (), t\<lparr>rst_hits := h\<rparr>)
     else (Inl (HttpError 429 ''rate_limited'' ''rate limit exceeded''), t\<lparr>rst_hits := h, rst_retryAfter :=
       Some (case resetAt of None \<Rightarrow> ''NaN'' | Some r \<Rightarrow> int_string (- ((now - r) div 1000)))\<rparr>))"

definition run_route :: "'s rest_config \<Rightarrow> uuid \<Rightarrow> millis \<Rightarrow> http_request \<Rightarrow> (string \<times> string) list \<Rightarrow> string \<Rightarrow>
    (string \<times> string) list \<Rightarrow> 's rest_route \<Rightarrow> ('s rest_state, http_response) js" where
  "run_route C requestId now req cors path query route =
     (let options = ro_options route in
      bindJ (pureJ (case match_segments (split_on (CHR ''/'') (ro_path route)) (split_on (CHR ''/'') path) of
        None \<Rightarrow> Inr [] | Some kvs \<Rightarrow> decode_params kvs)) (\<lambda>params.
      bindJ (if op_public options then retJ \<lparr>cl_sub = ''anonymous'', cl_roles = []\<rparr>
             else pureJ (guard_verify (rc_hmac C) (rc_secret C) now (ro_roles route) (map_of (rq_headers req) ''authorization''))) (\<lambda>claims.
      bindJ (limit_step now (cl_sub claims @ '':'' @ ro_method route @ '':'' @ path)
          (case op_rateLimit options of None \<Rightarrow> DEFAULT_RATE_LIMIT | Some r \<Rightarrow> r)) (\<lambda>_.
      bindJ (if op_replayProtected options
             then on_app (enforceReplayNonce (rc_replay C) now (map_of (rq_headers req) ''x-request-nonce'') (cl_sub claims) 300000)
             else retJ ()) (\<lambda>_.
      bindJ (pureJ (readJson req)) (\<lambda>body.
      let ctx = \<lparr>cx_headers = rq_headers req, cx_claims = claims, cx_body = body, cx_params = params, cx_query = query\<rparr> in
      (case ro_handler route of
         RawHandler h \<Rightarrow> bindJ (on_app (h ctx)) (\<lambda>(contentType, raw).
           retJ \<lparr>rp_status = 200, rp_headers = [(''content-type'', contentType), (''cache-control'', ''no-store'')] @ cors, rp_body = raw\<rparr>)
       | JsonHandler h \<Rightarrow>
           let run = bindJ (h ctx) (\<lambda>data. retJ \<lparr>sp_status = 200,
                 sp_body = JObj [(''requestId'', JStr requestId), (''data'', data)]\<rparr>) in
           bindJ (on_app (if op_idempotent options
               then withIdempotency (rc_sha256 C) (rc_idempotency C) now (map_of (rq_headers req) ''idempotency-key'')
                      (cl_sub claims) body 86400000 run
               else run)) (\<lambda>result. retJ (rest_respond (sp_status result) (sp_body result) cors)))))))))"

definition rest_error :: "uuid \<Rightarrow> (string \<times> string) list \<Rightarrow> js_error \<Rightarrow> ('s rest_state, http_response) js" where
  "rest_error requestId cors e = (case asHttpError e of (status, code, message) \<Rightarrow>
     bindJ (modifyJ (\<lambda>t. t\<lparr>rst_metrics := metrics_incrLabeled ''bapc_http_errors_total''
         [(''code'', code), (''status'', dec status)] 1 (rst_metrics t)\<rparr>)) (\<lambda>_.
     bindJ (getJ rst_retryAfter) (\<lambda>retry.
     retJ (rest_respond status (JObj [(''requestId'', JStr requestId),
       (''error'', JObj [(''code'', JStr code), (''message'', JStr message)])])
       (cors @ (case retry of None \<Rightarrow> [] | Some v \<Rightarrow> [(''Retry-After'', v)]))))))"

definition rest_handle :: "'s rest_config \<Rightarrow> 's rest_route list \<Rightarrow> uuid \<Rightarrow> millis \<Rightarrow> http_request \<Rightarrow> ('s rest_state, http_response) js" where
  "rest_handle C routes requestId now req =
     (let cors = cors_headers req in
      if rq_method req = ''OPTIONS'' then retJ \<lparr>rp_status = 204, rp_headers = cors, rp_body = []\<rparr>
      else if rq_url req = ''/healthz'' then retJ (rest_respond 200 (JObj [(''status'', JStr ''ok''), (''requestId'', JStr requestId)]) cors)
      else if rc_exposeMetrics C \<and> rq_url req = ''/metrics'' then getJ (\<lambda>t. \<lparr>rp_status = 200,
        rp_headers = (''content-type'', ''text/plain; version=0.0.4'') # cors, rp_body = metrics_render (rst_metrics t)\<rparr>)
      else let parts = split_on (CHR ''?'') (rq_url req); path = hd parts;
               query = search_params (case nth_opt 1 parts of None \<Rightarrow> [] | Some q \<Rightarrow> q);
               route = find (route_match (rq_method req) path) routes in
        bindJ (modifyJ (\<lambda>t. t\<lparr>rst_retryAfter := None, rst_metrics := metrics_incrLabeled ''bapc_http_requests_total''
            [(''method'', rq_method req), (''path'', if route \<noteq> None then path else ''unmatched'')] 1 (rst_metrics t)\<rparr>)) (\<lambda>_.
        catchJ (case route of None \<Rightarrow> throwJ (HttpError 404 ''not_found'' ''route not found'')
          | Some r \<Rightarrow> run_route C requestId now req cors path query r)
          (rest_error requestId cors)))"

section \<open>Rate limiting\<close>

text \<open>The events of a limiter: a check with its rule, and the periodic sweep.\<close>

datatype rate_event = Check string rate_limit_rule millis | Sweep millis

fun event_time :: "rate_event \<Rightarrow> millis" where
  "event_time (Check k r t) = t"
| "event_time (Sweep t) = t"

text \<open>The times at which \<open>key\<close> is let through, from the limiter state \<open>h\<close>.\<close>

fun admitted :: "string \<Rightarrow> rate_event list \<Rightarrow> hits \<Rightarrow> millis list" where
  "admitted key [] h = []"
| "admitted key (Sweep t # es) h = admitted key es (rate_sweep t h)"
| "admitted key (Check k r t # es) h =
     (if k = key \<and> fst (fst (rate_check k r t h)) then [t] else []) @ admitted key es (snd (rate_check k r t h))"

text \<open>Every check of \<open>key\<close> uses \<open>rule\<close>, as one route always passes the same one.\<close>

definition one_rule :: "string \<Rightarrow> rate_limit_rule \<Rightarrow> rate_event list \<Rightarrow> bool" where
  "one_rule key rule es \<longleftrightarrow> list_all (\<lambda>e. case e of Check k r _ \<Rightarrow> k = key \<longrightarrow> r = rule | Sweep _ \<Rightarrow> True) es"

lemma hits_map_set [simp]: "hits_get k (map_set fst (k', ts) h) = (if k = k' then ts else hits_get k h)"
  by (simp add: hits_get_def map_of_find_by find_by_map_set)

lemma hits_sweep: "distinct (map fst h) \<Longrightarrow> hits_get k (rate_sweep t h) = filter (\<lambda>x. t - 3600000 < x) (hits_get k h)"
proof (induction h)
  case (Cons e h)
  obtain k' ts where e: "e = (k', ts)" by (cases e)
  have "map_of (rate_sweep t h) k' = None" using Cons.prems e
    by (auto simp: rate_sweep_def map_of_eq_None_iff split_def image_iff)
  thus ?case using Cons e by (auto simp: hits_get_def rate_sweep_def split_def)
qed (simp add: hits_get_def rate_sweep_def)

lemma sweep_distinct: "distinct (map fst h) \<Longrightarrow> distinct (map fst (rate_sweep t h))"
  by (simp add: rate_sweep_def distinct_map_filter split_def comp_def)

lemma check_distinct: "distinct (map fst h) \<Longrightarrow> distinct (map fst (snd (rate_check k r t h)))"
  by (simp add: rate_check_def Let_def upsert_distinct)

definition in_window :: "rate_limit_rule \<Rightarrow> millis \<Rightarrow> millis list \<Rightarrow> millis list" where
  "in_window rule T ts = filter (\<lambda>t. T - rl_windowMs rule < t \<and> t \<le> T) ts"

text \<open>What relates the limiter to the admissions \<open>acc\<close> so far, at time \<open>l\<close>.\<close>

definition tracks :: "string \<Rightarrow> rate_limit_rule \<Rightarrow> millis \<Rightarrow> millis list \<Rightarrow> hits \<Rightarrow> bool" where
  "tracks key rule l acc h \<longleftrightarrow> distinct (map fst h) \<and> (\<forall>t \<in> set acc. t \<le> l) \<and>
     filter (\<lambda>t. l - rl_windowMs rule < t) (hits_get key h) = filter (\<lambda>t. l - rl_windowMs rule < t) acc \<and>
     (\<forall>T. length (in_window rule T acc) \<le> rl_limit rule)"

lemma filter_later: "l \<le> (m::int) \<Longrightarrow> filter (\<lambda>t. l - w < t) xs = filter (\<lambda>t. l - w < t) ys \<Longrightarrow>
    filter (\<lambda>t. m - w < t) xs = filter (\<lambda>t. m - w < t) ys"
proof -
  assume a: "l \<le> m" and eq: "filter (\<lambda>t. l - w < t) xs = filter (\<lambda>t. l - w < t) ys"
  have "filter (\<lambda>t. m - w < t) zs = filter (\<lambda>t. m - w < t) (filter (\<lambda>t. l - w < t) zs)" for zs
    using a by (induction zs) auto
  thus ?thesis using eq by metis
qed

lemma tracks_later: "tracks key rule l acc h \<Longrightarrow> l \<le> m \<Longrightarrow> tracks key rule m acc h"
  using filter_later [of l m "rl_windowMs rule" "hits_get key h" acc] by (fastforce simp: tracks_def)

lemma tracks_sweep:
  assumes "tracks key rule l acc h" "l \<le> m" "rl_windowMs rule \<le> 3600000"
  shows "tracks key rule m acc (rate_sweep m h)"
proof -
  have t: "tracks key rule m acc h" by (rule tracks_later [OF assms(1,2)])
  have "filter (\<lambda>t. m - rl_windowMs rule < t) (filter (\<lambda>t. m - 3600000 < t) xs) = filter (\<lambda>t. m - rl_windowMs rule < t) xs" for xs
    using assms(3) by (induction xs) auto
  thus ?thesis using t by (simp add: tracks_def hits_sweep sweep_distinct)
qed

lemma tracks_other: "tracks key rule m acc h \<Longrightarrow> k \<noteq> key \<Longrightarrow> tracks key rule m acc (snd (rate_check k r m h))"
  by (simp add: tracks_def check_distinct) (simp add: rate_check_def Let_def)

lemma tracks_check:
  assumes "tracks key rule m acc h"
  shows "tracks key rule m (acc @ (if fst (fst (rate_check key rule m h)) then [m] else [])) (snd (rate_check key rule m h))"
proof -
  let ?ex = "filter (\<lambda>t. m - rl_windowMs rule < t) acc"
  have ex: "filter (\<lambda>t. m - rl_windowMs rule < t) (hits_get key h) = ?ex" using assms by (simp add: tracks_def)
  have le: "length (in_window rule T acc) \<le> length ?ex" if "m \<le> T" for T
    unfolding in_window_def using that by (induction acc) auto
  have bound: "length (in_window rule T (acc @ [m])) \<le> rl_limit rule" if "\<not> rl_limit rule \<le> length ?ex" for T
  proof (cases "m \<le> T")
    case True
    have "length (in_window rule T (acc @ [m])) \<le> Suc (length (in_window rule T acc))" by (simp add: in_window_def)
    thus ?thesis using le [OF True] that by linarith
  next
    case False
    hence "in_window rule T (acc @ [m]) = in_window rule T acc" by (simp add: in_window_def)
    thus ?thesis using assms by (simp add: tracks_def)
  qed
  show ?thesis
  proof (cases "rl_limit rule \<le> length ?ex")
    case True
    hence "rate_check key rule m h = ((False, 0, case ?ex of [] \<Rightarrow> None | t # _ \<Rightarrow> Some (t + rl_windowMs rule)), map_set fst (key, ?ex) h)"
      by (simp add: rate_check_def ex Let_def)
    thus ?thesis using assms by (simp add: tracks_def upsert_distinct)
  next
    case False
    hence "rate_check key rule m h = ((True, rl_limit rule - Suc (length ?ex), Some (m + rl_windowMs rule)), map_set fst (key, ?ex @ [m]) h)"
      by (simp add: rate_check_def ex Let_def)
    thus ?thesis using assms bound [OF False] by (simp add: tracks_def upsert_distinct)
  qed
qed

lemma admitted_tracks:
  assumes "tracks key rule l acc h" "sorted (l # map event_time es)" "one_rule key rule es" "rl_windowMs rule \<le> 3600000"
  shows "length (in_window rule T (acc @ admitted key es h)) \<le> rl_limit rule"
  using assms(1-3)
proof (induction es arbitrary: l acc h)
  case Nil
  thus ?case by (simp add: tracks_def)
next
  case (Cons e es)
  have m: "l \<le> event_time e" "sorted (event_time e # map event_time es)" "one_rule key rule es"
    using Cons.prems(2,3) by (auto simp: one_rule_def)
  have t: "tracks key rule (event_time e) acc h" by (rule tracks_later [OF Cons.prems(1) m(1)])
  show ?case
  proof (cases e)
    case (Sweep u)
    thus ?thesis using Cons.IH [OF tracks_sweep [OF Cons.prems(1) m(1) assms(4)] m(2,3)] by simp
  next
    case e: (Check k r u)
    show ?thesis
    proof (cases "k = key")
      case True
      hence "r = rule" using Cons.prems(3) e by (simp add: one_rule_def)
      thus ?thesis using Cons.IH [OF tracks_check [OF t] m(2,3)] e True by (simp split: if_splits)
    next
      case False
      thus ?thesis using Cons.IH [OF tracks_other [OF t False] m(2,3), of r] e by simp
    qed
  qed
qed

text \<open>
  C7. Rate limiting: whatever the order of checks of all keys and of sweeps, as long as time does not run
  backwards, a key is let through at most \<open>limit\<close> times in every interval of \<open>windowMs\<close> milliseconds.
\<close>

theorem rate_limit_bound:
  assumes "sorted (map event_time es)" "one_rule key rule es" "rl_windowMs rule \<le> 3600000"
  shows "length (in_window rule T (admitted key es [])) \<le> rl_limit rule"
proof (cases es)
  case (Cons e es')
  have "tracks key rule (event_time e) [] []" by (simp add: tracks_def hits_get_def in_window_def)
  thus ?thesis using admitted_tracks [of key rule "event_time e" "[]" "[]" es T] assms Cons by simp
qed (simp add: in_window_def)

theorem rate_limit_bound_witness:
  "length (in_window \<lparr>rl_limit = 2, rl_windowMs = 100\<rparr> 20 (admitted ''k'' [Check ''k'' \<lparr>rl_limit = 2, rl_windowMs = 100\<rparr> 1,
     Check ''k'' \<lparr>rl_limit = 2, rl_windowMs = 100\<rparr> 5, Sweep 6, Check ''k'' \<lparr>rl_limit = 2, rl_windowMs = 100\<rparr> 9] [])) \<le> 2"
  using rate_limit_bound [of "[Check ''k'' \<lparr>rl_limit = 2, rl_windowMs = 100\<rparr> 1,
     Check ''k'' \<lparr>rl_limit = 2, rl_windowMs = 100\<rparr> 5, Sweep 6, Check ''k'' \<lparr>rl_limit = 2, rl_windowMs = 100\<rparr> 9]" "''k''"
     "\<lparr>rl_limit = 2, rl_windowMs = 100\<rparr>" 20] by (simp add: one_rule_def del: admitted.simps)

section \<open>Replay protection\<close>

text \<open>The state after a sequence of claims, given as time, nonce, actor and lifetime.\<close>

primrec nonce_claims :: "(millis \<Rightarrow> string \<Rightarrow> string \<Rightarrow> int \<Rightarrow> ('s, bool) js) \<Rightarrow> (millis \<times> string \<times> string \<times> int) list \<Rightarrow> 's \<Rightarrow> 's" where
  "nonce_claims claim [] s = s"
| "nonce_claims claim (c # cs) s = nonce_claims claim cs (snd (claim (fst c) (fst (snd c)) (fst (snd (snd c))) (snd (snd (snd c))) s))"

text \<open>
  What a nonce store promises: \<open>live s n e\<close> says that \<open>n\<close> is taken until time \<open>e\<close>.
  The first claim takes the nonce for its lifetime, a claim of a live nonce is
  refused, and no claim releases one.
\<close>

locale nonce_store =
  fixes claim :: "millis \<Rightarrow> string \<Rightarrow> string \<Rightarrow> int \<Rightarrow> ('s, bool) js"
    and live :: "'s \<Rightarrow> string \<Rightarrow> millis \<Rightarrow> bool"
  assumes claim_total: "\<exists>b s'. claim now n actor ttl s = (Inr b, s')"
    and claim_first: "claim now n actor ttl s = (Inr True, s') \<Longrightarrow> live s' n (now + ttl)"
    and claim_live: "live s n e \<Longrightarrow> now < e \<Longrightarrow> claim now n actor ttl s = (Inr False, s)"
    and claim_keeps: "live s n e \<Longrightarrow> now < e \<Longrightarrow> live (snd (claim now m actor ttl s)) n e"
begin

lemma claims_keep: "live s n e \<Longrightarrow> list_all (\<lambda>c. fst c < e) cs \<Longrightarrow> live (nonce_claims claim cs s) n e"
  by (induction cs arbitrary: s) (simp_all add: claim_keeps)

lemma enforce_claims:
  "enforceReplayNonce \<lparr>rs_claim = claim\<rparr> now (Some n) actor ttl s = (Inr (), s') \<longleftrightarrow> n \<noteq> [] \<and> claim now n actor ttl s = (Inr True, s')"
  using claim_total [of now n actor ttl s] by (auto simp: enforceReplayNonce_def truthy_def bindJ_def split: if_splits)

lemma claimed_once:
  assumes "claim t n actor ttl s = (Inr True, s')" "list_all (\<lambda>c. fst c < t + ttl) cs" "now < t + ttl"
  shows "claim now n actor' ttl' (nonce_claims claim cs s') = (Inr False, nonce_claims claim cs s')"
  using claim_live [OF claims_keep [OF claim_first [OF assms(1)] assms(2)] assms(3)] .

lemma enforced_once:
  assumes "enforceReplayNonce \<lparr>rs_claim = claim\<rparr> t (Some n) actor ttl s = (Inr (), s')" "list_all (\<lambda>c. fst c < t + ttl) cs" "now < t + ttl"
  shows "enforceReplayNonce \<lparr>rs_claim = claim\<rparr> now (Some n) actor' ttl' (nonce_claims claim cs s') =
    (Inl (HttpError 409 ''replay_detected'' ''nonce already used (possible replay)''), nonce_claims claim cs s')"
  using assms claimed_once [of t n actor ttl s s' cs now actor' ttl'] unfolding enforce_claims
  by (simp add: enforceReplayNonce_def truthy_def bindJ_def)

end

definition nonce_live :: "nonce_row list \<Rightarrow> string \<Rightarrow> millis \<Rightarrow> bool" where
  "nonce_live rows n e \<longleftrightarrow> (case find_by nn_nonce n rows of None \<Rightarrow> False | Some r \<Rightarrow> e \<le> nn_expiresAt r)"

interpretation mem_nonces: nonce_store mem_claim nonce_live
proof unfold_locales
  fix now n actor ttl s
  show "\<exists>b s'. mem_claim now n actor ttl s = (Inr b, s')" by (auto simp: mem_claim_def split: option.splits)
next
  fix now n actor ttl s s' assume "mem_claim now n actor ttl s = (Inr True, s')"
  hence "s' = map_set nn_nonce \<lparr>nn_nonce = n, nn_expiresAt = now + ttl\<rparr> s"
    by (auto simp: mem_claim_def split: option.splits if_splits)
  thus "nonce_live s' n (now + ttl)" by (simp add: nonce_live_def find_by_map_set)
next
  fix now n actor ttl s e assume "nonce_live s n e" "now < e"
  thus "mem_claim now n actor ttl s = (Inr False, s)" by (auto simp: nonce_live_def mem_claim_def split: option.splits)
next
  fix now m actor ttl s n e assume l: "nonce_live s n e" "now < e"
  show "nonce_live (snd (mem_claim now m actor ttl s)) n e"
  proof (cases "m = n")
    case True
    thus ?thesis using l by (auto simp: nonce_live_def mem_claim_def split: option.splits)
  qed (use l in \<open>auto simp: nonce_live_def mem_claim_def find_by_map_set split: option.splits\<close>)
qed

interpretation pg_nonces: nonce_store pg_claim nonce_live
proof unfold_locales
  fix now n actor ttl s
  show "\<exists>b s'. pg_claim now n actor ttl s = (Inr b, s')"
    by (cases "n \<in> nn_nonce ` set s") (auto simp: pg_claim_def)
next
  fix now n actor ttl s s' assume a: "pg_claim now n actor ttl s = (Inr True, s')"
  hence "find_by nn_nonce n s = None" by (simp add: pg_claim_def find_by_None split: if_splits)
  thus "nonce_live s' n (now + ttl)" using a
    by (auto simp: pg_claim_def nonce_live_def find_by_append split: if_splits) (simp add: find_by_def)
next
  fix now n actor ttl s e assume "nonce_live s n e" "now < e"
  hence "n \<in> nn_nonce ` set s" using find_by_None [of nn_nonce n s] by (auto simp: nonce_live_def split: option.splits)
  thus "pg_claim now n actor ttl s = (Inr False, s)" by (simp add: pg_claim_def)
next
  fix now m actor ttl s n e assume "nonce_live s n e" "now < e"
  thus "nonce_live (snd (pg_claim now m actor ttl s)) n e"
    by (auto simp: nonce_live_def pg_claim_def find_by_append split: option.splits)
qed

text \<open>
  C19. Replay protection: once a request with a nonce has passed, every further request with that nonce is refused
  with \<open>replay_detected\<close> and leaves the store as it is, whatever other nonces are claimed in between, until the
  lifetime of the nonce is over; for the in-memory store and for the Postgres store.
\<close>

theorem nonce_used_once:
  assumes "claim \<in> {mem_claim, pg_claim}" "enforceReplayNonce \<lparr>rs_claim = claim\<rparr> t (Some n) actor ttl s = (Inr (), s')"
    and "list_all (\<lambda>c. fst c < t + ttl) cs" "now < t + ttl"
  shows "enforceReplayNonce \<lparr>rs_claim = claim\<rparr> now (Some n) actor' ttl' (nonce_claims claim cs s') =
    (Inl (HttpError 409 ''replay_detected'' ''nonce already used (possible replay)''), nonce_claims claim cs s')"
proof -
  consider "claim = mem_claim" | "claim = pg_claim" using assms(1) by blast
  thus ?thesis
  proof cases
    case 1
    show ?thesis unfolding 1 by (rule mem_nonces.enforced_once) (use assms(2-4) 1 in simp_all)
  next
    case 2
    show ?thesis unfolding 2 by (rule pg_nonces.enforced_once) (use assms(2-4) 2 in simp_all)
  qed
qed

theorem nonce_used_once_witness:
  "enforceReplayNonce \<lparr>rs_claim = pg_claim\<rparr> 20 (Some ''n'') ''eve'' 100 (nonce_claims pg_claim [(15, ''m'', ''bob'', 100)]
     [\<lparr>nn_nonce = ''n'', nn_expiresAt = 110\<rparr>]) =
   (Inl (HttpError 409 ''replay_detected'' ''nonce already used (possible replay)''),
    nonce_claims pg_claim [(15, ''m'', ''bob'', 100)] [\<lparr>nn_nonce = ''n'', nn_expiresAt = 110\<rparr>])"
proof -
  have "enforceReplayNonce \<lparr>rs_claim = pg_claim\<rparr> 10 (Some ''n'') ''bob'' 100 [] = (Inr (), [\<lparr>nn_nonce = ''n'', nn_expiresAt = 110\<rparr>])"
    by (simp add: enforceReplayNonce_def truthy_def bindJ_def pg_claim_def)
  from nonce_used_once [OF _ this, of "[(15, ''m'', ''bob'', 100)]" 20] show ?thesis by simp
qed

section \<open>Idempotent requests\<close>

text \<open>
  What a response store promises for a key it has no row for (\<open>fresh\<close>): reading
  it finds nothing, a write stores the response until its expiry, and reading it
  until then returns it unchanged.
\<close>

locale response_store =
  fixes S :: "'s idem_store" and fresh :: "'s \<Rightarrow> string \<Rightarrow> bool"
    and holds :: "'s \<Rightarrow> string \<Rightarrow> string \<Rightarrow> stored_response \<Rightarrow> millis \<Rightarrow> bool"
  assumes get_fresh: "fresh s k \<Longrightarrow> is_get S now k s = (Inr None, s)"
    and put_fresh: "fresh s k \<Longrightarrow> \<exists>s'. is_put S now k actor h r ttl s = (Inr (), s') \<and> holds s' k h r (now + ttl)"
    and get_held: "holds s k h r e \<Longrightarrow> now < e \<Longrightarrow> is_get S now k s = (Inr (Some (h, r)), s)"
begin

lemma first_call:
  assumes "fresh s k" "k \<noteq> []" "compute s = (Inr r, s1)" "fresh s1 k"
  shows "\<exists>s'. withIdempotency sha256 S now (Some k) actor body ttl compute s = (Inr r, s') \<and>
    holds s' k (hashRequestBody sha256 body) r (now + ttl)"
proof -
  obtain s' where "is_put S now k actor (hashRequestBody sha256 body) r ttl s1 = (Inr (), s')"
    "holds s' k (hashRequestBody sha256 body) r (now + ttl)" using put_fresh [OF assms(4)] by blast
  thus ?thesis using assms get_fresh [OF assms(1), of now] by (simp add: withIdempotency_def truthy_def bindJ_def Let_def)
qed

lemma repeated_call:
  assumes "holds s k (hashRequestBody sha256 body) r e" "now < e" "k \<noteq> []"
  shows "withIdempotency sha256 S now (Some k) actor body ttl compute s = (Inr r, s)"
  using get_held [OF assms(1,2)] assms(3) by (simp add: withIdempotency_def truthy_def bindJ_def Let_def)

lemma conflicting_call:
  assumes "holds s k (hashRequestBody sha256 body) r e" "now < e" "k \<noteq> []" "hashRequestBody sha256 body' \<noteq> hashRequestBody sha256 body"
  shows "withIdempotency sha256 S now (Some k) actor body' ttl compute s =
    (Inl (HttpError 409 ''idempotency_conflict'' ''idempotency key reused with a different request body''), s)"
  using get_held [OF assms(1,2)] assms(3,4) by (simp add: withIdempotency_def truthy_def bindJ_def Let_def)

lemma replayed:
  assumes "k \<noteq> []" "fresh s k" "compute s = (Inr r, s1)" "fresh s1 k" "later < now + ttl"
    and "hashRequestBody sha256 body' \<noteq> hashRequestBody sha256 body"
  shows "\<exists>s'. withIdempotency sha256 S now (Some k) actor body ttl compute s = (Inr r, s') \<and>
    withIdempotency sha256 S later (Some k) actor' body ttl' compute' s' = (Inr r, s') \<and>
    withIdempotency sha256 S later (Some k) actor' body' ttl' compute' s' =
      (Inl (HttpError 409 ''idempotency_conflict'' ''idempotency key reused with a different request body''), s')"
proof -
  obtain s' where "withIdempotency sha256 S now (Some k) actor body ttl compute s = (Inr r, s')"
    and h: "holds s' k (hashRequestBody sha256 body) r (now + ttl)"
    using first_call [of s k compute r s1 sha256 now actor body ttl] assms(1-4) by blast
  thus ?thesis using repeated_call [OF h assms(5,1)] conflicting_call [OF h assms(5,1,6)] by blast
qed

end

definition no_row :: "idem_row list \<Rightarrow> string \<Rightarrow> bool" where
  "no_row rows k \<longleftrightarrow> k \<notin> im_key ` set rows"

definition has_row :: "idem_row list \<Rightarrow> string \<Rightarrow> string \<Rightarrow> stored_response \<Rightarrow> millis \<Rightarrow> bool" where
  "has_row rows k h r e \<longleftrightarrow> find_by im_key k rows = Some \<lparr>im_key = k, im_requestHash = h, im_response = r, im_expiresAt = e\<rparr>"

interpretation mem_responses: response_store mem_idem no_row has_row
proof unfold_locales
  fix s k now assume "no_row s k"
  thus "is_get mem_idem now k s = (Inr None, s)" by (simp add: mem_idem_def mem_idem_get_def no_row_def find_by_None [THEN iffD2])
next
  fix s k now actor h r ttl
  show "\<exists>s'. is_put mem_idem now k actor h r ttl s = (Inr (), s') \<and> has_row s' k h r (now + ttl)"
    by (simp add: mem_idem_def mem_idem_put_def has_row_def find_by_map_set)
next
  fix s k h r e and now :: millis assume "has_row s k h r e" "now < e"
  thus "is_get mem_idem now k s = (Inr (Some (h, r)), s)" by (simp add: mem_idem_def mem_idem_get_def has_row_def row_result_def)
qed

lemma find_key_live:
  assumes "find_by im_key k rows = Some r" "now < im_expiresAt r"
  shows "find (\<lambda>r. im_key r = k \<and> now < im_expiresAt r) rows = Some r"
  using assms by (induction rows) (auto simp: find_by_def split: if_splits)

interpretation pg_responses: response_store pg_idem no_row has_row
proof unfold_locales
  fix s k and now :: millis assume "no_row s k"
  hence "find (\<lambda>r. im_key r = k \<and> now < im_expiresAt r) s = None" by (auto simp: no_row_def find_None_iff)
  thus "is_get pg_idem now k s = (Inr None, s)" by (simp add: pg_idem_def pg_idem_get_def row_result_def)
next
  fix s k now actor h r ttl assume "no_row s k"
  thus "\<exists>s'. is_put pg_idem now k actor h r ttl s = (Inr (), s') \<and> has_row s' k h r (now + ttl)"
    using find_by_None [of im_key k s] by (simp add: no_row_def pg_idem_def pg_idem_put_def has_row_def find_by_append) (simp add: find_by_def)
next
  fix s k h r e and now :: millis assume "has_row s k h r e" "now < e"
  thus "is_get pg_idem now k s = (Inr (Some (h, r)), s)"
    by (simp add: pg_idem_def pg_idem_get_def has_row_def row_result_def find_key_live)
qed

text \<open>
  C20. Idempotency: with an unused key the handler runs and its response is stored; a later request with the same
  key and body, before the stored response expires, gets that response and runs nothing, so the state does not
  change; one with a different body hash is refused with \<open>idempotency_conflict\<close>.  For both stores.
\<close>

theorem idempotent_replay:
  assumes "S \<in> {mem_idem, pg_idem}" "k \<noteq> []" "no_row s k" "compute s = (Inr r, s1)" "no_row s1 k" "later < now + ttl"
    and "hashRequestBody sha256 body' \<noteq> hashRequestBody sha256 body"
  shows "\<exists>s'. withIdempotency sha256 S now (Some k) actor body ttl compute s = (Inr r, s') \<and>
    withIdempotency sha256 S later (Some k) actor' body ttl' compute' s' = (Inr r, s') \<and>
    withIdempotency sha256 S later (Some k) actor' body' ttl' compute' s' =
      (Inl (HttpError 409 ''idempotency_conflict'' ''idempotency key reused with a different request body''), s')"
proof -
  consider "S = mem_idem" | "S = pg_idem" using assms(1) by blast
  thus ?thesis
  proof cases
    case 1
    show ?thesis unfolding 1 by (rule mem_responses.replayed [where compute = compute]) (rule assms)+
  next
    case 2
    show ?thesis unfolding 2 by (rule pg_responses.replayed [where compute = compute]) (rule assms)+
  qed
qed

theorem idempotent_replay_witness:
  "\<exists>s'. withIdempotency (\<lambda>x. x) pg_idem 0 (Some ''key'') ''bob'' (JNum 1) 100 (retJ \<lparr>sp_status = 200, sp_body = JNull\<rparr>) [] =
      (Inr \<lparr>sp_status = 200, sp_body = JNull\<rparr>, s') \<and>
    withIdempotency (\<lambda>x. x) pg_idem 50 (Some ''key'') ''bob'' (JNum 1) 100 (throwJ (JsError ''handler'')) s' =
      (Inr \<lparr>sp_status = 200, sp_body = JNull\<rparr>, s')"
proof -
  have "int_string 2 \<noteq> int_string 1" by simp
  hence "hashRequestBody (\<lambda>x. x) (JNum 2) \<noteq> hashRequestBody (\<lambda>x. x) (JNum 1)"
    by (simp add: hashRequestBody_def nullish_def del: int_string_inj)
  from idempotent_replay [OF _ _ _ _ _ _ this, of pg_idem "''key''" "[]" "retJ \<lparr>sp_status = 200, sp_body = JNull\<rparr>"
      "\<lparr>sp_status = 200, sp_body = JNull\<rparr>" "[]" 50 0 100 "''bob''" "''bob''" 100 "throwJ (JsError ''handler'')"]
  show ?thesis by (auto simp: no_row_def)
qed

section \<open>Authentication comes first\<close>

text \<open>The claims a route gives its handler, and whether the limiter lets the request through.\<close>

definition route_claims :: "'s rest_config \<Rightarrow> millis \<Rightarrow> http_request \<Rightarrow> 's rest_route \<Rightarrow> js_error + api_claims" where
  "route_claims C now req route = (if op_public (ro_options route) then Inr \<lparr>cl_sub = ''anonymous'', cl_roles = []\<rparr>
     else guard_verify (rc_hmac C) (rc_secret C) now (ro_roles route) (map_of (rq_headers req) ''authorization''))"

definition route_admits :: "millis \<Rightarrow> string \<Rightarrow> 's rest_route \<Rightarrow> api_claims \<Rightarrow> hits \<Rightarrow> bool" where
  "route_admits now path route claims h = fst (fst (rate_check (cl_sub claims @ '':'' @ ro_method route @ '':'' @ path)
     (case op_rateLimit (ro_options route) of None \<Rightarrow> DEFAULT_RATE_LIMIT | Some r \<Rightarrow> r) now h))"

lemma pureJ_bind [simp]: "bindJ (pureJ (Inl e)) f = (\<lambda>s. (Inl e, s))" "bindJ (pureJ (Inr v)) f = f v"
  by (simp_all add: pureJ_def bindJ_def)

lemma pureJ_Inr [simp]: "pureJ (Inr v) = retJ v"
  by (simp add: pureJ_def retJ_def)

lemma limit_step_cases:
  "limit_step now (cl_sub claims @ '':'' @ ro_method route @ '':'' @ path)
     (case op_rateLimit (ro_options route) of None \<Rightarrow> DEFAULT_RATE_LIMIT | Some r \<Rightarrow> r) t = (r, t') \<Longrightarrow>
   rst_app t' = rst_app t \<and> (\<not> route_admits now path route claims (rst_hits t) \<longrightarrow> (\<exists>e. r = Inl e))"
  by (auto simp: limit_step_def route_admits_def split: prod.splits if_splits)

lemma run_route_app:
  assumes "run_route C requestId now req cors path query route t = (r, t')"
  shows "rst_app t' = rst_app t \<or> (\<exists>c. route_claims C now req route = Inr c \<and> route_admits now path route c (rst_hits t))"
proof (cases "case match_segments (split_on (CHR ''/'') (ro_path route)) (split_on (CHR ''/'') path) of None \<Rightarrow> Inr [] | Some kvs \<Rightarrow> decode_params kvs")
  case (Inl e)
  thus ?thesis using assms unfolding run_route_def Let_def by (simp del: split_on.simps)
next
  case params: (Inr params)
  have claims: "(if op_public (ro_options route) then retJ \<lparr>cl_sub = ''anonymous'', cl_roles = []\<rparr>
      else pureJ (guard_verify (rc_hmac C) (rc_secret C) now (ro_roles route) (map_of (rq_headers req) ''authorization''))) =
      pureJ (route_claims C now req route)" by (simp add: route_claims_def)
  show ?thesis
  proof (cases "route_claims C now req route")
    case (Inl e)
    thus ?thesis using assms params unfolding run_route_def Let_def claims by simp
  next
    case c: (Inr c)
    let ?l = "limit_step now (cl_sub c @ '':'' @ ro_method route @ '':'' @ path)
      (case op_rateLimit (ro_options route) of None \<Rightarrow> DEFAULT_RATE_LIMIT | Some r \<Rightarrow> r)"
    obtain r1 t1 where l: "?l t = (r1, t1)" by (cases "?l t")
    show ?thesis
    proof (cases "route_admits now path route c (rst_hits t)")
      case False
      then obtain e where "r1 = Inl e" "rst_app t1 = rst_app t" using limit_step_cases [OF l] by blast
      moreover from this have "bindJ ?l f t = (Inl e, t1)" for f :: "unit \<Rightarrow> ('a rest_state, http_response) js"
        using l by (simp add: bindJ_def)
      ultimately show ?thesis using assms params c unfolding run_route_def Let_def claims by simp
    qed (use c in blast)
  qed
qed

lemma rest_error_total: "\<exists>resp t'. rest_error requestId cors e t = (Inr resp, t') \<and> rst_app t' = rst_app t"
  by (cases "asHttpError e") (simp add: rest_error_def bindJ_def)

lemma catch_error:
  assumes "m t = (r, t')"
  shows "\<exists>resp t''. catchJ m (rest_error requestId cors) t = (Inr resp, t'') \<and> rst_app t'' = rst_app t'"
  using assms rest_error_total [of requestId cors _ t'] by (cases r) (simp_all add: catchJ_def)

lemma rest_handle_cases:
  "\<exists>resp t'. rest_handle C routes requestId now req t = (Inr resp, t') \<and>
     (rst_app t' = rst_app t \<or>
      (\<exists>route claims. find (route_match (rq_method req) (hd (split_on (CHR ''?'') (rq_url req)))) routes = Some route \<and>
         route_claims C now req route = Inr claims \<and>
         route_admits now (hd (split_on (CHR ''?'') (rq_url req))) route claims (rst_hits t)))"
proof -
  let ?path = "hd (split_on (CHR ''?'') (rq_url req))"
  let ?route = "find (route_match (rq_method req) ?path) routes"
  define t0 where "t0 = t\<lparr>rst_retryAfter := None, rst_metrics := metrics_incrLabeled ''bapc_http_requests_total''
            [(''method'', rq_method req), (''path'', if ?route \<noteq> None then ?path else ''unmatched'')] 1 (rst_metrics t)\<rparr>"
  define m where "m = (case ?route of None \<Rightarrow> throwJ (HttpError 404 ''not_found'' ''route not found'')
      | Some r \<Rightarrow> run_route C requestId now req (cors_headers req) ?path
          (search_params (case nth_opt 1 (split_on (CHR ''?'') (rq_url req)) of None \<Rightarrow> [] | Some q \<Rightarrow> q)) r)"
  have t0: "rst_app t0 = rst_app t" "rst_hits t0 = rst_hits t" by (simp_all add: t0_def)
  have main: "\<exists>resp t'. catchJ m (rest_error requestId (cors_headers req)) t0 = (Inr resp, t') \<and> (rst_app t' = rst_app t \<or>
      (\<exists>route claims. ?route = Some route \<and> route_claims C now req route = Inr claims \<and> route_admits now ?path route claims (rst_hits t)))"
  proof -
    obtain r t1 where m1: "m t0 = (r, t1)" by (cases "m t0")
    have "rst_app t1 = rst_app t0 \<or> (\<exists>route claims. ?route = Some route \<and> route_claims C now req route = Inr claims \<and>
        route_admits now ?path route claims (rst_hits t0))"
      using m1 run_route_app [of C requestId now req "cors_headers req" ?path _ _ t0 r t1] unfolding m_def
      by (cases ?route) auto
    thus ?thesis using catch_error [of m t0 r t1 requestId "cors_headers req", OF m1] t0 by metis
  qed
  show ?thesis
  proof (cases "rq_method req = ''OPTIONS'' \<or> rq_url req = ''/healthz'' \<or> rc_exposeMetrics C \<and> rq_url req = ''/metrics''")
    case True
    thus ?thesis by (auto simp: rest_handle_def Let_def)
  next
    case False
    hence n: "rq_method req \<noteq> ''OPTIONS''" "rq_url req \<noteq> ''/healthz''" "\<not> (rc_exposeMetrics C \<and> rq_url req = ''/metrics'')" by simp_all
    have "rest_handle C routes requestId now req t = catchJ m (rest_error requestId (cors_headers req)) t0"
      unfolding rest_handle_def Let_def if_not_P [OF n(1)] if_not_P [OF n(2)] if_not_P [OF n(3)] m_def t0_def by (rule bindJ_modify)
    thus ?thesis using main by simp
  qed
qed

text \<open>
  C6. Authentication and rate limiting come first: the router answers every request, and the state behind it
  (the database) is untouched unless the request matches a route that is public or whose guard verified the
  bearer token for the roles of the route, and the rate limiter admitted that subject.
\<close>

theorem rest_handle_guarded:
  "\<exists>resp t'. rest_handle C routes requestId now req t = (Inr resp, t') \<and>
     (rst_app t' = rst_app t \<or>
      (\<exists>route claims. find (route_match (rq_method req) (hd (split_on (CHR ''?'') (rq_url req)))) routes = Some route \<and>
         route_claims C now req route = Inr claims \<and>
         route_admits now (hd (split_on (CHR ''?'') (rq_url req))) route claims (rst_hits t)))"
  by (rule rest_handle_cases)

end
