(* ===== verification/Edge.thy ===== *)
theory Edge
  imports Threat Rest
begin

text \<open>
  The edge services: egress gateways (\<open>services/egress\<close>), the blind relay
  (\<open>services/relay\<close>) and out-of-band recovery (\<open>services/oob-controller\<close>).
  Sockets are not modelled: a handler is a function from the bytes it
  receives to what it sends.
\<close>

section \<open>State\<close>

record egress_row =
  eg_id :: uuid
  eg_region :: string
  eg_fixedIp :: string
  eg_healthy :: bool
  eg_loadPercent :: rat
  eg_state :: string
  eg_lastHeartbeat :: "millis option"
  eg_latencyMs :: int
  eg_activeSessions :: int
  eg_maxSessions :: int

record snapshot_row =
  sn_id :: uuid
  sn_scope :: string
  sn_checksum :: string
  sn_document :: json
  sn_createdBy :: string
  sn_createdAt :: millis
  sn_lkg :: bool

record edge_db = threat_db +
  eg_gateways :: "egress_row list"
  rec_snapshots :: "snapshot_row list"

section \<open>PgEgressStore\<close>

record egress_gateway =
  gw_id :: uuid
  gw_region :: string
  gw_fixedIp :: string
  gw_healthy :: bool
  gw_loadPercent :: rat
  gw_lastCheck :: millis
  gw_latencyMs :: int
  gw_activeSessions :: int
  gw_capacityPercent :: rat

definition toGateway :: "egress_row \<Rightarrow> egress_gateway" where
  "toGateway r = \<lparr>gw_id = eg_id r, gw_region = eg_region r, gw_fixedIp = eg_fixedIp r, gw_healthy = eg_healthy r,
     gw_loadPercent = eg_loadPercent r, gw_lastCheck = (case eg_lastHeartbeat r of None \<Rightarrow> 0 | Some t \<Rightarrow> t),
     gw_latencyMs = eg_latencyMs r, gw_activeSessions = eg_activeSessions r,
     gw_capacityPercent = (if 0 < eg_maxSessions r
       then min 100 (of_int (eg_activeSessions r) / of_int (eg_maxSessions r) * 100) else 0)\<rparr>"

definition upd_egress :: "egress_row \<Rightarrow> egress_row \<Rightarrow> egress_row" where
  "upd_egress new old = old\<lparr>eg_region := eg_region new, eg_fixedIp := eg_fixedIp new, eg_healthy := True,
     eg_lastHeartbeat := eg_lastHeartbeat new, eg_maxSessions := eg_maxSessions new\<rparr>"

definition egress_insert :: "millis \<Rightarrow> uuid \<Rightarrow> string \<Rightarrow> string \<Rightarrow> int option \<Rightarrow> ('z edge_db_scheme, unit) js" where
  "egress_insert now gatewayId region fixedIp maxSessions = modifyJ (\<lambda>s. s\<lparr>eg_gateways := upsert eg_id upd_egress
     \<lparr>eg_id = gatewayId, eg_region = region, eg_fixedIp = fixedIp, eg_healthy = True, eg_loadPercent = 0, eg_state = ''ACTIVE'',
      eg_lastHeartbeat = Some now, eg_latencyMs = 0, eg_activeSessions = 0,
      eg_maxSessions = (case maxSessions of None \<Rightarrow> 500 | Some m \<Rightarrow> m)\<rparr> (eg_gateways s)\<rparr>)"

definition egress_get :: "uuid \<Rightarrow> 'z edge_db_scheme \<Rightarrow> egress_row option" where
  "egress_get gatewayId s = find_by eg_id gatewayId (eg_gateways s)"

definition egress_remove :: "uuid \<Rightarrow> ('z edge_db_scheme, unit) js" where
  "egress_remove gatewayId = modifyJ (\<lambda>s. s\<lparr>eg_gateways := filter (\<lambda>r. eg_id r \<noteq> gatewayId) (eg_gateways s)\<rparr>)"

definition egress_heartbeat :: "millis \<Rightarrow> uuid \<Rightarrow> rat \<Rightarrow> bool \<Rightarrow> int \<Rightarrow> int \<Rightarrow> ('z edge_db_scheme, unit) js" where
  "egress_heartbeat now gatewayId loadPercent healthy latencyMs activeSessions = modifyJ (\<lambda>s. s\<lparr>eg_gateways :=
     map (\<lambda>r. if eg_id r = gatewayId then r\<lparr>eg_loadPercent := round2 loadPercent, eg_healthy := healthy,
       eg_latencyMs := latencyMs, eg_activeSessions := activeSessions, eg_lastHeartbeat := Some now\<rparr> else r) (eg_gateways s)\<rparr>)"

definition egress_list :: "'z edge_db_scheme \<Rightarrow> egress_gateway list" where
  "egress_list s = map toGateway (sort_key (\<lambda>r. (eg_region r, eg_id r)) (eg_gateways s))"

definition egress_candidates :: "millis \<Rightarrow> 'z edge_db_scheme \<Rightarrow> egress_gateway list" where
  "egress_candidates now s = map toGateway (filter (\<lambda>r. eg_state r = ''ACTIVE'' \<and>
     (case eg_lastHeartbeat r of None \<Rightarrow> False | Some t \<Rightarrow> now - 30000 < t)) (eg_gateways s))"

section \<open>EgressSelector\<close>

definition gateway_usable :: "millis \<Rightarrow> egress_gateway \<Rightarrow> bool" where
  "gateway_usable now g \<longleftrightarrow> gw_healthy g \<and> now - gw_lastCheck g < 30000 \<and> gw_loadPercent g < 95 \<and> gw_capacityPercent g < 95"

definition gateway_score :: "string \<Rightarrow> egress_gateway \<Rightarrow> rat" where
  "gateway_score preferredRegion g = (if gw_region g = preferredRegion then 100 else 0) - gw_loadPercent g -
     of_int (gw_latencyMs g) / 10 - gw_capacityPercent g * 2"

definition egress_select :: "egress_gateway list \<Rightarrow> string \<Rightarrow> millis \<Rightarrow> js_error + egress_gateway" where
  "egress_select gateways preferredRegion now =
     (case sort_key (\<lambda>g. - gateway_score preferredRegion g) (filter (gateway_usable now) gateways) of
        [] \<Rightarrow> Inl (JsError ''no healthy egress gateway'') | g # _ \<Rightarrow> Inr g)"

section \<open>Socks5EgressProxy\<close>

text \<open>
  The answer to a client's request: an immediate reply that ends the
  connection, a connection to a host and port, or a rejected promise, which
  nothing handles.
\<close>

datatype socks_outcome = SocksEnd "nat list" | SocksConnect string nat | SocksUnhandled string

definition socks_reply :: "nat \<Rightarrow> nat list" where
  "socks_reply code = [5, code, 0, 1, 0, 0, 0, 0, 0, 0]"

definition socks_greeting :: "nat list \<Rightarrow> nat list option" where
  "socks_greeting greeting = (if nth_opt 0 greeting \<noteq> Some 5 then None else Some [5, 0])"

text \<open>An octet of the request, printed in a template; a missing one prints as \<open>undefined\<close>.\<close>

definition octet :: "nat \<Rightarrow> nat list \<Rightarrow> string" where
  "octet i req = (case nth_opt i req of None \<Rightarrow> ''undefined'' | Some b \<Rightarrow> dec b)"

definition ascii_char :: "nat \<Rightarrow> char" where
  "ascii_char b = char_of (b mod 128)"

definition socks_target :: "nat list \<Rightarrow> (string \<times> nat) option" where
  "socks_target req = (if nth_opt 3 req = Some 1
     then Some (octet 4 req @ ''.'' @ octet 5 req @ ''.'' @ octet 6 req @ ''.'' @ octet 7 req, 8)
     else if nth_opt 3 req = Some 3
     then let len = req ! 4 in Some (map ascii_char (take len (drop 5 req)), 5 + len)
     else None)"

definition socks_request :: "(string \<Rightarrow> nat \<Rightarrow> bool) \<Rightarrow> nat list \<Rightarrow> socks_outcome" where
  "socks_request isAllowed req =
     (if length req < 7 \<or> nth_opt 0 req \<noteq> Some 5 \<or> nth_opt 1 req \<noteq> Some 1 then SocksEnd (socks_reply 7)
      else (case socks_target req of
        None \<Rightarrow> SocksEnd (socks_reply 8)
      | Some (host, offset) \<Rightarrow>
          if length req < offset + 2 then SocksUnhandled ''ERR_OUT_OF_RANGE''
          else let port = req ! offset * 256 + req ! Suc offset in
            if isAllowed host port then SocksConnect host port else SocksEnd (socks_reply 2)))"

section \<open>BlindRelayServer\<close>

type_synonym endpoint = "string \<times> nat"

record relay_session =
  rl_id :: string
  rl_a :: endpoint
  rl_b :: endpoint

record blind_relay =
  br_sessions :: "(string \<times> relay_session) list"
  br_byEndpoint :: "(string \<times> relay_session) list"
  br_bytesRelayed :: nat

definition endpoint_key :: "endpoint \<Rightarrow> string" where
  "endpoint_key e = fst e @ '':'' @ dec (snd e)"

definition relay_register :: "relay_session \<Rightarrow> blind_relay \<Rightarrow> blind_relay" where
  "relay_register session r = r\<lparr>br_sessions := map_set fst (rl_id session, session) (br_sessions r),
     br_byEndpoint := map_set fst (endpoint_key (rl_b session), session)
       (map_set fst (endpoint_key (rl_a session), session) (br_byEndpoint r))\<rparr>"

definition relay_unregister :: "string \<Rightarrow> blind_relay \<Rightarrow> blind_relay" where
  "relay_unregister sessionId r = (case map_of (br_sessions r) sessionId of None \<Rightarrow> r
   | Some session \<Rightarrow> r\<lparr>br_byEndpoint := filter (\<lambda>e. fst e \<noteq> endpoint_key (rl_a session) \<and> fst e \<noteq> endpoint_key (rl_b session)) (br_byEndpoint r),
       br_sessions := filter (\<lambda>e. fst e \<noteq> sessionId) (br_sessions r)\<rparr>)"

text \<open>Where a datagram goes: \<open>None\<close> when it is dropped.\<close>

definition relay_forward :: "string \<Rightarrow> endpoint \<Rightarrow> blind_relay \<Rightarrow> endpoint option \<times> blind_relay" where
  "relay_forward msg sender r = (case map_of (br_byEndpoint r) (endpoint_key sender) of None \<Rightarrow> (None, r)
   | Some session \<Rightarrow> (Some (if sender = rl_a session then rl_b session else rl_a session),
       r\<lparr>br_bytesRelayed := br_bytesRelayed r + length msg\<rparr>))"

definition relay_activeSessionCount :: "blind_relay \<Rightarrow> nat" where
  "relay_activeSessionCount r = length (br_sessions r)"

section \<open>Out-of-band recovery\<close>

text \<open>
  What a \<open>jsonb\<close> column holds of a document: object keys sorted by length and
  then bytes, without repetitions.
\<close>

fun jsonb :: "json \<Rightarrow> json" where
  "jsonb (JArr vs) = JArr (map jsonb vs)"
| "jsonb (JObj kvs) = JObj (sort_key (\<lambda>kv. (length (fst kv), fst kv)) (map (\<lambda>(k, v). (k, jsonb v)) kvs))"
| "jsonb v = v"

text \<open>
  A JavaScript value passed as a \<open>jsonb\<close> parameter: objects are serialized,
  strings are taken as JSON text, arrays become Postgres array literals.
\<close>

definition jsonb_param :: "json \<Rightarrow> js_error + json" where
  "jsonb_param v = (case v of
     JObj _ \<Rightarrow> Inr (jsonb v)
   | JStr s \<Rightarrow> (case json_parse s of None \<Rightarrow> Inl (PgError ''22P02'') | Some w \<Rightarrow> Inr (jsonb w))
   | JArr vs \<Rightarrow> if vs = [] then Inr (JObj []) else Inl (PgError ''22P02'')
   | JNull \<Rightarrow> Inl (PgError ''23502'')
   | JUndefined \<Rightarrow> Inl (PgError ''23502'')
   | _ \<Rightarrow> Inr v)"

definition recovery_insert :: "snapshot_row \<Rightarrow> ('z edge_db_scheme, unit) js" where
  "recovery_insert r = (\<lambda>s.
     if sn_id r \<in> sn_id ` set (rec_snapshots s) \<or>
        (sn_lkg r \<and> (\<exists>x \<in> set (rec_snapshots s). sn_scope x = sn_scope r \<and> sn_lkg x)) then (Inl (PgError ''23505''), s)
     else (Inr (), s\<lparr>rec_snapshots := rec_snapshots s @ [r]\<rparr>))"

definition recovery_save :: "snapshot_row \<Rightarrow> ('z edge_db_scheme, unit) js" where
  "recovery_save r = bindJ (if sn_lkg r then modifyJ (\<lambda>s. s\<lparr>rec_snapshots := map (\<lambda>x. if sn_scope x = sn_scope r
       then x\<lparr>sn_lkg := False\<rparr> else x) (rec_snapshots s)\<rparr>) else retJ ()) (\<lambda>_.
     bindJ (pureJ (jsonb_param (sn_document r))) (\<lambda>d. recovery_insert (r\<lparr>sn_document := d\<rparr>)))"

definition lastKnownGood :: "string \<Rightarrow> 'z edge_db_scheme \<Rightarrow> (uuid \<times> json \<times> string) option" where
  "lastKnownGood scope s = map_option (\<lambda>x. (sn_id x, sn_document x, sn_checksum x))
     (find (\<lambda>x. sn_scope x = scope \<and> sn_lkg x) (rec_snapshots s))"

definition listLastKnownGood :: "'z edge_db_scheme \<Rightarrow> snapshot_row list" where
  "listLastKnownGood s = sort_key (\<lambda>x. - sn_createdAt x) (filter sn_lkg (rec_snapshots s))"

text \<open>\<open>OobChannel\<close>: the operations of a channel on the state \<open>'c\<close> behind it.\<close>

record 'c oob_channel =
  oc_healthy :: "('c, bool) js"
  oc_push :: "string \<Rightarrow> json \<Rightarrow> ('c, unit) js"
  oc_verify :: "string \<Rightarrow> string \<Rightarrow> ('c, bool) js"

text \<open>The controller runs against the database and a channel side by side.\<close>

definition left_side :: "('a, 'r) js \<Rightarrow> ('a \<times> 'b, 'r) js" where
  "left_side m = (\<lambda>(a, b). case m a of (r, a') \<Rightarrow> (r, (a', b)))"

definition right_side :: "('b, 'r) js \<Rightarrow> ('a \<times> 'b, 'r) js" where
  "right_side m = (\<lambda>(a, b). case m b of (r, b') \<Rightarrow> (r, (a, b')))"

definition oob_checkpoint :: "(string \<Rightarrow> string) \<Rightarrow> 'c oob_channel \<Rightarrow> millis \<Rightarrow> string \<Rightarrow> json \<Rightarrow> string \<Rightarrow>
    ('z edge_db_scheme \<times> 'c, snapshot_row) js" where
  "oob_checkpoint sha256 C now scope document actor = bindJ (right_side (oc_healthy C)) (\<lambda>ok.
     if \<not> ok then throwJ (JsError ''OOB channel unhealthy; checkpoint refused'') else
     let checksum = sha256 (json_stringify document) in
     bindJ (right_side (oc_push C scope document)) (\<lambda>_.
     bindJ (right_side (oc_verify C scope checksum)) (\<lambda>verified.
       if \<not> verified then throwJ (JsError ''OOB verification failed'') else
       bindJ (left_side next_id) (\<lambda>i.
       let snapshot = \<lparr>sn_id = i, sn_scope = scope, sn_checksum = checksum, sn_document = document, sn_createdBy = actor,
             sn_createdAt = now, sn_lkg = True\<rparr> in
       bindJ (left_side (recovery_save snapshot)) (\<lambda>_. retJ snapshot)))))"

definition oob_rollback :: "'c oob_channel \<Rightarrow> string \<Rightarrow> ('z edge_db_scheme \<times> 'c, uuid \<times> string) js" where
  "oob_rollback C scope = bindJ (left_side (getJ (lastKnownGood scope))) (\<lambda>lkg. case lkg of
     None \<Rightarrow> throwJ (JsError ''no last-known-good recovery snapshot'')
   | Some (i, document, checksum) \<Rightarrow> bindJ (right_side (oc_healthy C)) (\<lambda>ok.
       if \<not> ok then throwJ (JsError ''OOB channel unavailable'') else
       bindJ (right_side (oc_push C scope document)) (\<lambda>_.
       bindJ (right_side (oc_verify C scope checksum)) (\<lambda>verified.
         if \<not> verified then throwJ (JsError ''rollback verification failed'') else retJ (i, checksum)))))"

subsection \<open>HttpOobChannel and OobServer\<close>

definition uri_unreserved :: "char \<Rightarrow> bool" where
  "uri_unreserved c \<longleftrightarrow> (let n = (of_char c :: nat) in 48 \<le> n \<and> n \<le> 57 \<or> 65 \<le> n \<and> n \<le> 90 \<or> 97 \<le> n \<and> n \<le> 122) \<or>
     c \<in> {CHR ''-'', CHR ''_'', CHR ''.'', CHR 0x21, CHR 0x7E, CHR ''*'', CHR 0x27, CHR ''('', CHR '')''}"

definition hex_upper :: "nat \<Rightarrow> char" where
  "hex_upper n = (if n < 10 then char_of (n + 48) else char_of (n + 55))"

definition encodeURIComponent :: "string \<Rightarrow> string" where
  "encodeURIComponent s = concat (map (\<lambda>c. if uri_unreserved c then [c]
     else [CHR 0x25, hex_upper (of_char c div 16), hex_upper (of_char c mod 16)]) s)"

record oob_document =
  od_checksum :: string
  od_document :: json

type_synonym oob_server = "(string \<times> oob_document) list"

definition oob_construct :: "string \<Rightarrow> js_error + oob_server" where
  "oob_construct sharedSecret = (if length sharedSecret < 32
     then Inl (JsError ''OOB shared secret must be at least 32 characters'') else Inr [])"

definition oob_authorized :: "string \<Rightarrow> string option \<Rightarrow> bool" where
  "oob_authorized sharedSecret header = (case header of None \<Rightarrow> False
   | Some h \<Rightarrow> starts_with h ''Bearer '' \<and> drop 7 h = sharedSecret)"

definition oob_json :: "nat \<Rightarrow> json \<Rightarrow> http_response" where
  "oob_json status v = \<lparr>rp_status = status, rp_headers = [(''content-type'', ''application/json'')], rp_body = json_stringify v\<rparr>"

definition oob_path :: string where
  "oob_path = ''/oob/documents/''"

definition oob_scope :: "string \<Rightarrow> string option" where
  "oob_scope url = (let rest = drop (length oob_path) url in
     if starts_with url oob_path \<and> rest \<noteq> [] \<and> CHR ''/'' \<notin> set rest then Some rest else None)"

text \<open>A rejected promise of the handler is an error value: nothing catches it.\<close>

definition oob_handle :: "(string \<Rightarrow> string) \<Rightarrow> string \<Rightarrow> http_request \<Rightarrow> (oob_server, http_response) js" where
  "oob_handle sha256 sharedSecret req =
     (if rq_url req = ''/healthz'' then retJ (oob_json 200 (JObj [(''status'', JStr ''ok'')]))
      else if \<not> oob_authorized sharedSecret (map_of (rq_headers req) ''authorization'')
      then retJ (oob_json 401 (JObj [(''error'', JStr ''unauthorized'')]))
      else (case oob_scope (rq_url req) of
        None \<Rightarrow> retJ (oob_json 404 (JObj [(''error'', JStr ''not_found'')]))
      | Some raw \<Rightarrow> (case percent_decode raw of
          None \<Rightarrow> throwJ (JsError ''URI malformed'')
        | Some scope \<Rightarrow>
            if rq_method req = ''GET'' then bindJ (getJ (\<lambda>d. map_of d scope)) (\<lambda>entry. case entry of
                None \<Rightarrow> retJ (oob_json 404 (JObj [(''error'', JStr ''no document for scope'')]))
              | Some e \<Rightarrow> retJ (oob_json 200 (JObj [(''checksum'', JStr (od_checksum e)), (''document'', od_document e)])))
            else if rq_method req = ''PUT'' then
              (let payload = concat (rq_chunks req) in
               case json_parse (if payload = [] then ''null'' else payload) of
                 None \<Rightarrow> throwJ (JsError ''Unexpected token in JSON'')
               | Some document \<Rightarrow> let checksum = sha256 (json_stringify document) in
                   bindJ (modifyJ (map_set fst (scope, \<lparr>od_checksum = checksum, od_document = document\<rparr>))) (\<lambda>_.
                   retJ (oob_json 200 (JObj [(''checksum'', JStr checksum)]))))
            else retJ (oob_json 405 (JObj [(''error'', JStr ''method_not_allowed'')])))))"

text \<open>
  The HTTP channel; \<open>fetch\<close> is the request to the server, which throws when it
  is unreachable or does not answer in time.
\<close>

definition oob_request :: "string \<Rightarrow> string \<Rightarrow> string \<Rightarrow> string list \<Rightarrow> http_request" where
  "oob_request sharedSecret m scope chunks = \<lparr>rq_method = m, rq_url = oob_path @ encodeURIComponent scope,
     rq_headers = [(''authorization'', ''Bearer '' @ sharedSecret), (''content-type'', ''application/json'')], rq_chunks = chunks\<rparr>"

definition status_ok :: "http_response \<Rightarrow> bool" where
  "status_ok res \<longleftrightarrow> 200 \<le> rp_status res \<and> rp_status res < 300"

definition http_oob_channel :: "(http_request \<Rightarrow> ('c, http_response) js) \<Rightarrow> string \<Rightarrow> 'c oob_channel" where
  "http_oob_channel fetch sharedSecret = \<lparr>
     oc_healthy = catchJ (bindJ (fetch \<lparr>rq_method = ''GET'', rq_url = ''/healthz'', rq_headers = [], rq_chunks = []\<rparr>)
       (\<lambda>res. retJ (status_ok res))) (\<lambda>_. retJ False),
     oc_push = (\<lambda>scope document. bindJ (fetch (oob_request sharedSecret ''PUT'' scope [json_stringify document])) (\<lambda>res.
       if status_ok res then retJ () else throwJ (JsError (''OOB push failed: '' @ dec (rp_status res))))),
     oc_verify = (\<lambda>scope checksum. catchJ (bindJ (fetch (oob_request sharedSecret ''GET'' scope [])) (\<lambda>res.
       if \<not> status_ok res then retJ False else (case json_parse (rp_body res) of
         None \<Rightarrow> throwJ (JsError ''Unexpected token in JSON'')
       | Some v \<Rightarrow> bindJ (fieldJ ''checksum'' v) (\<lambda>c. retJ (c = JStr checksum))))) (\<lambda>_. retJ False))\<rparr>"

section \<open>Recovery through a channel\<close>

lemma recovery_save_ok:
  assumes "sn_lkg r" "jsonb_param (sn_document r) = Inr d" "sn_id r \<notin> sn_id ` set (rec_snapshots db)"
  shows "\<exists>db'. recovery_save r db = (Inr (), db') \<and> lastKnownGood (sn_scope r) db' = Some (sn_id r, d, sn_checksum r)"
proof -
  define old where "old = map (\<lambda>x. if sn_scope x = sn_scope r then x\<lparr>sn_lkg := False\<rparr> else x) (rec_snapshots db)"
  have "map sn_id old = map sn_id (rec_snapshots db)" by (simp add: old_def)
  hence "sn_id ` set old = sn_id ` set (rec_snapshots db)" by (metis set_map)
  moreover have none: "\<forall>x \<in> set old. \<not> (sn_scope x = sn_scope r \<and> sn_lkg x)" by (auto simp: old_def)
  moreover have "recovery_save r db = recovery_insert (r\<lparr>sn_document := d\<rparr>) (db\<lparr>rec_snapshots := old\<rparr>)"
    using assms by (simp add: recovery_save_def pureJ_def bindJ_def old_def)
  ultimately have "recovery_save r db = (Inr (), db\<lparr>rec_snapshots := old @ [r\<lparr>sn_document := d\<rparr>]\<rparr>)"
    using assms by (simp add: recovery_insert_def)
  moreover have "find (\<lambda>x. sn_scope x = sn_scope r \<and> sn_lkg x) (old @ [r\<lparr>sn_document := d\<rparr>]) = Some (r\<lparr>sn_document := d\<rparr>)"
    using none assms(1) by (induction old) auto
  ultimately show ?thesis by (simp add: lastKnownGood_def)
qed

text \<open>
  What the controller relies on: the channel is up, and after pushing a document
  verification succeeds for exactly the checksum of that document's text.
\<close>

locale recovery_channel =
  fixes C :: "'c oob_channel" and sha256 :: "string \<Rightarrow> string" and pushable :: "string \<Rightarrow> json \<Rightarrow> bool"
  assumes healthy: "oc_healthy C c = (Inr True, c)"
    and push_verify: "pushable scope d \<Longrightarrow> \<exists>c'. oc_push C scope d c = (Inr (), c') \<and>
      (\<forall>x. oc_verify C scope x c' = (Inr (x = sha256 (json_stringify d)), c'))"
begin

lemma checkpoint_stores:
  assumes "pushable scope document" "jsonb_param document = Inr d" "db_fresh db (db_drawn db) \<notin> sn_id ` set (rec_snapshots db)"
  shows "\<exists>snapshot db' c'. oob_checkpoint sha256 C now scope document actor (db, c) = (Inr snapshot, (db', c')) \<and>
    lastKnownGood scope db' = Some (sn_id snapshot, d, sha256 (json_stringify document))"
proof -
  obtain c' where p: "oc_push C scope document c = (Inr (), c')"
    "oc_verify C scope (sha256 (json_stringify document)) c' = (Inr True, c')"
    using push_verify [OF assms(1), of c] by auto
  define db1 where "db1 = db\<lparr>db_drawn := Suc (db_drawn db)\<rparr>"
  define snap where "snap = \<lparr>sn_id = db_fresh db (db_drawn db), sn_scope = scope, sn_checksum = sha256 (json_stringify document),
    sn_document = document, sn_createdBy = actor, sn_createdAt = now, sn_lkg = True\<rparr>"
  have "sn_lkg snap" "jsonb_param (sn_document snap) = Inr d" "sn_id snap \<notin> sn_id ` set (rec_snapshots db1)"
    using assms(2,3) by (simp_all add: snap_def db1_def)
  then obtain db2 where sv: "recovery_save snap db1 = (Inr (), db2)" "lastKnownGood scope db2 = Some (sn_id snap, d, sn_checksum snap)"
    using recovery_save_ok [of snap d db1] by (auto simp: snap_def)
  have "oob_checkpoint sha256 C now scope document actor (db, c) = (Inr snap, (db2, c'))"
    unfolding oob_checkpoint_def bindJ_def right_side_def left_side_def next_id_def Let_def
    by (simp add: healthy p db1_def [symmetric] snap_def [symmetric] sv)
  thus ?thesis using sv(2) by (auto simp: snap_def)
qed

lemma rollback_result:
  assumes "lastKnownGood scope db = Some (i, d, checksum)" "pushable scope d"
  shows "fst (oob_rollback C scope (db, c)) =
    (if checksum = sha256 (json_stringify d) then Inr (i, checksum) else Inl (JsError ''rollback verification failed''))"
proof -
  obtain c' where "oc_push C scope d c = (Inr (), c')" "oc_verify C scope checksum c' = (Inr (checksum = sha256 (json_stringify d)), c')"
    using push_verify [OF assms(2), of c] by auto
  thus ?thesis using assms(1) healthy by (simp add: oob_rollback_def right_side_def left_side_def bindJ_def)
qed

lemma checkpoint_rollback:
  assumes "pushable scope document" "jsonb_param document = Inr d" "pushable scope d"
    "db_fresh db (db_drawn db) \<notin> sn_id ` set (rec_snapshots db)"
  shows "\<exists>snapshot db' c'. oob_checkpoint sha256 C now scope document actor (db, c) = (Inr snapshot, (db', c')) \<and>
    fst (oob_rollback C scope (db', c'')) = (if sha256 (json_stringify document) = sha256 (json_stringify d)
      then Inr (sn_id snapshot, sha256 (json_stringify document)) else Inl (JsError ''rollback verification failed''))"
  using checkpoint_stores [OF assms(1,2,4), of now actor c] rollback_result [OF _ assms(3), of _ _ _ c''] by metis

end

lemma hex_upper_lower:
  assumes "x < 16"
  shows "is_hex (hex_upper x)" "(if 65 \<le> (of_char (hex_upper x) :: nat) \<and> (of_char (hex_upper x) :: nat) \<le> 70
    then char_of ((of_char (hex_upper x) :: nat) + 32) else hex_upper x) = digit_char x"
  using assms by (cases "x < 10"; simp add: hex_upper_def is_hex_def of_char_of digit_char_def add.commute)+

lemma hex_upper_val: "a < 16 \<Longrightarrow> b < 16 \<Longrightarrow> hex_val [hex_upper a, hex_upper b] = 16 * a + b"
  unfolding hex_val_def list.map hex_upper_lower(2) by (simp add: radix_val_def digit_val_char)

lemma uri_unreserved_plain: "uri_unreserved c \<Longrightarrow> c \<noteq> CHR 0x25 \<and> c \<noteq> CHR ''/''"
  by (auto simp: uri_unreserved_def Let_def)

lemma decode_encode: "list_all (\<lambda>c. (of_char c :: nat) < 128) s \<Longrightarrow> percent_decode (encodeURIComponent s) = Some s"
proof (induction s)
  case (Cons c s)
  let ?n = "of_char c :: nat"
  have "?n < 16 * 16" using Cons.prems by simp
  hence d: "?n div 16 < 16" by (rule less_mult_imp_div_less)
  have h: "is_hex (hex_upper (?n div 16)) \<and> is_hex (hex_upper (?n mod 16)) \<and> hex_val [hex_upper (?n div 16), hex_upper (?n mod 16)] = ?n"
    using hex_upper_val [of "?n div 16" "?n mod 16"] hex_upper_lower(1) [of "?n div 16"] hex_upper_lower(1) [of "?n mod 16"] d by simp
  have "percent_decode (encodeURIComponent s) = Some s" using Cons by simp
  thus ?case using h Cons.prems uri_unreserved_plain [of c] by (simp add: encodeURIComponent_def)
qed (simp add: encodeURIComponent_def)

lemma hex_upper_no_slash: "x < 16 \<Longrightarrow> hex_upper x \<noteq> CHR ''/''"
  using hex_upper_lower(1) [of x] by (auto simp: is_hex_def)

lemma encode_no_slash: "CHR ''/'' \<notin> set (encodeURIComponent s)"
proof (induction s)
  case (Cons c s)
  have "(of_char c :: nat) < 16 * 16" by simp
  hence "(of_char c :: nat) div 16 < 16" by (rule less_mult_imp_div_less)
  hence "hex_upper (of_char c div 16) \<noteq> CHR ''/''" "hex_upper (of_char c mod 16) \<noteq> CHR ''/''" by (simp_all add: hex_upper_no_slash)
  thus ?case using Cons uri_unreserved_plain [of c] by (auto simp: encodeURIComponent_def)
qed (simp add: encodeURIComponent_def)

lemma oob_scope_encode: "scope \<noteq> [] \<Longrightarrow> oob_scope (oob_path @ encodeURIComponent scope) = Some (encodeURIComponent scope)"
  by (cases scope) (simp_all add: oob_scope_def encode_no_slash, simp add: encodeURIComponent_def)

text \<open>Scopes of ASCII characters and documents \<open>JSON.parse\<close> can return go through the HTTP channel.\<close>

definition oob_pushable :: "string \<Rightarrow> json \<Rightarrow> bool" where
  "oob_pushable scope d \<longleftrightarrow> scope \<noteq> [] \<and> list_all (\<lambda>c. (of_char c :: nat) < 128) scope \<and> json_plain d"

lemma oob_url: "oob_path @ x \<noteq> ''/healthz''"
  by (simp add: oob_path_def)

lemma oob_put:
  assumes "oob_pushable scope d"
  shows "oob_handle sha256 secret (oob_request secret ''PUT'' scope [json_stringify d]) c =
    (Inr (oob_json 200 (JObj [(''checksum'', JStr (sha256 (json_stringify d)))])),
     map_set fst (scope, \<lparr>od_checksum = sha256 (json_stringify d), od_document = d\<rparr>) c)"
proof -
  have "json_stringify d \<noteq> []" using print_nonempty [of d] stringify_print [of d] assms by (auto simp: oob_pushable_def)
  thus ?thesis using assms
    by (simp add: oob_handle_def oob_request_def oob_authorized_def starts_with_def oob_scope_encode decode_encode oob_pushable_def
        json_parse_stringify oob_url Let_def)
qed

lemma oob_fetched:
  assumes "oob_pushable scope d" "map_of c scope = Some \<lparr>od_checksum = x, od_document = d\<rparr>"
  shows "oob_handle sha256 secret (oob_request secret ''GET'' scope []) c =
    (Inr (oob_json 200 (JObj [(''checksum'', JStr x), (''document'', d)])), c)"
  using assms by (simp add: oob_handle_def oob_request_def oob_authorized_def starts_with_def oob_scope_encode decode_encode
      oob_pushable_def oob_url Let_def)

interpretation http_recovery: recovery_channel "http_oob_channel (oob_handle sha256 secret) secret" sha256 oob_pushable
  for sha256 secret
proof unfold_locales
  fix c
  show "oc_healthy (http_oob_channel (oob_handle sha256 secret) secret) c = (Inr True, c)"
    by (simp add: http_oob_channel_def oob_handle_def catchJ_def bindJ_def status_ok_def oob_json_def)
next
  fix scope d c assume ok: "oob_pushable scope d"
  let ?c = "map_set fst (scope, \<lparr>od_checksum = sha256 (json_stringify d), od_document = d\<rparr>) c"
  have "json_plain (JObj [(''checksum'', JStr (sha256 (json_stringify d))), (''document'', d)])"
    using ok by (simp add: oob_pushable_def)
  note parse = json_parse_stringify [OF this]
  have m: "map_of ?c scope = Some \<lparr>od_checksum = sha256 (json_stringify d), od_document = d\<rparr>"
    by (simp add: map_of_find_by find_by_map_set)
  have "oc_push (http_oob_channel (oob_handle sha256 secret) secret) scope d c = (Inr (), ?c)"
    by (simp add: http_oob_channel_def oob_put [OF ok] bindJ_def status_ok_def oob_json_def)
  moreover have "oc_verify (http_oob_channel (oob_handle sha256 secret) secret) scope x ?c = (Inr (x = sha256 (json_stringify d)), ?c)" for x
    using oob_fetched [OF ok m] parse
    by (auto simp: http_oob_channel_def bindJ_def catchJ_def status_ok_def oob_json_def fieldJ_def payload_field_def json_get_def
        simp del: json_stringify.simps)
  ultimately show "\<exists>c'. oc_push (http_oob_channel (oob_handle sha256 secret) secret) scope d c = (Inr (), c') \<and>
      (\<forall>x. oc_verify (http_oob_channel (oob_handle sha256 secret) secret) scope x c' = (Inr (x = sha256 (json_stringify d)), c'))"
    by blast
qed

lemma distinct_map_sort: "distinct (map f xs) \<Longrightarrow> distinct (map f (sort_key g xs))"
  by (simp add: distinct_map)

lemma json_plain_jsonb: "json_plain v \<Longrightarrow> json_plain (jsonb v)"
proof (induction v)
  case (JArr vs)
  thus ?case by (auto simp: list_all_iff)
next
  case (JObj kvs)
  have m: "map fst (map (\<lambda>(k, v). (k, jsonb v)) kvs) = map fst kvs" by (induction kvs) auto
  have "distinct (map fst (map (\<lambda>(k, v). (k, jsonb v)) kvs))" unfolding m using JObj.prems by simp
  hence "distinct (map fst (sort_key (\<lambda>kv. (length (fst kv), fst kv)) (map (\<lambda>(k, v). (k, jsonb v)) kvs)))"
    by (rule distinct_map_sort)
  moreover have "\<forall>kv \<in> set (map (\<lambda>(k, v). (k, jsonb v)) kvs). json_plain (snd kv)"
    using JObj by (fastforce simp: list_all_iff)
  ultimately show ?case by (simp add: list_all_iff split_def)
qed simp_all

lemma stringify_inj: "json_plain v \<Longrightarrow> json_plain w \<Longrightarrow> json_stringify v = json_stringify w \<longleftrightarrow> v = w"
  by (metis json_parse_stringify option.inject)

text \<open>
  C39. Checkpoint and rollback through the out-of-band server: a checkpoint of any JSON object succeeds and records
  it as last known good, but a later rollback of that scope succeeds exactly when the keys of the object, at every
  level, already were in the order in which the \<open>jsonb\<close> column keeps them; otherwise the checksum of the restored
  text differs and the rollback is refused.  The hypothesis on \<open>sha256\<close> excludes a collision of the two texts.
\<close>

theorem oob_rollback_iff:
  assumes "scope \<noteq> []" "list_all (\<lambda>c. (of_char c :: nat) < 128) scope" "json_plain (JObj kvs)"
    and "db_fresh db (db_drawn db) \<notin> sn_id ` set (rec_snapshots db)"
    and "sha256 (json_stringify (JObj kvs)) = sha256 (json_stringify (jsonb (JObj kvs))) \<Longrightarrow>
      json_stringify (JObj kvs) = json_stringify (jsonb (JObj kvs))"
  shows "\<exists>snapshot db' c'.
    oob_checkpoint sha256 (http_oob_channel (oob_handle sha256 secret) secret) now scope (JObj kvs) actor (db, c) = (Inr snapshot, (db', c')) \<and>
    fst (oob_rollback (http_oob_channel (oob_handle sha256 secret) secret) scope (db', c'')) =
      (if jsonb (JObj kvs) = JObj kvs then Inr (sn_id snapshot, sha256 (json_stringify (JObj kvs)))
       else Inl (JsError ''rollback verification failed''))"
proof -
  let ?d = "JObj kvs"
  have p: "json_plain (jsonb ?d)" by (rule json_plain_jsonb [OF assms(3)])
  have "oob_pushable scope ?d" "oob_pushable scope (jsonb ?d)" using assms(1-3) p by (simp_all only: oob_pushable_def simp_thms)
  moreover have "jsonb_param ?d = Inr (jsonb ?d)" by (simp only: jsonb_param_def json.case)
  moreover have "sha256 (json_stringify ?d) = sha256 (json_stringify (jsonb ?d)) \<longleftrightarrow> jsonb ?d = ?d"
    using assms(5) stringify_inj [OF assms(3) p] by metis
  ultimately show ?thesis
    using http_recovery.checkpoint_rollback [of scope ?d "jsonb ?d" db sha256 secret now actor c c''] assms(4) by simp
qed

definition demo_edge :: edge_db where
  "demo_edge = \<lparr>db_devices = [demo_device], db_nodes = [demo_node], db_policies = [], db_grants = [], db_events = [],
     db_audit = [], db_audit_seq = 0, db_outbox = [], db_fresh = (\<lambda>n. replicate n (CHR ''x'')), db_drawn = 1,
     q_commands = [], q_acks = [], q_desired = [], q_rotations = [], mesh_relays = [], pol_commits = [], pol_rollout = [],
     tc_certs = [], tc_issuers = [], tc_anchors = [], th_signals = [], th_incidents = [], eg_gateways = [], rec_snapshots = []\<rparr>"

theorem oob_rollback_iff_witness:
  "\<exists>snapshot db' c'. oob_checkpoint (\<lambda>x. x) (http_oob_channel (oob_handle (\<lambda>x. x) ''k'') ''k'') 5 ''mesh''
      (JObj [(''name'', JNull), (''id'', JNull)]) ''bob'' (demo_edge, []) = (Inr snapshot, (db', c')) \<and>
    fst (oob_rollback (http_oob_channel (oob_handle (\<lambda>x. x) ''k'') ''k'') ''mesh'' (db', [])) = Inl (JsError ''rollback verification failed'')"
proof -
  have n: "jsonb (JObj [(''name'', JNull), (''id'', JNull)]) \<noteq> JObj [(''name'', JNull), (''id'', JNull)]" by (simp add: insort_key.simps less_eq_prod_simp)
  have "rec_snapshots demo_edge = []" by (simp add: demo_edge_def)
  thus ?thesis
    using oob_rollback_iff [of "''mesh''" "[(''name'', JNull), (''id'', JNull)]" demo_edge "\<lambda>x. x" "''k''" 5 "''bob''" "[]" "[]"] n
    by (simp del: json_stringify.simps jsonb.simps)
qed

end
