(* ===== verification/SocksProxy.thy ===== *)
theory SocksProxy
  imports Edge
begin

text \<open>
  The egress proxy as a state machine (\<open>services/egress/socks5-proxy.ts\<close>): one
  step per event of a client socket, of the destination policy and of the
  upstream connection, in any order, and the allow list of the egress server
  (\<open>src/runtime/egress-server.ts\<close>).  The bytes of the protocol are decided by
  \<open>socks_greeting\<close> and \<open>socks_request\<close> of theory \<open>Edge\<close>.
\<close>

section \<open>Connections of the proxy\<close>

text \<open>
  What a client connection waits for.  \<open>Unhandled\<close> is the rejected promise of
  \<open>handleRequest\<close>; \<open>Finished\<close> is a connection the proxy has ended or destroyed.
\<close>

datatype client_phase = AwaitGreeting | AwaitRequest | AwaitPolicy string nat | Connecting string nat | Piping string nat
  | Finished | Unhandled

record socks_client =
  sc_phase :: client_phase
  sc_closed :: bool
  sc_out :: "nat list list"

text \<open>Clients are numbered in the order of their arrival; \<open>px_connects\<close> lists the calls of \<open>createConnection\<close>.\<close>

record socks_proxy =
  px_clients :: "socks_client list"
  px_active :: int
  px_bytes :: nat
  px_connects :: "(string \<times> nat) list"

definition new_proxy :: socks_proxy where
  "new_proxy = \<lparr>px_clients = [], px_active = 0, px_bytes = 0, px_connects = []\<rparr>"

definition proxy_accept :: "socks_proxy \<Rightarrow> socks_proxy" where
  "proxy_accept P = P\<lparr>px_clients := px_clients P @ [\<lparr>sc_phase = AwaitGreeting, sc_closed = False, sc_out = []\<rparr>],
     px_active := px_active P + 1\<rparr>"

definition put_client :: "nat \<Rightarrow> socks_client \<Rightarrow> socks_proxy \<Rightarrow> socks_proxy" where
  "put_client c cl P = P\<lparr>px_clients := (px_clients P)[c := cl]\<rparr>"

definition write_client :: "nat list \<Rightarrow> client_phase \<Rightarrow> socks_client \<Rightarrow> socks_client" where
  "write_client b phase cl = cl\<lparr>sc_out := sc_out cl @ [b], sc_phase := phase\<rparr>"

text \<open>
  A chunk from the client.  The two handshake listeners are installed with
  \<open>once\<close>; while a request is being decided or connected there is none, and the
  chunk is lost.
\<close>

definition on_request :: "nat list \<Rightarrow> socks_client \<Rightarrow> socks_client" where
  "on_request req cl = (case socks_request (\<lambda>_ _. True) req of
     SocksEnd r \<Rightarrow> write_client r Finished cl
   | SocksConnect host port \<Rightarrow> cl\<lparr>sc_phase := AwaitPolicy host port\<rparr>
   | SocksUnhandled _ \<Rightarrow> cl\<lparr>sc_phase := Unhandled\<rparr>)"

definition proxy_data :: "nat \<Rightarrow> nat list \<Rightarrow> socks_proxy \<Rightarrow> socks_proxy" where
  "proxy_data c chunk P = (let cl = px_clients P ! c in case sc_phase cl of
     AwaitGreeting \<Rightarrow> put_client c (case socks_greeting chunk of None \<Rightarrow> cl\<lparr>sc_phase := Finished\<rparr>
       | Some r \<Rightarrow> write_client r AwaitRequest cl) P
   | AwaitRequest \<Rightarrow> put_client c (on_request chunk cl) P
   | Piping _ _ \<Rightarrow> P\<lparr>px_bytes := px_bytes P + length chunk\<rparr>
   | _ \<Rightarrow> P)"

text \<open>The policy has answered: refuse, or open the connection to the destination.\<close>

definition proxy_policy :: "(string \<Rightarrow> nat \<Rightarrow> bool) \<Rightarrow> nat \<Rightarrow> socks_proxy \<Rightarrow> socks_proxy" where
  "proxy_policy isAllowed c P = (let cl = px_clients P ! c in case sc_phase cl of
     AwaitPolicy host port \<Rightarrow>
       if isAllowed host port
       then (put_client c (cl\<lparr>sc_phase := Connecting host port\<rparr>) P)\<lparr>px_connects := px_connects P @ [(host, port)]\<rparr>
       else put_client c (write_client (socks_reply 2) Finished cl) P
   | _ \<Rightarrow> P)"

definition proxy_connected :: "nat \<Rightarrow> socks_proxy \<Rightarrow> socks_proxy" where
  "proxy_connected c P = (let cl = px_clients P ! c in case sc_phase cl of
     Connecting host port \<Rightarrow> put_client c (write_client (socks_reply 0) (Piping host port) cl) P
   | _ \<Rightarrow> P)"

definition proxy_upstream_data :: "nat \<Rightarrow> nat list \<Rightarrow> socks_proxy \<Rightarrow> socks_proxy" where
  "proxy_upstream_data c chunk P = (case sc_phase (px_clients P ! c) of
     Piping _ _ \<Rightarrow> P\<lparr>px_bytes := px_bytes P + length chunk\<rparr> | _ \<Rightarrow> P)"

definition proxy_upstream_error :: "nat \<Rightarrow> socks_proxy \<Rightarrow> socks_proxy" where
  "proxy_upstream_error c P = (let cl = px_clients P ! c; refused = put_client c (write_client (socks_reply 5) Finished cl) P in
     case sc_phase cl of Connecting _ _ \<Rightarrow> refused | Piping _ _ \<Rightarrow> refused | _ \<Rightarrow> P)"

text \<open>\<open>onClose\<close>, which both the \<open>close\<close> and the \<open>error\<close> event of the client socket call.\<close>

definition proxy_close :: "nat \<Rightarrow> socks_proxy \<Rightarrow> socks_proxy" where
  "proxy_close c P = (let cl = px_clients P ! c in
     if sc_closed cl then P else (put_client c (cl\<lparr>sc_closed := True\<rparr>) P)\<lparr>px_active := px_active P - 1\<rparr>)"

text \<open>
  The events of the proxy in any order.  A closed socket delivers no more
  data, but an answer of the policy or of the network can still arrive for it.
\<close>

inductive proxy_step :: "(string \<Rightarrow> nat \<Rightarrow> bool) \<Rightarrow> socks_proxy \<Rightarrow> socks_proxy \<Rightarrow> bool" for isAllowed where
  step_accept: "proxy_step isAllowed P (proxy_accept P)"
| step_data: "c < length (px_clients P) \<Longrightarrow> \<not> sc_closed (px_clients P ! c) \<Longrightarrow> proxy_step isAllowed P (proxy_data c chunk P)"
| step_policy: "c < length (px_clients P) \<Longrightarrow> proxy_step isAllowed P (proxy_policy isAllowed c P)"
| step_connected: "c < length (px_clients P) \<Longrightarrow> proxy_step isAllowed P (proxy_connected c P)"
| step_upstream: "c < length (px_clients P) \<Longrightarrow> proxy_step isAllowed P (proxy_upstream_data c chunk P)"
| step_refused: "c < length (px_clients P) \<Longrightarrow> proxy_step isAllowed P (proxy_upstream_error c P)"
| step_close: "c < length (px_clients P) \<Longrightarrow> proxy_step isAllowed P (proxy_close c P)"

inductive proxy_reach :: "(string \<Rightarrow> nat \<Rightarrow> bool) \<Rightarrow> socks_proxy \<Rightarrow> bool" for isAllowed where
  reach_new: "proxy_reach isAllowed new_proxy"
| reach_next: "proxy_reach isAllowed P \<Longrightarrow> proxy_step isAllowed P Q \<Longrightarrow> proxy_reach isAllowed Q"

text \<open>\<open>EGRESS_ALLOWLIST\<close> of the egress server: without one every destination is allowed.\<close>

definition egress_policy :: "string option \<Rightarrow> string \<Rightarrow> nat \<Rightarrow> bool" where
  "egress_policy allowlistEnv host port = (case truthy allowlistEnv of None \<Rightarrow> True
   | Some listed \<Rightarrow> (let entries = map js_trim (split_on (CHR '','') listed) in
       host \<in> set entries \<or> host @ '':'' @ dec port \<in> set entries))"

section \<open>Invariant\<close>

definition open_clients :: "socks_proxy \<Rightarrow> nat" where
  "open_clients P = length (filter (\<lambda>cl. \<not> sc_closed cl) (px_clients P))"

definition target_of :: "client_phase \<Rightarrow> (string \<times> nat) option" where
  "target_of ph = (case ph of Connecting h p \<Rightarrow> Some (h, p) | Piping h p \<Rightarrow> Some (h, p) | _ \<Rightarrow> None)"

definition proxy_inv :: "(string \<Rightarrow> nat \<Rightarrow> bool) \<Rightarrow> socks_proxy \<Rightarrow> bool" where
  "proxy_inv isAllowed P \<longleftrightarrow> px_active P = int (open_clients P) \<and>
     (\<forall>cl \<in> set (px_clients P). \<forall>t. target_of (sc_phase cl) = Some t \<longrightarrow> t \<in> set (px_connects P)) \<and>
     (\<forall>(h, p) \<in> set (px_connects P). isAllowed h p)"

lemma filter_update:
  "c < length xs \<Longrightarrow> length (filter f (xs[c := y])) + of_bool (f (xs ! c)) = length (filter f xs) + of_bool (f y)"
proof (induction xs arbitrary: c)
  case (Cons x xs)
  show ?case
  proof (cases c)
    case (Suc k)
    thus ?thesis using Cons.IH [of k] Cons.prems by simp
  qed simp
qed simp

lemma open_put: "c < length (px_clients P) \<Longrightarrow> int (open_clients (put_client c cl P)) =
    int (open_clients P) - (if sc_closed (px_clients P ! c) then 0 else 1) + (if sc_closed cl then 0 else 1)"
  using filter_update [of c "px_clients P" "\<lambda>cl. \<not> sc_closed cl" cl] by (auto simp: open_clients_def put_client_def)

text \<open>Replacing a client by one that is as open and whose target is already connected.\<close>

lemma inv_put:
  assumes "proxy_inv A P" "c < length (px_clients P)" "sc_closed cl = sc_closed (px_clients P ! c)"
    and "\<And>t. target_of (sc_phase cl) = Some t \<Longrightarrow> t \<in> set (px_connects P)"
  shows "proxy_inv A (put_client c cl P)"
  unfolding proxy_inv_def
proof (intro conjI)
  show "px_active (put_client c cl P) = int (open_clients (put_client c cl P))"
    using assms(1,3) open_put [OF assms(2), of cl] by (simp add: proxy_inv_def put_client_def)
  show "\<forall>cl' \<in> set (px_clients (put_client c cl P)). \<forall>t. target_of (sc_phase cl') = Some t \<longrightarrow> t \<in> set (px_connects (put_client c cl P))"
    using assms(1,4) set_update_subset_insert [of "px_clients P" c cl] by (auto simp: proxy_inv_def put_client_def)
  show "\<forall>(h, p) \<in> set (px_connects (put_client c cl P)). A h p" using assms(1) by (simp add: proxy_inv_def put_client_def)
qed

lemma inv_target: "proxy_inv A P \<Longrightarrow> c < length (px_clients P) \<Longrightarrow> target_of (sc_phase (px_clients P ! c)) = Some t \<Longrightarrow> t \<in> set (px_connects P)"
  unfolding proxy_inv_def by (meson nth_mem)

lemma write_client_sel [simp]: "sc_closed (write_client b ph cl) = sc_closed cl" "sc_phase (write_client b ph cl) = ph"
  by (simp_all add: write_client_def)

lemma inv_bytes [simp]: "proxy_inv A (P\<lparr>px_bytes := n\<rparr>) = proxy_inv A P"
  by (simp add: proxy_inv_def open_clients_def)

lemma inv_accept: "proxy_inv A P \<Longrightarrow> proxy_inv A (proxy_accept P)"
  by (auto simp: proxy_inv_def proxy_accept_def open_clients_def target_of_def)

lemma inv_data: "proxy_inv A P \<Longrightarrow> c < length (px_clients P) \<Longrightarrow> proxy_inv A (proxy_data c chunk P)"
  by (auto simp: proxy_data_def Let_def on_request_def target_of_def intro!: inv_put split: client_phase.splits option.splits socks_outcome.splits)

lemma inv_policy:
  assumes "proxy_inv A P" "c < length (px_clients P)"
  shows "proxy_inv A (proxy_policy A c P)"
proof (cases "sc_phase (px_clients P ! c)")
  case (AwaitPolicy h p)
  let ?cl = "px_clients P ! c" and ?Q = "P\<lparr>px_connects := px_connects P @ [(h, p)]\<rparr>"
  have "proxy_inv A ?Q" if "A h p" using assms(1) that by (auto simp: proxy_inv_def open_clients_def)
  hence "proxy_inv A (put_client c (?cl\<lparr>sc_phase := Connecting h p\<rparr>) ?Q)" if "A h p"
    using that assms(2) by (intro inv_put) (auto simp: target_of_def)
  moreover have "put_client c cl ?Q = (put_client c cl P)\<lparr>px_connects := px_connects P @ [(h, p)]\<rparr>" for cl by (simp add: put_client_def)
  ultimately show ?thesis using AwaitPolicy assms by (auto simp: proxy_policy_def Let_def target_of_def intro!: inv_put)
qed (use assms in \<open>simp_all add: proxy_policy_def Let_def\<close>)

lemma inv_connected:
  assumes "proxy_inv A P" "c < length (px_clients P)"
  shows "proxy_inv A (proxy_connected c P)"
  using assms inv_target [OF assms]
  by (auto simp: proxy_connected_def Let_def target_of_def intro!: inv_put split: client_phase.splits)

lemma inv_upstream: "proxy_inv A P \<Longrightarrow> proxy_inv A (proxy_upstream_data c chunk P)"
  by (auto simp: proxy_upstream_data_def split: client_phase.splits)

lemma inv_refused: "proxy_inv A P \<Longrightarrow> c < length (px_clients P) \<Longrightarrow> proxy_inv A (proxy_upstream_error c P)"
  by (auto simp: proxy_upstream_error_def Let_def target_of_def intro!: inv_put split: client_phase.splits)

lemma inv_close:
  assumes "proxy_inv A P" "c < length (px_clients P)"
  shows "proxy_inv A (proxy_close c P)"
proof (cases "sc_closed (px_clients P ! c)")
  case False
  let ?cl = "(px_clients P ! c)\<lparr>sc_closed := True\<rparr>"
  let ?Q = "(put_client c ?cl P)\<lparr>px_active := px_active P - 1\<rparr>"
  have "px_active ?Q = int (open_clients ?Q)" using assms(1) open_put [OF assms(2), of ?cl] False
    by (simp add: proxy_inv_def open_clients_def put_client_def)
  moreover have "\<forall>cl \<in> set (px_clients ?Q). \<forall>t. target_of (sc_phase cl) = Some t \<longrightarrow> t \<in> set (px_connects ?Q)"
    using assms set_update_subset_insert [of "px_clients P" c ?cl] inv_target [OF assms] by (auto simp: proxy_inv_def put_client_def)
  ultimately have "proxy_inv A ?Q" using assms(1) by (simp add: proxy_inv_def put_client_def)
  thus ?thesis using False by (simp add: proxy_close_def)
qed (use assms in \<open>simp add: proxy_close_def\<close>)

lemma inv_step: "proxy_step A P Q \<Longrightarrow> proxy_inv A P \<Longrightarrow> proxy_inv A Q"
  by (induction rule: proxy_step.induct)
    (simp_all add: inv_accept inv_data inv_policy inv_connected inv_upstream inv_refused inv_close)

lemma reach_inv: "proxy_reach A P \<Longrightarrow> proxy_inv A P"
proof (induction rule: proxy_reach.induct)
  case reach_new
  show ?case by (simp add: proxy_inv_def new_proxy_def open_clients_def)
next
  case (reach_next P Q)
  thus ?case using inv_step by blast
qed

text \<open>
  C9. Whatever the clients, the policy and the network do and in whatever order: the egress proxy opens connections
  only to destinations of its allow list, given as host or as host and port; a client being relayed is relayed to one
  of them; and the session count it reports is the number of connections that are open, so never negative.
\<close>

theorem egress_proxy_confined:
  assumes "proxy_reach (egress_policy (Some listed)) P" "listed \<noteq> []"
  shows "(\<forall>(host, port) \<in> set (px_connects P). {host, host @ '':'' @ dec port} \<inter> set (map js_trim (split_on (CHR '','') listed)) \<noteq> {}) \<and>
    (\<forall>cl \<in> set (px_clients P). \<forall>host port. sc_phase cl = Piping host port \<longrightarrow> (host, port) \<in> set (px_connects P)) \<and>
    px_active P = int (length (filter (\<lambda>cl. \<not> sc_closed cl) (px_clients P)))"
proof (intro conjI)
  note inv = reach_inv [OF assms(1), unfolded proxy_inv_def]
  show "\<forall>(host, port) \<in> set (px_connects P). {host, host @ '':'' @ dec port} \<inter> set (map js_trim (split_on (CHR '','') listed)) \<noteq> {}"
  proof clarify
    fix host port assume "(host, port) \<in> set (px_connects P)"
      and e: "{host, host @ '':'' @ dec port} \<inter> set (map js_trim (split_on (CHR '','') listed)) = {}"
    hence "egress_policy (Some listed) host port" using inv by auto
    thus False using e assms(2) by (simp add: egress_policy_def truthy_def Let_def)
  qed
  show "\<forall>cl \<in> set (px_clients P). \<forall>host port. sc_phase cl = Piping host port \<longrightarrow> (host, port) \<in> set (px_connects P)"
    using inv by (auto simp: target_of_def)
  show "px_active P = int (length (filter (\<lambda>cl. \<not> sc_closed cl) (px_clients P)))" using inv by (simp add: open_clients_def)
qed

text \<open>One client that asks for a listed destination and is connected.\<close>

definition demo_relayed :: socks_proxy where
  "demo_relayed = proxy_connected 0 (proxy_policy (egress_policy (Some ''a:80, b'')) 0 (proxy_data 0 [5, 1, 0, 3, 1, 97, 0, 80] (proxy_data 0 [5, 1, 0]
     (proxy_accept new_proxy))))"

lemma demo_relayed_reach: "proxy_reach (egress_policy (Some ''a:80, b'')) demo_relayed"
  unfolding demo_relayed_def
  by (intro reach_next [OF _ step_connected] reach_next [OF _ step_policy] reach_next [OF _ step_data] reach_next [OF _ step_accept] reach_new)
    code_simp+

theorem egress_proxy_confined_witness:
  "proxy_reach (egress_policy (Some ''a:80, b'')) demo_relayed \<and> px_active demo_relayed = 1 \<and> px_connects demo_relayed = [(''a'', 80)]"
proof -
  have c: "px_connects demo_relayed = [(''a'', 80)]" "map sc_closed (px_clients demo_relayed) = [False]"
    by code_simp+
  hence "filter (\<lambda>cl. \<not> sc_closed cl) (px_clients demo_relayed) = px_clients demo_relayed" "length (px_clients demo_relayed) = 1" by auto
  thus ?thesis using egress_proxy_confined [OF demo_relayed_reach] demo_relayed_reach c(1) by simp
qed

end
