(* ===== verification/Reconcile.thy ===== *)
theory Reconcile
  imports Rollout
begin

text \<open>
  Desired state against reported state: the drift checks of the control plane
  (\<open>src/application/node-reconciliation.ts\<close>) and the agent that executes the
  corrections (\<open>agents/shared/production-agent.ts\<close>, \<open>src/agent/reconciler.ts\<close>).
\<close>

section \<open>NodeReconciliationService\<close>

datatype drift_dimension = ROUTES_AND_INTEGRITY | DNS | KILL_SWITCH | PEER_TOPOLOGY | POLICY_VERSION

record drift_finding =
  df_dimension :: drift_dimension
  df_drifted :: bool
  df_correctedBy :: "string option"

abbreviation in_sync :: "drift_dimension \<Rightarrow> drift_finding" where
  "in_sync d \<equiv> \<lparr>df_dimension = d, df_drifted = False, df_correctedBy = None\<rparr>"

abbreviation corrected :: "drift_dimension \<Rightarrow> string \<Rightarrow> drift_finding" where
  "corrected d c \<equiv> \<lparr>df_dimension = d, df_drifted = True, df_correctedBy = Some c\<rparr>"

definition hashOf :: "(string \<Rightarrow> string) \<Rightarrow> json \<Rightarrow> string" where
  "hashOf sha256 v = sha256 (canonicalJson v)"

definition firewallPlanFor :: "network_policy list \<Rightarrow> json" where
  "firewallPlanFor policies = JObj [(''defaultAction'', JStr ''DENY''), (''rules'', firewallRulesFor policies)]"

text \<open>A field of the acknowledgement's details, \<open>ack?.details?.field\<close>.\<close>

definition ack_field :: "ack_row option \<Rightarrow> string \<Rightarrow> json option" where
  "ack_field ack k = (case ack of None \<Rightarrow> None | Some a \<Rightarrow> json_get k (ack_details a))"

definition route_json :: "route \<Rightarrow> json" where
  "route_json r = JObj ([(''destination'', JStr (rt_destination r))] @ opt_field ''gateway'' JStr (rt_gateway r) @
     [(''interfaceName'', JStr (rt_interfaceName r)), (''metric'', JNum (int (rt_metric r)))])"

definition files_json :: "(string \<times> string) list \<Rightarrow> json" where
  "files_json fs = JObj (map (\<lambda>(p, h). (p, JStr h)) fs)"

definition checkRoutesAndIntegrity :: "millis \<Rightarrow> uuid \<Rightarrow> node_desired_state \<Rightarrow> network_policy list \<Rightarrow>
    ('z queue_db_scheme, drift_finding) js" where
  "checkRoutesAndIntegrity now nodeId desired activePolicies =
     bindJ (getJ (latestAcknowledgement nodeId ''RECONCILE'')) (\<lambda>ack.
       if ack \<noteq> None \<and> ack_field ack ''status'' = Some (JStr ''APPLIED'') \<and>
          (case js_number (ack_field ack ''revision'') of None \<Rightarrow> False | Some r \<Rightarrow> int (ds_revision desired) \<le> r)
       then retJ (in_sync ROUTES_AND_INTEGRITY)
       else bindJ (enqueue now nodeId ''RECONCILE'' (JObj [(''revision'', JNum (int (ds_revision desired))),
           (''routes'', JArr (map route_json (ds_routes desired))), (''firewallPlan'', firewallPlanFor activePolicies),
           (''integrityFiles'', files_json (ds_integrityFiles desired))]) 150 60) (\<lambda>_.
         retJ (corrected ROUTES_AND_INTEGRITY ''RECONCILE'')))"

definition checkDns :: "millis \<Rightarrow> uuid \<Rightarrow> node_desired_state \<Rightarrow> ('z queue_db_scheme, drift_finding) js" where
  "checkDns now nodeId desired =
     bindJ (getJ (latestAcknowledgement nodeId ''SET_DNS'')) (\<lambda>ack.
       if (case ack_field ack ''servers'' of None \<Rightarrow> False
           | Some applied \<Rightarrow> applied \<notin> {JNull, JUndefined, JBool False, JNum 0, JStr []} \<and>
               json_stringify applied = json_stringify (strs_json (ds_dnsServers desired)))
       then retJ (in_sync DNS)
       else bindJ (enqueue now nodeId ''SET_DNS'' (JObj [(''servers'', strs_json (ds_dnsServers desired))]) 150 60) (\<lambda>_.
         retJ (corrected DNS ''SET_DNS'')))"

definition checkKillSwitch :: "millis \<Rightarrow> uuid \<Rightarrow> node_desired_state \<Rightarrow> ('z queue_db_scheme, drift_finding) js" where
  "checkKillSwitch now nodeId desired =
     bindJ (getJ (latestAcknowledgement nodeId ''SET_KILL_SWITCH'')) (\<lambda>ack.
       if ack_field ack ''enabled'' = Some (JBool (ds_killSwitchEnabled desired)) then retJ (in_sync KILL_SWITCH)
       else bindJ (enqueue now nodeId ''SET_KILL_SWITCH'' (JObj [(''enabled'', JBool (ds_killSwitchEnabled desired))]) 150 60)
         (\<lambda>_. retJ (corrected KILL_SWITCH ''SET_KILL_SWITCH'')))"

definition checkPeerTopology :: "(string \<Rightarrow> string) \<Rightarrow> millis \<Rightarrow> mesh_node \<Rightarrow> mesh_node list \<Rightarrow>
    ('z mesh_db_scheme, drift_finding) js" where
  "checkPeerTopology sha256 now node allNodes =
     bindJ (getJ (\<lambda>s. snd (planFor sha256 (Some (relay_candidates now s)) now node allNodes None))) (\<lambda>topologyHash.
     bindJ (getJ (latestAcknowledgement (mn_id node) ''APPLY_PEERS'')) (\<lambda>ack.
       if ack_field ack ''topologyHash'' = Some (JStr topologyHash) then retJ (in_sync PEER_TOPOLOGY)
       else bindJ (mesh_reconcile sha256 now node allNodes None) (\<lambda>_. retJ (corrected PEER_TOPOLOGY ''APPLY_PEERS''))))"

definition latestCommittedCommitId :: "'z policy_db_scheme \<Rightarrow> uuid option" where
  "latestCommittedCommitId s = (case sort_key (\<lambda>r. - (case pco_finalizedAt r of None \<Rightarrow> 0 | Some t \<Rightarrow> t))
       (filter (\<lambda>r. pco_status r = CommitCommitted) (pol_commits s)) of
     [] \<Rightarrow> None | r # _ \<Rightarrow> Some (pco_id r))"

definition checkPolicyVersion :: "(string \<Rightarrow> string) \<Rightarrow> millis \<Rightarrow> uuid \<Rightarrow> network_policy list \<Rightarrow>
    ('z policy_db_scheme, drift_finding) js" where
  "checkPolicyVersion sha256 now nodeId activePolicies =
     (let rules = firewallRulesFor activePolicies; desiredHash = hashOf sha256 rules in
      bindJ (getJ (latestAcknowledgement nodeId ''APPLY_FIREWALL'')) (\<lambda>ack.
        if ack_field ack ''firewallHash'' = Some (JStr desiredHash) then retJ (in_sync POLICY_VERSION)
        else bindJ (getJ latestCommittedCommitId) (\<lambda>commitId.
          bindJ (enqueue now nodeId ''APPLY_FIREWALL'' (JObj [
              (''commitId'', case commitId of None \<Rightarrow> JNull | Some c \<Rightarrow> JStr c),
              (''defaultAction'', JStr ''DENY''), (''rules'', rules)]) 150 60) (\<lambda>_.
            retJ (corrected POLICY_VERSION ''APPLY_FIREWALL'')))))"

text \<open>
  \<open>nodes.get\<close> accepts any identifier the repository knows; a desired state
  exists only for an enrolled node (its foreign key), and then the row is that node.
\<close>

definition checkNode :: "(string \<Rightarrow> string) \<Rightarrow> millis \<Rightarrow> uuid \<Rightarrow> ('z policy_db_scheme, uuid \<times> drift_finding list) js" where
  "checkNode sha256 now nodeId =
     bindJ (getJ (pg_get nodeId)) (\<lambda>found. if found = None then throwJ (JsError (''node not found: '' @ nodeId)) else
     bindJ (getJ (\<lambda>s. (desired_get nodeId s, find_by mn_id nodeId (db_nodes s)))) (\<lambda>(desired0, node0).
       case (desired0, node0) of
         (Some desired, Some node) \<Rightarrow>
           bindJ (getJ pg_list) (\<lambda>allNodes.
           bindJ (getJ pg_listActive_policies) (\<lambda>activePolicies.
           bindJ (checkRoutesAndIntegrity now nodeId desired activePolicies) (\<lambda>c1.
           bindJ (checkDns now nodeId desired) (\<lambda>c2.
           bindJ (checkKillSwitch now nodeId desired) (\<lambda>c3.
           bindJ (checkPeerTopology sha256 now node allNodes) (\<lambda>c4.
           bindJ (checkPolicyVersion sha256 now nodeId activePolicies) (\<lambda>c5.
           retJ (nodeId, [c1, c2, c3, c4, c5]))))))))
       | _ \<Rightarrow> retJ (nodeId, [])))"

definition checkAll :: "(string \<Rightarrow> string) \<Rightarrow> millis \<Rightarrow> ('z policy_db_scheme, (uuid \<times> drift_finding list) list) js" where
  "checkAll sha256 now = bindJ (getJ desired_all) (mapJ (\<lambda>state. checkNode sha256 now (ds_nodeId state)))"

section \<open>AgentReconciler\<close>

text \<open>The serializer of the agent, written like \<open>canonicalJson\<close>.\<close>

function (sequential) stable :: "json \<Rightarrow> string" where
  "stable JNull = ''null''"
| "stable JUndefined = ''undefined''"
| "stable (JBool b) = (if b then ''true'' else ''false'')"
| "stable (JNum i) = int_string i"
| "stable (JStr s) = json_string s"
| "stable (JArr vs) = ''['' @ js_join '','' (map (\<lambda>v. if v = JUndefined then [] else stable v) vs) @ '']''"
| "stable (JObj kvs) =
     ''{'' @ js_join '','' (map (\<lambda>kv. json_string (fst kv) @ '':'' @ stable (snd kv))
        (sort_key (\<lambda>kv. collation_key (fst kv)) kvs)) @ ''}''"
  by pat_completeness auto
termination
proof (relation "measure size", goal_cases)
  case (2 vs v)
  thus ?case by (simp add: less_Suc_eq_le size_list_estimation')
next
  case (3 kvs kv)
  thus ?case using json_entry_size [of "fst kv" "snd kv" kvs] by simp
qed simp

definition routeKey :: "route \<Rightarrow> string" where
  "routeKey r = rt_destination r @ ''|'' @ rt_interfaceName r @ ''|'' @ (case rt_gateway r of None \<Rightarrow> [] | Some g \<Rightarrow> g) @
     ''|'' @ dec (rt_metric r)"

definition sortRoutes :: "route list \<Rightarrow> route list" where
  "sortRoutes routes = sort_key (\<lambda>r. collation_key (routeKey r)) routes"

definition route_hash :: "(string \<Rightarrow> string) \<Rightarrow> route list \<Rightarrow> string" where
  "route_hash sha256 routes = sha256 (stable (JArr (map route_json (sortRoutes routes))))"

text \<open>The platform of an agent: the operations of \<open>PlatformAdapter\<close> and \<open>AgentPlatform\<close> on its state.\<close>

record 's agent_platform =
  pf_readRoutes :: "('s, route list) js"
  pf_replaceRoutes :: "route list \<Rightarrow> ('s, unit) js"
  pf_readFileHash :: "string \<Rightarrow> ('s, string) js"
  pf_applyFirewallPlan :: "json \<Rightarrow> ('s, unit) js"
  pf_clearTransientCredentials :: "('s, unit) js"
  pf_setKillSwitch :: "bool \<Rightarrow> ('s, unit) js"
  pf_setDns :: "json \<Rightarrow> ('s, unit) js"
  pf_applyWireGuard :: "json \<Rightarrow> ('s, unit) js"
  pf_applyPeers :: "json \<Rightarrow> ('s, unit) js"
  pf_applyFirewall :: "json \<Rightarrow> ('s, unit) js"
  pf_rollbackFirewall :: "json \<Rightarrow> ('s, unit) js"
  pf_isolate :: "json \<Rightarrow> ('s, unit) js"
  pf_restore :: "('s, unit) js"
  pf_rotatePrivateKey :: "string \<Rightarrow> ('s, unit) js"
  pf_collectPosture :: "('s, json) js"

record agent_desired_state =
  ads_revision :: int
  ads_routes :: "route list"
  ads_firewallPlan :: json
  ads_integrityFiles :: "(string \<times> string) list"

datatype reconcile_status = STALE | APPLIED

text \<open>The state of the agent: the revision the reconciler reached, and the platform.\<close>

record 's agent =
  agt_revision :: int
  agt_stopped :: bool
  agt_world :: 's

definition on_world :: "('s, 'a) js \<Rightarrow> ('s agent, 'a) js" where
  "on_world m a = (case m (agt_world a) of (r, w) \<Rightarrow> (r, a\<lparr>agt_world := w\<rparr>))"

definition check_file :: "'s agent_platform \<Rightarrow> string \<times> string \<Rightarrow> ('s agent, unit) js" where
  "check_file P pe = bindJ (on_world (pf_readFileHash P (fst pe))) (\<lambda>actual.
     if actual \<noteq> snd pe
     then bindJ (on_world (pf_clearTransientCredentials P)) (\<lambda>_. throwJ (JsError (''integrity failure: '' @ fst pe)))
     else retJ ())"

definition agent_reconcile :: "(string \<Rightarrow> string) \<Rightarrow> 's agent_platform \<Rightarrow> agent_desired_state \<Rightarrow>
    ('s agent, reconcile_status \<times> int) js" where
  "agent_reconcile sha256 P state = bindJ (getJ agt_revision) (\<lambda>revision.
     if ads_revision state < revision then retJ (STALE, revision)
     else bindJ (forJ (check_file P) (ads_integrityFiles state)) (\<lambda>_.
       bindJ (on_world (pf_readRoutes P)) (\<lambda>current.
       bindJ (if route_hash sha256 current \<noteq> route_hash sha256 (ads_routes state)
              then on_world (pf_replaceRoutes P (ads_routes state)) else retJ ()) (\<lambda>_.
       bindJ (on_world (pf_applyFirewallPlan P (ads_firewallPlan state))) (\<lambda>_.
       bindJ (modifyJ (\<lambda>a. a\<lparr>agt_revision := ads_revision state\<rparr>)) (\<lambda>_.
       retJ (APPLIED, ads_revision state)))))))"

section \<open>ProductionAgent\<close>

text \<open>
  The payload of a \<open>RECONCILE\<close> command read as an \<open>AgentDesiredState\<close>; it is
  typed \<open>any\<close> in the source, and a payload has the shape
  \<open>checkRoutesAndIntegrity\<close> gives it.
\<close>

definition route_of_json :: "json \<Rightarrow> route" where
  "route_of_json j = \<lparr>rt_destination = str_of (json_get ''destination'' j),
     rt_gateway = (case json_get ''gateway'' j of Some (JStr g) \<Rightarrow> Some g | _ \<Rightarrow> None),
     rt_interfaceName = str_of (json_get ''interfaceName'' j),
     rt_metric = (case json_get ''metric'' j of Some (JNum n) \<Rightarrow> nat n | _ \<Rightarrow> 0)\<rparr>"

definition desired_of_payload :: "json \<Rightarrow> agent_desired_state" where
  "desired_of_payload p = \<lparr>ads_revision = (case json_get ''revision'' p of Some (JNum n) \<Rightarrow> n | _ \<Rightarrow> 0),
     ads_routes = (case json_get ''routes'' p of Some (JArr rs) \<Rightarrow> map route_of_json rs | _ \<Rightarrow> []),
     ads_firewallPlan = (case json_get ''firewallPlan'' p of Some v \<Rightarrow> v | None \<Rightarrow> JUndefined),
     ads_integrityFiles = (case json_get ''integrityFiles'' p of
       Some (JObj kvs) \<Rightarrow> map (\<lambda>(k, v). (k, str_of (Some v))) kvs | _ \<Rightarrow> [])\<rparr>"

record agent_command =
  ac_id :: uuid
  ac_type :: string
  ac_payload :: json

record 's agent_deps =
  dp_nodeId :: uuid
  dp_version :: string
  dp_platform :: "'s agent_platform"
  dp_heartbeat :: "json \<Rightarrow> ('s, agent_command list) js"
  dp_acknowledge :: "uuid \<Rightarrow> json \<Rightarrow> ('s, unit) js"
  dp_reconciler :: bool
  dp_rotatePeerKey :: "(uuid \<Rightarrow> string \<Rightarrow> string \<Rightarrow> ('s, bool \<times> json) js) option"
  dp_sign :: "(uuid \<Rightarrow> string \<Rightarrow> string) option"

definition ok_ack :: "millis \<Rightarrow> (string \<times> json) list \<Rightarrow> json" where
  "ok_ack now extra = JObj ([(''ok'', JBool True), (''at'', date_json now)] @ extra)"

definition status_json :: "reconcile_status \<Rightarrow> json" where
  "status_json st = JStr (case st of STALE \<Rightarrow> ''STALE'' | APPLIED \<Rightarrow> ''APPLIED'')"

text \<open>The body of the \<open>try\<close> block; \<open>wg\<close> is the key pair \<open>generateWireGuardKeyPair\<close> returns.\<close>

definition execute_body :: "(string \<Rightarrow> string) \<Rightarrow> 's agent_deps \<Rightarrow> millis \<Rightarrow> string \<times> string \<Rightarrow> agent_command \<Rightarrow>
    ('s agent, unit) js" where
  "execute_body sha256 A now wg c = (let P = dp_platform A; p = ac_payload c;
       ack = (\<lambda>extra. on_world (dp_acknowledge A (ac_id c) (ok_ack now extra))) in
     if ac_type c = ''SET_KILL_SWITCH'' then bindJ (fieldJ ''enabled'' p) (\<lambda>v. let enabled = js_truthy v in
       bindJ (on_world (pf_setKillSwitch P enabled)) (\<lambda>_. ack [(''enabled'', JBool enabled)]))
     else if ac_type c = ''SET_DNS'' then bindJ (fieldJ ''servers'' p) (\<lambda>servers.
       bindJ (on_world (pf_setDns P servers)) (\<lambda>_. ack [(''servers'', servers)]))
     else if ac_type c = ''APPLY_WIREGUARD'' then bindJ (on_world (pf_applyWireGuard P p)) (\<lambda>_. ack [])
     else if ac_type c = ''APPLY_PEERS'' then bindJ (fieldJ ''peers'' p) (\<lambda>peers.
       bindJ (on_world (pf_applyPeers P peers)) (\<lambda>_. ack [(''topologyHash'', JStr (sha256 (canonicalJson peers)))]))
     else if ac_type c = ''APPLY_FIREWALL'' then bindJ (on_world (pf_applyFirewall P p)) (\<lambda>_.
       bindJ (fieldJ ''rules'' p) (\<lambda>rules. bindJ (fieldJ ''commitId'' p) (\<lambda>commitId.
         ack [(''commitId'', commitId), (''firewallHash'', JStr (sha256 (canonicalJson (nullish rules (JArr [])))))])))
     else if ac_type c = ''ROLLBACK_FIREWALL'' then bindJ (fieldJ ''commitId'' p) (\<lambda>commitId.
       bindJ (on_world (pf_rollbackFirewall P commitId)) (\<lambda>_. ack []))
     else if ac_type c = ''QUARANTINE'' then bindJ (fieldJ ''reason'' p) (\<lambda>reason.
       bindJ (on_world (pf_isolate P (nullish reason (JStr ''controller quarantine'')))) (\<lambda>_. ack []))
     else if ac_type c = ''RESTORE'' then bindJ (on_world (pf_restore P)) (\<lambda>_. ack [])
     else if ac_type c = ''ROTATE_IDENTITY_REQUIRED'' then (case (dp_rotatePeerKey A, dp_sign A) of
         (Some rotatePeerKey, Some sign) \<Rightarrow>
           bindJ (on_world (rotatePeerKey (dp_nodeId A) (fst wg) (sign (dp_nodeId A) (fst wg)))) (\<lambda>(acknowledged, epoch).
             if \<not> acknowledged then throwJ (JsError ''mesh rejected the identity rotation'')
             else bindJ (on_world (pf_rotatePrivateKey P (snd wg))) (\<lambda>_.
               ack [(''newPublicKey'', JStr (fst wg)), (''effectiveEpoch'', epoch)]))
       | _ \<Rightarrow> throwJ (JsError ''ROTATE_IDENTITY_REQUIRED received but no MeshRotationClient/IdentitySigner is configured''))
     else if ac_type c = ''RECONCILE'' then
       (if \<not> dp_reconciler A then throwJ (JsError ''RECONCILE command received but no AgentReconciler is configured'')
        else bindJ (agent_reconcile sha256 P (desired_of_payload p)) (\<lambda>(st, rev).
          ack [(''status'', status_json st), (''revision'', JNum rev)]))
     else throwJ (JsError (''unsupported controller command '' @ ac_type c)))"

definition agent_execute :: "(string \<Rightarrow> string) \<Rightarrow> 's agent_deps \<Rightarrow> millis \<Rightarrow> string \<times> string \<Rightarrow> agent_command \<Rightarrow>
    ('s agent, unit) js" where
  "agent_execute sha256 A now wg c = catchJ (execute_body sha256 A now wg c) (\<lambda>e.
     on_world (dp_acknowledge A (ac_id c) (JObj [(''ok'', JBool False), (''error'', JStr (error_message e))])))"

text \<open>One turn of the loop of \<open>run\<close>; \<open>keys\<close> are the key pairs generated for the commands.\<close>

definition agent_turn :: "(string \<Rightarrow> string) \<Rightarrow> 's agent_deps \<Rightarrow> millis \<Rightarrow> (uuid \<Rightarrow> string \<times> string) \<Rightarrow> ('s agent, unit) js" where
  "agent_turn sha256 A now keys = bindJ (getJ agt_stopped) (\<lambda>stopped. if stopped then retJ () else
     bindJ (on_world (pf_collectPosture (dp_platform A))) (\<lambda>posture.
     bindJ (on_world (dp_heartbeat A (JObj [(''nodeId'', JStr (dp_nodeId A)), (''at'', date_json now), (''posture'', posture),
        (''postureHash'', JStr (sha256 (json_stringify posture))), (''agentVersion'', JStr (dp_version A)),
        (''bytesTransmitted'', JNum 0), (''bytesReceived'', JNum 0)]))) (\<lambda>commands.
     forJ (\<lambda>c. agent_execute sha256 A now (keys (ac_id c)) c) commands)))"

definition agent_stop :: "('s agent, unit) js" where
  "agent_stop = modifyJ (\<lambda>a. a\<lparr>agt_stopped := True\<rparr>)"

section \<open>Corrections converge\<close>

text \<open>An agent whose acknowledgements reach the command queue of the control plane: its world is the database and the device.\<close>

definition db_acknowledge :: "millis \<Rightarrow> uuid \<Rightarrow> json \<Rightarrow> ('z queue_db_scheme \<times> 'w, unit) js" where
  "db_acknowledge t i result = (\<lambda>(db, w). case acknowledge t i result db of (r, db') \<Rightarrow> (r, (db', w)))"

definition delivered :: "command_row \<Rightarrow> agent_command" where
  "delivered c = \<lparr>ac_id = cmd_id c, ac_type = cmd_type c, ac_payload = cmd_payload c\<rparr>"

lemma sort_latest:
  assumes "\<forall>a \<in> set xs. ack_at a < ack_at x"
  shows "\<exists>ys. sort_key (\<lambda>a. - ack_at a) (xs @ [x]) = x # ys"
proof -
  let ?f = "\<lambda>a. - ack_at a"
  obtain y ys where y: "sort_key ?f (xs @ [x]) = y # ys" by (cases "sort_key ?f (xs @ [x])") (auto dest: arg_cong [of _ _ length])
  have "set (y # ys) = set (xs @ [x])" unfolding y [symmetric] by (rule set_sort)
  moreover have "sorted (map ?f (y # ys))" unfolding y [symmetric] by (rule sorted_sort_key)
  ultimately have "?f y \<le> ?f x" "y \<in> set xs \<or> y = x" by auto
  thus ?thesis using y assms by force
qed

lemma acknowledged_is_latest:
  assumes "queue_inv s" "c \<in> set (q_commands s)" "cmd_acknowledgedAt c = None" "\<forall>a \<in> set (q_acks s). ack_at a < t"
    and "json_get ''ok'' result = Some (JBool True)" "acknowledge t (cmd_id c) result s = (r, s')"
  shows "r = Inr () \<and> ack_field (latestAcknowledgement (cmd_nodeId c) (cmd_type c) s') k = json_get k result"
proof -
  let ?a = "\<lparr>ack_commandId = cmd_id c, ack_nodeId = cmd_nodeId c, ack_type = cmd_type c, ack_issuedAt = cmd_issuedAt c, ack_at = t,
    ack_status = ''SUCCEEDED'', ack_details = result\<rparr>"
  have st: "ack_status_of result = ''SUCCEEDED''" "ack_details_of result = result"
    using assms(5) by (auto simp: ack_status_of_def ack_details_of_def json_get_def)
  have s': "r = Inr ()" "q_acks s' = q_acks s @ [?a]" using acknowledge_ok [OF assms(1-3), of t result] assms(6) by (auto simp: st)
  let ?p = "\<lambda>a. ack_nodeId a = cmd_nodeId c \<and> ack_type a = cmd_type c \<and> ack_status a = ''SUCCEEDED''"
  have "filter ?p (q_acks s') = filter ?p (q_acks s) @ [?a]" by (simp add: s'(2))
  moreover have "\<exists>ys. sort_key (\<lambda>a. - ack_at a) (filter ?p (q_acks s) @ [?a]) = ?a # ys" using assms(4) by (intro sort_latest) simp
  ultimately have "latestAcknowledgement (cmd_nodeId c) (cmd_type c) s' = Some ?a" by (auto simp: latestAcknowledgement_def)
  thus ?thesis by (simp add: s'(1) ack_field_def)
qed

text \<open>A device that carries out the two settings.\<close>

definition device_obeys :: "('z queue_db_scheme \<times> 'w) agent_platform \<Rightarrow> bool" where
  "device_obeys P \<longleftrightarrow> (\<forall>v db w. \<exists>w'. pf_setDns P v (db, w) = (Inr (), (db, w'))) \<and>
     (\<forall>v db w. \<exists>w'. pf_setKillSwitch P v (db, w) = (Inr (), (db, w')))"

definition setting_of :: "node_desired_state \<Rightarrow> string \<Rightarrow> string \<times> json" where
  "setting_of desired type = (if type = ''SET_DNS'' then (''servers'', strs_json (ds_dnsServers desired))
     else (''enabled'', JBool (ds_killSwitchEnabled desired)))"

lemma agent_executes_setting:
  assumes "device_obeys (dp_platform A)" "dp_acknowledge A = db_acknowledge t" "cmd_type c \<in> {''SET_DNS'', ''SET_KILL_SWITCH''}"
    and "cmd_payload c = JObj [setting_of desired (cmd_type c)]" "agt_world a = (db, w)"
    and "acknowledge t (cmd_id c) (ok_ack t [setting_of desired (cmd_type c)]) db = (Inr (), db')"
  shows "\<exists>a'. agent_execute sha256 A t wg (delivered c) a = (Inr (), a') \<and> fst (agt_world a') = db'"
proof -
  obtain w1 where w1: "pf_setDns (dp_platform A) (strs_json (ds_dnsServers desired)) (db, w) = (Inr (), (db, w1))"
    using assms(1) unfolding device_obeys_def by blast
  obtain w2 where w2: "pf_setKillSwitch (dp_platform A) (ds_killSwitchEnabled desired) (db, w) = (Inr (), (db, w2))"
    using assms(1) unfolding device_obeys_def by blast
  consider "cmd_type c = ''SET_DNS''" | "cmd_type c = ''SET_KILL_SWITCH''" using assms(3) by blast
  thus ?thesis
  proof cases
    case 1
    have "agent_execute sha256 A t wg (delivered c) a = (Inr (), a\<lparr>agt_world := (db', w1)\<rparr>)"
      using assms 1 w1 by (simp add: agent_execute_def execute_body_def delivered_def setting_of_def Let_def fieldJ_def payload_field_def
          json_get_def bindJ_def catchJ_def on_world_def db_acknowledge_def)
    thus ?thesis by simp
  next
    case 2
    have "js_truthy (JBool b) = b" for b by (simp add: js_truthy_def)
    hence "agent_execute sha256 A t wg (delivered c) a = (Inr (), a\<lparr>agt_world := (db', w2)\<rparr>)"
      using assms 2 w2 by (simp add: agent_execute_def execute_body_def delivered_def setting_of_def Let_def fieldJ_def payload_field_def
          json_get_def bindJ_def catchJ_def on_world_def db_acknowledge_def)
    thus ?thesis by simp
  qed
qed

text \<open>The two checks, with the command type and the dimension of each.\<close>

definition setting_checks :: "((millis \<Rightarrow> uuid \<Rightarrow> node_desired_state \<Rightarrow> ('z queue_db_scheme, drift_finding) js) \<times> string \<times> drift_dimension) list" where
  "setting_checks = [(checkDns, ''SET_DNS'', DNS), (checkKillSwitch, ''SET_KILL_SWITCH'', KILL_SWITCH)]"

lemma setting_check_drifted:
  assumes "(check, type, dmn) \<in> set setting_checks" "queue_inv s" "known_node nodeId s" "check now nodeId desired s = (Inr f, s1)" "df_drifted f"
  shows "s1 = snd (enqueue now nodeId type (JObj [setting_of desired type]) 150 60 s) \<and> f = corrected dmn type"
  using assms by (auto simp: setting_checks_def checkDns_def checkKillSwitch_def setting_of_def bindJ_def enqueue_ok split: if_splits)

lemma setting_check_in_sync:
  assumes "(check, type, dmn) \<in> set setting_checks"
    and "ack_field (latestAcknowledgement nodeId type s) (fst (setting_of desired type)) = Some (snd (setting_of desired type))"
  shows "check now nodeId desired s = (Inr (in_sync dmn), s)"
  using assms by (auto simp: setting_checks_def checkDns_def checkKillSwitch_def setting_of_def strs_json_def split: if_splits)

text \<open>
  C13. Drift correction closes the loop: when the DNS or kill-switch check of a node reports drift it queues one
  command; once an agent whose device carries it out has executed that command and its acknowledgement is stored,
  later than every earlier one, the same check reports the node in sync and queues nothing.
\<close>

theorem drift_correction_converges:
  fixes s :: "'z queue_db_scheme" and a :: "('z queue_db_scheme \<times> 'w) agent"
  assumes "(check, type, dmn) \<in> set setting_checks" "queue_inv s" "known_node nodeId s" "\<forall>x \<in> set (q_acks s). ack_at x < t"
    and "check now nodeId desired s = (Inr f, s1)" "df_drifted f"
    and "device_obeys (dp_platform A)" "dp_acknowledge A = db_acknowledge t" "agt_world a = (s1, w)"
  shows "\<exists>c a'. q_commands s1 = q_commands s @ [c] \<and> agent_execute sha256 A t wg (delivered c) a = (Inr (), a') \<and>
    check later nodeId desired (fst (agt_world a')) = (Inr (in_sync dmn), fst (agt_world a'))"
proof -
  let ?c = "command_of (db_fresh s (db_drawn s)) now nodeId type (JObj [setting_of desired type]) 150 60"
  have s1: "s1 = snd (enqueue now nodeId type (JObj [setting_of desired type]) 150 60 s)"
    using setting_check_drifted [OF assms(1-3,5,6)] by simp
  hence q: "q_commands s1 = q_commands s @ [?c]" "q_acks s1 = q_acks s" by (simp_all add: enqueue_ok [OF assms(2,3)])
  have inv: "queue_inv s1" unfolding s1 by (rule queue_inv_enqueue [OF assms(2)])
  have type: "type \<in> {''SET_DNS'', ''SET_KILL_SWITCH''}" using assms(1) by (auto simp: setting_checks_def)
  have c: "cmd_type ?c = type" "cmd_payload ?c = JObj [setting_of desired type]" "cmd_nodeId ?c = nodeId" "cmd_acknowledgedAt ?c = None"
    by (simp_all add: command_of_def)
  let ?result = "ok_ack t [setting_of desired type]"
  obtain r s2 where ak: "acknowledge t (cmd_id ?c) ?result s1 = (r, s2)" by force
  have ok: "json_get ''ok'' ?result = Some (JBool True)" by (simp add: ok_ack_def json_get_def)
  have l: "r = Inr () \<and> ack_field (latestAcknowledgement nodeId type s2) k = json_get k ?result" for k
    using acknowledged_is_latest [OF inv _ c(4) _ ok ak, of k] q assms(4) c by simp
  have "json_get (fst (setting_of desired type)) ?result = Some (snd (setting_of desired type))"
    using type by (auto simp: ok_ack_def json_get_def setting_of_def)
  hence sync: "check later nodeId desired s2 = (Inr (in_sync dmn), s2)" using setting_check_in_sync [OF assms(1)] l by simp
  have x: "cmd_type ?c \<in> {''SET_DNS'', ''SET_KILL_SWITCH''}" "cmd_payload ?c = JObj [setting_of desired (cmd_type ?c)]"
    "acknowledge t (cmd_id ?c) (ok_ack t [setting_of desired (cmd_type ?c)]) s1 = (Inr (), s2)"
    unfolding c(1,2) using type ak l by simp_all
  obtain a' where "agent_execute sha256 A t wg (delivered ?c) a = (Inr (), a')" "fst (agt_world a') = s2"
    using agent_executes_setting [OF assms(7,8) x(1,2) assms(9) x(3), of sha256 wg] by blast
  thus ?thesis using q(1) sync by blast
qed

definition demo_agent :: "(queue_db \<times> unit) agent_deps" where
  "demo_agent = \<lparr>dp_nodeId = ''n1'', dp_version = ''1'', dp_platform = \<lparr>pf_readRoutes = retJ [], pf_replaceRoutes = (\<lambda>_. retJ ()),
     pf_readFileHash = (\<lambda>_. retJ []), pf_applyFirewallPlan = (\<lambda>_. retJ ()), pf_clearTransientCredentials = retJ (),
     pf_setKillSwitch = (\<lambda>_. retJ ()), pf_setDns = (\<lambda>_. retJ ()), pf_applyWireGuard = (\<lambda>_. retJ ()), pf_applyPeers = (\<lambda>_. retJ ()),
     pf_applyFirewall = (\<lambda>_. retJ ()), pf_rollbackFirewall = (\<lambda>_. retJ ()), pf_isolate = (\<lambda>_. retJ ()), pf_restore = retJ (),
     pf_rotatePrivateKey = (\<lambda>_. retJ ()), pf_collectPosture = retJ (JObj [])\<rparr>, dp_heartbeat = (\<lambda>_. retJ []),
     dp_acknowledge = db_acknowledge 7, dp_reconciler = False, dp_rotatePeerKey = None, dp_sign = None\<rparr>"

definition demo_desired :: node_desired_state where
  "demo_desired = \<lparr>ds_nodeId = ''n1'', ds_revision = 1, ds_routes = [], ds_dnsServers = [''10.0.0.1''], ds_killSwitchEnabled = True,
     ds_integrityFiles = [], ds_updatedAt = 0\<rparr>"

theorem drift_correction_converges_witness:
  "\<exists>s1 c a'. checkDns 5 ''n1'' demo_desired demo_queue = (Inr (corrected DNS ''SET_DNS''), s1) \<and> q_commands s1 = [c] \<and>
     agent_execute (\<lambda>x. x) demo_agent 7 ([], []) (delivered c) \<lparr>agt_revision = 0, agt_stopped = False, agt_world = (s1, ())\<rparr> = (Inr (), a') \<and>
     checkDns 9 ''n1'' demo_desired (fst (agt_world a')) = (Inr (in_sync DNS), fst (agt_world a'))"
proof -
  obtain s1 where s1: "checkDns 5 ''n1'' demo_desired demo_queue = (Inr (corrected DNS ''SET_DNS''), s1)"
    using enqueue_ok [OF demo_queue_inv demo_known, of 5 "''SET_DNS''" "JObj [(''servers'', strs_json (ds_dnsServers demo_desired))]" 150 60]
    by (simp add: checkDns_def latestAcknowledgement_def demo_queue_def ack_field_def bindJ_def)
  have e: "(checkDns, ''SET_DNS'', DNS) \<in> set setting_checks" "\<forall>x \<in> set (q_acks demo_queue). ack_at x < 7" "q_commands demo_queue = []"
    by (simp_all add: setting_checks_def demo_queue_def)
  have d: "device_obeys (dp_platform demo_agent)" "dp_acknowledge demo_agent = db_acknowledge 7"
    by (simp_all add: demo_agent_def device_obeys_def)
  obtain c a' where "q_commands s1 = q_commands demo_queue @ [c]"
    "agent_execute (\<lambda>x. x) demo_agent 7 ([], []) (delivered c) \<lparr>agt_revision = 0, agt_stopped = False, agt_world = (s1, ())\<rparr> = (Inr (), a')"
    "checkDns 9 ''n1'' demo_desired (fst (agt_world a')) = (Inr (in_sync DNS), fst (agt_world a'))"
    using drift_correction_converges [OF e(1) demo_queue_inv demo_known e(2) s1 _ d, of "\<lparr>agt_revision = 0, agt_stopped = False, agt_world = (s1, ())\<rparr>" "()"
      "\<lambda>x. x" "([], [])" 9] by auto
  thus ?thesis using s1 e(3) by auto
qed

end
