(* ===== verification/Ops.thy ===== *)
theory Ops
  imports Edge Reconcile AuditChain
begin

text \<open>
  Operation of the control plane: configuration (\<open>src/config.ts\<close>,
  \<open>src/infrastructure/aws-secrets.ts\<close>), schema migrations
  (\<open>src/infrastructure/postgres/migrate.ts\<close>), retention
  (\<open>src/infrastructure/postgres/maintenance.ts\<close>), the jobs of
  \<open>src/runtime/maintenance-worker.ts\<close>, and relay provisioning
  (\<open>services/relay-fleet\<close>).
\<close>

section \<open>Configuration\<close>

type_synonym env = "(string \<times> string) list"

text \<open>
  \<open>Number(text)\<close> for decimal notation; hexadecimal and exponents are outside the model
  and read as NaN.
\<close>

definition js_decimal :: "string \<Rightarrow> rat option" where
  "js_decimal text0 = (let t = js_trim text0; neg = starts_with t ''-''; body = (if neg then drop 1 t else t) in
     if t = [] then Some 0 else (case split_on (CHR ''.'') body of
       [a] \<Rightarrow> if a \<noteq> [] \<and> list_all is_digit a then Some ((if neg then -1 else 1) * of_nat (radix_val 10 a)) else None
     | [a, b] \<Rightarrow> if a @ b \<noteq> [] \<and> list_all is_digit (a @ b)
         then Some ((if neg then -1 else 1) * of_nat (radix_val 10 (a @ b)) / 10 ^ length b) else None
     | _ \<Rightarrow> None))"

definition cfg_number :: "string option \<Rightarrow> rat \<Rightarrow> rat option" where
  "cfg_number v d = (case v of None \<Rightarrow> Some d | Some s \<Rightarrow> js_decimal s)"

definition cfg_int :: "string option \<Rightarrow> rat \<Rightarrow> js_error + rat" where
  "cfg_int v d = (case cfg_number v d of
     None \<Rightarrow> Inl (JsError ''invalid numeric configuration'')
   | Some n \<Rightarrow> if n \<le> 0 then Inl (JsError ''invalid numeric configuration'') else Inr n)"

definition cfg_bool :: "string option \<Rightarrow> bool \<Rightarrow> bool" where
  "cfg_bool v d = (case v of None \<Rightarrow> d | Some s \<Rightarrow> js_lower s \<in> {''1'', ''true'', ''yes''})"

definition cfg_fraction :: "string option \<Rightarrow> rat \<Rightarrow> js_error + rat" where
  "cfg_fraction v d = (case cfg_number v d of
     None \<Rightarrow> Inl (JsError ''invalid fractional configuration (must be between 0 and 1)'')
   | Some n \<Rightarrow> if n < 0 \<or> 1 < n then Inl (JsError ''invalid fractional configuration (must be between 0 and 1)'') else Inr n)"

definition ecosystemSecret :: "string option \<Rightarrow> string \<Rightarrow> bool \<Rightarrow> js_error + string" where
  "ecosystemSecret v name production =
     (if production \<and> (case v of None \<Rightarrow> True | Some s \<Rightarrow> length s < 32)
      then Inl (JsError (''production '' @ name @ '' shared secret must be set and at least 32 characters''))
      else Inr (case truthy v of None \<Rightarrow> ''development-'' @ name @ ''-secret-change-me'' | Some s \<Rightarrow> s))"

fun provider_of :: "string \<Rightarrow> attestation_provider option" where
  "provider_of s = (if s = ''development'' then Some DevelopmentAttestation else if s = ''windows-tpm'' then Some WindowsTpm
     else if s = ''linux-tpm2'' then Some LinuxTpm2 else if s = ''apple-secure-enclave'' then Some AppleSecureEnclave else None)"

record security_config =
  cf_environment :: string
  cf_attestationProvider :: attestation_provider
  cf_databaseUrl :: string
  cf_certificateTtlMinutes :: rat
  cf_keyRotationDays :: rat
  cf_safeApplyTimeoutMs :: rat
  cf_safeApplyNodeFailureThreshold :: rat
  cf_authorizationRefreshMs :: rat
  cf_controlApiTokenSecret :: string
  cf_eventSigningSecret :: string
  cf_bindHost :: string
  cf_port :: rat
  cf_oobRequired :: bool
  cf_oobControllerUrl :: string
  cf_oobSharedSecret :: string
  cf_diagnosticsSecret :: string
  cf_headquartersSecret :: string
  cf_cloudDeploymentSecret :: string
  cf_integrationSecret :: string

definition thenE :: "js_error + 'a \<Rightarrow> ('a \<Rightarrow> js_error + 'b) \<Rightarrow> js_error + 'b" where
  "thenE r f = (case r of Inl e \<Rightarrow> Inl e | Inr x \<Rightarrow> f x)"

definition or_else :: "string option \<Rightarrow> string \<Rightarrow> string" where
  "or_else v d = (case v of None \<Rightarrow> d | Some s \<Rightarrow> s)"

definition or_default :: "string option \<Rightarrow> string \<Rightarrow> string" where
  "or_default v d = or_else (truthy v) d"

definition loadConfig :: "env \<Rightarrow> js_error + security_config" where
  "loadConfig env = (let get = map_of env; environment = or_else (get ''NODE_ENV'') ''development'';
       secret = or_else (get ''CONTROL_API_TOKEN_SECRET'') []; eventSecret = or_else (get ''EVENT_SIGNING_SECRET'') [];
       oobSecret = or_else (get ''OOB_SHARED_SECRET'') []; production = (environment = ''production'') in
     if production \<and> (length secret < 32 \<or> length eventSecret < 32 \<or> length oobSecret < 32)
     then Inl (JsError ''production control/event signing/OOB shared secrets must be at least 32 characters'')
     else (case provider_of (or_else (get ''ATTESTATION_PROVIDER'') ''development'') of
       None \<Rightarrow> Inl (JsError ''ATTESTATION_PROVIDER must be one of development, windows-tpm, linux-tpm2, apple-secure-enclave'')
     | Some provider \<Rightarrow>
       if production \<and> provider = DevelopmentAttestation
       then Inl (JsError (''ATTESTATION_PROVIDER=development (or unset) cannot be used when NODE_ENV=production'' @
         '' - set it to windows-tpm, linux-tpm2, or apple-secure-enclave'')) else
       thenE (cfg_int (get ''CERTIFICATE_TTL_MINUTES'') 1440) (\<lambda>ttl.
       thenE (cfg_int (get ''KEY_ROTATION_DAYS'') 30) (\<lambda>rotation.
       thenE (cfg_int (get ''SAFE_APPLY_TIMEOUT_MS'') 60000) (\<lambda>apply_ms.
       thenE (cfg_fraction (get ''SAFE_APPLY_NODE_FAILURE_THRESHOLD'') 0) (\<lambda>threshold.
       thenE (cfg_int (get ''AUTH_REFRESH_MS'') 30000) (\<lambda>refresh.
       thenE (cfg_int (get ''PORT'') 8080) (\<lambda>port.
       thenE (ecosystemSecret (get ''DIAGNOSTICS_SHARED_SECRET'') ''diagnostics'' production) (\<lambda>diagnostics.
       thenE (ecosystemSecret (get ''HEADQUARTERS_SHARED_SECRET'') ''headquarters'' production) (\<lambda>headquarters.
       thenE (ecosystemSecret (get ''CLOUD_DEPLOYMENT_SHARED_SECRET'') ''cloud-deployment'' production) (\<lambda>cloud.
       thenE (ecosystemSecret (get ''INTEGRATION_SHARED_SECRET'') ''integration'' production) (\<lambda>integration.
       Inr \<lparr>cf_environment = environment, cf_attestationProvider = provider,
         cf_databaseUrl = or_else (get ''DATABASE_URL'') ''postgres://localhost/bapc_security_core'',
         cf_certificateTtlMinutes = ttl, cf_keyRotationDays = rotation, cf_safeApplyTimeoutMs = apply_ms,
         cf_safeApplyNodeFailureThreshold = threshold, cf_authorizationRefreshMs = refresh,
         cf_controlApiTokenSecret = or_default (Some secret) ''development-only-change-me'',
         cf_eventSigningSecret = or_default (Some eventSecret) ''development-event-secret-change-me'',
         cf_bindHost = or_else (get ''BIND_HOST'') (if production then ''0.0.0.0'' else ''127.0.0.1''),
         cf_port = port, cf_oobRequired = cfg_bool (get ''OOB_REQUIRED'') True,
         cf_oobControllerUrl = or_else (get ''OOB_CONTROLLER_URL'') ''http://127.0.0.1:8181'',
         cf_oobSharedSecret = or_default (get ''OOB_SHARED_SECRET'') ''development-oob-shared-secret-change-me'',
         cf_diagnosticsSecret = diagnostics, cf_headquartersSecret = headquarters,
         cf_cloudDeploymentSecret = cloud, cf_integrationSecret = integration\<rparr>))))))))))))"

text \<open>Secrets of the store fill the variables that are not set; \<open>send\<close> fetches the secret string.\<close>

fun hydrate :: "(string \<times> json) list \<Rightarrow> env \<Rightarrow> env" where
  "hydrate [] env = env"
| "hydrate ((k, v) # r) env = hydrate r (case v of
     JStr s \<Rightarrow> if truthy (map_of env k) = None then map_set fst (k, s) env else env | _ \<Rightarrow> env)"

definition indexed :: "json list \<Rightarrow> (string \<times> json) list" where
  "indexed vs = map (\<lambda>(i, v). (dec i, v)) (enumerate 0 vs)"

definition object_entries :: "json \<Rightarrow> (string \<times> json) list" where
  "object_entries v = (case v of JObj kvs \<Rightarrow> kvs | JArr vs \<Rightarrow> indexed vs | JStr s \<Rightarrow> indexed (map (\<lambda>c. JStr [c]) s) | _ \<Rightarrow> [])"

definition hydrateSecretsFromAws :: "(string \<Rightarrow> js_error + string option) \<Rightarrow> env \<Rightarrow> js_error + env" where
  "hydrateSecretsFromAws send env = (case truthy (map_of env ''AWS_SECRETS_MANAGER_SECRET_ID'') of
     None \<Rightarrow> Inr env
   | Some secretId \<Rightarrow> thenE (send secretId) (\<lambda>result. case truthy result of
       None \<Rightarrow> Inl (JsError (''AWS Secrets Manager secret '' @ [CHR 0x22] @ secretId @ [CHR 0x22] @ '' has no SecretString''))
     | Some doc \<Rightarrow> (case json_parse doc of
         None \<Rightarrow> Inl (JsError (''AWS Secrets Manager secret '' @ [CHR 0x22] @ secretId @ [CHR 0x22] @
           '' is not a JSON object of key/value secrets''))
       | Some JNull \<Rightarrow> Inl (JsError ''Cannot convert undefined or null to object'')
       | Some v \<Rightarrow> Inr (hydrate (object_entries v) env))))"

section \<open>Migrations\<close>

record migration_file =
  mf_name :: string
  mf_sql :: string
  mf_checksum :: string

text \<open>The files of the directory, with their contents.\<close>

definition loadMigrations :: "(string \<Rightarrow> string) \<Rightarrow> (string \<times> string) list \<Rightarrow> migration_file list" where
  "loadMigrations sha256 dir = map (\<lambda>(name, sql). \<lparr>mf_name = name, mf_sql = sql, mf_checksum = sha256 sql\<rparr>)
     (sort_key fst (filter (\<lambda>f. ends_with (fst f) ''.sql'') dir))"

record 's migration_db =
  mg_rows :: "(string \<times> string \<times> millis) list"
  mg_schema :: 's

text \<open>\<open>exec\<close> runs a script; \<open>names\<close> holds the checksums recorded when the run began.\<close>

definition run_migration :: "(string \<Rightarrow> ('s, unit) js) \<Rightarrow> millis \<Rightarrow> migration_file \<Rightarrow> ('s migration_db, unit) js" where
  "run_migration exec now m = bindJ (\<lambda>d. case exec (mf_sql m) (mg_schema d) of (r, t) \<Rightarrow> (r, d\<lparr>mg_schema := t\<rparr>)) (\<lambda>_. \<lambda>d.
     if mf_name m \<in> fst ` set (mg_rows d) then (Inl (PgError ''23505''), d)
     else (Inr (), d\<lparr>mg_rows := mg_rows d @ [(mf_name m, mf_checksum m, now)]\<rparr>))"

fun apply_loop :: "(string \<Rightarrow> ('s, unit) js) \<Rightarrow> millis \<Rightarrow> (string \<times> string) list \<Rightarrow> migration_file list \<Rightarrow>
    ('s migration_db, string list \<times> string list) js" where
  "apply_loop exec now names [] = retJ ([], [])"
| "apply_loop exec now names (m # ms) = (case truthy (map_of names (mf_name m)) of
     Some prior \<Rightarrow> if prior \<noteq> mf_checksum m
       then throwJ (JsError (''migration '' @ mf_name m @ '' has changed since it was applied (checksum mismatch)''))
       else bindJ (apply_loop exec now names ms) (\<lambda>(applied, skipped). retJ (applied, mf_name m # skipped))
   | None \<Rightarrow> bindJ (run_migration exec now m) (\<lambda>_.
       bindJ (apply_loop exec now names ms) (\<lambda>(applied, skipped). retJ (mf_name m # applied, skipped))))"

definition recorded :: "'s migration_db \<Rightarrow> (string \<times> string) list" where
  "recorded d = map (\<lambda>(n, c, _). (n, c)) (mg_rows d)"

definition migrations_apply :: "(string \<Rightarrow> ('s, unit) js) \<Rightarrow> millis \<Rightarrow> migration_file list \<Rightarrow> ('s migration_db, string list \<times> string list) js" where
  "migrations_apply exec now migrations = transactionJ (bindJ (getJ recorded) (\<lambda>names. apply_loop exec now names migrations))"

datatype migration_status = NotApplied string | Applied string millis bool

definition migrations_status :: "migration_file list \<Rightarrow> 's migration_db \<Rightarrow> migration_status list" where
  "migrations_status migrations d = map (\<lambda>m. case map_of (mg_rows d) (mf_name m) of
     None \<Rightarrow> NotApplied (mf_name m) | Some (c, t) \<Rightarrow> Applied (mf_name m) t (c \<noteq> mf_checksum m)) migrations"

section \<open>Retention\<close>

text \<open>The whole database of the control plane.\<close>

record server_db = edge_db +
  sv_idempotency :: "idem_row list"
  sv_nonces :: "nonce_row list"

definition outbox_expired :: "millis \<Rightarrow> outbox_row \<Rightarrow> bool" where
  "outbox_expired now r = (case ob_published r of None \<Rightarrow> False | Some t \<Rightarrow> t < now - 7 * 86400000)"

definition purgeExpiredRows :: "millis \<Rightarrow> ('z server_db_scheme, nat \<times> nat \<times> nat) js" where
  "purgeExpiredRows now = (\<lambda>s.
     (Inr (length (filter (\<lambda>r. im_expiresAt r < now) (sv_idempotency s)), length (filter (\<lambda>r. nn_expiresAt r < now) (sv_nonces s)),
           length (filter (outbox_expired now) (db_outbox s))),
      s\<lparr>sv_idempotency := filter (\<lambda>r. \<not> im_expiresAt r < now) (sv_idempotency s),
        sv_nonces := filter (\<lambda>r. \<not> nn_expiresAt r < now) (sv_nonces s),
        db_outbox := filter (\<lambda>r. \<not> outbox_expired now r) (db_outbox s)\<rparr>))"

section \<open>Maintenance worker\<close>

text \<open>One cycle of each loop; what a cycle throws is logged and the loop goes on.\<close>

definition RECONCILIATION_ACTOR :: string where
  "RECONCILIATION_ACTOR = ''system:maintenance-worker''"

fun dimension_string :: "drift_dimension \<Rightarrow> string" where
  "dimension_string ROUTES_AND_INTEGRITY = ''ROUTES_AND_INTEGRITY''"
| "dimension_string DNS = ''DNS''"
| "dimension_string KILL_SWITCH = ''KILL_SWITCH''"
| "dimension_string PEER_TOPOLOGY = ''PEER_TOPOLOGY''"
| "dimension_string POLICY_VERSION = ''POLICY_VERSION''"

definition corrected_json :: "drift_finding list \<Rightarrow> json" where
  "corrected_json ds = JObj [(''corrected'', JArr (map (\<lambda>d. JObj ([(''dimension'', JStr (dimension_string (df_dimension d)))] @
     opt_field ''correctedBy'' JStr (df_correctedBy d))) ds))]"

definition audit_record_pg :: "(string \<Rightarrow> string) \<Rightarrow> millis \<Rightarrow> string \<Rightarrow> string \<Rightarrow> string \<Rightarrow> json \<Rightarrow> ('z repo_db_scheme, unit) js" where
  "audit_record_pg sha256 now actor action subject payload =
     bindJ (audit_write pg_last pg_append_audit sha256 now actor action subject payload) (\<lambda>_. retJ ())"

definition reconciliation_cycle :: "(string \<Rightarrow> string) \<Rightarrow> millis \<Rightarrow> ('z policy_db_scheme, unit) js" where
  "reconciliation_cycle sha256 now = catchJ (bindJ (checkAll sha256 now) (\<lambda>results.
     forJ (\<lambda>(nodeId, checks). let drifted = filter df_drifted checks in
       if drifted = [] then retJ ()
       else audit_record_pg sha256 now RECONCILIATION_ACTOR ''NODE_RECONCILED'' nodeId (corrected_json drifted)) results)) (\<lambda>_. retJ ())"

definition key_rotation_cycle :: "(string \<Rightarrow> string) \<Rightarrow> int \<Rightarrow> millis \<Rightarrow> ('z queue_db_scheme, unit) js" where
  "key_rotation_cycle sha256 keyRotationDays now = catchJ (bindJ (rotation_run keyRotationDays now) (\<lambda>(checked, nodeIds).
     if checked = 0 then retJ () else forJ (\<lambda>nodeId. audit_record_pg sha256 now RECONCILIATION_ACTOR ''KEY_ROTATION_REQUESTED'' nodeId
       (JObj [(''reason'', JStr (''key not rotated within '' @ int_string keyRotationDays @ '' days''))])) nodeIds)) (\<lambda>_. retJ ())"

definition outbox_cycle :: "(string \<Rightarrow> json \<Rightarrow> string option) \<Rightarrow> nat \<Rightarrow> millis \<Rightarrow> ('z repo_db_scheme, unit) js" where
  "outbox_cycle send limit now = catchJ (bindJ (outbox_flush send limit now) (\<lambda>_. retJ ())) (\<lambda>_. retJ ())"

text \<open>The partitions of \<open>security_events\<close> are the month keys that exist; \<open>month\<close> is the current month.\<close>

definition ensureUpcomingPartitions :: "nat \<Rightarrow> nat \<Rightarrow> (nat list, nat list) js" where
  "ensureUpcomingPartitions monthsAhead month = (\<lambda>ps. let wanted = map (\<lambda>i. month + i) [0..<Suc monthsAhead] in
     (Inr wanted, fold (\<lambda>m acc. if m \<in> set acc then acc else acc @ [m]) wanted ps))"

definition dropExpiredPartitions :: "nat \<Rightarrow> nat \<Rightarrow> (nat list, nat list) js" where
  "dropExpiredPartitions retentionMonths month = (\<lambda>ps. (Inr (filter (\<lambda>m. m + retentionMonths < month) ps),
     filter (\<lambda>m. \<not> m + retentionMonths < month) ps))"

section \<open>Relay fleet\<close>

record relay_fleet =
  rf_amiId :: string
  rf_region :: string
  rf_relayPort :: string
  rf_subnetId :: "string option"
  rf_securityGroupIds :: "string list option"
  rf_keyName :: "string option"

definition loadRelayFleet :: "env \<Rightarrow> relay_fleet option" where
  "loadRelayFleet env = (let get = map_of env in
     case (truthy (get ''AWS_RELAY_AMI_ID''),
           truthy (case get ''AWS_RELAY_REGION'' of Some r \<Rightarrow> Some r | None \<Rightarrow> get ''AWS_REGION'')) of
       (Some amiId, Some region) \<Rightarrow> Some \<lparr>rf_amiId = amiId, rf_region = region, rf_relayPort = or_else (get ''RELAY_PORT'') ''51900'',
          rf_subnetId = truthy (get ''AWS_RELAY_SUBNET_ID''),
          rf_securityGroupIds = map_option (split_on (CHR '','')) (truthy (get ''AWS_RELAY_SECURITY_GROUP_IDS'')),
          rf_keyName = truthy (get ''AWS_RELAY_KEY_NAME'')\<rparr>
     | _ \<Rightarrow> None)"

record relay_instance =
  ri_instanceId :: string
  ri_region :: string
  ri_publicIp :: string
  ri_endpoint :: string

text \<open>\<open>describe\<close> is the public address the cloud reports for an instance, if any.\<close>

fun pollForPublicIp :: "(string \<Rightarrow> ('s, string option) js) \<Rightarrow> nat \<Rightarrow> nat \<Rightarrow> nat \<Rightarrow> string \<Rightarrow> ('s, string) js" where
  "pollForPublicIp describe attempts intervalMs 0 instanceId = throwJ (JsError (''relay instance '' @ instanceId @
     '' did not receive a public IP within '' @ dec (attempts * intervalMs div 1000) @
     ''s - check its subnet has auto-assign public IP enabled''))"
| "pollForPublicIp describe attempts intervalMs (Suc left) instanceId = bindJ (describe instanceId) (\<lambda>ip. case truthy ip of
     Some a \<Rightarrow> retJ a | None \<Rightarrow> pollForPublicIp describe attempts intervalMs left instanceId)"

definition relay_launch :: "(string \<Rightarrow> ('s, string option) js) \<Rightarrow> (string \<Rightarrow> ('s, string option) js) \<Rightarrow> relay_fleet \<Rightarrow>
    string \<Rightarrow> string \<Rightarrow> ('s, relay_instance) js" where
  "relay_launch runInstances describe fleet region instanceType = bindJ (runInstances instanceType) (\<lambda>started. case truthy started of
     None \<Rightarrow> throwJ (JsError ''AWS EC2 did not return an instance id for the new relay'')
   | Some instanceId \<Rightarrow> bindJ (pollForPublicIp describe 30 2000 30 instanceId) (\<lambda>publicIp.
       retJ \<lparr>ri_instanceId = instanceId, ri_region = region, ri_publicIp = publicIp,
         ri_endpoint = publicIp @ '':'' @ rf_relayPort fleet\<rparr>))"

section \<open>Load samplers\<close>

record cpu_sampler =
  cs_lastUsage :: int
  cs_lastTime :: int

text \<open>\<open>usage\<close> is the processor time of the process so far in microseconds, \<open>now\<close> the clock in nanoseconds.\<close>

definition cpu_sample :: "int \<Rightarrow> int \<Rightarrow> cpu_sampler \<Rightarrow> rat \<times> cpu_sampler" where
  "cpu_sample usage now c = (let elapsedMicros = of_int (now - cs_lastTime c) / 1000;
       c' = c\<lparr>cs_lastUsage := usage, cs_lastTime := now\<rparr> in
     if elapsedMicros \<le> 0 then (0, c')
     else (min 100 (max 0 (of_int (usage - cs_lastUsage c) / elapsedMicros * 100)), c'))"

record throughput_sampler =
  tp_lastTotal :: int
  tp_lastTime :: int

definition throughput_sample :: "int \<Rightarrow> int \<Rightarrow> throughput_sampler \<Rightarrow> int \<times> throughput_sampler" where
  "throughput_sample cumulativeBytes now t = (let elapsedSeconds = of_int (now - tp_lastTime t) / 10 ^ 9;
       delta = max 0 (cumulativeBytes - tp_lastTotal t); t' = t\<lparr>tp_lastTotal := cumulativeBytes, tp_lastTime := now\<rparr> in
     if elapsedSeconds \<le> 0 then (0, t') else (math_round (of_int delta / elapsedSeconds), t'))"

section \<open>Loaded configurations are well formed\<close>

definition secrets_of :: "security_config \<Rightarrow> string list" where
  "secrets_of c = [cf_controlApiTokenSecret c, cf_eventSigningSecret c, cf_oobSharedSecret c, cf_diagnosticsSecret c,
     cf_headquartersSecret c, cf_cloudDeploymentSecret c, cf_integrationSecret c]"

definition config_wf :: "security_config \<Rightarrow> bool" where
  "config_wf c \<longleftrightarrow> list_all (\<lambda>n. 0 < n) [cf_certificateTtlMinutes c, cf_keyRotationDays c, cf_safeApplyTimeoutMs c,
       cf_authorizationRefreshMs c, cf_port c] \<and>
     0 \<le> cf_safeApplyNodeFailureThreshold c \<and> cf_safeApplyNodeFailureThreshold c \<le> 1 \<and>
     list_all (\<lambda>s. s \<noteq> []) (secrets_of c) \<and>
     (cf_environment c = ''production'' \<longrightarrow> cf_attestationProvider c \<noteq> DevelopmentAttestation \<and>
       list_all (\<lambda>s. 32 \<le> length s) (secrets_of c))"

lemma thenE_Inr: "thenE r f = Inr y \<longleftrightarrow> (\<exists>x. r = Inr x \<and> f x = Inr y)"
  by (cases r) (auto simp: thenE_def)

lemma cfg_int_pos: "cfg_int v d = Inr n \<Longrightarrow> 0 < n"
  by (auto simp: cfg_int_def split: option.splits if_splits)

lemma cfg_fraction_unit: "cfg_fraction v d = Inr n \<Longrightarrow> 0 \<le> n \<and> n \<le> 1"
  by (auto simp: cfg_fraction_def split: option.splits if_splits)

lemma ecosystemSecret_wf:
  "ecosystemSecret v name production = Inr s \<Longrightarrow> s \<noteq> [] \<and> (production \<longrightarrow> 32 \<le> length s)"
  by (auto simp: ecosystemSecret_def truthy_def split: option.splits if_splits)

lemma or_default_ne: "d \<noteq> [] \<Longrightarrow> or_default v d \<noteq> []"
  by (auto simp: or_default_def or_else_def truthy_def split: option.splits)

lemma or_default_long: "32 \<le> length (or_else v []) \<Longrightarrow> or_default v d = or_else v []"
  by (auto simp: or_default_def or_else_def truthy_def split: option.splits)

text \<open>
  C23. Every configuration \<open>loadConfig\<close> accepts is well formed: durations, intervals and the port are positive, the
  failure threshold is a fraction, no secret is empty, and in production the attestation provider is a hardware one
  and all seven secrets have at least 32 characters.
\<close>

theorem loadConfig_wf:
  assumes "loadConfig env = Inr c"
  shows "config_wf c"
proof -
  define get where "get = map_of env"
  define production where "production = (or_else (get ''NODE_ENV'') ''development'' = ''production'')"
  obtain provider ttl rotation apply_ms threshold refresh port diagnostics headquarters cloud integration where
    n: "cfg_int (get ''CERTIFICATE_TTL_MINUTES'') 1440 = Inr ttl" "cfg_int (get ''KEY_ROTATION_DAYS'') 30 = Inr rotation"
      "cfg_int (get ''SAFE_APPLY_TIMEOUT_MS'') 60000 = Inr apply_ms" "cfg_int (get ''AUTH_REFRESH_MS'') 30000 = Inr refresh"
      "cfg_int (get ''PORT'') 8080 = Inr port"
    and f: "cfg_fraction (get ''SAFE_APPLY_NODE_FAILURE_THRESHOLD'') 0 = Inr threshold"
    and e: "ecosystemSecret (get ''DIAGNOSTICS_SHARED_SECRET'') ''diagnostics'' production = Inr diagnostics"
      "ecosystemSecret (get ''HEADQUARTERS_SHARED_SECRET'') ''headquarters'' production = Inr headquarters"
      "ecosystemSecret (get ''CLOUD_DEPLOYMENT_SHARED_SECRET'') ''cloud-deployment'' production = Inr cloud"
      "ecosystemSecret (get ''INTEGRATION_SHARED_SECRET'') ''integration'' production = Inr integration"
    and p: "\<not> (production \<and> provider = DevelopmentAttestation)"
      "\<not> (production \<and> (length (or_else (get ''CONTROL_API_TOKEN_SECRET'') []) < 32 \<or>
        length (or_else (get ''EVENT_SIGNING_SECRET'') []) < 32 \<or> length (or_else (get ''OOB_SHARED_SECRET'') []) < 32))"
    and c: "cf_environment c = or_else (get ''NODE_ENV'') ''development''" "cf_attestationProvider c = provider"
      "cf_certificateTtlMinutes c = ttl" "cf_keyRotationDays c = rotation" "cf_safeApplyTimeoutMs c = apply_ms"
      "cf_safeApplyNodeFailureThreshold c = threshold" "cf_authorizationRefreshMs c = refresh" "cf_port c = port"
      "secrets_of c = [or_default (Some (or_else (get ''CONTROL_API_TOKEN_SECRET'') [])) ''development-only-change-me'',
        or_default (Some (or_else (get ''EVENT_SIGNING_SECRET'') [])) ''development-event-secret-change-me'',
        or_default (get ''OOB_SHARED_SECRET'') ''development-oob-shared-secret-change-me'', diagnostics, headquarters, cloud, integration]"
    using assms unfolding loadConfig_def Let_def get_def [symmetric] production_def [symmetric]
    by (auto simp: thenE_Inr secrets_of_def simp del: provider_of.simps split: option.splits if_splits)
  have len: "32 \<le> length (or_default (Some (or_else v [])) d)" if "32 \<le> length (or_else v [])" for v d
    using that or_default_long [of "Some (or_else v [])" d] by (simp add: or_else_def)
  have "list_all (\<lambda>s. 32 \<le> length s) (secrets_of c)" if production
    using that p(2) e [THEN ecosystemSecret_wf] by (simp add: c len or_default_long)
  thus ?thesis unfolding config_wf_def
    using n [THEN cfg_int_pos] cfg_fraction_unit [OF f] e [THEN ecosystemSecret_wf] p(1)
    by (simp add: c or_default_ne production_def)
qed

theorem loadConfig_wf_witness: "\<exists>c. loadConfig [(''NODE_ENV'', ''test''), (''PORT'', ''9000'')] = Inr c \<and> config_wf c"
proof -
  obtain c where "loadConfig [(''NODE_ENV'', ''test''), (''PORT'', ''9000'')] = Inr c"
    by (simp add: loadConfig_def Let_def thenE_def cfg_int_def cfg_fraction_def cfg_number_def js_decimal_def js_trim_def
        ecosystemSecret_def or_else_def radix_val_def digit_val_def is_digit_def starts_with_def js_ws_def)
  with loadConfig_wf [OF this] show ?thesis by blast
qed

section \<open>Migrations\<close>

text \<open>Every file of \<open>ms\<close> is recorded with its checksum.\<close>

definition up_to_date :: "migration_file list \<Rightarrow> (string \<times> string) list \<Rightarrow> bool" where
  "up_to_date ms names \<longleftrightarrow> list_all (\<lambda>m. map_of names (mf_name m) = Some (mf_checksum m)) ms"

lemma apply_up_to_date:
  assumes "up_to_date ms names" "list_all (\<lambda>m. mf_checksum m \<noteq> []) ms"
  shows "apply_loop exec now names ms d = (Inr ([], map mf_name ms), d)"
  using assms by (induction ms) (simp_all add: up_to_date_def truthy_def bindJ_def)

lemma map_of_snoc: "map_of (xs @ [(k, v)]) x = (case map_of xs x of None \<Rightarrow> if x = k then Some v else None | Some w \<Rightarrow> Some w)"
  by (simp add: map_add_def split: option.splits)

lemma run_migration_Inr:
  assumes "run_migration exec now m d = (Inr (), d')"
  shows "recorded d' = recorded d @ [(mf_name m, mf_checksum m)] \<and> mf_name m \<notin> fst ` set (recorded d)"
proof -
  have "fst ` set (recorded d) = fst ` set (mg_rows d)" by (force simp: recorded_def)
  thus ?thesis using assms by (auto simp: run_migration_def bindJ_def split: prod.splits sum.splits if_splits) (simp_all add: recorded_def)
qed

text \<open>A finished loop has recorded the files it ran and only those.\<close>

lemma apply_loop_Inr:
  assumes "apply_loop exec now names ms d = (Inr (applied, skipped), d')"
  shows "applied = map mf_name (filter (\<lambda>m. truthy (map_of names (mf_name m)) = None) ms) \<and>
    recorded d' = recorded d @ map (\<lambda>m. (mf_name m, mf_checksum m)) (filter (\<lambda>m. truthy (map_of names (mf_name m)) = None) ms) \<and>
    (\<forall>m \<in> set ms. \<forall>c. truthy (map_of names (mf_name m)) = Some c \<longrightarrow> c = mf_checksum m) \<and>
    list_all (\<lambda>m. mf_name m \<notin> fst ` set (recorded d)) (filter (\<lambda>m. truthy (map_of names (mf_name m)) = None) ms)"
  using assms
proof (induction ms arbitrary: d applied skipped)
  case (Cons m ms)
  show ?case
  proof (cases "truthy (map_of names (mf_name m))")
    case None
    obtain d1 ap sk where r: "run_migration exec now m d = (Inr (), d1)" "apply_loop exec now names ms d1 = (Inr (ap, sk), d')"
      "applied = mf_name m # ap"
      using Cons.prems None by (auto simp: bindJ_def split: prod.splits sum.splits)
    show ?thesis using Cons.IH [OF r(2)] run_migration_Inr [OF r(1)] r(3) None by (auto simp: list_all_iff)
  next
    case (Some c)
    obtain sk where r: "apply_loop exec now names ms d = (Inr (applied, sk), d')" "c = mf_checksum m"
      using Cons.prems Some by (auto simp: bindJ_def split: prod.splits sum.splits if_splits)
    show ?thesis using Cons.IH [OF r(1)] r(2) Some by auto
  qed
qed simp

lemma map_of_files: "distinct (map mf_name ms) \<Longrightarrow> m \<in> set ms \<Longrightarrow>
    map_of (map (\<lambda>m. (mf_name m, mf_checksum m)) ms) (mf_name m) = Some (mf_checksum m)"
  by (induction ms) (auto simp: image_iff)

lemma apply_makes_up_to_date:
  assumes "apply_loop exec now (recorded d) ms d = (Inr (applied, skipped), d')" "distinct (map mf_name ms)"
  shows "up_to_date ms (recorded d')"
proof (unfold up_to_date_def list_all_iff, rule ballI)
  fix m assume m: "m \<in> set ms"
  let ?new = "filter (\<lambda>m. truthy (map_of (recorded d) (mf_name m)) = None) ms"
  note l = apply_loop_Inr [OF assms(1)]
  show "map_of (recorded d') (mf_name m) = Some (mf_checksum m)"
  proof (cases "truthy (map_of (recorded d) (mf_name m))")
    case None
    hence n: "m \<in> set ?new" using m by simp
    hence "map_of (recorded d) (mf_name m) = None" using l by (auto simp: list_all_iff map_of_eq_None_iff)
    moreover have "map_of (map (\<lambda>m. (mf_name m, mf_checksum m)) ?new) (mf_name m) = Some (mf_checksum m)"
      using n assms(2) by (intro map_of_files) (simp_all add: distinct_map_filter)
    ultimately show ?thesis using l by (simp add: map_add_def)
  next
    case (Some c)
    hence "map_of (recorded d) (mf_name m) = Some c" "c = mf_checksum m" using l m by (auto simp: truthy_def split: if_splits)
    thus ?thesis using l by (simp add: map_add_Some_iff)
  qed
qed

text \<open>
  C31. Migrations are applied atomically and once: a run that fails leaves schema and ledger as they were; after a
  run that succeeds every file is recorded with its checksum, the files it reports as applied are the ones that were
  not recorded, in order, and running again applies nothing and changes nothing.
\<close>

theorem migrations_once:
  assumes "distinct (map mf_name ms)" "list_all (\<lambda>m. mf_checksum m \<noteq> []) ms"
  shows "case migrations_apply exec now ms d of
      (Inl e, d') \<Rightarrow> d' = d
    | (Inr (applied, skipped), d') \<Rightarrow> up_to_date ms (recorded d') \<and>
        applied = map mf_name (filter (\<lambda>m. truthy (map_of (recorded d) (mf_name m)) = None) ms) \<and>
        migrations_apply exec later ms d' = (Inr ([], map mf_name ms), d')"
proof -
  obtain r d' where r: "migrations_apply exec now ms d = (r, d')" by force
  show ?thesis
  proof (cases r)
    case (Inl e)
    thus ?thesis using r transactionJ_Inl unfolding migrations_apply_def by fastforce
  next
    case (Inr x)
    obtain applied skipped where x: "x = (applied, skipped)" by force
    have l: "apply_loop exec now (recorded d) ms d = (Inr (applied, skipped), d')"
      using r Inr x by (simp add: migrations_apply_def)
    have u: "up_to_date ms (recorded d')" by (rule apply_makes_up_to_date [OF l assms(1)])
    have "migrations_apply exec later ms d' = (Inr ([], map mf_name ms), d')"
      using apply_up_to_date [OF u assms(2)] by (simp add: migrations_apply_def)
    thus ?thesis using r Inr x u apply_loop_Inr [OF l] by simp
  qed
qed

theorem migrations_once_witness:
  "\<exists>d'. migrations_apply (\<lambda>q n. (Inr (), Suc n)) 5 [\<lparr>mf_name = ''1.sql'', mf_sql = ''x'', mf_checksum = ''c''\<rparr>] \<lparr>mg_rows = [], mg_schema = 0\<rparr> =
     (Inr ([''1.sql''], []), d') \<and>
   migrations_apply (\<lambda>q n. (Inr (), Suc n)) 9 [\<lparr>mf_name = ''1.sql'', mf_sql = ''x'', mf_checksum = ''c''\<rparr>] d' = (Inr ([], [''1.sql'']), d')"
proof -
  let ?m = "\<lparr>mf_name = ''1.sql'', mf_sql = ''x'', mf_checksum = ''c''\<rparr>"
  have "migrations_apply (\<lambda>q n. (Inr (), Suc n)) 5 [?m] \<lparr>mg_rows = [], mg_schema = 0\<rparr> =
      (Inr ([''1.sql''], []), \<lparr>mg_rows = [(''1.sql'', ''c'', 5)], mg_schema = Suc 0\<rparr>)"
    by (simp add: migrations_apply_def recorded_def run_migration_def bindJ_def truthy_def)
  with migrations_once [where ms = "[?m]" and exec = "\<lambda>q n. (Inr (), Suc n)" and now = 5 and d = "\<lparr>mg_rows = [], mg_schema = 0\<rparr>" and later = 9] show ?thesis by simp
qed

end
