(* ===== verification/Console.thy ===== *)
theory Console
  imports Ops
begin

text \<open>
  The static file server of the operations console
  (\<open>src/runtime/admin-console-server.ts\<close>) with the part of \<open>node:path\<close> it uses.
  The listener itself is I/O.
\<close>

section \<open>Paths\<close>

text \<open>\<open>path.posix.normalize\<close> and \<open>path.posix.join\<close> of Node: empty segments and \<open>.\<close> vanish, \<open>..\<close> removes a segment.\<close>

fun norm_segments :: "bool \<Rightarrow> string list \<Rightarrow> string list \<Rightarrow> string list" where
  "norm_segments climb acc [] = rev acc"
| "norm_segments climb acc (x # xs) =
     (if x = [] \<or> x = ''.'' then norm_segments climb acc xs
      else if x = ''..'' then norm_segments climb (case acc of [] \<Rightarrow> if climb then [x] else []
        | y # ys \<Rightarrow> if y = ''..'' then (if climb then x # acc else acc) else ys) xs
      else norm_segments climb (x # acc) xs)"

definition path_normalize :: "string \<Rightarrow> string" where
  "path_normalize p = (if p = [] then ''.'' else
     let absolute = (hd p = CHR ''/''); trailing = (last p = CHR ''/'');
         q = js_join ''/'' (norm_segments (\<not> absolute) [] (split_on (CHR ''/'') p)) in
     if q = [] then (if absolute then ''/'' else if trailing then ''./'' else ''.'')
     else (if absolute then ''/'' else []) @ q @ (if trailing then ''/'' else []))"

definition path_join :: "string list \<Rightarrow> string" where
  "path_join parts = (case filter (\<lambda>p. p \<noteq> []) parts of [] \<Rightarrow> ''.'' | ps \<Rightarrow> path_normalize (js_join ''/'' ps))"

text \<open>\<open>path.extname\<close>: from the last dot of the last segment, if that is not its first character.\<close>

definition path_extname :: "string \<Rightarrow> string" where
  "path_extname p = (let segments = filter (\<lambda>x. x \<noteq> []) (split_on (CHR ''/'') p); base = (if segments = [] then [] else last segments);
       parts = split_on (CHR ''.'') base in
     if base = ''..'' \<or> length parts = 1 \<or> js_join ''.'' (butlast parts) = [] then [] else CHR ''.'' # last parts)"

section \<open>Static files of the console\<close>

definition console_content_type :: "string \<Rightarrow> string" where
  "console_content_type ext = (if ext = ''.html'' then ''text/html; charset=utf-8'' else if ext = ''.js'' then ''text/javascript''
     else if ext = ''.css'' then ''text/css'' else ''application/octet-stream'')"

text \<open>\<open>readFile\<close> is the file system; \<open>None\<close> is a rejected read.\<close>

definition console_handle :: "(string \<Rightarrow> string option) \<Rightarrow> string \<Rightarrow> string option \<Rightarrow> http_response" where
  "console_handle readFile publicDir url =
     (let path = (case url of None \<Rightarrow> ''/index.html'' | Some u \<Rightarrow> hd (split_on (CHR ''?'') (if u = ''/'' then ''/index.html'' else u))) in
      if str_includes path ''..'' then \<lparr>rp_status = 400, rp_headers = [], rp_body = []\<rparr>
      else let filePath = path_join [publicDir, path] in (case readFile filePath of
        None \<Rightarrow> \<lparr>rp_status = 404, rp_headers = [], rp_body = ''not found''\<rparr>
      | Some body \<Rightarrow> \<lparr>rp_status = 200, rp_headers = [(''content-type'', console_content_type (path_extname filePath))], rp_body = body\<rparr>))"

definition console_listen :: "env \<Rightarrow> string \<times> rat option" where
  "console_listen e = (case map_of e ''ADMIN_CONSOLE_BIND_HOST'' of Some h \<Rightarrow> h
     | None \<Rightarrow> if map_of e ''NODE_ENV'' = Some ''production'' then ''0.0.0.0'' else ''127.0.0.1'', cfg_number (map_of e ''ADMIN_CONSOLE_PORT'') 8090)"

section \<open>The console serves its own directory only\<close>

definition plain_segment :: "string \<Rightarrow> bool" where
  "plain_segment x \<longleftrightarrow> x \<noteq> [] \<and> x \<noteq> ''.'' \<and> x \<noteq> ''..'' \<and> CHR ''/'' \<notin> set x"

definition abs_path :: "string list \<Rightarrow> string" where
  "abs_path names = concat (map (\<lambda>n. CHR ''/'' # n) names)"

lemma join_cons: "js_join [c] (x # xs) = x @ concat (map (\<lambda>n. c # n) xs)"
  by (induction xs arbitrary: x) auto

lemma abs_path_join: "names \<noteq> [] \<Longrightarrow> CHR ''/'' # js_join ''/'' names = abs_path names"
  by (cases names) (simp_all add: join_cons abs_path_def)

lemma split_on_sep: "split_on c (s @ c # t) = split_on c s @ split_on c t"
  by (induction s) (auto simp: hd_append tl_append split: list.splits)

lemma split_abs_path: "list_all plain_segment names \<Longrightarrow> split_on (CHR ''/'') (abs_path names) = [] # names"
proof (cases "names = []")
  case False
  assume "list_all plain_segment names"
  hence "split_on (CHR ''/'') (js_join ''/'' names) = names" using False by (intro split_join) (auto simp: list_all_iff plain_segment_def)
  thus ?thesis unfolding abs_path_join [OF False, symmetric] by simp
qed (simp add: abs_path_def)

lemma split_hd: "starts_with s (hd (split_on c s))"
  by (induction s) (auto simp: starts_with_def split: list.splits)

lemma split_sub: "x \<in> set (split_on c s) \<Longrightarrow> str_includes s x"
proof (induction s)
  case (Cons y ys)
  show ?case
  proof (cases "x = hd (split_on c (y # ys))")
    case True
    thus ?thesis using split_hd [of "y # ys" c] by simp
  next
    case False
    thus ?thesis using Cons by (auto split: list.splits if_splits)
  qed
qed simp

lemma split_no_sep: "x \<in> set (split_on c s) \<Longrightarrow> c \<notin> set x"
  by (induction s arbitrary: x) (auto split: list.splits if_splits)

lemma norm_plain: "''..'' \<notin> set xs \<Longrightarrow> norm_segments climb acc xs = rev acc @ filter (\<lambda>x. x \<noteq> [] \<and> x \<noteq> ''.'') xs"
  by (induction xs arbitrary: acc) auto

lemma path_join_confined:
  assumes "list_all plain_segment dir" "dir \<noteq> []" "\<not> str_includes path ''..''"
  shows "\<exists>names tail. list_all plain_segment names \<and> tail \<in> {[], ''/''} \<and> path_join [abs_path dir, path] = abs_path dir @ abs_path names @ tail"
proof -
  let ?p = "if path = [] then abs_path dir else abs_path dir @ CHR ''/'' # path"
  define S where "S = (if path = [] then [] else split_on (CHR ''/'') path)"
  have dd: "''..'' \<notin> set dir" using assms(1) by (auto simp: list_all_iff plain_segment_def)
  have "''..'' \<notin> set S" using assms(3) split_sub [of "''..''" "CHR ''/''" path] by (auto simp: S_def)
  moreover have "split_on (CHR ''/'') ?p = [] # dir @ S" using split_abs_path [OF assms(1)] by (simp add: S_def split_on_sep)
  ultimately have n: "norm_segments climb [] (split_on (CHR ''/'') ?p) = dir @ filter (\<lambda>x. x \<noteq> [] \<and> x \<noteq> ''.'') S" for climb
    using dd assms(1) by (subst norm_plain) (auto simp: list_all_iff plain_segment_def filter_id_conv)
  let ?names = "filter (\<lambda>x. x \<noteq> [] \<and> x \<noteq> ''.'') S"
  have names: "list_all plain_segment ?names" using \<open>''..'' \<notin> set S\<close> split_no_sep [of _ "CHR ''/''" path]
    by (auto simp: list_all_iff plain_segment_def S_def split: if_splits)
  have ne: "abs_path dir \<noteq> []" "hd ?p = CHR ''/''" "hd (abs_path dir) = CHR ''/''" using assms(2) by (cases dir; simp add: abs_path_def)+
  have j: "path_join [abs_path dir, path] = path_normalize ?p" using ne(1) by (simp add: path_join_def)
  have q: "CHR ''/'' # js_join ''/'' (dir @ ?names) = abs_path dir @ abs_path ?names"
    using assms(2) by (subst abs_path_join) (simp_all add: abs_path_def)
  hence "js_join ''/'' (dir @ ?names) \<noteq> []" using assms(1,2) by (cases dir) (auto simp: join_cons list_all_iff plain_segment_def)
  hence "path_join [abs_path dir, path] = abs_path dir @ abs_path ?names @ (if last ?p = CHR ''/'' then ''/'' else [])"
    unfolding j path_normalize_def Let_def n using ne q by simp
  thus ?thesis using names by (intro exI [of _ ?names] exI [of _ "if last ?p = CHR ''/'' then ''/'' else []"]) auto
qed

text \<open>
  C21. The console server reads only files of its public directory: whatever URL is requested, the body of a
  successful answer is the content of a file whose path is that directory followed by ordinary segments, none of them
  empty, \<open>.\<close> or \<open>..\<close>.
\<close>

theorem console_confined:
  assumes "list_all plain_segment dir" "dir \<noteq> []" "rp_status (console_handle readFile (abs_path dir) url) = 200"
  shows "\<exists>names tail. list_all plain_segment names \<and> tail \<in> {[], ''/''} \<and>
    readFile (abs_path dir @ abs_path names @ tail) = Some (rp_body (console_handle readFile (abs_path dir) url))"
proof -
  let ?path = "case url of None \<Rightarrow> ''/index.html'' | Some u \<Rightarrow> hd (split_on (CHR ''?'') (if u = ''/'' then ''/index.html'' else u))"
  have ok: "\<not> str_includes ?path ''..''" "readFile (path_join [abs_path dir, ?path]) = Some (rp_body (console_handle readFile (abs_path dir) url))"
    using assms(3) unfolding console_handle_def Let_def by (simp_all split: if_splits option.splits)
  show ?thesis using path_join_confined [OF assms(1,2) ok(1)] ok(2) by metis
qed

definition demo_files :: "string \<Rightarrow> string option" where
  "demo_files f = (if f = ''/srv/public/app.js'' then Some ''run()'' else if f = ''/etc/passwd'' then Some ''root'' else None)"

theorem console_confined_witness:
  "rp_status (console_handle demo_files ''/srv/public'' (Some ''/./app.js?v=1'')) = 200 \<and>
   (\<exists>names tail. demo_files (''/srv/public'' @ abs_path names @ tail) = Some ''run()'' \<and> ''..'' \<notin> set names)"
proof -
  have d: "list_all plain_segment [''srv'', ''public'']" "[''srv'', ''public''] \<noteq> []" "abs_path [''srv'', ''public''] = ''/srv/public''"
    by (simp_all add: plain_segment_def abs_path_def)
  have c: "rp_status (console_handle demo_files ''/srv/public'' (Some ''/./app.js?v=1'')) = 200"
    "rp_body (console_handle demo_files ''/srv/public'' (Some ''/./app.js?v=1'')) = ''run()''"
    by code_simp+
  obtain names tail where "list_all plain_segment names" "demo_files (''/srv/public'' @ abs_path names @ tail) = Some ''run()''"
    using console_confined [OF d(1,2), of demo_files "Some ''/./app.js?v=1''"] c unfolding d(3) by auto
  thus ?thesis using c(1) by (auto simp: list_all_iff plain_segment_def)
qed

end
