(* ===== verification/Server.thy ===== *)
theory Server
  imports Ops
begin

text \<open>
  The route handlers of \<open>src/runtime/production-server.ts\<close>: each is the function
  the router calls with the verified claims, the path parameters and the
  parsed body.  Values the source types as \<open>any\<close> and hands to typed services
  (a zone, a posture, an identity, a duration) are arguments of the handler.
  Handlers that reach the out-of-band channel run on the pair of the database
  and the state behind the channel.
\<close>

section \<open>Environment\<close>

record 'c server_env =
  se_sha256 :: "string \<Rightarrow> string"
  se_hmac :: "string \<Rightarrow> string \<Rightarrow> string"
  se_date_parse :: "string \<Rightarrow> millis option"
  se_secrets :: "string \<Rightarrow> string"
  se_controlApiTokenSecret :: string
  se_oobRequired :: bool
  se_threshold :: rat
  se_thresholdText :: string
  se_authorizationRefreshMs :: int
  se_environment :: string
  se_oob :: "'c oob_channel"
  se_anchor :: trust_anchor
  se_crl :: crl_lib

text \<open>\<open>String(value)\<close>.\<close>

fun js_string :: "json \<Rightarrow> string" where
  "js_string JNull = ''null''"
| "js_string JUndefined = ''undefined''"
| "js_string (JBool b) = (if b then ''true'' else ''false'')"
| "js_string (JNum n) = int_string n"
| "js_string (JStr s) = s"
| "js_string (JArr vs) = js_join '','' (map (\<lambda>v. if v = JNull \<or> v = JUndefined then [] else js_string v) vs)"
| "js_string (JObj kvs) = ''[object Object]''"

definition string_or :: "json \<Rightarrow> string \<Rightarrow> string" where
  "string_or v d = js_string (nullish v (JStr d))"

definition string_list :: "json \<Rightarrow> string list" where
  "string_list v = (case v of JArr vs \<Rightarrow> map js_string vs | _ \<Rightarrow> [])"

definition path_param :: "rest_ctx \<Rightarrow> string \<Rightarrow> string" where
  "path_param ctx k = (case map_of (cx_params ctx) k of None \<Rightarrow> [] | Some v \<Rightarrow> v)"

abbreviation subject_of :: "rest_ctx \<Rightarrow> string" where
  "subject_of ctx \<equiv> cl_sub (cx_claims ctx)"

abbreviation id_of :: "rest_ctx \<Rightarrow> string" where
  "id_of ctx \<equiv> path_param ctx ''id''"

definition not_found :: "string \<Rightarrow> js_error" where
  "not_found m = HttpError 404 ''not_found'' m"

definition invalid_request :: "string \<Rightarrow> js_error" where
  "invalid_request m = HttpError 400 ''invalid_request'' m"

definition require_node :: "uuid \<Rightarrow> ('z repo_db_scheme, mesh_node) js" where
  "require_node i = bindJ (getJ (pg_get i)) (\<lambda>e. case e of Some (ENode n) \<Rightarrow> retJ n | _ \<Rightarrow> throwJ (not_found ''node not found''))"

definition audited :: "'c server_env \<Rightarrow> millis \<Rightarrow> rest_ctx \<Rightarrow> string \<Rightarrow> string \<Rightarrow> (string \<times> json) list \<Rightarrow> ('z repo_db_scheme, unit) js" where
  "audited E now ctx action subject payload = audit_record_pg (se_sha256 E) now (subject_of ctx) action subject (JObj payload)"

section \<open>Policies\<close>

definition route_put_policy :: "'c server_env \<Rightarrow> millis \<Rightarrow> rest_ctx \<Rightarrow> network_policy \<Rightarrow> ('z repo_db_scheme, network_policy) js" where
  "route_put_policy E now ctx policy = bindJ (pg_save now (EPolicy policy)) (\<lambda>_.
     bindJ (audited E now ctx ''POLICY_UPDATED'' (np_id policy) [(''name'', JStr (np_name policy)),
       (''action'', JStr (action_string (np_action policy))), (''active'', JBool (np_active policy))]) (\<lambda>_.
     retJ policy))"

definition oob_unavailable :: js_error where
  "oob_unavailable = HttpError 503 ''oob_unavailable'' (''OOB recovery channel is unreachable - refusing to apply a policy change '' @
     ''with no independent recovery path (set OOB_REQUIRED=false to override)'')"

definition commit_status_text :: "commit_status \<Rightarrow> string" where
  "commit_status_text c = (case c of CommitCommitted \<Rightarrow> ''COMMITTED'' | CommitRolledBack \<Rightarrow> ''ROLLED_BACK'' | CommitStaged \<Rightarrow> ''STAGED'')"

text \<open>\<open>polls\<close>, \<open>t0\<close> and \<open>tc\<close> are the timing of the rollout, as in \<open>safe_apply_run\<close>; \<open>timeoutMs\<close> is the number in the body or its default.\<close>

definition route_apply :: "'c server_env \<Rightarrow> (nat \<Rightarrow> 'z server_db_scheme poll_env) \<Rightarrow> millis \<Rightarrow> millis \<Rightarrow> int \<Rightarrow> rest_ctx \<Rightarrow>
    ('z server_db_scheme \<times> 'c, apply_result) js" where
  "route_apply E polls t0 tc timeoutMs ctx =
     bindJ (if se_oobRequired E then right_side (oc_healthy (se_oob E)) else retJ True) (\<lambda>healthy.
     if \<not> healthy then throwJ oob_unavailable else
     bindJ (left_side (getJ pg_listActive_policies)) (\<lambda>policies.
     bindJ (left_side (safe_apply_run (pg_safe_apply (se_sha256 E) (se_threshold E) (se_thresholdText E) 1000) polls t0 tc policies
       timeoutMs (Some (subject_of ctx)))) (\<lambda>result.
     bindJ (left_side (audited E tc ctx ''POLICY_APPLIED'' ''network-policies'' [(''commitId'', JStr (res_commitId result)),
       (''status'', JStr (commit_status_text (res_status result))),
       (''policyCount'', JNum (int (length policies)))])) (\<lambda>_. retJ result))))"

section \<open>Emergency lockdown, recovery, revocation list, handshake\<close>

definition route_lockdown :: "'c server_env \<Rightarrow> millis \<Rightarrow> rest_ctx \<Rightarrow> ('z policy_db_scheme, json) js" where
  "route_lockdown E now ctx =
     bindJ (fieldJ ''reason'' (cx_body ctx)) (\<lambda>reason. bindJ (fieldJ ''confirmation'' (cx_body ctx)) (\<lambda>confirmation.
     bindJ (soc_emergencyLockdown (se_sha256 E) now (string_or reason []) (subject_of ctx) (string_or confirmation [])) (\<lambda>result.
     bindJ (audited E now ctx ''EMERGENCY_LOCKDOWN'' ''ecosystem'' [(''reason'', JStr (string_or reason []))]) (\<lambda>_. retJ result))))"

definition route_checkpoint :: "'c server_env \<Rightarrow> millis \<Rightarrow> rest_ctx \<Rightarrow> ('z edge_db_scheme \<times> 'c, snapshot_row) js" where
  "route_checkpoint E now ctx =
     bindJ (fieldJ ''scope'' (cx_body ctx)) (\<lambda>scope. bindJ (fieldJ ''document'' (cx_body ctx)) (\<lambda>document.
     if \<not> js_truthy scope \<or> document = JUndefined then throwJ (invalid_request ''scope and document are required'') else
     bindJ (oob_checkpoint (se_sha256 E) (se_oob E) now (js_string scope) document (subject_of ctx)) (\<lambda>snapshot.
     bindJ (left_side (audited E now ctx ''OOB_CHECKPOINT'' (js_string scope) [(''snapshotId'', JStr (sn_id snapshot)),
       (''checksum'', JStr (sn_checksum snapshot))])) (\<lambda>_. retJ snapshot))))"

definition route_rollback :: "'c server_env \<Rightarrow> millis \<Rightarrow> rest_ctx \<Rightarrow> ('z edge_db_scheme \<times> 'c, uuid \<times> string) js" where
  "route_rollback E now ctx = bindJ (fieldJ ''scope'' (cx_body ctx)) (\<lambda>scope.
     if \<not> js_truthy scope then throwJ (invalid_request ''scope is required'') else
     bindJ (oob_rollback (se_oob E) (js_string scope)) (\<lambda>(i, checksum).
     bindJ (left_side (audited E now ctx ''OOB_ROLLBACK'' (js_string scope) [(''restored'', JStr i), (''checksum'', JStr checksum)])) (\<lambda>_. retJ (i, checksum))))"

definition route_crl :: "'c server_env \<Rightarrow> millis \<Rightarrow> ('z trust_db_scheme, string) js" where
  "route_crl E now = bindJ (getJ listRevoked) (\<lambda>revoked.
     pureJ (crl_build (se_crl E) (kp_sign (ta_keys (se_anchor E)) (ta_keyReference (se_anchor E)) ''RS256'')
       (ta_certificatePem (se_anchor E)) now (now + 24 * 3600000) revoked))"

definition BAPC_APP_ID :: string where
  "BAPC_APP_ID = ''bapc-vpn-and-digital-security''"

definition handshake_body :: "string \<Rightarrow> bool \<Rightarrow> millis \<Rightarrow> json" where
  "handshake_body env healthy now = JObj [(''bapcAppId'', JStr BAPC_APP_ID), (''name'', JStr ''BAPC VPN & Digital Security''),
     (''version'', JStr ''0.4.0''), (''environment'', JStr (if env = ''production'' then ''production'' else ''development'')),
     (''status'', JStr (if healthy then ''healthy'' else ''degraded'')),
     (''headquartersCompatible'', JBool True), (''diagnosisCompatible'', JBool False),
     (''capabilities'', JObj [(''healthCheck'', JBool True), (''diagnosis'', JBool False), (''deploymentReporting'', JBool False),
       (''databaseReporting'', JBool False), (''centralAuthentication'', JBool False)]),
     (''timestamp'', date_json now)]"

text \<open>\<open>healthy\<close> is whether \<open>db.health()\<close> resolves.\<close>

definition route_handshake :: "'c server_env \<Rightarrow> bool \<Rightarrow> millis \<Rightarrow> rest_ctx \<Rightarrow> js_error + string" where
  "route_handshake E healthy now ctx =
     (if \<not> verifyBapcHandshakeSignature (se_hmac E) BAPC_APP_ID (se_secrets E ''headquarters'')
          (map_of (cx_headers ctx) ''x-bapc-nonce'') (map_of (cx_headers ctx) ''x-bapc-signature'')
      then Inl (HttpError 403 ''forbidden'' ''invalid handshake signature'')
      else Inr (json_stringify (handshake_body (se_environment E) healthy now)))"

section \<open>Just-in-time grants\<close>

definition route_jit_request :: "'c server_env \<Rightarrow> millis \<Rightarrow> security_zone \<Rightarrow> int \<Rightarrow> rest_ctx \<Rightarrow> ('z repo_db_scheme, jit_grant) js" where
  "route_jit_request E now targetZone durationMinutes ctx =
     bindJ (fieldJ ''targetResource'' (cx_body ctx)) (\<lambda>resource. bindJ (fieldJ ''justification'' (cx_body ctx)) (\<lambda>justification.
     pg_jit_request (se_sha256 E) now (subject_of ctx) (string_or resource []) targetZone durationMinutes (string_or justification [])))"

definition route_jit_approve :: "'c server_env \<Rightarrow> millis \<Rightarrow> rest_ctx \<Rightarrow> ('z repo_db_scheme, entity) js" where
  "route_jit_approve E now ctx =
     bindJ (pg_jit_approve (se_sha256 E) now (id_of ctx) (subject_of ctx) (cl_roles (cx_claims ctx))) (\<lambda>result.
     bindJ (audited E now ctx ''JIT_APPROVED'' (id_of ctx) []) (\<lambda>_. retJ result))"

definition route_jit_terminate :: "'c server_env \<Rightarrow> millis \<Rightarrow> rest_ctx \<Rightarrow> ('z repo_db_scheme, entity) js" where
  "route_jit_terminate E now ctx = bindJ (fieldJ ''reason'' (cx_body ctx)) (\<lambda>v.
     let reason = string_or v ''terminated by security operator'' in
     bindJ (pg_jit_terminate (se_sha256 E) now (id_of ctx) reason) (\<lambda>result.
     bindJ (audited E now ctx ''JIT_TERMINATED'' (id_of ctx) [(''reason'', JStr reason)]) (\<lambda>_. retJ result)))"

section \<open>Nodes\<close>

definition route_region :: "'c server_env \<Rightarrow> millis \<Rightarrow> rest_ctx \<Rightarrow> ('z repo_db_scheme, uuid \<times> string) js" where
  "route_region E now ctx = bindJ (fieldJ ''region'' (cx_body ctx)) (\<lambda>v.
     let region = js_trim (string_or v []) in
     if region = [] then throwJ (invalid_request ''region is required'') else
     bindJ (require_node (id_of ctx)) (\<lambda>node.
     bindJ (pg_save now (ENode (node\<lparr>mn_region := Some region\<rparr>))) (\<lambda>_.
     bindJ (audited E now ctx ''NODE_REGION_SET'' (id_of ctx) [(''region'', JStr region)]) (\<lambda>_. retJ (id_of ctx, region)))))"

definition quarantine_event :: "uuid \<Rightarrow> uuid \<Rightarrow> millis \<Rightarrow> string \<Rightarrow> security_event" where
  "quarantine_event i nodeId now reason = \<lparr>ev_id = i, ev_nodeId = Some nodeId, ev_at = now, ev_severity = CRITICAL,
     ev_engine = ''soc-manual'', ev_type = ''MANUAL_QUARANTINE'', ev_sourceIp = None, ev_destinationIp = None,
     ev_description = reason, ev_metadata = JObj [(''score'', JNum 90)]\<rparr>"

definition route_quarantine :: "'c server_env \<Rightarrow> millis \<Rightarrow> rest_ctx \<Rightarrow> ('z policy_db_scheme, nat \<times> response_action) js" where
  "route_quarantine E now ctx = bindJ (fieldJ ''reason'' (cx_body ctx)) (\<lambda>v.
     let reason = string_or v ''manual SOC quarantine'' in
     bindJ next_id (\<lambda>i.
     bindJ (threat_handle (se_sha256 E) now (quarantine_event i (id_of ctx) now reason)) (\<lambda>result.
     bindJ (audited E now ctx ''NODE_QUARANTINED'' (id_of ctx) [(''reason'', JStr reason)]) (\<lambda>_. retJ result))))"

definition route_restore :: "'c server_env \<Rightarrow> millis \<Rightarrow> rest_ctx \<Rightarrow> ('z policy_db_scheme, unit) js" where
  "route_restore E now ctx = bindJ (fieldJ ''clearanceToken'' (cx_body ctx)) (\<lambda>token.
     bindJ (threat_restore (diagnostics_verify (se_hmac E) (se_date_parse E) (se_sha256 E) (se_secrets E) now) (se_sha256 E) now
       (id_of ctx) (string_or token [])) (\<lambda>_.
     audited E now ctx ''NODE_RESTORED'' (id_of ctx) []))"

definition route_kill_switch :: "'c server_env \<Rightarrow> millis \<Rightarrow> rest_ctx \<Rightarrow> ('z queue_db_scheme, bool) js" where
  "route_kill_switch E now ctx = bindJ (require_node (id_of ctx)) (\<lambda>_. bindJ (fieldJ ''enabled'' (cx_body ctx)) (\<lambda>v.
     let enabled = js_truthy v in
     bindJ (enqueue now (id_of ctx) ''SET_KILL_SWITCH'' (JObj [(''enabled'', JBool enabled)]) 100 60) (\<lambda>_.
     bindJ (audited E now ctx ''KILL_SWITCH_SET'' (id_of ctx) [(''enabled'', JBool enabled)]) (\<lambda>_. retJ enabled))))"

definition route_dns :: "'c server_env \<Rightarrow> millis \<Rightarrow> rest_ctx \<Rightarrow> ('z queue_db_scheme, string list) js" where
  "route_dns E now ctx = bindJ (require_node (id_of ctx)) (\<lambda>_. bindJ (fieldJ ''servers'' (cx_body ctx)) (\<lambda>v.
     let servers = string_list v in
     if servers = [] then throwJ (invalid_request ''servers (non-empty array) is required'') else
     bindJ (enqueue now (id_of ctx) ''SET_DNS'' (JObj [(''servers'', strs_json servers)]) 100 60) (\<lambda>_.
     bindJ (audited E now ctx ''DNS_SET'' (id_of ctx) [(''servers'', strs_json servers)]) (\<lambda>_. retJ servers))))"

text \<open>\<open>routes\<close> and \<open>integrityFiles\<close> are the typed fields of the body.\<close>

definition route_put_desired :: "'c server_env \<Rightarrow> millis \<Rightarrow> route list \<Rightarrow> (string \<times> string) list \<Rightarrow> rest_ctx \<Rightarrow>
    ('z queue_db_scheme, node_desired_state option) js" where
  "route_put_desired E now routes integrityFiles ctx = bindJ (require_node (id_of ctx)) (\<lambda>_.
     bindJ (fieldJ ''dnsServers'' (cx_body ctx)) (\<lambda>dns. bindJ (fieldJ ''killSwitchEnabled'' (cx_body ctx)) (\<lambda>kill.
     bindJ (desired_upsert now (id_of ctx) routes (string_list dns) (js_truthy kill) integrityFiles) (\<lambda>state.
     bindJ (audited E now ctx ''DESIRED_STATE_SET'' (id_of ctx) [(''revision'',
       case state of None \<Rightarrow> JUndefined | Some d \<Rightarrow> JNum (int (ds_revision d)))]) (\<lambda>_. retJ state)))))"

definition route_get_desired :: "rest_ctx \<Rightarrow> ('z queue_db_scheme, node_desired_state) js" where
  "route_get_desired ctx = bindJ (getJ (desired_get (id_of ctx))) (\<lambda>state. case state of
     None \<Rightarrow> throwJ (not_found ''no desired state configured for this node'') | Some d \<Rightarrow> retJ d)"

definition route_reconcile :: "'c server_env \<Rightarrow> millis \<Rightarrow> rest_ctx \<Rightarrow> ('z policy_db_scheme, uuid \<times> drift_finding list) js" where
  "route_reconcile E now ctx = bindJ (checkNode (se_sha256 E) now (id_of ctx)) (\<lambda>result.
     let drifted = filter df_drifted (snd result) in
     bindJ (if drifted = [] then retJ () else audit_record_pg (se_sha256 E) now (subject_of ctx) ''NODE_RECONCILED'' (id_of ctx)
       (corrected_json drifted)) (\<lambda>_. retJ result))"

section \<open>Agents and threat signals\<close>

definition THREAT_CORRELATION_WINDOW_MS :: int where
  "THREAT_CORRELATION_WINDOW_MS = 300000"

definition posture_signal :: "heartbeat \<Rightarrow> millis \<Rightarrow> threat_signal" where
  "posture_signal h now = \<lparr>ts_nodeId = Some (hb_nodeId h), ts_kind = ''posture_failure'', ts_confidence = Some 1,
     ts_weight = Some 15, ts_at = now, ts_metadata = JObj [(''posture'', posture_json (hb_posture h))]\<rparr>"

definition route_heartbeat :: "'c server_env \<Rightarrow> millis \<Rightarrow> heartbeat \<Rightarrow> ('z threat_db_scheme, bool \<times> command_row list) js" where
  "route_heartbeat E now h = bindJ (heartbeat_accept (se_sha256 E) now h) (\<lambda>compliant.
     bindJ (if compliant then retJ () else bindJ (correlator_ingest (se_sha256 E) THREAT_CORRELATION_WINDOW_MS now (posture_signal h now))
       (\<lambda>_. retJ ())) (\<lambda>_.
     bindJ (getJ (pending now (hb_nodeId h) 20)) (\<lambda>commands. retJ (compliant, commands))))"

text \<open>\<open>confidence\<close> and \<open>weight\<close> are \<open>Number(body.confidence ?? 1)\<close> and \<open>Number(body.weight ?? 10)\<close>.\<close>

definition ingested_signal :: "js_num \<Rightarrow> js_num \<Rightarrow> millis \<Rightarrow> json \<Rightarrow> json \<Rightarrow> json \<Rightarrow> threat_signal" where
  "ingested_signal confidence weight now nodeId kind metadata =
     \<lparr>ts_nodeId = (if js_truthy nodeId then Some (js_string nodeId) else None), ts_kind = string_or kind ''unknown'',
      ts_confidence = map_option (\<lambda>c. max 0 (min 1 c)) confidence, ts_weight = map_option (max 0) weight, ts_at = now,
      ts_metadata = (case metadata of JObj _ \<Rightarrow> metadata | JArr _ \<Rightarrow> metadata | _ \<Rightarrow> JObj [])\<rparr>"

definition route_signal :: "'c server_env \<Rightarrow> millis \<Rightarrow> js_num \<Rightarrow> js_num \<Rightarrow> rest_ctx \<Rightarrow>
    ('z threat_db_scheme, int option \<times> severity \<times> bool) js" where
  "route_signal E now confidence weight ctx = bindJ (fieldJ ''nodeId'' (cx_body ctx)) (\<lambda>nodeId.
     bindJ (fieldJ ''kind'' (cx_body ctx)) (\<lambda>kind. bindJ (fieldJ ''metadata'' (cx_body ctx)) (\<lambda>metadata.
     correlator_ingest (se_sha256 E) THREAT_CORRELATION_WINDOW_MS now (ingested_signal confidence weight now nodeId kind metadata))))"

definition route_dismiss :: "'c server_env \<Rightarrow> millis \<Rightarrow> rest_ctx \<Rightarrow> ('z threat_db_scheme, nat) js" where
  "route_dismiss E now ctx = correlator_dismiss (\<lambda>nodeId dismissedBy n. audit_record_pg (se_sha256 E) now dismissedBy
     ''THREAT_DISMISSED'' nodeId (JObj [(''signalCount'', JNum (int n))])) now (path_param ctx ''nodeId'') (subject_of ctx)"

definition route_ack :: "millis \<Rightarrow> rest_ctx \<Rightarrow> ('z queue_db_scheme, json) js" where
  "route_ack now ctx = bindJ (fieldJ ''result'' (cx_body ctx)) (\<lambda>result.
     bindJ (acknowledge now (id_of ctx) result) (\<lambda>_. retJ (JObj [(''acknowledged'', JBool True)])))"

definition route_decide :: "'c server_env \<Rightarrow> millis \<Rightarrow> identity_context \<Rightarrow> resource_context \<Rightarrow> rest_ctx \<Rightarrow> ('z repo_db_scheme, access_decision \<times> string) js" where
  "route_decide E now identity resource ctx = bindJ (fieldJ ''deviceId'' (cx_body ctx)) (\<lambda>deviceId.
     bindJ (getJ (pg_get (js_string deviceId))) (\<lambda>d. case d of Some (EDevice device) \<Rightarrow>
       bindJ (fieldJ ''nodeId'' (cx_body ctx)) (\<lambda>nodeId.
       bindJ (getJ (pg_get (js_string nodeId))) (\<lambda>n. case n of Some (ENode node) \<Rightarrow>
         pg_decide (decision_sign (se_hmac E) (se_controlApiTokenSecret E)) (se_authorizationRefreshMs E) now identity device node resource
       | _ \<Rightarrow> throwJ (JsError ''node not found'')))
     | _ \<Rightarrow> throwJ (JsError ''device not found'')))"

section \<open>Relays and egress gateways\<close>

definition relay_not_configured :: js_error where
  "relay_not_configured = HttpError 501 ''not_configured''
     ''AWS relay auto-provisioning is not configured yet - set AWS_RELAY_AMI_ID and AWS_RELAY_REGION (coming soon)''"

definition route_provision :: "'c server_env \<Rightarrow> (string \<Rightarrow> ('z mesh_db_scheme, string option) js) \<Rightarrow> (string \<Rightarrow> ('z mesh_db_scheme, string option) js) \<Rightarrow>
    relay_fleet option \<Rightarrow> millis \<Rightarrow> rest_ctx \<Rightarrow> ('z mesh_db_scheme, uuid \<times> relay_instance) js" where
  "route_provision E runInstances describe relayFleet now ctx = (case relayFleet of None \<Rightarrow> throwJ relay_not_configured
   | Some fleet \<Rightarrow> bindJ (fieldJ ''region'' (cx_body ctx)) (\<lambda>r. bindJ (fieldJ ''instanceType'' (cx_body ctx)) (\<lambda>t.
       let region = string_or r (rf_region fleet); instanceType = string_or t ''t3.small'' in
       bindJ (relay_launch runInstances describe fleet region instanceType) (\<lambda>inst.
       bindJ next_id (\<lambda>relayId.
       bindJ (relay_insert now relayId region (ri_endpoint inst) (Some (ri_instanceId inst)) None) (\<lambda>_.
       bindJ (audited E now ctx ''RELAY_PROVISIONED'' relayId [(''region'', JStr region), (''instanceType'', JStr instanceType),
         (''instanceId'', JStr (ri_instanceId inst))]) (\<lambda>_. retJ (relayId, inst))))))))"

definition route_terminate_relay :: "'c server_env \<Rightarrow> (string \<Rightarrow> ('z mesh_db_scheme, unit) js) \<Rightarrow> relay_fleet option \<Rightarrow> millis \<Rightarrow> rest_ctx \<Rightarrow>
    ('z mesh_db_scheme, unit) js" where
  "route_terminate_relay E terminateInstances relayFleet now ctx = (if relayFleet = None then throwJ relay_not_configured else
     bindJ (getJ (relay_get (id_of ctx))) (\<lambda>relay. case relay of None \<Rightarrow> throwJ (not_found ''relay not found'')
     | Some r \<Rightarrow> (case truthy (rr_instanceId r) of
         None \<Rightarrow> throwJ (invalid_request ''this relay has no associated AWS instance to terminate - it was added manually'')
       | Some instanceId \<Rightarrow> bindJ (terminateInstances instanceId) (\<lambda>_. bindJ (relay_remove (rr_id r)) (\<lambda>_.
           audited E now ctx ''RELAY_TERMINATED'' (id_of ctx) [(''instanceId'', JStr instanceId)])))))"

text \<open>\<open>capacityMbps\<close> and \<open>maxSessions\<close>: the number in the body, when there is one.\<close>

definition route_register_relay :: "millis \<Rightarrow> int option \<Rightarrow> rest_ctx \<Rightarrow> ('z mesh_db_scheme, uuid) js" where
  "route_register_relay now capacityMbps ctx = bindJ (fieldJ ''relayId'' (cx_body ctx)) (\<lambda>v.
     bindJ (fieldJ ''region'' (cx_body ctx)) (\<lambda>region. bindJ (fieldJ ''endpoint'' (cx_body ctx)) (\<lambda>endpoint.
     let relayId = string_or v [] in
     if relayId = [] \<or> \<not> js_truthy region \<or> \<not> js_truthy endpoint
     then throwJ (invalid_request ''relayId, region and endpoint are required'')
     else bindJ (relay_insert now relayId (js_string region) (js_string endpoint) None capacityMbps) (\<lambda>_. retJ relayId))))"

definition route_register_egress :: "millis \<Rightarrow> int option \<Rightarrow> rest_ctx \<Rightarrow> ('z edge_db_scheme, uuid) js" where
  "route_register_egress now maxSessions ctx = bindJ (fieldJ ''gatewayId'' (cx_body ctx)) (\<lambda>v.
     bindJ (fieldJ ''region'' (cx_body ctx)) (\<lambda>region. bindJ (fieldJ ''fixedIp'' (cx_body ctx)) (\<lambda>fixedIp.
     let gatewayId = string_or v [] in
     if gatewayId = [] \<or> \<not> js_truthy region \<or> \<not> js_truthy fixedIp
     then throwJ (invalid_request ''gatewayId, region and fixedIp are required'')
     else bindJ (egress_insert now gatewayId (js_string region) (js_string fixedIp) maxSessions) (\<lambda>_. retJ gatewayId))))"

definition route_egress_select :: "millis \<Rightarrow> rest_ctx \<Rightarrow> ('z edge_db_scheme, egress_gateway) js" where
  "route_egress_select now ctx = bindJ (getJ (egress_candidates now)) (\<lambda>gateways.
     case egress_select gateways (case map_of (cx_query ctx) ''region'' of None \<Rightarrow> [] | Some r \<Rightarrow> r) now of
       Inl _ \<Rightarrow> throwJ (HttpError 503 ''not_configured'' ''no healthy egress gateway is currently registered'')
     | Inr g \<Rightarrow> retJ g)"

section \<open>Read-only routes and reports\<close>

text \<open>\<open>health\<close> is what \<open>db.health()\<close> resolves to.\<close>

definition route_status :: "'c server_env \<Rightarrow> js_error + json \<Rightarrow> rest_ctx \<Rightarrow> js_error + json" where
  "route_status E health ctx = (case health of Inl e \<Rightarrow> Inl e | Inr d \<Rightarrow> Inr (JObj [(''service'', JStr ''bapc-vpn-security''),
     (''version'', JStr ''0.4.0''), (''subject'', JStr (subject_of ctx)), (''database'', d), (''environment'', JStr (se_environment E))]))"

definition route_rollout :: "rest_ctx \<Rightarrow> ('z policy_db_scheme, rollout_record list) js" where
  "route_rollout ctx = pg_rollout_summary (path_param ctx ''commitId'')"

text \<open>\<open>limit\<close> is the number of the query, 100 without one.\<close>

definition route_events :: "int \<Rightarrow> ('z repo_db_scheme, security_event list) js" where
  "route_events limit = getJ (pg_recent limit)"

definition route_audit_verify :: "'c server_env \<Rightarrow> ('z repo_db_scheme, json) js" where
  "route_audit_verify E = getJ (\<lambda>s. JObj [(''valid'', JBool (audit_verify pg_chain (se_sha256 E) s))])"

definition route_oob_status :: "'c server_env \<Rightarrow> ('z edge_db_scheme \<times> 'c, bool \<times> snapshot_row list) js" where
  "route_oob_status E = bindJ (right_side (oc_healthy (se_oob E))) (\<lambda>healthy.
     bindJ (left_side (getJ listLastKnownGood)) (\<lambda>good. retJ (healthy, good)))"

definition route_active_threats :: "millis \<Rightarrow> ('z threat_db_scheme, (string \<times> nat \<times> millis) list) js" where
  "route_active_threats now = getJ (activeWindows (now - THREAT_CORRELATION_WINDOW_MS))"

text \<open>The four numbers of a relay report and the three of a gateway report are the fields of the body, 0 without one.\<close>

definition route_relay_heartbeat :: "millis \<Rightarrow> rat \<Rightarrow> int \<Rightarrow> nat \<Rightarrow> nat \<Rightarrow> rest_ctx \<Rightarrow> ('z mesh_db_scheme, json) js" where
  "route_relay_heartbeat now loadPercent latencyMs activeSessions throughput ctx =
     bindJ (relay_heartbeat now (id_of ctx) loadPercent latencyMs activeSessions throughput) (\<lambda>_. retJ (JObj [(''acknowledged'', JBool True)]))"

definition route_egress_heartbeat :: "millis \<Rightarrow> rat \<Rightarrow> int \<Rightarrow> int \<Rightarrow> rest_ctx \<Rightarrow> ('z edge_db_scheme, json) js" where
  "route_egress_heartbeat now loadPercent latencyMs activeSessions ctx = bindJ (fieldJ ''healthy'' (cx_body ctx)) (\<lambda>healthy.
     bindJ (egress_heartbeat now (id_of ctx) loadPercent (healthy \<noteq> JBool False) latencyMs activeSessions) (\<lambda>_.
     retJ (JObj [(''acknowledged'', JBool True)])))"

section \<open>The route table\<close>

text \<open>Method, path, roles and options of every \<open>router.add\<close>, in their order.\<close>

type_synonym api_entry = "string \<times> string \<times> string list \<times> route_options"

abbreviation limited :: "nat \<Rightarrow> route_options" where
  "limited n \<equiv> default_options\<lparr>op_rateLimit := Some \<lparr>rl_limit = n, rl_windowMs = 60000\<rparr>\<rparr>"

abbreviation public_route :: "route_options \<Rightarrow> route_options" where
  "public_route opts \<equiv> opts\<lparr>op_public := True\<rparr>"

abbreviation once_only :: "route_options \<Rightarrow> route_options" where
  "once_only opts \<equiv> opts\<lparr>op_idempotent := True\<rparr>"

definition policy_api :: "api_entry list" where
  "policy_api =
    [(''HEAD'', ''/'', [], public_route default_options),
     (''GET'', ''/'', [], public_route default_options),
     (''GET'', ''/api/v1/status'', [''security-read''], default_options),
     (''GET'', ''/api/v1/nodes'', [''security-read''], default_options),
     (''GET'', ''/api/v1/policies'', [''security-read''], default_options),
     (''PUT'', ''/api/v1/policies/:id'', [''security-approver''], once_only default_options),
     (''POST'', ''/api/v1/policies/apply'', [''security-approver''], limited 5),
     (''GET'', ''/api/v1/policies/:commitId/rollout'', [''security-read''], default_options),
     (''GET'', ''/api/v1/events'', [''security-read''], default_options),
     (''GET'', ''/api/v1/audit'', [''security-read''], default_options),
     (''GET'', ''/api/v1/audit/verify'', [''security-read''], default_options),
     (''GET'', ''/api/v1/soc/snapshot'', [''security-read''], default_options),
     (''GET'', ''/api/v1/soc/snapshot/full'', [''security-read''], default_options),
     (''POST'', ''/api/v1/soc/emergency-lockdown'', [''security-owner''], (limited 2)\<lparr>op_replayProtected := True\<rparr>),
     (''POST'', ''/api/v1/oob/checkpoint'', [''security-approver''], default_options),
     (''POST'', ''/api/v1/oob/rollback'', [''security-owner''], limited 2),
     (''GET'', ''/api/v1/oob/status'', [''security-read''], default_options),
     (''GET'', ''/api/v1/certificates/crl'', [], public_route (limited 120)),
     (''GET'', ''/api/bapc/handshake'', [], public_route (limited 60))]"

definition node_api :: "api_entry list" where
  "node_api =
    [(''POST'', ''/api/v1/jit'', [''security-user''], once_only (limited 20)),
     (''POST'', ''/api/v1/jit/:id/approve'', [''security-approver''], default_options),
     (''POST'', ''/api/v1/jit/:id/terminate'', [''security-approver''], default_options),
     (''PUT'', ''/api/v1/nodes/:id/region'', [''security-approver''], once_only default_options),
     (''POST'', ''/api/v1/nodes/:id/quarantine'', [''security-approver''], limited 10),
     (''POST'', ''/api/v1/nodes/:id/restore'', [''security-approver''], default_options),
     (''POST'', ''/api/v1/nodes/:id/kill-switch'', [''security-approver''], default_options),
     (''POST'', ''/api/v1/nodes/:id/dns'', [''security-approver''], default_options),
     (''PUT'', ''/api/v1/nodes/:id/desired-state'', [''security-approver''], once_only default_options),
     (''GET'', ''/api/v1/nodes/:id/desired-state'', [''security-read''], default_options),
     (''POST'', ''/api/v1/nodes/:id/reconcile'', [''security-approver''], limited 30),
     (''POST'', ''/api/v1/agent/heartbeat'', [''security-agent''], default_options),
     (''POST'', ''/api/v1/threats/signal'', [''security-agent''], limited 120),
     (''POST'', ''/api/v1/threats/:nodeId/dismiss'', [''security-approver''], default_options),
     (''GET'', ''/api/v1/threats/active'', [''security-read''], default_options),
     (''POST'', ''/api/v1/agent/commands/:id/ack'', [''security-agent''], default_options),
     (''POST'', ''/api/v1/access/decide'', [''security-agent''], limited 300)]"

definition relay_api :: "api_entry list" where
  "relay_api =
    [(''GET'', ''/api/v1/relays'', [''security-read''], default_options),
     (''POST'', ''/api/v1/relays/provision'', [''security-owner''], limited 5),
     (''POST'', ''/api/v1/relays/:id/terminate'', [''security-owner''], limited 5),
     (''POST'', ''/api/v1/relays/register'', [''security-agent''], once_only default_options),
     (''POST'', ''/api/v1/relays/:id/heartbeat'', [''security-agent''], limited 120),
     (''GET'', ''/api/v1/egress'', [''security-read''], default_options),
     (''POST'', ''/api/v1/egress/register'', [''security-agent''], once_only default_options),
     (''POST'', ''/api/v1/egress/:id/heartbeat'', [''security-agent''], limited 120),
     (''GET'', ''/api/v1/egress/select'', [''security-agent''], default_options)]"

definition api_table :: "api_entry list" where
  "api_table = policy_api @ node_api @ relay_api"

text \<open>The router of the server; \<open>h\<close> gives the handler of a method and path.\<close>

definition api_routes :: "(string \<Rightarrow> string \<Rightarrow> 's rest_handler) \<Rightarrow> 's rest_route list" where
  "api_routes h = fold (\<lambda>(m, p, roles, opts). router_add m p roles (h m p) opts) api_table []"

section \<open>Who can change state through the API\<close>

definition route_of :: "(string \<Rightarrow> string \<Rightarrow> 's rest_handler) \<Rightarrow> api_entry \<Rightarrow> 's rest_route" where
  "route_of h = (\<lambda>(m, p, roles, opts). \<lparr>ro_method = m, ro_path = p, ro_roles = roles, ro_handler = h m p, ro_options = opts\<rparr>)"

lemma fold_router_add: "fold (\<lambda>(m, p, roles, opts). router_add m p roles (h m p) opts) es rs = rs @ map (route_of h) es"
  by (induction es arbitrary: rs) (auto simp: router_add_def route_of_def)

lemma api_routes_map: "api_routes h = map (route_of h) api_table"
  by (simp add: api_routes_def fold_router_add)

lemma api_routes_entry:
  assumes "r \<in> set (api_routes h)"
  shows "(ro_method r, ro_path r, ro_roles r, ro_options r) \<in> set api_table"
  using assms by (auto simp: api_routes_map route_of_def)

lemma api_table_roles:
  "list_all (\<lambda>(m, p, roles, opts). if op_public opts then m \<in> {''GET'', ''HEAD''} else roles \<in> set (map (\<lambda>x. [x])
     [''security-read'', ''security-user'', ''security-agent'', ''security-approver'', ''security-owner''])) api_table"
  by (simp add: api_table_def policy_api_def node_api_def relay_api_def default_options_def)

lemma guard_verify_role:
  assumes "guard_verify hmac secret now [role] authorization = Inr c"
  shows "role \<in> set (cl_roles c)"
proof -
  obtain claims where "guard_claims now [role] claims = Inr c"
    using assms unfolding guard_verify_def by (auto split: option.splits list.splits if_splits)
  thus ?thesis using guard_claims_Inr [of now "[role]" claims c] by auto
qed

text \<open>
  C2. Nothing changes through the API without credentials: if a request with a method other than GET or HEAD changes
  the state of the server, it matched a route of the table that is not public, the bearer token verified for the role
  of that route, and the token holds this role, whatever the handlers do.
\<close>

theorem api_change_authenticated:
  assumes "rest_handle C (api_routes h) requestId now req t = (r, t')" "rst_app t' \<noteq> rst_app t" "rq_method req \<notin> {''GET'', ''HEAD''}"
  shows "\<exists>path role opts claims. (rq_method req, path, [role], opts) \<in> set api_table \<and> \<not> op_public opts \<and>
    match_segments (split_on (CHR ''/'') path) (split_on (CHR ''/'') (hd (split_on (CHR ''?'') (rq_url req)))) \<noteq> None \<and>
    guard_verify (rc_hmac C) (rc_secret C) now [role] (map_of (rq_headers req) ''authorization'') = Inr claims \<and> role \<in> set (cl_roles claims)"
proof -
  obtain route claims where f: "find (route_match (rq_method req) (hd (split_on (CHR ''?'') (rq_url req)))) (api_routes h) = Some route"
    and c: "route_claims C now req route = Inr claims"
    using rest_handle_cases [of C "api_routes h" requestId now req t] assms(1,2) by auto
  have r: "route \<in> set (api_routes h)" "ro_method route = rq_method req"
    "match_segments (split_on (CHR ''/'') (ro_path route)) (split_on (CHR ''/'') (hd (split_on (CHR ''?'') (rq_url req)))) \<noteq> None"
    using f by (auto simp: find_Some_iff route_match_def)
  note e = api_routes_entry [OF r(1)]
  have p: "\<not> op_public (ro_options route)" "\<exists>role. ro_roles route = [role]"
    using e api_table_roles assms(3) r(2) by (force simp: list_all_iff split: if_splits)+
  then obtain role where role: "ro_roles route = [role]" by blast
  have g: "guard_verify (rc_hmac C) (rc_secret C) now [role] (map_of (rq_headers req) ''authorization'') = Inr claims"
    using c p(1) role by (simp add: route_claims_def)
  show ?thesis using e p(1) role r(2,3) g guard_verify_role [OF g] by metis
qed

text \<open>A server that counts its calls, and a request with a token of an approver.\<close>

definition demo_hmac :: "string \<Rightarrow> string \<Rightarrow> string" where
  "demo_hmac k m = CHR ''#'' # k @ m"

definition demo_rest :: "nat rest_config" where
  "demo_rest = \<lparr>rc_hmac = demo_hmac, rc_sha256 = (\<lambda>x. x), rc_secret = ''key'', rc_idempotency = \<lparr>is_get = (\<lambda>_ _. retJ None), is_put = (\<lambda>_ _ _ _ _ _. retJ ())\<rparr>,
     rc_replay = \<lparr>rs_claim = (\<lambda>_ _ _ _. retJ True)\<rparr>, rc_exposeMetrics = True\<rparr>"

definition demo_handler :: "string \<Rightarrow> string \<Rightarrow> nat rest_handler" where
  "demo_handler m p = JsonHandler (\<lambda>ctx. bindJ (modifyJ Suc) (\<lambda>_. retJ JNull))"

definition demo_post :: http_request where
  "demo_post = \<lparr>rq_method = ''POST'', rq_url = ''/api/v1/oob/checkpoint'', rq_headers = [(''authorization'',
     ''Bearer '' @ guard_mint demo_hmac ''key'' 0 ''soc'' [''security-approver''] (Some 10))], rq_chunks = []\<rparr>"

definition demo_web :: "nat rest_state" where
  "demo_web = \<lparr>rst_hits = [], rst_metrics = \<lparr>mt_counters = [], mt_labelSets = []\<rparr>, rst_retryAfter = None, rst_app = 0\<rparr>"

lemma demo_find: "find (route_match ''POST'' ''/api/v1/oob/checkpoint'') (api_routes demo_handler) =
    Some \<lparr>ro_method = ''POST'', ro_path = ''/api/v1/oob/checkpoint'', ro_roles = [''security-approver''],
      ro_handler = demo_handler ''POST'' ''/api/v1/oob/checkpoint'', ro_options = default_options\<rparr>"
  by (simp add: api_routes_map api_table_def policy_api_def route_of_def route_match_def starts_with_def)

lemma demo_verify: "guard_verify demo_hmac ''key'' 1000 [''security-approver''] (map_of (rq_headers demo_post) ''authorization'') =
    Inr \<lparr>cl_sub = ''soc'', cl_roles = [''security-approver'']\<rparr>"
proof -
  have "map_of (rq_headers demo_post) ''authorization'' = Some (''Bearer '' @ guard_mint demo_hmac ''key'' 0 ''soc'' [''security-approver''] (Some 10))"
    by (simp add: demo_post_def)
  thus ?thesis by (simp only:, intro guard_mint_verifies) (simp_all add: demo_hmac_def)
qed

lemma demo_web_run: "rst_app (snd (rest_handle demo_rest (api_routes demo_handler) ''r1'' 1000 demo_post demo_web)) = 1"
proof -
  have q: "rq_method demo_post = ''POST''" "rq_url demo_post = ''/api/v1/oob/checkpoint''" "rq_chunks demo_post = []" by (simp_all add: demo_post_def)
  have c: "rc_hmac demo_rest = demo_hmac" "rc_secret demo_rest = ''key''" "rc_exposeMetrics demo_rest" by (simp_all add: demo_rest_def)
  show ?thesis unfolding rest_handle_def Let_def q c
    by (simp add: demo_find run_route_def bindJ_app catchJ_def Let_def pureJ_def demo_verify c q limit_step_def rate_check_def hits_get_def demo_web_def
        default_options_def DEFAULT_RATE_LIMIT_def readJson_def on_app_def demo_handler_def)
qed

theorem api_change_authenticated_witness:
  "\<exists>r t'. rest_handle demo_rest (api_routes demo_handler) ''r1'' 1000 demo_post demo_web = (r, t') \<and> rst_app t' = 1 \<and>
     (\<exists>path role opts claims. (''POST'', path, [role], opts) \<in> set api_table \<and>
       guard_verify demo_hmac ''key'' 1000 [role] (map_of (rq_headers demo_post) ''authorization'') = Inr claims \<and> role \<in> set (cl_roles claims))"
proof -
  obtain r t' where t: "rest_handle demo_rest (api_routes demo_handler) ''r1'' 1000 demo_post demo_web = (r, t')" by force
  have a: "rst_app t' = 1" using demo_web_run unfolding t by simp
  have n: "rst_app t' \<noteq> rst_app demo_web" "rq_method demo_post \<notin> {''GET'', ''HEAD''}" using a by (simp_all add: demo_web_def demo_post_def)
  have "rq_method demo_post = ''POST''" "rc_hmac demo_rest = demo_hmac" "rc_secret demo_rest = ''key''" by (simp_all add: demo_post_def demo_rest_def)
  with api_change_authenticated [OF t n] t a show ?thesis by auto
qed

end
