(* ===== verification/Native.thy ===== *)
theory Native
  imports Reconcile JsonParse
begin

text \<open>
  The platform adapters of the endpoint agent: \<open>native/linux/adapter.ts\<close> and
  \<open>native/windows/adapter.ts\<close>.  The host is a record of its operations: running
  a program with an argument vector (its standard output, or an error),
  writing a file into a new temporary directory (its path), and reading
  files.
\<close>

section \<open>The host\<close>

record 's host =
  h_run :: "string \<Rightarrow> string list \<Rightarrow> ('s, string) js"
  h_tempfile :: "string \<Rightarrow> string \<Rightarrow> string \<Rightarrow> ('s, string) js"
  h_exists :: "string \<Rightarrow> ('s, bool) js"
  h_read :: "string \<Rightarrow> ('s, string) js"

record wg_peer =
  wp_publicKey :: string
  wp_endpoint :: "string option"
  wp_allowedIps :: "string list"
  wp_keepaliveSeconds :: nat

record wg_config =
  wc_privateKeyReference :: string
  wc_addresses :: "string list"
  wc_listenPort :: "nat option"
  wc_peers :: "wg_peer list"

record fw_rule =
  fw_id :: string
  fw_action :: string
  fw_protocols :: "string list"
  fw_ports :: "nat list"
  fw_sourceZones :: "string list"
  fw_destinationZones :: "string list"

record host_posture =
  hp_osCurrent :: bool
  hp_diskEncrypted :: bool
  hp_secureBoot :: bool
  hp_firewallEnabled :: bool
  hp_agentHealthy :: bool
  hp_bannedProcessFound :: bool

definition quietly :: "('s, 'a) js \<Rightarrow> ('s, unit) js" where
  "quietly m = catchJ (bindJ m (\<lambda>_. retJ ())) (\<lambda>_. retJ ())"

definition voidJ :: "('s, 'a) js \<Rightarrow> ('s, unit) js" where
  "voidJ m = bindJ m (\<lambda>_. retJ ())"

section \<open>Input validation\<close>

definition is_b64_std :: "char \<Rightarrow> bool" where
  "is_b64_std c \<longleftrightarrow> (let n = (of_char c :: nat) in 48 \<le> n \<and> n \<le> 57 \<or> 65 \<le> n \<and> n \<le> 90 \<or> 97 \<le> n \<and> n \<le> 122) \<or> c = CHR ''+'' \<or> c = CHR ''/''"

definition wg_key_ok :: "string \<Rightarrow> bool" where
  "wg_key_ok k \<longleftrightarrow> length k = 44 \<and> list_all is_b64_std (take 42 k) \<and> k ! 42 \<in> set ''AEIMQUYcgkosw048'' \<and> k ! 43 = CHR ''=''"

definition cidr_ok :: "string \<Rightarrow> bool" where
  "cidr_ok s \<longleftrightarrow> (case split_on (CHR ''/'') s of
     [a, p] \<Rightarrow> a \<noteq> [] \<and> list_all (\<lambda>c. is_hex c \<or> c = CHR ''.'' \<or> c = CHR '':'') a \<and>
       1 \<le> length p \<and> length p \<le> 3 \<and> list_all is_digit p
   | _ \<Rightarrow> False)"

definition assertKey :: "string \<Rightarrow> string \<Rightarrow> ('s, unit) js" where
  "assertKey k field = (if wg_key_ok k then retJ () else throwJ (JsError (''invalid '' @ field)))"

definition assertCidrList :: "string list \<Rightarrow> ('s, unit) js" where
  "assertCidrList ips = forJ (\<lambda>ip. if cidr_ok ip then retJ () else throwJ (JsError (''invalid allowed-ip '' @ ip))) ips"

definition assert_peers :: "wg_peer list \<Rightarrow> ('s, unit) js" where
  "assert_peers peers = forJ (\<lambda>p. bindJ (assertKey (wp_publicKey p) ''peer public key'') (\<lambda>_. assertCidrList (wp_allowedIps p))) peers"

section \<open>Routes\<close>

fun words_acc :: "string \<Rightarrow> string \<Rightarrow> string list" where
  "words_acc acc [] = (if acc = [] then [] else [rev acc])"
| "words_acc acc (c # r) = (if js_ws c then (if acc = [] then words_acc [] r else rev acc # words_acc [] r)
     else words_acc (c # acc) r)"

text \<open>\<open>line.trim().split(...)\<close> on white space; the one empty token of a blank line is no token.\<close>

definition tokens_of :: "string \<Rightarrow> string list" where
  "tokens_of line = words_acc [] line"

fun token_after :: "string \<Rightarrow> string list \<Rightarrow> string option option" where
  "token_after k [] = None"
| "token_after k (t # ts) = (if t = k then Some (case ts of [] \<Rightarrow> None | v # _ \<Rightarrow> Some v) else token_after k ts)"

definition parseIpRouteLine :: "string \<Rightarrow> route option" where
  "parseIpRouteLine line = (case tokens_of line of [] \<Rightarrow> None
   | t # ts \<Rightarrow> let tokens = t # ts in (case token_after ''dev'' tokens of None \<Rightarrow> None
     | Some dev \<Rightarrow> Some \<lparr>rt_destination = (if t = ''default'' then ''0.0.0.0/0'' else t),
         rt_gateway = (case token_after ''via'' tokens of Some v \<Rightarrow> v | None \<Rightarrow> None),
         rt_interfaceName = (case dev of Some d \<Rightarrow> d | None \<Rightarrow> []),
         rt_metric = (case token_after ''metric'' tokens of
           Some (Some m) \<Rightarrow> (case js_number (Some (JStr m)) of Some n \<Rightarrow> nat n | None \<Rightarrow> 0) | _ \<Rightarrow> 0)\<rparr>))"

section \<open>LinuxPlatformAdapter\<close>

definition requireBinary :: "'s host \<Rightarrow> string \<Rightarrow> ('s, unit) js" where
  "requireBinary H name = catchJ (voidJ (h_run H ''which'' [name]))
     (\<lambda>_. throwJ (JsError (''required binary '' @ [CHR 0x27] @ name @ [CHR 0x27] @ '' not found on PATH'')))"

definition wg_set_args :: "string \<Rightarrow> string \<Rightarrow> wg_config \<Rightarrow> string list" where
  "wg_set_args iface keyPath c = [''set'', iface, ''private-key'', keyPath] @
     (case wc_listenPort c of Some p \<Rightarrow> if p = 0 then [] else [''listen-port'', dec p] | None \<Rightarrow> []) @
     concat (map (\<lambda>p. [''peer'', wp_publicKey p, ''allowed-ips'', js_join '','' (wp_allowedIps p),
        ''persistent-keepalive'', dec (wp_keepaliveSeconds p)] @
        (case truthy (wp_endpoint p) of None \<Rightarrow> [] | Some e \<Rightarrow> [''endpoint'', e])) (wc_peers c))"

definition linux_applyWireGuard :: "'s host \<Rightarrow> string \<Rightarrow> wg_config \<Rightarrow> ('s, unit) js" where
  "linux_applyWireGuard H iface c = bindJ (requireBinary H ''wg'') (\<lambda>_. bindJ (requireBinary H ''ip'') (\<lambda>_.
     bindJ (assert_peers (wc_peers c)) (\<lambda>_. bindJ (assertCidrList (wc_addresses c)) (\<lambda>_.
     bindJ (catchJ (bindJ (h_run H ''ip'' [''link'', ''show'', iface]) (\<lambda>_. retJ True)) (\<lambda>_. retJ False)) (\<lambda>present.
     bindJ (if present then retJ () else voidJ (h_run H ''ip'' [''link'', ''add'', iface, ''type'', ''wireguard''])) (\<lambda>_.
     bindJ (h_tempfile H ''bapc-wg-'' ''private.key'' (wc_privateKeyReference c)) (\<lambda>keyPath.
     bindJ (h_run H ''wg'' (wg_set_args iface keyPath c)) (\<lambda>_.
     bindJ (h_run H ''ip'' [''link'', ''set'', iface, ''up'']) (\<lambda>_.
     forJ (\<lambda>addr. quietly (h_run H ''ip'' [''address'', ''replace'', addr, ''dev'', iface])) (wc_addresses c))))))))))"

definition peer_lines :: "wg_peer \<Rightarrow> string list" where
  "peer_lines p = [''[Peer]'', ''PublicKey = '' @ wp_publicKey p, ''AllowedIPs = '' @ js_join '', '' (wp_allowedIps p),
     ''PersistentKeepalive = '' @ dec (wp_keepaliveSeconds p)] @
     (case truthy (wp_endpoint p) of None \<Rightarrow> [] | Some e \<Rightarrow> [''Endpoint = '' @ e])"

definition peers_conf :: "wg_peer list \<Rightarrow> string" where
  "peers_conf peers = js_join [CHR 0x0A] (concat (map (\<lambda>p. peer_lines p @ [[]]) peers))"

definition linux_applyPeers :: "'s host \<Rightarrow> string \<Rightarrow> wg_peer list \<Rightarrow> ('s, unit) js" where
  "linux_applyPeers H iface peers = bindJ (requireBinary H ''wg'') (\<lambda>_. bindJ (assert_peers peers) (\<lambda>_.
     bindJ (h_tempfile H ''bapc-wg-peers-'' ''peers.conf'' (peers_conf peers)) (\<lambda>confPath.
     voidJ (h_run H ''wg'' [''syncconf'', iface, confPath]))))"

definition linux_rotatePrivateKey :: "'s host \<Rightarrow> string \<Rightarrow> string \<Rightarrow> ('s, unit) js" where
  "linux_rotatePrivateKey H iface privateKeyReference = bindJ (requireBinary H ''wg'') (\<lambda>_.
     bindJ (h_tempfile H ''bapc-wg-rotate-'' ''private.key'' privateKeyReference) (\<lambda>keyPath.
     voidJ (h_run H ''wg'' [''set'', iface, ''private-key'', keyPath])))"

text \<open>The match of a rule: a protocol and ports, or nothing at all.\<close>

definition port_clause :: "fw_rule \<Rightarrow> string" where
  "port_clause r = (let proto = (if ''ANY'' \<in> set (fw_protocols r) then [] else js_join '','' (map js_lower (fw_protocols r)));
       ports = (if fw_ports r \<noteq> [] then [CHR 0x7B] @ '' '' @ js_join '','' (map dec (fw_ports r)) @ '' '' @ [CHR 0x7D] else [])
     in if proto \<noteq> [] \<and> ports \<noteq> [] then proto @ '' dport '' @ ports else [])"

definition nft_verdict :: "fw_rule \<Rightarrow> string" where
  "nft_verdict r = (if fw_action r = ''ALLOW'' then ''accept'' else ''drop'')"

definition nft_rule :: "fw_rule \<Rightarrow> string" where
  "nft_rule r = ''    '' @ port_clause r @ '' counter '' @ nft_verdict r @ '' comment '' @ [CHR 0x22] @ fw_id r @ [CHR 0x22]"

definition nft_table :: "fw_rule list \<Rightarrow> string" where
  "nft_table rules = js_join [CHR 0x0A] ([''table inet bapc_security '' @ [CHR 0x7B], ''  chain forward '' @ [CHR 0x7B],
      ''    type filter hook forward priority 0; policy drop;''] @ map nft_rule rules @ [''  '' @ [CHR 0x7D], [CHR 0x7D]]) @ [CHR 0x0A]"

definition linux_applyFirewall :: "'s host \<Rightarrow> string \<Rightarrow> fw_rule list \<Rightarrow> ('s, unit) js" where
  "linux_applyFirewall H commitId rules = bindJ (requireBinary H ''nft'') (\<lambda>_.
     bindJ (h_tempfile H ''bapc-nft-'' (commitId @ ''.nft'') (nft_table rules)) (\<lambda>rulesPath.
     voidJ (h_run H ''nft'' [''-f'', rulesPath])))"

definition linux_rollbackFirewall :: "'s host \<Rightarrow> string \<Rightarrow> ('s, unit) js" where
  "linux_rollbackFirewall H commitId = bindJ (requireBinary H ''nft'') (\<lambda>_.
     quietly (h_run H ''nft'' [''delete'', ''table'', ''inet'', ''bapc_security'']))"

definition linux_setKillSwitch :: "'s host \<Rightarrow> string \<Rightarrow> bool \<Rightarrow> ('s, unit) js" where
  "linux_setKillSwitch H iface enabled = bindJ (requireBinary H ''nft'') (\<lambda>_.
     if enabled then
       bindJ (quietly (h_run H ''nft'' [''add'', ''table'', ''inet'', ''bapc_killswitch''])) (\<lambda>_.
       bindJ (quietly (h_run H ''nft'' [''add'', ''chain'', ''inet'', ''bapc_killswitch'', ''output'',
          [CHR 0x7B], ''type'', ''filter'', ''hook'', ''output'', ''priority'', ''0;'', ''policy'', ''drop;'', [CHR 0x7D]])) (\<lambda>_.
       voidJ (h_run H ''nft'' [''add'', ''rule'', ''inet'', ''bapc_killswitch'', ''output'', ''oifname'', iface, ''accept''])))
     else quietly (h_run H ''nft'' [''delete'', ''table'', ''inet'', ''bapc_killswitch'']))"

definition linux_setDns :: "'s host \<Rightarrow> string \<Rightarrow> string list \<Rightarrow> ('s, unit) js" where
  "linux_setDns H iface servers = bindJ (requireBinary H ''resolvectl'') (\<lambda>_.
     voidJ (h_run H ''resolvectl'' ([''dns'', iface] @ servers)))"

definition linux_isolate :: "'s host \<Rightarrow> string \<Rightarrow> ('s, unit) js" where
  "linux_isolate H reason = bindJ (requireBinary H ''nft'') (\<lambda>_.
     bindJ (quietly (h_run H ''nft'' [''add'', ''table'', ''inet'', ''bapc_quarantine''])) (\<lambda>_.
     quietly (h_run H ''nft'' [''add'', ''chain'', ''inet'', ''bapc_quarantine'', ''forward'',
       [CHR 0x7B], ''type'', ''filter'', ''hook'', ''forward'', ''priority'', ''-10;'', ''policy'', ''drop;'', [CHR 0x7D]])))"

definition linux_restore :: "'s host \<Rightarrow> ('s, unit) js" where
  "linux_restore H = bindJ (requireBinary H ''nft'') (\<lambda>_. quietly (h_run H ''nft'' [''delete'', ''table'', ''inet'', ''bapc_quarantine'']))"

definition linux_collectPosture :: "'s host \<Rightarrow> ('s, host_posture) js" where
  "linux_collectPosture H = bindJ (h_exists H ''/sys/firmware/efi/efivars'') (\<lambda>secureBoot.
     bindJ (catchJ (bindJ (h_run H ''nft'' [''list'', ''table'', ''inet'', ''bapc_security'']) (\<lambda>out. retJ (0 < length out)))
       (\<lambda>_. retJ False)) (\<lambda>firewallEnabled.
     bindJ (h_exists H ''/etc/crypttab'') (\<lambda>diskEncrypted.
     retJ \<lparr>hp_osCurrent = True, hp_diskEncrypted = diskEncrypted, hp_secureBoot = secureBoot,
       hp_firewallEnabled = firewallEnabled, hp_agentHealthy = True, hp_bannedProcessFound = False\<rparr>)))"

definition linux_readRoutes :: "'s host \<Rightarrow> ('s, route list) js" where
  "linux_readRoutes H = bindJ (requireBinary H ''ip'') (\<lambda>_. bindJ (h_run H ''ip'' [''route'', ''show'']) (\<lambda>out.
     retJ (List.map_filter parseIpRouteLine (split_on (CHR 0x0A) out))))"

definition route_args :: "route \<Rightarrow> string list" where
  "route_args r = [''route'', ''replace'', rt_destination r] @
     (case truthy (rt_gateway r) of None \<Rightarrow> [] | Some g \<Rightarrow> [''via'', g]) @
     [''dev'', rt_interfaceName r, ''metric'', dec (rt_metric r)]"

definition linux_replaceRoutes :: "'s host \<Rightarrow> route list \<Rightarrow> ('s, unit) js" where
  "linux_replaceRoutes H routes = bindJ (requireBinary H ''ip'') (\<lambda>_. forJ (\<lambda>r. voidJ (h_run H ''ip'' (route_args r))) routes)"

definition readFileHash :: "(string \<Rightarrow> string) \<Rightarrow> 's host \<Rightarrow> string \<Rightarrow> ('s, string) js" where
  "readFileHash sha256 H path = bindJ (h_read H path) (\<lambda>content. retJ (sha256 content))"

definition linux_clearTransientCredentials :: "'s host \<Rightarrow> string \<Rightarrow> ('s, unit) js" where
  "linux_clearTransientCredentials H iface = bindJ (requireBinary H ''ip'') (\<lambda>_.
     quietly (h_run H ''ip'' [''link'', ''set'', iface, ''down'']))"

section \<open>WindowsPlatformAdapter\<close>

definition invokePs1 :: "'s host \<Rightarrow> string \<Rightarrow> string \<Rightarrow> json \<Rightarrow> ('s, json) js" where
  "invokePs1 H script action payload =
     bindJ (if payload = JUndefined then retJ [] else bindJ (h_tempfile H ''bapc-ps-'' ''payload.json'' (json_stringify payload))
       (\<lambda>path. retJ [''-PayloadPath'', path])) (\<lambda>extra.
     bindJ (h_run H ''powershell.exe'' ([''-NoProfile'', ''-NonInteractive'', ''-ExecutionPolicy'', ''Bypass'', ''-File'', script,
       ''-Action'', action] @ extra)) (\<lambda>out.
     let t = js_trim out in (case json_parse (if t = [] then [CHR 0x7B, CHR 0x7D] else t) of
       None \<Rightarrow> throwJ (JsError ''Unexpected token in JSON'') | Some v \<Rightarrow> retJ v)))"

definition windows_keys_ok :: "wg_peer list \<Rightarrow> ('s, unit) js" where
  "windows_keys_ok peers = forJ (\<lambda>p. if wg_key_ok (wp_publicKey p) then retJ () else throwJ (JsError ''invalid peer public key'')) peers"

definition windows_conf :: "wg_config \<Rightarrow> string" where
  "windows_conf c = js_join [CHR 0x0A] ([''[Interface]'', ''PrivateKey = '' @ wc_privateKeyReference c,
      ''Address = '' @ js_join '', '' (wc_addresses c)] @
     (case wc_listenPort c of Some p \<Rightarrow> if p = 0 then [] else [''ListenPort = '' @ dec p] | None \<Rightarrow> []) @
     concat (map (\<lambda>p. [] # peer_lines p) (wc_peers c))) @ [CHR 0x0A]"

definition windows_applyWireGuard :: "'s host \<Rightarrow> string \<Rightarrow> wg_config \<Rightarrow> ('s, unit) js" where
  "windows_applyWireGuard H alias c = bindJ (windows_keys_ok (wc_peers c)) (\<lambda>_.
     bindJ (h_tempfile H ''bapc-wg-'' (alias @ ''.conf'') (windows_conf c)) (\<lambda>confPath.
     bindJ (quietly (h_run H ''wireguard.exe'' [''/uninstalltunnelservice'', alias])) (\<lambda>_.
     voidJ (h_run H ''wireguard.exe'' [''/installtunnelservice'', confPath]))))"

definition windows_applyPeers :: "'s host \<Rightarrow> string \<Rightarrow> wg_peer list \<Rightarrow> ('s, unit) js" where
  "windows_applyPeers H alias peers = bindJ (windows_keys_ok peers) (\<lambda>_.
     bindJ (h_tempfile H ''bapc-wg-peers-'' ''peers.conf'' (peers_conf peers)) (\<lambda>confPath.
     voidJ (h_run H ''wg.exe'' [''syncconf'', alias, confPath])))"

definition windows_rotatePrivateKey :: "'s host \<Rightarrow> string \<Rightarrow> string \<Rightarrow> ('s, unit) js" where
  "windows_rotatePrivateKey H alias privateKeyReference =
     bindJ (h_tempfile H ''bapc-wg-rotate-'' ''private.key'' privateKeyReference) (\<lambda>keyPath.
     voidJ (h_run H ''wg.exe'' [''set'', alias, ''private-key'', keyPath]))"

definition windows_applyFirewall :: "'s host \<Rightarrow> string \<Rightarrow> json \<Rightarrow> ('s, unit) js" where
  "windows_applyFirewall H script plan = voidJ (invokePs1 H script ''ApplyFirewall'' plan)"

definition windows_rollbackFirewall :: "'s host \<Rightarrow> string \<Rightarrow> string \<Rightarrow> ('s, unit) js" where
  "windows_rollbackFirewall H script commitId = voidJ (invokePs1 H script ''RollbackFirewall'' (JObj [(''commitId'', JStr commitId)]))"

definition windows_setKillSwitch :: "'s host \<Rightarrow> string \<Rightarrow> string \<Rightarrow> bool \<Rightarrow> ('s, unit) js" where
  "windows_setKillSwitch H script alias enabled = voidJ (invokePs1 H script ''SetKillSwitch''
     (JObj [(''enabled'', JBool enabled), (''interfaceAlias'', JStr alias)]))"

definition windows_setDns :: "'s host \<Rightarrow> string \<Rightarrow> string \<Rightarrow> string list \<Rightarrow> ('s, unit) js" where
  "windows_setDns H script alias servers = voidJ (invokePs1 H script ''SetDns''
     (JObj [(''servers'', strs_json servers), (''interfaceAlias'', JStr alias)]))"

definition windows_isolate :: "'s host \<Rightarrow> string \<Rightarrow> ('s, unit) js" where
  "windows_isolate H script = voidJ (invokePs1 H script ''Isolate'' JUndefined)"

definition windows_restore :: "'s host \<Rightarrow> string \<Rightarrow> ('s, unit) js" where
  "windows_restore H script = voidJ (invokePs1 H script ''Restore'' JUndefined)"

definition windows_collectPosture :: "'s host \<Rightarrow> string \<Rightarrow> ('s, json) js" where
  "windows_collectPosture H script = invokePs1 H script ''CollectPosture'' JUndefined"

definition windows_route :: "json \<Rightarrow> route" where
  "windows_route j = \<lparr>rt_destination = str_of (json_get ''destination'' j),
     rt_gateway = (case json_get ''gateway'' j of Some (JStr g) \<Rightarrow> truthy (Some g) | _ \<Rightarrow> None),
     rt_interfaceName = str_of (json_get ''interfaceName'' j),
     rt_metric = (case json_get ''metric'' j of Some (JNum n) \<Rightarrow> nat n | _ \<Rightarrow> 0)\<rparr>"

definition windows_readRoutes :: "'s host \<Rightarrow> string \<Rightarrow> ('s, route list) js" where
  "windows_readRoutes H script = bindJ (invokePs1 H script ''GetRoutes'' JUndefined) (\<lambda>result.
     bindJ (fieldJ ''routes'' result) (\<lambda>routes.
     retJ (map windows_route (case routes of JArr rs \<Rightarrow> rs | r \<Rightarrow> filter js_truthy [r]))))"

definition windows_replaceRoutes :: "'s host \<Rightarrow> string \<Rightarrow> route list \<Rightarrow> ('s, unit) js" where
  "windows_replaceRoutes H script routes =
     voidJ (invokePs1 H script ''ReplaceRoutes'' (JObj [(''routes'', JArr (map route_json routes))]))"

definition windows_clearTransientCredentials :: "'s host \<Rightarrow> string \<Rightarrow> string \<Rightarrow> ('s, unit) js" where
  "windows_clearTransientCredentials H script alias = voidJ (invokePs1 H script ''ClearCredentials''
     (JObj [(''interfaceAlias'', JStr alias)]))"

end
