(* ===== verification/Dns.thy ===== *)
theory Dns
  imports Store
begin

text \<open>
  DNS protection (\<open>src/application/dns-protection.ts\<close>), the sinkholing resolver
  and server (\<open>services/dns\<close>), with the audit sink of \<open>src/runtime/dns-server.ts\<close>.
  The wire format is the package dns-packet: a decoded query and the upstream
  resolvers are parameters.
\<close>

section \<open>DnsProtectionService\<close>

datatype dns_action = DnsAllow | DnsSinkhole

record dns_decision =
  dd_action :: dns_action
  dd_normalizedDomain :: string
  dd_reason :: string
  dd_sinkholeAddress :: "string option"

definition dns_normalize :: "string \<Rightarrow> string" where
  "dns_normalize d = (let s = js_lower (js_trim d) in if ends_with s ''.'' then butlast s else s)"

definition is_lower :: "char \<Rightarrow> bool" where
  "is_lower c \<longleftrightarrow> 97 \<le> (of_char c :: nat) \<and> (of_char c :: nat) \<le> 122"

definition is_label_char :: "char \<Rightarrow> bool" where
  "is_label_char c \<longleftrightarrow> is_lower c \<or> is_digit c"

text \<open>The regular expression of \<open>evaluate\<close>, read label by label.\<close>

definition valid_label :: "string \<Rightarrow> bool" where
  "valid_label l \<longleftrightarrow> l \<noteq> [] \<and> length l \<le> 63 \<and> is_label_char (hd l) \<and> is_label_char (last l) \<and>
     list_all (\<lambda>c. is_label_char c \<or> c = CHR ''-'') l"

definition valid_tld :: "string \<Rightarrow> bool" where
  "valid_tld l \<longleftrightarrow> 2 \<le> length l \<and> length l \<le> 63 \<and> list_all is_lower l"

definition valid_domain :: "string \<Rightarrow> bool" where
  "valid_domain d \<longleftrightarrow> (let labels = split_on (CHR ''.'') d in
     1 \<le> length d \<and> length d \<le> 253 \<and> 2 \<le> length labels \<and> list_all valid_label (butlast labels) \<and> valid_tld (last labels))"

definition entropyLike :: "string \<Rightarrow> bool" where
  "entropyLike label \<longleftrightarrow> 24 < length label \<and> 55 * length label < 100 * card (set label)"

definition sinkholed :: "string \<Rightarrow> string \<Rightarrow> string \<Rightarrow> dns_decision" where
  "sinkholed sinkhole d reason = \<lparr>dd_action = DnsSinkhole, dd_normalizedDomain = d, dd_reason = reason, dd_sinkholeAddress = Some sinkhole\<rparr>"

text \<open>A feed is the predicate its \<open>contains\<close> answers with.\<close>

definition dns_evaluate :: "(string \<Rightarrow> bool) list \<Rightarrow> string \<Rightarrow> string \<Rightarrow> dns_decision" where
  "dns_evaluate feeds sinkhole domain = (let d = dns_normalize domain in
     if \<not> valid_domain d then sinkholed sinkhole d ''invalid or suspicious domain''
     else if list_ex (\<lambda>f. f d) feeds then sinkholed sinkhole d ''threat-feed match''
     else if entropyLike (hd (split_on (CHR ''.'') d)) then sinkholed sinkhole d ''possible domain-generation algorithm''
     else \<lparr>dd_action = DnsAllow, dd_normalizedDomain = d, dd_reason = ''no threat match'', dd_sinkholeAddress = None\<rparr>)"

definition queryFingerprint :: "(string \<Rightarrow> string) \<Rightarrow> string \<Rightarrow> string" where
  "queryFingerprint sha256 domain = sha256 (dns_normalize domain)"

section \<open>StaticListThreatFeed\<close>

definition feed_of :: "string list \<Rightarrow> string \<Rightarrow> bool" where
  "feed_of domains domain \<longleftrightarrow> js_lower domain \<in> js_lower ` set domains"

definition feed_fromFile :: "string \<Rightarrow> string \<Rightarrow> bool" where
  "feed_fromFile text_file = feed_of (filter (\<lambda>l. 0 < length l \<and> \<not> starts_with l ''#'') (map js_trim (split_on (CHR 0x0A) text_file)))"

section \<open>SecureDnsResolver\<close>

datatype dns_type = QA | QAAAA | QTXT | QMX

record dns_record =
  dr_type :: dns_type
  dr_value :: string
  dr_ttl :: nat

type_synonym 's dns_upstream = "string \<Rightarrow> dns_type \<Rightarrow> ('s, dns_record list) js"

fun try_upstreams :: "js_error option \<Rightarrow> 's dns_upstream list \<Rightarrow> string \<Rightarrow> dns_type \<Rightarrow> ('s, dns_record list) js" where
  "try_upstreams failed [] name type =
     throwJ (case failed of None \<Rightarrow> JsError ''all encrypted DNS upstreams failed'' | Some e \<Rightarrow> e)"
| "try_upstreams failed (u # us) name type = catchJ (u name type) (\<lambda>e. try_upstreams (Some e) us name type)"

definition sinkhole_answer :: "string \<Rightarrow> dns_type \<Rightarrow> dns_record list" where
  "sinkhole_answer sinkholeV4 type = (case type of
     QA \<Rightarrow> [\<lparr>dr_type = QA, dr_value = sinkholeV4, dr_ttl = 30\<rparr>]
   | QAAAA \<Rightarrow> [\<lparr>dr_type = QAAAA, dr_value = ''fd14:4b41:5043::53'', dr_ttl = 30\<rparr>]
   | _ \<Rightarrow> [])"

definition secure_resolve :: "(string \<Rightarrow> string) \<Rightarrow> (string \<Rightarrow> bool) list \<Rightarrow> 's dns_upstream list \<Rightarrow>
    (string \<Rightarrow> dns_action \<Rightarrow> string \<Rightarrow> ('s, unit) js) \<Rightarrow> string \<Rightarrow> string \<Rightarrow> dns_type \<Rightarrow> ('s, dns_record list) js" where
  "secure_resolve sha256 feeds upstreams audit sinkholeV4 name type =
     (let decision = dns_evaluate feeds ''10.144.0.53'' name in
      bindJ (catchJ (audit (queryFingerprint sha256 name) (dd_action decision) (dd_reason decision)) (\<lambda>_. retJ ())) (\<lambda>_.
      if dd_action decision = DnsSinkhole then retJ (sinkhole_answer sinkholeV4 type)
      else try_upstreams None upstreams (dd_normalizedDomain decision) type))"

text \<open>The audit sink of the DNS process.\<close>

definition dns_audit :: "millis \<Rightarrow> string \<Rightarrow> dns_action \<Rightarrow> string \<Rightarrow> ('z repo_db_scheme, unit) js" where
  "dns_audit now nameHash action reason = bindJ next_id (\<lambda>i. pg_append_event \<lparr>ev_id = i, ev_nodeId = None, ev_at = now,
     ev_severity = INFO, ev_engine = ''secure-dns'', ev_type = (if action = DnsSinkhole then ''DNS_SINKHOLE'' else ''DNS_ALLOW''),
     ev_sourceIp = None, ev_destinationIp = None, ev_description = reason, ev_metadata = JObj [(''nameHash'', JStr nameHash)]\<rparr>)"

section \<open>BapcDnsServer\<close>

datatype rcode = NOERROR | SERVFAIL | NOTIMP

record dns_query =
  dq_id :: nat
  dq_questions :: "(string \<times> string) list"

record dns_reply =
  dy_id :: nat
  dy_rcode :: rcode
  dy_questions :: "(string \<times> string) list"
  dy_answers :: "(string \<times> dns_record) list"

fun supported_type :: "string \<Rightarrow> dns_type option" where
  "supported_type t = (if t = ''A'' then Some QA else if t = ''AAAA'' then Some QAAAA else if t = ''TXT'' then Some QTXT
     else if t = ''MX'' then Some QMX else None)"

text \<open>One datagram: a packet that does not decode is dropped, any other is answered.\<close>

definition dns_reply_to :: "dns_query \<Rightarrow> (string \<times> dns_record) list \<Rightarrow> rcode \<Rightarrow> dns_reply" where
  "dns_reply_to query answers code = \<lparr>dy_id = dq_id query, dy_rcode = code, dy_questions = dq_questions query, dy_answers = answers\<rparr>"

definition dns_handle :: "(string \<Rightarrow> dns_type \<Rightarrow> ('s, dns_record list) js) \<Rightarrow> dns_query option \<Rightarrow> ('s, dns_reply option) js" where
  "dns_handle resolve decoded = (case decoded of None \<Rightarrow> retJ None
   | Some query \<Rightarrow> (case dq_questions query of
       [] \<Rightarrow> retJ (Some (dns_reply_to query [] NOTIMP))
     | (name, type) # _ \<Rightarrow> (case supported_type type of
         None \<Rightarrow> retJ (Some (dns_reply_to query [] NOTIMP))
       | Some t \<Rightarrow> catchJ (bindJ (resolve name t) (\<lambda>records.
           retJ (Some (dns_reply_to query (map (\<lambda>r. (name, r)) records) NOERROR))))
           (\<lambda>_. retJ (Some (dns_reply_to query [] SERVFAIL))))))"

section \<open>Blocked names\<close>

lemma lower_char_idem: "lower_char (lower_char c) = lower_char c"
proof -
  define n :: nat where "n = of_char c"
  have c: "c = char_of n" "n < 256" by (simp_all add: n_def)
  show ?thesis by (auto simp: lower_char_def Let_def c(1) of_char_of)
qed

lemma js_lower_idem [simp]: "js_lower (js_lower s) = js_lower s"
  by (simp add: js_lower_def lower_char_idem)

lemma normalize_lower: "js_lower (dns_normalize name) = dns_normalize name"
proof -
  have "js_lower (butlast s) = butlast (js_lower s)" for s by (simp add: js_lower_def map_butlast)
  thus ?thesis by (simp add: dns_normalize_def Let_def)
qed

text \<open>
  C22. A name on a static threat list is never resolved: however it is spelled (upper case, surrounding blanks, a
  trailing dot), whatever the other feeds, the audit sink and the upstreams do, the answer is the sinkhole address,
  and the state is the one the audit alone leaves, so no upstream has been asked.
\<close>

theorem listed_name_sinkholed:
  assumes "feed_of domains \<in> set feeds" "dns_normalize name \<in> js_lower ` set domains"
  shows "\<exists>s'. secure_resolve sha256 feeds upstreams audit sinkholeV4 name type s = (Inr (sinkhole_answer sinkholeV4 type), s') \<and>
    (\<exists>reason r. audit (queryFingerprint sha256 name) DnsSinkhole reason s = (r, s'))"
proof -
  have "feed_of domains (dns_normalize name)" using assms(2) by (simp add: feed_of_def normalize_lower)
  hence "list_ex (\<lambda>f. f (dns_normalize name)) feeds" using assms(1) by (auto simp: list_ex_iff)
  then obtain reason where d: "dns_evaluate feeds ''10.144.0.53'' name = sinkholed ''10.144.0.53'' (dns_normalize name) reason"
    by (cases "valid_domain (dns_normalize name)") (simp_all add: dns_evaluate_def Let_def)
  obtain r s' where a: "audit (queryFingerprint sha256 name) DnsSinkhole reason s = (r, s')" by force
  have "secure_resolve sha256 feeds upstreams audit sinkholeV4 name type s = (Inr (sinkhole_answer sinkholeV4 type), s')"
    unfolding secure_resolve_def Let_def d by (cases r) (simp_all add: sinkholed_def catchJ_def bindJ_def a)
  thus ?thesis using a by blast
qed

theorem listed_name_sinkholed_witness:
  "\<exists>s'. secure_resolve (\<lambda>x. x) [feed_of [''Evil.example'']] [\<lambda>n t. throwJ (JsError ''asked'')] (\<lambda>h a r. retJ ()) ''10.144.0.53''
     '' EVIL.Example. '' QA (0 :: nat) = (Inr [\<lparr>dr_type = QA, dr_value = ''10.144.0.53'', dr_ttl = 30\<rparr>], s')"
proof -
  have "dns_normalize '' EVIL.Example. '' \<in> js_lower ` set [''Evil.example'']"
    by (simp add: dns_normalize_def js_lower_def lower_char_def js_trim_def js_ws_def ends_with_def Let_def char_eq_code of_char_of)
  from listed_name_sinkholed [of "[''Evil.example'']" "[feed_of [''Evil.example'']]", OF _ this, of "\<lambda>x. x"
      "[\<lambda>n t. throwJ (JsError ''asked'')]" "\<lambda>h a r. retJ ()" "''10.144.0.53''" QA "0 :: nat"]
  show ?thesis by (auto simp: sinkhole_answer_def)
qed

end
