(* ===== verification/Startup.thy ===== *)
theory Startup
  imports Server Native Dns
begin

text \<open>
  The processes and tools around the control plane: the enrolment command, the
  agent, the relay and egress processes, the out-of-band server, the
  maintenance worker, the migration and token commands and the development
  key ceremony, with the small clients they use.  Process exit is an error
  result; console output is kept only where it is the result of a tool.
\<close>

section \<open>Command-line arguments and files\<close>

text \<open>The value after \<open>--name\<close> in \<open>process.argv\<close>; a flag at the end has none.\<close>

definition argOf :: "string \<Rightarrow> string list \<Rightarrow> string option" where
  "argOf name argv = (case dropWhile (\<lambda>a. a \<noteq> ''--'' @ name) argv of _ # v # _ \<Rightarrow> Some v | _ \<Rightarrow> None)"

type_synonym files = "(string \<times> string) list"

definition writeFile :: "string \<Rightarrow> string \<Rightarrow> files \<Rightarrow> files" where
  "writeFile path content fs = map_set fst (path, content) fs"

section \<open>The enrolment command\<close>

text \<open>
  \<open>platform\<close> is \<open>os.platform()\<close>, \<open>powershell\<close> the answer of the WMI query and \<open>random\<close>
  the identifier \<open>randomUUID\<close> would give.
\<close>

definition detectHardwareUuid :: "string list \<Rightarrow> string \<Rightarrow> files \<Rightarrow> js_error + string \<Rightarrow> uuid \<Rightarrow> string" where
  "detectHardwareUuid argv platform fs powershell random =
     (case truthy (argOf ''hardware-uuid'' argv) of Some override \<Rightarrow> override
      | None \<Rightarrow> (case (if platform = ''linux'' then truthy (map_option js_trim (map_of fs ''/etc/machine-id''))
                       else if platform = ''win32'' then (case powershell of Inl _ \<Rightarrow> None | Inr stdout \<Rightarrow> truthy (Some (js_trim stdout)))
                       else None) of Some i \<Rightarrow> i | None \<Rightarrow> random))"

definition defaultOutDir :: "string \<Rightarrow> string" where
  "defaultOutDir platform = (if platform = ''win32'' then ''C:'' @ [CHR 0x5C] @ ''Program Files'' @ [CHR 0x5C] @ ''BapcSecurityAgent''
     else ''/etc/bapc-security'')"

text \<open>A replacement string of \<open>String.replace\<close>: \<open>$$\<close>, the match, the text before and the text after it.\<close>

fun js_expand :: "string \<Rightarrow> string \<Rightarrow> string \<Rightarrow> string \<Rightarrow> string" where
  "js_expand matched before rest (c # d # r) =
     (if c = CHR ''$'' \<and> d = CHR ''$'' then CHR ''$'' # js_expand matched before rest r
      else if c = CHR ''$'' \<and> d = CHR ''&'' then matched @ js_expand matched before rest r
      else if c = CHR ''$'' \<and> d = CHR 0x60 then before @ js_expand matched before rest r
      else if c = CHR ''$'' \<and> d = CHR 0x27 then rest @ js_expand matched before rest r
      else c # js_expand matched before rest (d # r))"
| "js_expand matched before rest s = s"

definition line_end :: "char \<Rightarrow> bool" where
  "line_end c \<longleftrightarrow> c = CHR 0x0A \<or> c = CHR 0x0D"

lemma dropWhile_shorter: "dropWhile P s = c # r \<Longrightarrow> length r < length s"
  using length_dropWhile_le [of P s] by simp

text \<open>
  \<open>existing.replace(/^KEY=.*$/m, line)\<close>, when the pattern matches; \<open>before\<close> is
  the text in front of the current line.  The key has no character that is
  special in a regular expression.
\<close>

function replace_line :: "string \<Rightarrow> string \<Rightarrow> string \<Rightarrow> string \<Rightarrow> string option" where
  "replace_line key line before s =
     (if starts_with s (key @ ''='')
      then let matched = takeWhile (\<lambda>c. \<not> line_end c) s; rest = dropWhile (\<lambda>c. \<not> line_end c) s in
        Some (before @ js_expand matched before rest line @ rest)
      else (case dropWhile (\<lambda>c. \<not> line_end c) s of [] \<Rightarrow> None
        | c # r \<Rightarrow> replace_line key line (before @ takeWhile (\<lambda>c. \<not> line_end c) s @ [c]) r))"
  by pat_completeness auto

termination
  by (relation "measure (\<lambda>(_, _, _, s). length s)") (auto dest: dropWhile_shorter)

declare replace_line.simps [simp del]

definition js_trimEnd :: "string \<Rightarrow> string" where
  "js_trimEnd s = rev (dropWhile js_ws (rev s))"

definition upsertEnvLine :: "string \<Rightarrow> string \<Rightarrow> string \<Rightarrow> files \<Rightarrow> files" where
  "upsertEnvLine path key v fs =
     (let existing = (case map_of fs path of None \<Rightarrow> [] | Some t \<Rightarrow> t); line = key @ ''='' @ v;
          updated = (case replace_line key line [] existing of Some t \<Rightarrow> t
            | None \<Rightarrow> js_trimEnd existing @ [CHR 0x0A] @ line @ [CHR 0x0A])
      in writeFile path (dropWhile (\<lambda>c. c = CHR 0x0A) updated) fs)"

definition unsupported_platform :: "string \<Rightarrow> string \<Rightarrow> js_error" where
  "unsupported_platform expression platform = JsError (''no PlatformAdapter for '' @ expression @ ''='' @ platform @ ''. macOS/iOS/iPadOS require '' @
     ''a native Swift NetworkExtension - see native/apple/adapter.ts.'')"

text \<open>
  The state is the network with the host on the left and the files on the
  right.  \<open>client\<close> is the gRPC client for a URL, \<open>applyWireGuard\<close> the adapter of
  the platform, \<open>join\<close> its \<open>path.join\<close>; \<open>wg\<close> and \<open>csr\<close> are as for \<open>enrollNode\<close>.
\<close>

definition enroll_main :: "(string \<Rightarrow> node_registration_request \<Rightarrow> ('s, node_registration_response) js) \<Rightarrow> (json \<Rightarrow> ('s, unit) js) \<Rightarrow>
    (string \<Rightarrow> string \<Rightarrow> string) \<Rightarrow> string \<times> string \<Rightarrow> (string \<Rightarrow> string \<times> string) \<Rightarrow> js_error + string \<Rightarrow> uuid \<Rightarrow>
    string list \<Rightarrow> env \<Rightarrow> string \<Rightarrow> string \<Rightarrow> ('s \<times> files, enroll_node_result) js" where
  "enroll_main client applyWireGuard join wg csr powershell random argv environ platform osSignature =
     (let outDir = (case argOf ''out-dir'' argv of Some d \<Rightarrow> d | None \<Rightarrow> defaultOutDir platform);
          url = (case argOf ''controller-grpc-url'' argv of Some u \<Rightarrow> u
            | None \<Rightarrow> (case map_of environ ''BAPC_CONTROLLER_GRPC_URL'' of Some u \<Rightarrow> u | None \<Rightarrow> ''127.0.0.1:50051'')) in
      if platform \<noteq> ''win32'' \<and> platform \<noteq> ''linux'' then throwJ (unsupported_platform ''os.platform()'' platform)
      else bindJ (getJ (\<lambda>(_, fs). detectHardwareUuid argv platform fs powershell random)) (\<lambda>hardwareUuid.
        bindJ (left_side (enrollNode (client url) applyWireGuard wg csr hardwareUuid osSignature)) (\<lambda>result.
        bindJ (modifyJ (\<lambda>(s, fs). (s, writeFile (join outDir ''client-cert.pem'') (en_certificatePem result)
            (writeFile (join outDir ''identity-key.pem'') (en_identityPrivateKeyPem result)
            (writeFile (join outDir ''wg-private.key'') (en_wireGuardPrivateKey result) fs))))) (\<lambda>_.
        bindJ (if platform = ''linux'' then modifyJ (\<lambda>(s, fs). (s, upsertEnvLine (join outDir ''agent.env'') ''BAPC_NODE_ID'' (en_nodeId result) fs))
               else retJ ()) (\<lambda>_. retJ result)))))"

section \<open>The agent process\<close>

definition requireEnv :: "env \<Rightarrow> string \<Rightarrow> js_error + string" where
  "requireEnv e name = (case truthy (map_of e name) of None \<Rightarrow> Inl (JsError (name @ '' environment variable is required to run the agent''))
     | Some v \<Rightarrow> Inr v)"

text \<open>What the agent is started with; \<open>ag_intervalMs\<close> is \<open>None\<close> for a value that is not a number.\<close>

record agent_start =
  ag_nodeId :: string
  ag_controllerUrl :: string
  ag_token :: string
  ag_version :: string
  ag_intervalMs :: "rat option"
  ag_grpcUrl :: "string option"
  ag_identityKeyPath :: "string option"

definition agent_main :: "(string \<Rightarrow> bool) \<Rightarrow> env \<Rightarrow> string \<Rightarrow> js_error + agent_start" where
  "agent_main exists e platform =
     thenE (requireEnv e ''BAPC_NODE_ID'') (\<lambda>nodeId. thenE (requireEnv e ''BAPC_CONTROLLER_URL'') (\<lambda>url.
     thenE (requireEnv e ''BAPC_AGENT_TOKEN'') (\<lambda>token.
     if platform \<noteq> ''win32'' \<and> platform \<noteq> ''linux'' then Inl (unsupported_platform ''process.platform'' platform)
     else Inr \<lparr>ag_nodeId = nodeId, ag_controllerUrl = url, ag_token = token,
       ag_version = (case map_of e ''BAPC_AGENT_VERSION'' of Some v \<Rightarrow> v | None \<Rightarrow> ''0.4.0''),
       ag_intervalMs = cfg_number (map_of e ''BAPC_HEARTBEAT_INTERVAL_MS'') 30000,
       ag_grpcUrl = truthy (map_of e ''BAPC_CONTROLLER_GRPC_URL''),
       ag_identityKeyPath = (case truthy (map_of e ''BAPC_IDENTITY_KEY_PATH'') of None \<Rightarrow> None | Some p \<Rightarrow> if exists p then Some p else None)\<rparr>)))"

section \<open>Relay and egress processes\<close>

text \<open>The \<open>call\<close> helper of both processes; \<open>fetch\<close> posts a body and gives the status of the answer.\<close>

definition controller_call :: "(string \<Rightarrow> (string \<times> string) list \<Rightarrow> 'b \<Rightarrow> ('s, nat) js) \<Rightarrow> string \<Rightarrow> string \<Rightarrow> string \<Rightarrow> 'b \<Rightarrow> ('s, unit) js" where
  "controller_call fetch controllerUrl agentToken path body =
     bindJ (fetch (controllerUrl @ path) [(''authorization'', ''Bearer '' @ agentToken), (''content-type'', ''application/json'')] body) (\<lambda>status.
     if 200 \<le> status \<and> status < 300 then retJ () else throwJ (JsError (path @ '' failed ('' @ dec status @ '')'')))"

text \<open>Registration needs all five variables; the last two are the same for both processes.\<close>

definition self_registration :: "env \<Rightarrow> string \<Rightarrow> string \<Rightarrow> string \<Rightarrow> (string \<times> string \<times> string \<times> string \<times> string) option" where
  "self_registration e i region address =
     (case (truthy (map_of e i), truthy (map_of e region), truthy (map_of e address), truthy (map_of e ''BAPC_CONTROLLER_URL''),
            truthy (map_of e ''BAPC_AGENT_TOKEN'')) of
        (Some a, Some b, Some c, Some d, Some f) \<Rightarrow> Some (a, b, c, d, f) | _ \<Rightarrow> None)"

definition relay_registration :: "env \<Rightarrow> (string \<times> string \<times> string \<times> string \<times> string) option" where
  "relay_registration e = self_registration e ''RELAY_ID'' ''RELAY_REGION'' ''RELAY_PUBLIC_ENDPOINT''"

definition egress_registration :: "env \<Rightarrow> (string \<times> string \<times> string \<times> string \<times> string) option" where
  "egress_registration e = self_registration e ''EGRESS_ID'' ''EGRESS_REGION'' ''EGRESS_FIXED_IP''"

text \<open>\<open>capacityMbps\<close>; a \<open>RELAY_MAX_SESSIONS\<close> that is not a number gives NaN.\<close>

definition reported_capacity :: "rat option \<Rightarrow> int option" where
  "reported_capacity maxSessions = map_option (\<lambda>n. max 1 (math_round (n / 20))) maxSessions"

datatype relay_post = RelayRegister string string string "int option" | RelayBeat rat int nat int

datatype egress_post = EgressRegister string string string "rat option" | EgressBeat rat bool int nat

text \<open>
  One tick of the relay: registration, then a heartbeat with the load, the
  sessions and the throughput.  \<open>start\<close> and \<open>built\<close> are the two readings of
  \<open>Date.now()\<close>; the second belongs to the body and is taken before the request
  is sent.  \<open>usage\<close>, \<open>t1\<close> and \<open>t2\<close> are the readings of the two samplers.
\<close>

definition relay_tick :: "(string \<Rightarrow> relay_post \<Rightarrow> ('s, unit) js) \<Rightarrow> string \<Rightarrow> string \<Rightarrow> string \<Rightarrow> rat option \<Rightarrow> blind_relay \<Rightarrow>
    int \<Rightarrow> int \<Rightarrow> int \<Rightarrow> millis \<Rightarrow> millis \<Rightarrow> ('s \<times> cpu_sampler \<times> throughput_sampler, unit) js" where
  "relay_tick call relayId region endpoint maxSessions relay usage t1 t2 start built =
     catchJ (bindJ (left_side (call ''/api/v1/relays/register'' (RelayRegister relayId region endpoint (reported_capacity maxSessions)))) (\<lambda>_ (s, cpu, throughput).
       let (load, cpu') = cpu_sample usage t1 cpu; (rate, throughput') = throughput_sample (int (br_bytesRelayed relay)) t2 throughput in
       left_side (call (''/api/v1/relays/'' @ encodeURIComponent relayId @ ''/heartbeat'')
         (RelayBeat load (built - start) (relay_activeSessionCount relay) rate)) (s, cpu', throughput'))) (\<lambda>_. retJ ())"

definition egress_tick :: "(string \<Rightarrow> egress_post \<Rightarrow> ('s, unit) js) \<Rightarrow> string \<Rightarrow> string \<Rightarrow> string \<Rightarrow> rat option \<Rightarrow> nat \<Rightarrow>
    int \<Rightarrow> int \<Rightarrow> millis \<Rightarrow> millis \<Rightarrow> ('s \<times> cpu_sampler, unit) js" where
  "egress_tick call gatewayId region fixedIp maxSessions activeSessions usage t1 start built =
     catchJ (bindJ (left_side (call ''/api/v1/egress/register'' (EgressRegister gatewayId region fixedIp maxSessions))) (\<lambda>_ (s, cpu).
       let (load, cpu') = cpu_sample usage t1 cpu in
       left_side (call (''/api/v1/egress/'' @ encodeURIComponent gatewayId @ ''/heartbeat'')
         (EgressBeat load True (built - start) activeSessions)) (s, cpu'))) (\<lambda>_. retJ ())"

section \<open>The out-of-band server, the migration command and the worker\<close>

definition oob_main :: "env \<Rightarrow> js_error + string \<times> rat option \<times> string" where
  "oob_main e = (case map_of e ''OOB_SHARED_SECRET'' of
     Some secret \<Rightarrow> if length secret < 32 then Inl (JsError ''OOB_SHARED_SECRET must be set and at least 32 characters'')
       else Inr (secret, cfg_number (map_of e ''OOB_PORT'') 8181, case map_of e ''OOB_BIND_HOST'' of Some h \<Rightarrow> h | None \<Rightarrow> ''127.0.0.1'')
   | None \<Rightarrow> Inl (JsError ''OOB_SHARED_SECRET must be set and at least 32 characters''))"

text \<open>A worker that measures its jobs in a month of partitions and the rows of the server.\<close>

definition retention_cycle :: "nat \<Rightarrow> nat \<Rightarrow> millis \<Rightarrow> (nat list \<times> 'z server_db_scheme, unit) js" where
  "retention_cycle retentionMonths month now = catchJ (bindJ (left_side (ensureUpcomingPartitions 1 month)) (\<lambda>_.
     bindJ (left_side (dropExpiredPartitions retentionMonths month)) (\<lambda>_.
     bindJ (right_side (purgeExpiredRows now)) (\<lambda>_. retJ ())))) (\<lambda>_. retJ ())"

record worker_intervals =
  wi_outbox :: "rat option"
  wi_retention :: "rat option"
  wi_retentionMonths :: "rat option"
  wi_reconciliation :: "rat option"
  wi_keyRotation :: "rat option"

definition worker_settings :: "env \<Rightarrow> worker_intervals" where
  "worker_settings e = \<lparr>wi_outbox = cfg_number (map_of e ''OUTBOX_FLUSH_INTERVAL_MS'') 5000,
     wi_retention = cfg_number (map_of e ''RETENTION_INTERVAL_MS'') 3600000,
     wi_retentionMonths = cfg_number (map_of e ''EVENT_RETENTION_MONTHS'') 13,
     wi_reconciliation = cfg_number (map_of e ''RECONCILIATION_INTERVAL_MS'') 60000,
     wi_keyRotation = cfg_number (map_of e ''KEY_ROTATION_CHECK_INTERVAL_MS'') 86400000\<rparr>"

section \<open>Clients of the control plane\<close>

text \<open>\<open>v?.k\<close>: nothing of a missing value.\<close>

definition optional_field :: "string \<Rightarrow> json \<Rightarrow> json" where
  "optional_field k v = (case json_get k v of None \<Rightarrow> JUndefined | Some x \<Rightarrow> x)"

text \<open>\<open>fetch\<close> gives the status and the text of the answer, \<open>syntax\<close> the message of the \<open>SyntaxError\<close> for a text that is not JSON.\<close>

definition rest_agent_call :: "(string \<Rightarrow> (string \<times> string) list \<Rightarrow> string \<Rightarrow> ('s, nat \<times> string) js) \<Rightarrow> (string \<Rightarrow> string) \<Rightarrow> string \<Rightarrow> string \<Rightarrow>
    string \<Rightarrow> json \<Rightarrow> ('s, json) js" where
  "rest_agent_call fetch syntax baseUrl bearerToken path body =
     bindJ (fetch (baseUrl @ path) [(''authorization'', ''Bearer '' @ bearerToken), (''content-type'', ''application/json'')] (json_stringify body))
       (\<lambda>(status, raw). case json_parse raw of None \<Rightarrow> throwJ (JsError (syntax raw))
        | Some parsed \<Rightarrow> if 200 \<le> status \<and> status < 300 then fieldJ ''data'' parsed
            else throwJ (JsError (js_string (nullish (optional_field ''message'' (optional_field ''error'' parsed))
              (JStr (''agent request to '' @ path @ '' failed ('' @ dec status @ '')''))))))"

definition agent_heartbeat :: "(string \<Rightarrow> json \<Rightarrow> ('s, json) js) \<Rightarrow> json \<Rightarrow> ('s, json) js" where
  "agent_heartbeat call input = call ''/api/v1/agent/heartbeat'' input"

definition agent_acknowledge :: "(string \<Rightarrow> json \<Rightarrow> ('s, json) js) \<Rightarrow> string \<Rightarrow> json \<Rightarrow> ('s, unit) js" where
  "agent_acknowledge call i result = bindJ (call (''/api/v1/agent/commands/'' @ encodeURIComponent i @ ''/ack'') (JObj [(''result'', result)])) (\<lambda>_. retJ ())"

text \<open>\<open>cryptoSign\<close> is RSA-SHA256 of a text under a private key.\<close>

definition identity_sign :: "(string \<Rightarrow> string \<Rightarrow> js_error + string) \<Rightarrow> (string \<Rightarrow> js_error + string) \<Rightarrow> string \<Rightarrow> uuid \<Rightarrow> string \<Rightarrow> js_error + string" where
  "identity_sign cryptoSign readFile privateKeyPemPath nodeId newPublicKey =
     thenE (readFile privateKeyPemPath) (\<lambda>pem. cryptoSign (nodeId @ '':'' @ newPublicKey) pem)"

definition b64_std_char :: "nat \<Rightarrow> char" where
  "b64_std_char n = (if n = 62 then CHR ''+'' else if n = 63 then CHR ''/'' else b64_char n)"

definition to_base64 :: "string \<Rightarrow> string" where
  "to_base64 bs = map b64_std_char (b64_group (map of_char bs)) @ replicate ((3 - length bs mod 3) mod 3) (CHR ''='')"

text \<open>\<open>jwk\<close> is the exported X25519 pair: the base64url texts of the public key \<open>x\<close> and the private key \<open>d\<close>.\<close>

definition generateWireGuardKeyPair :: "string \<times> string \<Rightarrow> string \<times> string" where
  "generateWireGuardKeyPair jwk = (to_base64 (from_base64url (fst jwk)), to_base64 (from_base64url (snd jwk)))"

text \<open>
  \<open>encode\<close> and \<open>decode\<close> are dns-packet: the query of a question, and the answers
  of a message, each with its type, its data as text and its time to live when
  it has one.  \<open>fetch\<close> gives the status and the body.
\<close>

definition doh_resolve :: "(dns_type \<Rightarrow> string \<Rightarrow> string) \<Rightarrow> (string \<Rightarrow> js_error + (dns_type option \<times> string \<times> nat option) list) \<Rightarrow>
    (string \<Rightarrow> string \<Rightarrow> ('s, nat \<times> string) js) \<Rightarrow> string \<Rightarrow> 's dns_upstream" where
  "doh_resolve encode decode fetch url name type =
     bindJ (fetch url (encode type name)) (\<lambda>(status, body).
     if \<not> (200 \<le> status \<and> status < 300) then throwJ (JsError (''DoH upstream '' @ url @ '' returned '' @ dec status))
     else bindJ (pureJ (decode body)) (\<lambda>answers.
       retJ (map (\<lambda>(_, v, ttl). \<lparr>dr_type = type, dr_value = v, dr_ttl = (case ttl of None \<Rightarrow> 60 | Some t \<Rightarrow> t)\<rparr>)
         (filter (\<lambda>(t, _, _). t = Some type) answers))))"

section \<open>Tools\<close>

text \<open>\<open>readDir\<close> is the migration directory; the result is the exit code and the lines printed.\<close>

definition status_line :: "migration_status \<Rightarrow> string" where
  "status_line r = (case r of NotApplied name \<Rightarrow> ''PENDING  '' @ name
     | Applied name t drifted \<Rightarrow> (if drifted then ''DRIFTED '' else ''APPLIED '') @ '' '' @ name @ '' ('' @ to_iso_string t @ '')'')"

definition migrate_main :: "(string \<Rightarrow> ('s, unit) js) \<Rightarrow> (string \<Rightarrow> string) \<Rightarrow> (string \<Rightarrow> (string \<times> string) list) \<Rightarrow> millis \<Rightarrow> string list \<Rightarrow>
    ('s migration_db, nat \<times> string list) js" where
  "migrate_main exec sha256 readDir now argv =
     (let arg = (\<lambda>i d. case nth_opt i argv of Some a \<Rightarrow> a | None \<Rightarrow> d); migrations = loadMigrations sha256 (readDir (arg 2 ''db'')) in
      if arg 3 ''up'' = ''status'' then getJ (\<lambda>d. (0, map status_line (migrations_status migrations d)))
      else catchJ (bindJ (migrations_apply exec now migrations) (\<lambda>(applied, skipped). retJ (0, [json_stringify (JObj
          [(''event'', JStr ''migrations.applied''), (''applied'', strs_json applied), (''skipped'', strs_json skipped)])])))
        (\<lambda>e. retJ (1, [json_stringify (JObj [(''event'', JStr ''fatal''), (''error'', JStr (error_message e))])])))"

text \<open>\<open>ttlSeconds\<close> is the number of \<open>--ttl\<close>, 3600 without one; \<open>random\<close> the identifier a token without \<open>--sub\<close> gets.\<close>

definition mint_main :: "(string \<Rightarrow> string \<Rightarrow> string) \<Rightarrow> string list \<Rightarrow> env \<Rightarrow> uuid \<Rightarrow> int \<Rightarrow> millis \<Rightarrow> js_error + string" where
  "mint_main hmac argv e random ttlSeconds now =
     (let secretEnvVar = (case argOf ''secret-env'' argv of Some v \<Rightarrow> v | None \<Rightarrow> ''CONTROL_API_TOKEN_SECRET'');
          secret = (case argOf ''secret'' argv of Some v \<Rightarrow> Some v | None \<Rightarrow> map_of e secretEnvVar) in
      case truthy secret of
        None \<Rightarrow> Inl (JsError (''no secret: pass --secret <value> or set '' @ secretEnvVar @ '' in the environment (must match the running control plane'' @
          [CHR 0x27] @ ''s CONTROL_API_TOKEN_SECRET)''))
      | Some key \<Rightarrow> (case truthy (argOf ''roles'' argv) of
          None \<Rightarrow> Inl (JsError ''--roles is required, comma-separated, e.g. --roles security-read,security-approver'')
        | Some rolesArg \<Rightarrow> Inr (guard_mint hmac key now (case argOf ''sub'' argv of Some u \<Rightarrow> u | None \<Rightarrow> random)
            (filter (\<lambda>r. r \<noteq> []) (map js_trim (split_on (CHR '','') rolesArg))) (Some (now div 1000 + ttlSeconds)))))"

text \<open>
  The development key ceremony: \<open>rootPair\<close> and \<open>interPair\<close> are the generated key pairs,
  \<open>placeholder\<close> is as for \<open>selfSignWithExistingKey\<close>, \<open>fingerprint\<close> the digest of a
  certificate and \<open>pretty\<close> the indented \<open>JSON.stringify\<close>; \<open>now\<close> is every reading
  of the clock.
\<close>

definition ca_input :: "string \<Rightarrow> string \<Rightarrow> string \<Rightarrow> string \<Rightarrow> millis \<Rightarrow> int \<Rightarrow> x509_input" where
  "ca_input serial cn publicKeyPem issuerPem now years = \<lparr>xi_serial = serial, xi_subject = ''CN='' @ cn, xi_publicKeyPem = publicKeyPem,
     xi_issuerCertificatePem = issuerPem, xi_notBefore = now, xi_notAfter = now + years * 365 * 86400000,
     xi_extensions = [(''basicConstraints'', ''CA:TRUE''), (''keyUsage'', ''keyCertSign,cRLSign'')]\<rparr>"

definition ceremony_manifest :: "(string \<Rightarrow> string) \<Rightarrow> millis \<Rightarrow> string \<Rightarrow> string \<Rightarrow> json" where
  "ceremony_manifest fingerprint now rootPem interPem = JObj [(''generatedAt'', date_json now),
     (''warning'', JStr ''DEVELOPMENT CEREMONY ARTIFACTS - do not use in production.''),
     (''root'', JObj [(''subject'', JStr ''CN=BAPC Root CA''), (''serial'', JStr ''01''), (''sha256'', JStr (fingerprint rootPem))]),
     (''intermediate'', JObj [(''subject'', JStr ''CN=BAPC Intermediate CA 1''), (''serial'', JStr ''02''), (''sha256'', JStr (fingerprint interPem))])]"

definition runDevCeremony :: "'k forge \<Rightarrow> 'p rsa_lib \<Rightarrow> (string \<Rightarrow> string \<Rightarrow> string) \<Rightarrow> (string \<Rightarrow> string) \<Rightarrow> (json \<Rightarrow> string) \<Rightarrow>
    (string \<Rightarrow> string \<Rightarrow> string) \<Rightarrow> 'p \<Rightarrow> 'p \<Rightarrow> millis \<Rightarrow> string \<Rightarrow> files \<Rightarrow> js_error + json \<times> files" where
  "runDevCeremony F R placeholder fingerprint pretty join rootPair interPair now outDir fs =
     (let (rootKey, keys1) = dev_generate R rootPair ''root'' []; (interKey, keys) = dev_generate R interPair ''intermediate'' keys1 in
      thenE (x509_create F (dev_sign R keys1 ''root'' ''RS256'') (ca_input ''01'' ''BAPC Root CA'' rootKey (placeholder rootKey ''BAPC Root CA'') now 15)) (\<lambda>rootPem.
      thenE (x509_create F (dev_sign R keys ''root'' ''RS256'') (ca_input ''02'' ''BAPC Intermediate CA 1'' interKey rootPem now 5)) (\<lambda>interPem.
      thenE (exportPrivateKeyPemForDevOnly R keys ''root'') (\<lambda>rootPrivate.
      thenE (exportPrivateKeyPemForDevOnly R keys ''intermediate'') (\<lambda>interPrivate.
      let manifest = ceremony_manifest fingerprint now rootPem interPem in
      Inr (manifest, writeFile (join outDir ''manifest.json'') (pretty manifest)
        (writeFile (join outDir ''DEV-ONLY-intermediate.key.pem'') interPrivate
        (writeFile (join outDir ''DEV-ONLY-root.key.pem'') rootPrivate
        (writeFile (join outDir ''intermediate-ca.crt.pem'') interPem
        (writeFile (join outDir ''root-ca.crt.pem'') rootPem fs))))))))))"

section \<open>Apple platforms\<close>

definition APPLE_NOT_IMPLEMENTED :: string where
  "APPLE_NOT_IMPLEMENTED = ''macOS/iOS/iPadOS network control requires a native Swift NetworkExtension '' @
     ''(NEPacketTunnelProvider / NEFilterDataProvider) or System Extension running '' @
     ''under an Apple Developer Program entitlement - this cannot be implemented '' @
     ''in a Node/TypeScript process. This class documents the required interface '' @
     ''so a native Swift extension (communicating with this control plane over '' @
     ''the gRPC mesh or REST API) can be built against the same PlatformAdapter '' @
     ''contract as the Linux/Windows adapters. See docs/PRODUCTION-ADAPTERS.md.''"

datatype apple_operation = ApplyWireGuard | ApplyPeers | RotatePrivateKey | ApplyFirewall | RollbackFirewall | SetKillSwitch | SetDns
  | Isolate | Restore | CollectPosture

definition apple_adapter :: "apple_operation \<Rightarrow> ('s, json) js" where
  "apple_adapter operation = throwJ (JsError APPLE_NOT_IMPLEMENTED)"


section \<open>The identifier of the node in the environment file\<close>

text \<open>The value of the first line for the key.\<close>

function first_value :: "string \<Rightarrow> string \<Rightarrow> string option" where
  "first_value key s =
     (if starts_with s (key @ ''='') then Some (drop (Suc (length key)) (takeWhile (\<lambda>c. \<not> line_end c) s))
      else (case dropWhile (\<lambda>c. \<not> line_end c) s of [] \<Rightarrow> None | c # r \<Rightarrow> first_value key r))"
  by pat_completeness auto

termination
  by (relation "measure (\<lambda>(_, s). length s)") (auto dest: dropWhile_shorter)

declare first_value.simps [simp del]

definition plain_text :: "string \<Rightarrow> bool" where
  "plain_text s \<longleftrightarrow> list_all (\<lambda>c. \<not> line_end c \<and> c \<noteq> CHR ''$'') s"

lemma plain_expand: "plain_text l \<Longrightarrow> js_expand m b r l = l"
  by (induction m b r l rule: js_expand.induct) (auto simp: plain_text_def)

lemma plain_takeWhile: "plain_text l \<Longrightarrow> rest = [] \<or> line_end (hd rest) \<Longrightarrow> takeWhile (\<lambda>c. \<not> line_end c) (l @ rest) = l \<and>
    dropWhile (\<lambda>c. \<not> line_end c) (l @ rest) = rest"
  by (induction l) (auto simp: plain_text_def takeWhile_eq_Nil_iff dropWhile_eq_self_iff)

lemma line_rest: "dropWhile (\<lambda>c. \<not> line_end c) s = [] \<or> line_end (hd (dropWhile (\<lambda>c. \<not> line_end c) s))"
  using hd_dropWhile by blast

lemma starts_line:
  assumes "plain_text p" "list_all (\<lambda>c. \<not> line_end c) l" "line_end c"
  shows "starts_with (l @ c # r) p = starts_with l p"
  using assms
proof (induction p arbitrary: l)
  case (Cons y ys)
  show ?case using Cons.IH [of "tl l"] Cons.prems by (cases l) (auto simp: plain_text_def starts_with_def)
qed (simp add: starts_with_def)

text \<open>A line whose first line is not for the key: both functions go on behind it.\<close>

lemma split_line:
  assumes "dropWhile (\<lambda>c. \<not> line_end c) s = c # r"
  shows "s = takeWhile (\<lambda>c. \<not> line_end c) s @ c # r \<and> line_end c \<and> list_all (\<lambda>c. \<not> line_end c) (takeWhile (\<lambda>c. \<not> line_end c) s)"
  using assms takeWhile_dropWhile_id [of "\<lambda>c. \<not> line_end c" s] line_rest [of s] by (auto simp: list_all_iff dest: set_takeWhileD)

lemma past_line:
  assumes "list_all (\<lambda>c. \<not> line_end c) l" "line_end c"
  shows "takeWhile (\<lambda>c. \<not> line_end c) (l @ c # r) = l \<and> dropWhile (\<lambda>c. \<not> line_end c) (l @ c # r) = c # r"
  using assms by (induction l) auto

lemma first_value_line:
  assumes "plain_text key" "list_all (\<lambda>c. \<not> line_end c) l" "line_end c" "\<not> starts_with l (key @ ''='')"
  shows "first_value key (l @ c # r) = first_value key r"
proof -
  have "plain_text (key @ ''='')" using assms(1) by (simp add: plain_text_def line_end_def)
  hence "\<not> starts_with (l @ c # r) (key @ ''='')" using starts_line [OF _ assms(2,3)] assms(4) by simp
  thus ?thesis using past_line [OF assms(2,3), of r] by (subst first_value.simps) simp
qed

lemma replace_line_line:
  assumes "plain_text key" "list_all (\<lambda>c. \<not> line_end c) l" "line_end c" "\<not> starts_with l (key @ ''='')"
  shows "replace_line key line b (l @ c # r) = replace_line key line (b @ l @ [c]) r"
proof -
  have "plain_text (key @ ''='')" using assms(1) by (simp add: plain_text_def line_end_def)
  hence "\<not> starts_with (l @ c # r) (key @ ''='')" using starts_line [OF _ assms(2,3)] assms(4) by simp
  thus ?thesis using past_line [OF assms(2,3), of r] by (subst replace_line.simps) simp
qed

lemma replace_line_shift: "plain_text line \<Longrightarrow> replace_line key line b s = map_option ((@) b) (replace_line key line [] s)"
proof (induction "length s" arbitrary: s b rule: less_induct)
  case less
  show ?case
  proof (cases "dropWhile (\<lambda>c. \<not> line_end c) s")
    case Nil
    thus ?thesis using less.prems by (simp add: replace_line.simps [of _ _ _ s] plain_expand Let_def del: dropWhile_eq_Nil_conv)
  next
    case (Cons c r)
    note ih = less.hyps [OF dropWhile_shorter [OF Cons] less.prems]
    let ?tw = "takeWhile (\<lambda>c. \<not> line_end c) s @ [c]"
    show ?thesis using ih [of "b @ ?tw"] ih [of ?tw] Cons less.prems
      by (cases "replace_line key line [] r") (simp_all add: replace_line.simps [of _ _ _ s] plain_expand Let_def)
  qed
qed

text \<open>What the lemmas below say of a text: it has the line, and replacing it again changes nothing.\<close>

definition settled_line :: "string \<Rightarrow> string \<Rightarrow> string \<Rightarrow> bool" where
  "settled_line key v u \<longleftrightarrow> first_value key u = Some v \<and> replace_line key (key @ ''='' @ v) [] u = Some u"

lemma settled_start:
  assumes "plain_text key" "plain_text v" "rest = [] \<or> line_end (hd rest)"
  shows "settled_line key v (key @ ''='' @ v @ rest)"
proof -
  have l: "plain_text (key @ ''='' @ v)" using assms(1,2) by (simp add: plain_text_def line_end_def)
  have "starts_with (key @ ''='' @ v @ rest) (key @ ''='')" by (simp add: starts_with_def)
  thus ?thesis using plain_takeWhile [OF l assms(3)] plain_expand [OF l]
    by (simp add: settled_line_def first_value.simps [of key "key @ _"] replace_line.simps [of _ _ _ "key @ _"] Let_def)
qed

lemma settled_past:
  assumes "plain_text key" "plain_text v" "list_all (\<lambda>c. \<not> line_end c) l" "line_end c" "\<not> starts_with l (key @ ''='')"
  shows "settled_line key v (l @ c # r) \<longleftrightarrow> settled_line key v r"
proof -
  have l: "plain_text (key @ ''='' @ v)" using assms(1,2) by (simp add: plain_text_def line_end_def)
  show ?thesis using replace_line_shift [OF l, of key "l @ [c]" r]
    by (auto simp: settled_line_def first_value_line [OF assms(1,3,4,5)] replace_line_line [OF assms(1,3,4,5)])
qed

lemma line_not_key:
  assumes "plain_text key" "dropWhile (\<lambda>c. \<not> line_end c) s = c # r" "\<not> starts_with s (key @ ''='')"
  shows "\<not> starts_with (takeWhile (\<lambda>c. \<not> line_end c) s) (key @ ''='')"
proof -
  have "plain_text (key @ ''='')" using assms(1) by (simp add: plain_text_def line_end_def)
  thus ?thesis using split_line [OF assms(2)] starts_line assms(3) by metis
qed

lemma replaced_settled:
  assumes "plain_text key" "plain_text v"
  shows "replace_line key (key @ ''='' @ v) [] s = Some u \<Longrightarrow> settled_line key v u"
proof (induction "length s" arbitrary: s u rule: less_induct)
  case less
  let ?line = "key @ ''='' @ v"
  have l: "plain_text ?line" using assms by (simp add: plain_text_def line_end_def)
  show ?case
  proof (cases "starts_with s (key @ ''='')")
    case True
    hence "u = ?line @ dropWhile (\<lambda>c. \<not> line_end c) s"
      using less.prems plain_expand [OF l] by (simp add: replace_line.simps [of _ _ _ s] Let_def)
    thus ?thesis using settled_start [OF assms line_rest [of s]] by simp
  next
    case False
    then obtain c r where cr: "dropWhile (\<lambda>c. \<not> line_end c) s = c # r"
      using less.prems by (cases "dropWhile (\<lambda>c. \<not> line_end c) s") (simp_all add: replace_line.simps [of _ _ _ s])
    let ?tw = "takeWhile (\<lambda>c. \<not> line_end c) s"
    have "replace_line key ?line (?tw @ [c]) r = Some u" using less.prems False cr by (simp add: replace_line.simps [of _ _ _ s])
    then obtain t where t: "replace_line key ?line [] r = Some t" "u = ?tw @ c # t"
      using replace_line_shift [OF l, of key "?tw @ [c]" r] by (cases "replace_line key ?line [] r") auto
    have "settled_line key v t" using less.hyps [OF dropWhile_shorter [OF cr] t(1)] .
    thus ?thesis using settled_past [OF assms _ _ line_not_key [OF assms(1) cr False]] split_line [OF cr] t(2) by metis
  qed
qed

lemma absent_prefix:
  assumes "plain_text key" "plain_text line"
  shows "replace_line key line [] (s @ w) = None \<Longrightarrow> replace_line key line [] s = None"
proof (induction "length s" arbitrary: s rule: less_induct)
  case less
  have n: "\<not> starts_with s (key @ ''='')" using less.prems
    by (auto simp: replace_line.simps [of _ _ _ "s @ w"] Let_def starts_with_def split: if_splits)
  show ?case
  proof (cases "dropWhile (\<lambda>c. \<not> line_end c) s")
    case (Cons c r)
    note line = split_line [OF Cons] line_not_key [OF assms(1) Cons n]
    have step: "replace_line key line [] (takeWhile (\<lambda>c. \<not> line_end c) s @ c # x) = None \<longleftrightarrow> replace_line key line [] x = None" for x
      using line replace_line_line [OF assms(1)] replace_line_shift [OF assms(2)] by (metis (no_types, lifting) map_option_is_None)
    have e: "s @ w = takeWhile (\<lambda>c. \<not> line_end c) s @ c # (r @ w)"
      using line(1) by (metis append.assoc append_Cons)
    have "replace_line key line [] (r @ w) = None" using less.prems step [of "r @ w"] unfolding e by simp
    hence "replace_line key line [] r = None" using less.hyps [OF dropWhile_shorter [OF Cons]] by blast
    thus ?thesis using step [of r] line(1) by metis
  qed (simp add: replace_line.simps [of _ _ _ s] n del: dropWhile_eq_Nil_conv)
qed

lemma appended_settled:
  assumes "plain_text key" "plain_text v"
  shows "replace_line key (key @ ''='' @ v) [] s = None \<Longrightarrow> settled_line key v (s @ [CHR 0x0A] @ key @ ''='' @ v @ [CHR 0x0A])"
proof (induction "length s" arbitrary: s rule: less_induct)
  case less
  let ?line = "key @ ''='' @ v" and ?tail = "key @ ''='' @ v @ [CHR 0x0A]"
  have l: "plain_text ?line" using assms by (simp add: plain_text_def line_end_def)
  have n: "\<not> starts_with s (key @ ''='')" using less.prems by (auto simp: replace_line.simps [of _ _ _ s] Let_def)
  have nl: "line_end (CHR 0x0A)" by (simp add: line_end_def)
  show ?case
  proof (cases "dropWhile (\<lambda>c. \<not> line_end c) s")
    case Nil
    hence "list_all (\<lambda>c. \<not> line_end c) s" by (simp add: list_all_iff dropWhile_eq_Nil_conv)
    thus ?thesis using settled_past [OF assms _ nl n, of ?tail] settled_start [OF assms, of "[CHR 0x0A]"] nl by simp
  next
    case (Cons c r)
    note line = split_line [OF Cons] line_not_key [OF assms(1) Cons n]
    let ?tw = "takeWhile (\<lambda>c. \<not> line_end c) s"
    have "replace_line key ?line (?tw @ [c]) r = None" using less.prems n Cons by (simp add: replace_line.simps [of _ _ _ s])
    hence "replace_line key ?line [] r = None" using replace_line_shift [OF l, of key "?tw @ [c]" r] by simp
    hence "settled_line key v (r @ [CHR 0x0A] @ ?tail)" using less.hyps [OF dropWhile_shorter [OF Cons]] by blast
    hence "settled_line key v (?tw @ c # (r @ [CHR 0x0A] @ ?tail))" using settled_past [OF assms _ _ line(2)] line(1) by blast
    thus ?thesis using line(1) by (metis append.assoc append_Cons)
  qed
qed

lemma settled_strip: "plain_text key \<Longrightarrow> plain_text v \<Longrightarrow> settled_line key v u \<Longrightarrow> settled_line key v (dropWhile (\<lambda>c. c = CHR 0x0A) u)"
proof (induction u)
  case (Cons c u)
  have "\<not> starts_with [] (key @ ''='')" by (simp add: starts_with_def)
  thus ?case using Cons settled_past [of key v "[]" c u] by (auto simp: line_end_def)
qed simp

lemma map_set_present: "key new \<in> key ` set rows \<Longrightarrow> map_set key new rows = map (\<lambda>r. if key r = key new then new else r) rows"
  by (simp add: upsert_def)

lemma map_set_again: "map_set key new (map_set key new rows) = map_set key new rows"
proof -
  have "key new \<in> key ` set (map_set key new rows)" "\<forall>r \<in> set (map_set key new rows). key r = key new \<longrightarrow> r = new"
    by (auto simp: upsert_def image_iff)
  thus ?thesis using map_set_present [of key new "map_set key new rows"] by (auto intro!: map_idI)
qed

lemma upsert_settled:
  assumes "plain_text key" "plain_text v"
  shows "\<exists>text. upsertEnvLine path key v fs = writeFile path text fs \<and> settled_line key v text \<and> (text = [] \<or> hd text \<noteq> CHR 0x0A)"
proof -
  let ?old = "case map_of fs path of None \<Rightarrow> [] | Some t \<Rightarrow> t"
  let ?line = "key @ ''='' @ v"
  let ?new = "case replace_line key ?line [] ?old of Some t \<Rightarrow> t | None \<Rightarrow> js_trimEnd ?old @ [CHR 0x0A] @ ?line @ [CHR 0x0A]"
  have l: "plain_text ?line" using assms by (simp add: plain_text_def line_end_def)
  have "\<exists>w. ?old = js_trimEnd ?old @ w" unfolding js_trimEnd_def
    by (metis rev_append rev_rev_ident takeWhile_dropWhile_id)
  hence "replace_line key ?line [] (js_trimEnd ?old) = None" if "replace_line key ?line [] ?old = None"
    using absent_prefix [OF assms(1) l] that by metis
  hence "settled_line key v ?new"
    using replaced_settled [OF assms] appended_settled [OF assms] by (auto split: option.splits)
  hence "settled_line key v (dropWhile (\<lambda>c. c = CHR 0x0A) ?new)" by (rule settled_strip [OF assms])
  moreover have "upsertEnvLine path key v fs = writeFile path (dropWhile (\<lambda>c. c = CHR 0x0A) ?new) fs"
    unfolding upsertEnvLine_def Let_def by (rule refl)
  ultimately show ?thesis using hd_dropWhile [of "\<lambda>c. c = CHR 0x0A" ?new] by blast
qed



section \<open>Generated keys and signatures are accepted\<close>

lemma b64_group_tail:
  "length bs = 3 * n + 2 \<Longrightarrow> \<exists>pre b. b64_group bs = pre @ [(b mod 16) * 4] \<and> length pre = 4 * n + 2 \<and> b \<in> set bs"
proof (induction n arbitrary: bs)
  case 0
  then obtain a b where "bs = [a, b]" by (auto simp: length_Suc_conv numeral_2_eq_2)
  thus ?case by (intro exI [of _ "[a div 4, (a mod 4) * 16 + b div 16]"] exI [of _ b]) simp
next
  case (Suc n)
  obtain a r1 where 1: "bs = a # r1" "length r1 = 3 * n + 4" using Suc.prems by (cases bs) auto
  obtain b r2 where 2: "r1 = b # r2" "length r2 = 3 * n + 3" using 1 by (cases r1) auto
  obtain c r where 3: "r2 = c # r" "length r = 3 * n + 2" using 2 by (cases r2) auto
  have bs: "bs = a # b # c # r" by (simp add: 1 2 3)
  then obtain pre d where "b64_group r = pre @ [(d mod 16) * 4]" "length pre = 4 * n + 2" "d \<in> set r" using Suc.IH [OF 3(2)] by blast
  thus ?case unfolding bs by (intro exI [of _ "[a div 4, (a mod 4) * 16 + b div 16, (b mod 16) * 4 + c div 64, c mod 64] @ pre"] exI [of _ d]) simp
qed

lemma last_b64_chars: "set ''AEIMQUYcgkosw048'' = char_of ` {65::nat, 69, 73, 77, 81, 85, 89, 99, 103, 107, 111, 115, 119, 48, 52, 56}"
  by (simp add: char_of_def bit_iff_odd insert_commute)

lemma b64_std_ok: "n < 64 \<Longrightarrow> is_b64_std (b64_std_char n)"
proof -
  assume n: "n < 64"
  consider "n < 26" | "26 \<le> n" "n < 52" | "52 \<le> n" "n < 62" | "n = 62" | "n = 63" using n by linarith
  thus ?thesis
  proof cases
    case 3
    hence "48 \<le> n - 4 \<and> n - 4 \<le> 57" by linarith
    thus ?thesis using 3 by (simp add: is_b64_std_def b64_std_char_def b64_char_def Let_def)
  qed (simp_all add: is_b64_std_def b64_std_char_def b64_char_def Let_def)
qed

lemma b64_std_last: "b64_std_char ((b mod 16) * 4) \<in> set ''AEIMQUYcgkosw048''"
proof -
  let ?m = "b mod 16"
  have m: "?m < 16" by simp
  have "b64_std_char (?m * 4) \<in> char_of ` {65::nat, 69, 73, 77, 81, 85, 89, 99, 103, 107, 111, 115, 119, 48, 52, 56}"
  proof -
    consider "?m * 4 < 26" | "26 \<le> ?m * 4" "?m * 4 < 52" | "52 \<le> ?m * 4" "?m * 4 < 62" using m by linarith
    thus ?thesis
    proof cases
      case 1
      hence "?m = 0 \<or> ?m = 1 \<or> ?m = 2 \<or> ?m = 3 \<or> ?m = 4 \<or> ?m = 5 \<or> ?m = 6" by linarith
      thus ?thesis by (elim disjE) (simp_all add: b64_std_char_def b64_char_def)
    next
      case 2
      hence "?m = 7 \<or> ?m = 8 \<or> ?m = 9 \<or> ?m = 10 \<or> ?m = 11 \<or> ?m = 12" by linarith
      thus ?thesis by (elim disjE) (simp_all add: b64_std_char_def b64_char_def)
    next
      case 3
      hence "?m = 13 \<or> ?m = 14 \<or> ?m = 15" by linarith
      thus ?thesis by (elim disjE) (simp_all add: b64_std_char_def b64_char_def)
    qed
  qed
  thus ?thesis unfolding last_b64_chars .
qed

lemma generated_key_ok:
  assumes "length bs = 32"
  shows "wg_key_ok (to_base64 bs)"
proof -
  have "length (map (of_char :: char \<Rightarrow> nat) bs) = 3 * 10 + 2" using assms by simp
  from b64_group_tail [OF this] obtain pre b where g: "b64_group (map of_char bs) = pre @ [(b mod 16) * 4]" "length pre = 4 * 10 + 2" by blast
  have "x < 64" if "x \<in> set (b64_group (map of_char bs))" for x
    using b64_group_bound [OF bytes_bound [of bs]] that by (simp add: list_all_iff)
  hence "list_all is_b64_std (map b64_std_char pre)" using g(1) by (auto simp: list_all_iff intro!: b64_std_ok)
  thus ?thesis using g assms b64_std_last [of b] by (simp add: wg_key_ok_def to_base64_def nth_append)
qed

text \<open>
  What the agent signs with its identity key is what the controller verifies;
  the hypothesis is that RSA verification accepts RSA signatures.
\<close>

lemma identity_sign_accepted:
  assumes "identity_sign cryptoSign readFile path nodeId newPublicKey = Inr signature" "signature \<noteq> []"
    and "\<And>pem t sig. readFile path = Inr pem \<Longrightarrow> cryptoSign t pem = Inr sig \<Longrightarrow> rsaVerify publicPem t sig = Some True"
  shows "verifyRotationSignature rsaVerify publicPem nodeId newPublicKey signature"
  using assms by (cases "readFile path") (auto simp: identity_sign_def thenE_def verifyRotationSignature_def)

lemma wireguard_pair_ok:
  assumes "length (from_base64url (fst jwk)) = 32" "length (from_base64url (snd jwk)) = 32"
  shows "wg_key_ok (fst (generateWireGuardKeyPair jwk)) \<and> wg_key_ok (snd (generateWireGuardKeyPair jwk))"
  using assms by (simp add: generateWireGuardKeyPair_def generated_key_ok)

end
