(* ===== verification/Spec2Isabelle.thy ===== *)
theory Spec2Isabelle
  imports Policy AuditChain RolloutSafety SocksProxy Console Startup
begin

text \<open>
  A verification development of the BAPC VPN and digital security control plane.

  \<^bold>\<open>The program.\<close>  A TypeScript control plane keeps devices, mesh nodes, policies
  and grants in Postgres, decides access requests, compiles policies and rolls
  them out to the nodes through a command queue, plans the WireGuard mesh,
  issues node certificates, scores threat signals and quarantines nodes.  It is
  reached over a REST API and a gRPC service.  Agents on the nodes poll the
  queue, execute commands through a platform adapter and acknowledge them.
  Around it run a DNS resolver, relays, egress proxies, an out-of-band recovery
  server, a maintenance worker, a console server and command-line tools.

  \<^bold>\<open>How it is modelled.\<close>  A method that reads or changes state is a function of type
  \<open>('s, 'a) js\<close>, from a state to an error or a result and the new state (\<open>Prelude\<close>);
  \<open>throw\<close> is \<open>Inl\<close>, and \<open>bindJ\<close> keeps the state changes made before an exception, so
  partial effects of a failing method are visible.  Interfaces are records,
  string unions datatypes, tables lists of rows with their constraints as
  errors, a \<open>Date\<close> its milliseconds.  The state of the database is one extensible
  record: \<open>repo_db\<close> (\<open>Store\<close>), extended by the queue, the policy commits, signals
  and relays in the theories of those stores; a definition is polymorphic in
  what it does not use.

  \<^bold>\<open>Theories and code.\<close>
  \<^item> \<open>Prelude\<close>, \<open>JsLib\<close>, \<open>Codec\<close>: effects, tables, strings, numbers, dates, buffers.
  \<^item> \<open>Json\<close>, \<open>JsonParse\<close>: \<open>src/infrastructure/canonical-json.ts\<close>, \<open>JSON.stringify\<close>, \<open>JSON.parse\<close>.
  \<^item> \<open>Domain\<close>: \<open>src/domain\<close>.  \<open>Store\<close>: \<open>memory.ts\<close> and \<open>postgres/repositories.ts\<close>, \<open>outbox.ts\<close>, \<open>client.ts\<close>.
  \<^item> \<open>Policy\<close>: \<open>src/application/policy.ts\<close>, \<open>jit.ts\<close>.  \<open>AuditChain\<close>: \<open>audit.ts\<close>.
  \<^item> \<open>Commands\<close>, \<open>Relays\<close>, \<open>Mesh\<close>: \<open>services/mesh-controller\<close>, \<open>services/relay-fleet/pg-relay-store.ts\<close>,
    \<open>relay-routing.ts\<close>, \<open>key-rotation-scheduler.ts\<close>.
  \<^item> \<open>Rollout\<close>, \<open>RolloutSafety\<close>: \<open>policy-compiler.ts\<close>, \<open>pg-policy-enforcer.ts\<close>, the rollout stores, \<open>safe-apply.ts\<close>.
  \<^item> \<open>Reconcile\<close>: \<open>node-reconciliation.ts\<close>, \<open>src/agent/reconciler.ts\<close>, \<open>agents/shared/production-agent.ts\<close>.
  \<^item> \<open>Trust\<close>, \<open>Enroll\<close>: \<open>services/trust-core\<close>, attestation, \<open>enrollment.ts\<close>, \<open>heartbeat.ts\<close>, \<open>src/api/grpc/server.ts\<close>.
  \<^item> \<open>Signing\<close>: every HMAC signature, bearer tokens (\<open>guard.ts\<close>), clearances, ecosystem events.
  \<^item> \<open>Threat\<close>: \<open>services/threat-engine\<close>, \<open>threat-response.ts\<close>, \<open>apps/security-soc\<close>.
  \<^item> \<open>Rest\<close>: \<open>src/api/rest\<close>.  \<open>Server\<close>: the routes of \<open>src/runtime/production-server.ts\<close>.
  \<^item> \<open>Dns\<close>, \<open>Edge\<close>, \<open>SocksProxy\<close>: \<open>services/dns\<close>, \<open>services/egress\<close>, \<open>services/relay\<close>, \<open>services/oob-controller\<close>.
  \<^item> \<open>Native\<close>: \<open>native/linux\<close>, \<open>native/windows\<close>.  \<open>Console\<close>: \<open>admin-console-server.ts\<close>.
  \<^item> \<open>Ops\<close>, \<open>Startup\<close>: configuration, migrations, retention, the maintenance worker, relay provisioning,
    the other processes and tools of \<open>src/runtime\<close>, the key ceremony, \<open>native/apple\<close>.

  \<^bold>\<open>What is shown.\<close>
  \<^item> Rollouts: a commit rests on acknowledgements of this commit by the nodes, within the failure
    threshold; a rollback reaches every active node; every run is decided (\<open>RolloutSafety\<close>).
  \<^item> Authentication: what the bearer guard accepts, that the router changes nothing before the guard and
    the rate limiter have passed, and that every route of the table that is not \<open>GET\<close> or \<open>HEAD\<close> asks for a
    role (\<open>Signing\<close>, \<open>Rest\<close>, \<open>Server\<close>); nonces and idempotency keys act once; the rate limit is a bound.
  \<^item> Access: exactly which requests are allowed, what grants change, and, in this theory, that a
    quarantine through the API makes every later decision on that device a refusal.
  \<^item> Records: canonical JSON is injective up to key order, the audit chain verifies after every write and
    is tamper evident up to a collision; concurrent writers break it.
  \<^item> Nodes: the queue offers a command to its own node only and never after an acknowledgement; key epochs
    are fresh under interference; addresses and peer plans; drift corrections converge.
  \<^item> Edge: listed names are sinkholed; the proxy connects only to allowed destinations; the console serves
    only its directory; when a recovery document can be rolled back; configuration and migrations.

  \<^bold>\<open>Interfaces.\<close>  Each locale states what a client relies on, and is interpreted on the
  model of the code: \<open>jit_repository\<close>, \<open>audit_repository\<close>, \<open>rollout_store\<close>, \<open>signal_store\<close>,
  \<open>nonce_store\<close> and \<open>response_store\<close> on the in-memory and the Postgres implementation,
  \<open>recovery_channel\<close> on the HTTP channel in front of the out-of-band server.

  \<^bold>\<open>Bounds and fuel.\<close>  \<open>json_parse\<close> runs with twice the length of the text plus two, which is
  enough to read back every plain value (\<open>json_parse_stringify\<close>).  The retry loop of a key
  rotation has the five attempts of the code.  \<open>waitForOutcome\<close>, \<open>alloc_from\<close>,
  \<open>canonicalJson\<close> and the other recursive functions are total, with termination proofs.

  \<^bold>\<open>Assumptions of the model.\<close>  Identifiers are well-formed UUIDs and strings are bytes;
  punctuation outside ASCII in messages is written in ASCII.  JSON numbers are
  integers, except that threat scores and metrics are rationals or NaN.  A single
  method runs without interleaving unless its definition takes the interference
  of other sessions as an argument (key rotation, rollout polling, audit writers).
  The clock is an argument.  SHA-256, HMAC, RSA, ASN.1, KMS, EC2, protobuf, the DNS
  wire format, \<open>fetch\<close>, \<open>Date.parse\<close> and running a program are arguments, with what
  is assumed of them in the theorems that use it.  Values the source types as
  \<open>any\<close> and hands to typed services are arguments of the route handlers.

  \<^bold>\<open>Not modelled.\<close>
  \<^item> The construction of services and the listeners of \<open>production-server.ts\<close>, \<open>grpc-server.ts\<close>, \<open>dns-server.ts\<close> and \<open>agent.ts\<close>:
    object wiring, sockets, timers and signal handlers without decisions of their own.
  \<^item> Routes that return one store query unchanged: the query is the model.
  \<^item> Console output, except where it is the result of a tool.
  \<^item> \<open>scripts/universal-final-audit.mjs\<close> and \<open>scripts/run-tests.mjs\<close>: they check the checkout, not the program.
  \<^item> The SQL and PowerShell scripts and the user interface of the console: not TypeScript sources; the
    constraints of the schema appear as errors of the stores.
  \<^item> The gRPC rotation client, the port interfaces and the export list: declarations and one promise wrapper.
\<close>

section \<open>Quarantine reaches the access decision\<close>

text \<open>No row of the device is trusted any more.\<close>

definition distrusted :: "uuid \<Rightarrow> 'z repo_db_scheme \<Rightarrow> bool" where
  "distrusted i s \<longleftrightarrow> (\<forall>d \<in> set (db_devices s). dev_id d = i \<longrightarrow> dev_compromised d)"

definition quarantine_queued :: "uuid \<Rightarrow> 'z queue_db_scheme \<Rightarrow> bool" where
  "quarantine_queued i s \<longleftrightarrow> (\<exists>c \<in> set (q_commands s). cmd_nodeId c = i \<and> cmd_type c = ''QUARANTINE'' \<and> cmd_acknowledgedAt c = None)"

abbreviation contained :: "uuid \<Rightarrow> uuid \<Rightarrow> 'z queue_db_scheme \<Rightarrow> bool" where
  "contained device node s \<equiv> distrusted device s \<and> quarantine_queued node s"

lemma distrusted_mark:
  assumes "mark_compromised now e (ENode n) s = (Inr (), s')"
  shows "distrusted (mn_deviceId n) s'"
proof (cases "find_by dev_id (mn_deviceId n) (db_devices s)")
  case None
  hence "s' = s" using assms by (auto simp: mark_compromised_def device_of_entity_def pg_get_def split: option.splits)
  thus ?thesis using None unfolding find_by_None distrusted_def by (metis imageI)
next
  case (Some d)
  hence d: "dev_id d = mn_deviceId n" "mn_deviceId n \<in> dev_id ` set (db_devices s)" using find_by_Some [OF Some] by force+
  let ?new = "row_device d\<lparr>dev_compromised := True, dev_updatedAt := ev_at e, dev_quarantineReason := Some (ev_description e)\<rparr>"
  have new: "dev_id ?new = mn_deviceId n" "dev_compromised ?new" using d(1) by (simp_all add: row_device_def)
  hence "s' = s\<lparr>db_devices := upsert dev_id (upd_device now) ?new (db_devices s)\<rparr>"
    using assms Some d(2) by (simp add: mark_compromised_def device_of_entity_def pg_get_def saveDevice_def)
  thus ?thesis using d(2) new by (auto simp: upsert_def distrusted_def upd_device_def)
qed

lemma keeps_distrusted_grants: "keeps (distrusted i) (terminate_grants now zone reason)"
  unfolding terminate_grants_def saveGrant_def by (intro keeps_bind keeps_get keeps_for) (simp add: keeps_def distrusted_def)

lemma isolate_contains:
  assumes "pe_isolateNode now i s = (Inr (), s')" "known_node i s" "distrusted d s"
  shows "contained d i s'"
proof -
  have "pg_get i s \<noteq> None" using assms(2) by (auto simp: pg_get_def find_by_None split: option.splits)
  thus ?thesis using assms(1,3)
    by (auto simp: pe_isolateNode_def enqueue_def next_id_def bindJ_def distrusted_def quarantine_queued_def split: if_splits)
qed

lemma keeps_contained_publish: "keeps (contained d i) (publish sha256 now topic ev)"
  by (auto simp: keeps_def publish_def next_id_def bindJ_def distrusted_def quarantine_queued_def)

lemma keeps_contained_audit: "keeps (contained d i) (audited E now ctx action subject payload)"
  by (auto simp: keeps_def audited_def audit_record_pg_def audit_write_def pg_append_audit_def bindJ_def distrusted_def
      quarantine_queued_def Let_def)

lemma terminate_grants_nodes: "keeps (\<lambda>s. db_nodes s = ns) (terminate_grants now zone reason)"
  unfolding terminate_grants_def saveGrant_def by (intro keeps_bind keeps_get keeps_for) (simp add: keeps_def)

lemma mark_compromised_nodes: "keeps (\<lambda>s. db_nodes s = ns) (mark_compromised now e node)"
  unfolding mark_compromised_def by (intro keeps_bind keeps_get) (auto simp: keeps_def saveDevice_def split: option.splits)

lemma threat_handle_contains:
  assumes "threat_handle sha256 now e s = (Inr r, s')" "2 \<le> threat_level e" "truthy (ev_nodeId e) = Some i"
    and "pg_get i s = Some (ENode n)"
  shows "r = (threat_level e, QUARANTINED) \<and> contained (mn_deviceId n) i s'"
proof (rule bindJ_InrE [OF assms(1) [unfolded threat_handle_def]], goal_cases)
  case (1 x a)
  have g: "pg_get i a = Some (ENode n)" unfolding assms(4) [symmetric]
    using 1(1) by (intro pg_get_cong) (auto simp: pg_append_event_def split: if_splits)
  hence n: "find_by mn_id i (db_nodes a) = Some n" by (auto simp: pg_get_def split: option.splits)
  have i: "mn_id n = i" "n \<in> set (db_nodes a)" using find_by_Some [OF n] by simp_all
  from 1(2) assms(2,3) obtain b c d f where b: "mark_compromised now e (ENode n) a = (Inr (), b)"
    and c: "terminate_grants (ev_at e) (zone_of_entity (ENode n)) ''security incident'' b = (Inr (), c)"
    and d: "pe_isolateNode now i c = (Inr (), d)"
    and f: "publish sha256 now ''diagnostics.forensic_access.ready''
         (JObj ([(''nodeId'', JStr i)] @ device_id_field (ENode n) @ [(''level'', JNum (int (threat_level e)))])) d = (Inr (), f)"
    and r: "r = (threat_level e, QUARANTINED)" "s' = f"
    by (auto simp: Let_def g i(1) elim!: bindJ_InrE)
  have "db_nodes c = db_nodes a"
    by (rule keeps_run [OF terminate_grants_nodes keeps_run [OF mark_compromised_nodes refl b] c])
  hence k: "known_node i c" using i by auto
  have "distrusted (mn_deviceId n) c" by (rule keeps_run [OF keeps_distrusted_grants distrusted_mark [OF b] c])
  from isolate_contains [OF d k this] have "contained (mn_deviceId n) i d" .
  from keeps_run [OF keeps_contained_publish this f] show ?case using r by simp
qed

lemma quarantine_level: "threat_level (quarantine_event i nodeId now reason) = 3"
  by (simp add: threat_level_def quarantine_event_def json_get_def nullish_def js_number_def)

lemma quarantine_event_sel:
  "ev_nodeId (quarantine_event i nodeId now reason) = Some nodeId" "ev_at (quarantine_event i nodeId now reason) = now"
  "ev_description (quarantine_event i nodeId now reason) = reason"
  by (simp_all add: quarantine_event_def)

lemma route_quarantine_contains:
  assumes "route_quarantine E now ctx s = (Inr r, s')" "pg_get (id_of ctx) s = Some (ENode n)" "id_of ctx \<noteq> []"
  shows "r = (3, QUARANTINED) \<and> contained (mn_deviceId n) (id_of ctx) s'"
proof -
  from assms(1) obtain v i a b where i: "next_id s = (Inr i, a)"
    and h: "threat_handle (se_sha256 E) now (quarantine_event i (id_of ctx) now (string_or v ''manual SOC quarantine'')) a = (Inr r, b)"
    and d: "audited E now ctx ''NODE_QUARANTINED'' (id_of ctx) [(''reason'', JStr (string_or v ''manual SOC quarantine''))] b = (Inr (), s')"
    unfolding route_quarantine_def Let_def by (auto simp: fieldJ_def elim!: bindJ_InrE)
  have "pg_get (id_of ctx) a = Some (ENode n)" unfolding assms(2) [symmetric]
    using i by (intro pg_get_cong) (auto simp: next_id_def)
  from threat_handle_contains [OF h _ _ this] have "r = (3, QUARANTINED)" "contained (mn_deviceId n) (id_of ctx) b"
    using assms(3) by (auto simp: quarantine_level) (simp_all add: quarantine_event_def truthy_def)
  thus ?thesis using keeps_run [OF keeps_contained_audit _ d] by blast
qed

lemma route_decide_distrusted:
  assumes "route_decide E now identity resource ctx s = (Inr (d, signature), s')" "distrusted i s"
    and "json_get ''deviceId'' (cx_body ctx) = Some (JStr i)"
  shows "ad_action d = DENY \<and> \<not> ad_allowed d"
proof -
  have f: "fieldJ ''deviceId'' (cx_body ctx) u = (Inr (JStr i), u)" for u :: "'a repo_db_scheme"
    using assms(3) by (cases "cx_body ctx") (simp_all add: fieldJ_def payload_field_def json_get_def)
  from assms(1) obtain device node where g: "pg_get i s = Some (EDevice device)"
    and d: "pg_decide (decision_sign (se_hmac E) (se_controlApiTokenSecret E)) (se_authorizationRefreshMs E) now identity device node resource s =
      (Inr (d, signature), s')"
    unfolding route_decide_def bindJ_Inr [OF f] by (auto split: option.splits entity.splits elim!: bindJ_InrE) (auto simp: fieldJ_def)
  from g obtain row where "find_by dev_id i (db_devices s) = Some row" "device = row_device row"
    by (auto simp: pg_get_def split: option.splits)
  hence "dev_compromised device" using assms(2) find_by_Some [of dev_id i] by (force simp: distrusted_def row_device_def)
  hence "fst (decide_action ps js t identity device node resource) = DENY" for ps js t by (simp add: decide_action_def postureOk_def)
  thus ?thesis using d by (auto simp: pg_decide_def decide_def Let_def split: prod.splits elim!: bindJ_InrE) (metis fst_conv policy_action.distinct(1))+
qed

text \<open>
  C5. A quarantine takes effect on the next access decision: when the quarantine of an enrolled node succeeds, the
  response is level 3 with action QUARANTINED, a \<open>QUARANTINE\<close> order for the node is waiting, and every decision then
  asked for on the device of the node, for any node, user and resource, is a refusal.
\<close>

theorem quarantine_denies_access:
  assumes "route_quarantine E now ctx s = (Inr r, s1)" "pg_get (id_of ctx) s = Some (ENode n)" "id_of ctx \<noteq> []"
    and "route_decide E later identity resource ctx' s1 = (Inr (d, signature), s2)"
    and "json_get ''deviceId'' (cx_body ctx') = Some (JStr (mn_deviceId n))"
  shows "r = (3, QUARANTINED) \<and> quarantine_queued (id_of ctx) s1 \<and> ad_action d = DENY \<and> \<not> ad_allowed d"
  using route_quarantine_contains [OF assms(1-3)] route_decide_distrusted [OF assms(4) _ assms(5)] by blast

definition demo_server :: "unit server_env" where
  "demo_server = \<lparr>se_sha256 = (\<lambda>x. x), se_hmac = (\<lambda>k x. k @ x), se_date_parse = (\<lambda>_. None), se_secrets = (\<lambda>_. ''secret''),
     se_controlApiTokenSecret = ''secret'', se_oobRequired = False, se_threshold = 0, se_thresholdText = ''0'', se_authorizationRefreshMs = 30000,
     se_environment = ''test'', se_oob = \<lparr>oc_healthy = retJ True, oc_push = (\<lambda>_ _. retJ ()), oc_verify = (\<lambda>_ _. retJ True)\<rparr>,
     se_anchor = \<lparr>ta_keys = \<lparr>kp_sign = (\<lambda>_ _ x. Inr x), kp_publicKey = (\<lambda>k. Inr k)\<rparr>, ta_keyReference = ''root'', ta_issuerId = ''i1'',
       ta_certificatePem = ''pem'', ta_algorithm = ''RS256'', ta_mode = ''dev''\<rparr>,
     se_crl = \<lparr>cl_toDer = (\<lambda>_. []), cl_oidToDer = (\<lambda>x. x), cl_dateToUtcTime = (\<lambda>_. []), cl_subjectAsn1 = (\<lambda>_. Inr (APrim 5 []))\<rparr>\<rparr>"

definition demo_request :: "(string \<times> json) list \<Rightarrow> rest_ctx" where
  "demo_request body = \<lparr>cx_headers = [], cx_claims = \<lparr>cl_sub = ''soc'', cl_roles = [''security-approver'']\<rparr>, cx_body = JObj body,
     cx_params = [(''id'', ''n1'')], cx_query = []\<rparr>"

lemmas quarantine_defs = bindJ_app fieldJ_def payload_field_def json_get_def next_id_def Let_def path_param_def threat_handle_def
  quarantine_level quarantine_event_sel pg_append_event_def truthy_def pg_get_def find_by_def mark_compromised_def
  device_of_entity_def saveDevice_def upsert_def row_device_def terminate_grants_def pg_listActive_grants_def
  pe_isolateNode_def enqueue_def upd_device_def publish_def audited_def audit_record_pg_def audit_write_def pg_append_audit_def

lemma demo_quarantine:
  "case route_quarantine demo_server 7 (demo_request []) demo_plane of (r, s1) \<Rightarrow> \<not> isl r \<and>
     db_nodes s1 = [demo_node] \<and> map dev_id (db_devices s1) = [''d1'']"
  unfolding route_quarantine_def
  by (simp add: quarantine_defs demo_request_def demo_plane_def demo_node_def demo_device_def)

theorem quarantine_denies_access_witness:
  "\<exists>s1 d signature s2. route_quarantine demo_server 7 (demo_request []) demo_plane = (Inr (3, QUARANTINED), s1) \<and>
     route_decide demo_server 9 demo_identity demo_resource (demo_request [(''deviceId'', JStr ''d1''), (''nodeId'', JStr ''n1'')]) s1 =
       (Inr (d, signature), s2) \<and> ad_action d = DENY"
proof -
  let ?ask = "demo_request [(''deviceId'', JStr ''d1''), (''nodeId'', JStr ''n1'')]"
  obtain x s1 where q: "route_quarantine demo_server 7 (demo_request []) demo_plane = (Inr x, s1)" "db_nodes s1 = [demo_node]"
      "map dev_id (db_devices s1) = [''d1'']"
  proof -
    obtain r s1 where e: "route_quarantine demo_server 7 (demo_request []) demo_plane = (r, s1)" by force
    have f: "\<not> isl r" "db_nodes s1 = [demo_node]" "map dev_id (db_devices s1) = [''d1'']" using demo_quarantine unfolding e by simp_all
    thus thesis using that e by (cases r) auto
  qed
  then obtain row where row: "db_devices s1 = [row]" "dev_id row = ''d1''" by (cases "db_devices s1") auto
  have n: "pg_get (id_of (demo_request [])) demo_plane = Some (ENode demo_node)" "id_of (demo_request []) \<noteq> []"
    by (simp_all add: demo_request_def path_param_def pg_get_def find_by_def demo_plane_def demo_device_def demo_node_def)
  have i: "json_get ''deviceId'' (cx_body ?ask) = Some (JStr (mn_deviceId demo_node))"
    by (simp add: demo_request_def json_get_def demo_node_def)
  have "\<exists>y s2. route_decide demo_server 9 demo_identity demo_resource ?ask s1 = (Inr y, s2)"
    using q(2) row by (simp add: route_decide_def bindJ_app fieldJ_def payload_field_def json_get_def demo_request_def pg_get_def find_by_def
      demo_node_def pg_decide_def decide_def next_id_def Let_def split_def)
  then obtain d signature s2 where d: "route_decide demo_server 9 demo_identity demo_resource ?ask s1 = (Inr (d, signature), s2)" by force
  show ?thesis using quarantine_denies_access [OF q(1) n d i] q(1) d by blast
qed

end
